(* ===== verification/Prelude.thy ===== *)
theory Prelude
  imports Main "HOL-Library.Word"
begin

text \<open>
  Shared vocabulary of the development: Go errors and panics as values, the operation
  monad of code that talks to an external world (a state that survives a failure, as
  effects on an API server do), Hoare triples with one postcondition for the normal and
  one for the failing exit, and generic facts on lists and maps.
\<close>

named_theorems op_defs "definitions of the combinators of operations"
named_theorems runs "evaluation of an operation applied to a state"
named_theorems triple "rules of the Hoare triples, applied backwards"

section \<open>Machine integers, strings, maps\<close>

type_synonym int32 = "32 word"
type_synonym int64 = "64 word"

text \<open>
  A Go map from strings: \<open>None\<close> is the nil map (reads behave as on an empty map, a write
  panics), \<open>Some m\<close> an allocated one.
\<close>

type_synonym 'v gomap = "(string \<rightharpoonup> 'v) option"

definition map_read :: "'v gomap \<Rightarrow> string \<Rightarrow> 'v option" where
  "map_read m k = (case m of None \<Rightarrow> None | Some f \<Rightarrow> f k)"

lemma map_read_simps [simp]:
  "map_read None k = None"
  "map_read (Some f) k = f k"
  by (simp_all add: map_read_def)

text \<open>The relation a label selector's \<open>matchLabels\<close> states of a label map.\<close>

definition selects :: "string gomap \<Rightarrow> string gomap \<Rightarrow> bool" where
  "selects sel ls \<longleftrightarrow> (\<forall>k v. map_read sel k = Some v \<longrightarrow> map_read ls k = Some v)"

lemma selects_refl [simp, intro]: "selects ls ls"
  by (simp add: selects_def)

lemma selects_trans: "selects a b \<Longrightarrow> selects b c \<Longrightarrow> selects a c"
  by (simp add: selects_def)

section \<open>Errors and panics as values\<close>

datatype api_reason =
    NotFound
  | AlreadyExists
  | Conflict
  | BadRequest
  | OtherReason string

text \<open>
  A Go \<open>error\<close>: an API status error with its reason and message, or an error made by
  \<open>fmt.Errorf\<close> or \<open>errors.New\<close>, of which only the message is left.
\<close>

datatype go_error =
    ApiError api_reason string
  | PlainError string

fun err_string :: "go_error \<Rightarrow> string" where
  "err_string (ApiError r m) = m"
| "err_string (PlainError m) = m"

datatype go_panic = NilDereference | IndexOutOfRange | NilMapWrite | ExplicitPanic string

datatype failure = Returned go_error | Panicked go_panic

type_synonym 'a res = "failure + 'a"

definition deref :: "'a option \<Rightarrow> 'a res" where
  "deref p = (case p of None \<Rightarrow> Inl (Panicked NilDereference) | Some x \<Rightarrow> Inr x)"

definition index0 :: "'a list \<Rightarrow> 'a res" where
  "index0 xs = (case xs of [] \<Rightarrow> Inl (Panicked IndexOutOfRange) | x # _ \<Rightarrow> Inr x)"

definition map_write :: "'v gomap \<Rightarrow> string \<Rightarrow> 'v \<Rightarrow> 'v gomap res" where
  "map_write m k v =
     (case m of None \<Rightarrow> Inl (Panicked NilMapWrite) | Some f \<Rightarrow> Inr (Some (f(k \<mapsto> v))))"

definition res_bind :: "'e + 'a \<Rightarrow> ('a \<Rightarrow> 'e + 'b) \<Rightarrow> 'e + 'b" where
  "res_bind r f = (case r of Inl e \<Rightarrow> Inl e | Inr x \<Rightarrow> f x)"

lemma deref_simps [simp]:
  "deref None = Inl (Panicked NilDereference)"
  "deref (Some x) = Inr x"
  by (simp_all add: deref_def)

lemma index0_simps [simp]:
  "index0 [] = Inl (Panicked IndexOutOfRange)"
  "index0 (x # xs) = Inr x"
  by (simp_all add: index0_def)

lemma map_write_simps [simp]:
  "map_write None k v = Inl (Panicked NilMapWrite)"
  "map_write (Some f) k v = Inr (Some (f(k \<mapsto> v)))"
  by (simp_all add: map_write_def)

lemma res_bind_simps [simp]:
  "res_bind (Inl e) f = Inl e"
  "res_bind (Inr x) f = f x"
  by (simp_all add: res_bind_def)

lemma res_bind_Inr_iff: "res_bind r f = Inr y \<longleftrightarrow> (\<exists>x. r = Inr x \<and> f x = Inr y)"
  by (cases r) auto

lemma res_bind_Inl_iff:
  "res_bind r f = Inl e \<longleftrightarrow> r = Inl e \<or> (\<exists>x. r = Inr x \<and> f x = Inl e)"
  by (cases r) auto

lemma deref_Inr_iff [simp]: "deref p = Inr x \<longleftrightarrow> p = Some x"
  by (cases p) auto

lemma index0_Inr_iff [simp]: "index0 xs = Inr x \<longleftrightarrow> (\<exists>ys. xs = x # ys)"
  by (cases xs) auto

lemma not_isl_iff: "\<not> isl r \<longleftrightarrow> (\<exists>x. r = Inr x)"
  by (cases r) auto

lemma res_bind_cong [fundef_cong]:
  assumes "r = r'" and "\<And>x. r' = Inr x \<Longrightarrow> f x = g x"
  shows "res_bind r f = res_bind r' g"
  using assms by (cases r') auto

section \<open>Operations: a state, a result, and failures that keep the state\<close>

type_synonym ('s, 'a) op = "'s \<Rightarrow> 'a res \<times> 's"

definition ret :: "'a \<Rightarrow> ('s, 'a) op" where
  [op_defs]: "ret x = (\<lambda>s. (Inr x, s))"

definition throw :: "failure \<Rightarrow> ('s, 'a) op" where
  [op_defs]: "throw f = (\<lambda>s. (Inl f, s))"

definition pure :: "'a res \<Rightarrow> ('s, 'a) op" where
  [op_defs]: "pure r = (\<lambda>s. (r, s))"

definition gets :: "('s \<Rightarrow> 'a) \<Rightarrow> ('s, 'a) op" where
  [op_defs]: "gets f = (\<lambda>s. (Inr (f s), s))"

definition modify :: "('s \<Rightarrow> 's) \<Rightarrow> ('s, unit) op" where
  [op_defs]: "modify f = (\<lambda>s. (Inr (), f s))"

text \<open>
  \<open>m\<close>, then \<open>f\<close> on its value: Go's \<open>if err := m(); err != nil { return err }\<close>, and the
  unwinding of a panic.
\<close>

definition andThen :: "('s, 'a) op \<Rightarrow> ('a \<Rightarrow> ('s, 'b) op) \<Rightarrow> ('s, 'b) op" where
  [op_defs]: "andThen m f = (\<lambda>s. case m s of (Inl e, s') \<Rightarrow> (Inl e, s') | (Inr x, s') \<Rightarrow> f x s')"

text \<open>\<open>err := m()\<close> when the code goes on to inspect \<open>err\<close>: errors become values, panics unwind.\<close>

definition attempt :: "('s, 'a) op \<Rightarrow> ('s, go_error + 'a) op" where
  [op_defs]: "attempt m = (\<lambda>s. case m s of
       (Inl (Returned e), s') \<Rightarrow> (Inr (Inl e), s')
     | (Inl (Panicked p), s') \<Rightarrow> (Inl (Panicked p), s')
     | (Inr x, s') \<Rightarrow> (Inr (Inr x), s'))"

text \<open>\<open>if err != nil { return err }; return nil\<close>\<close>

definition return_err :: "go_error option \<Rightarrow> ('s, unit) op" where
  "return_err err = (case err of Some e \<Rightarrow> throw (Returned e) | None \<Rightarrow> ret ())"

text \<open>\<open>fmt.Errorf("prefix%v", e)\<close>\<close>

definition Errorf :: "string \<Rightarrow> go_error \<Rightarrow> go_error" where
  "Errorf prefix e = PlainError (prefix @ err_string e)"

lemma andThen_ret [simp]: "andThen (ret x) f = f x"
  by (simp add: op_defs)

lemma andThen_throw [simp]: "andThen (throw e) f = throw e"
  by (simp add: op_defs)

lemma andThen_ret_right [simp]: "andThen m ret = m"
  by (auto simp: op_defs split: prod.splits sum.splits)

lemma andThen_assoc: "andThen (andThen m f) g = andThen m (\<lambda>x. andThen (f x) g)"
  by (auto simp: op_defs split: prod.splits sum.splits)

lemma pure_simps [simp]:
  "pure (Inr x) = ret x"
  "pure (Inl e) = throw e"
  by (simp_all add: op_defs)

lemma run_ret [runs]: "ret x s = (Inr x, s)"
  by (simp add: op_defs)

lemma run_throw [runs]: "throw e s = (Inl e, s)"
  by (simp add: op_defs)

lemma run_gets [runs]: "gets f s = (Inr (f s), s)"
  by (simp add: op_defs)

lemma run_modify [runs]: "modify f s = (Inr (), f s)"
  by (simp add: op_defs)

lemma run_pure [runs]: "pure r s = (r, s)"
  by (simp add: op_defs)

lemma run_andThen [runs]:
  "andThen m f s = (case m s of (Inl e, s') \<Rightarrow> (Inl e, s') | (Inr x, s') \<Rightarrow> f x s')"
  by (simp add: op_defs)

lemma run_attempt [runs]:
  "attempt m s = (case m s of
       (Inl (Returned e), s') \<Rightarrow> (Inr (Inl e), s')
     | (Inl (Panicked p), s') \<Rightarrow> (Inl (Panicked p), s')
     | (Inr x, s') \<Rightarrow> (Inr (Inr x), s'))"
  by (simp add: op_defs)

lemma run_andThen_Inr: "m s = (Inr x, s') \<Longrightarrow> andThen m f s = f x s'"
  by (simp add: op_defs)

lemma run_andThen_Inl: "m s = (Inl e, s') \<Longrightarrow> andThen m f s = (Inl e, s')"
  by (simp add: op_defs)

lemma andThen_InrE:
  assumes "andThen m f s = (Inr y, t)"
  obtains x s' where "m s = (Inr x, s')" and "f x s' = (Inr y, t)"
  using assms by (auto simp: op_defs split: prod.splits sum.splits)

section \<open>Hoare triples\<close>

text \<open>
  \<open>triple P m Q R\<close>: run from a state with \<open>P\<close>, \<open>m\<close> ends with \<open>Q\<close> of its value and the
  state, or fails with \<open>R\<close> of the failure and the state. Operations are total functions, so
  this is total correctness.
\<close>

definition triple ::
  "('s \<Rightarrow> bool) \<Rightarrow> ('s, 'a) op \<Rightarrow> ('a \<Rightarrow> 's \<Rightarrow> bool) \<Rightarrow> (failure \<Rightarrow> 's \<Rightarrow> bool) \<Rightarrow> bool" where
  "triple P m Q R \<longleftrightarrow>
     (\<forall>s. P s \<longrightarrow> (case m s of (Inr x, t) \<Rightarrow> Q x t | (Inl e, t) \<Rightarrow> R e t))"

lemma tripleI:
  assumes "\<And>s x t. P s \<Longrightarrow> m s = (Inr x, t) \<Longrightarrow> Q x t"
    and "\<And>s e t. P s \<Longrightarrow> m s = (Inl e, t) \<Longrightarrow> R e t"
  shows "triple P m Q R"
  using assms by (auto simp: triple_def split: prod.splits sum.splits)

lemma triple_InrD: "triple P m Q R \<Longrightarrow> P s \<Longrightarrow> m s = (Inr x, t) \<Longrightarrow> Q x t"
  by (fastforce simp: triple_def)

lemma triple_InlD: "triple P m Q R \<Longrightarrow> P s \<Longrightarrow> m s = (Inl e, t) \<Longrightarrow> R e t"
  by (fastforce simp: triple_def)

lemma triple_ret [triple]: "(\<And>s. P s \<Longrightarrow> Q x s) \<Longrightarrow> triple P (ret x) Q R"
  by (simp add: triple_def op_defs)

lemma triple_throw [triple]: "(\<And>s. P s \<Longrightarrow> R e s) \<Longrightarrow> triple P (throw e) Q R"
  by (simp add: triple_def op_defs)

lemma triple_pure [triple]:
  assumes "\<And>x s. r = Inr x \<Longrightarrow> P s \<Longrightarrow> Q x s" and "\<And>e s. r = Inl e \<Longrightarrow> P s \<Longrightarrow> R e s"
  shows "triple P (pure r) Q R"
  using assms by (cases r) (auto simp: triple_def op_defs)

lemma triple_gets [triple]: "(\<And>s. P s \<Longrightarrow> Q (f s) s) \<Longrightarrow> triple P (gets f) Q R"
  by (simp add: triple_def op_defs)

lemma triple_modify [triple]: "(\<And>s. P s \<Longrightarrow> Q () (f s)) \<Longrightarrow> triple P (modify f) Q R"
  by (simp add: triple_def op_defs)

lemma triple_andThen:
  assumes "triple P m M R" and "\<And>x. triple (M x) (f x) Q R"
  shows "triple P (andThen m f) Q R"
  using assms by (fastforce simp: triple_def op_defs split: prod.splits sum.splits)

lemma triple_attempt:
  assumes "triple P m (\<lambda>x. Q (Inr x)) (\<lambda>f s. case f of Returned e \<Rightarrow> Q (Inl e) s | Panicked p \<Rightarrow> R (Panicked p) s)"
  shows "triple P (attempt m) Q R"
  using assms
  by (fastforce simp: triple_def op_defs split: prod.splits sum.splits failure.splits)

lemma triple_weaken:
  assumes "triple P m Q R" and "\<And>s. P' s \<Longrightarrow> P s"
    and "\<And>x s. Q x s \<Longrightarrow> Q' x s" and "\<And>e s. R e s \<Longrightarrow> R' e s"
  shows "triple P' m Q' R'"
  using assms by (fastforce simp: triple_def split: prod.splits sum.splits)

lemma triple_if [triple]:
  assumes "b \<Longrightarrow> triple P m Q R" and "\<not> b \<Longrightarrow> triple P n Q R"
  shows "triple P (if b then m else n) Q R"
  using assms by simp

lemma triple_case_sum [triple]:
  assumes "\<And>e. r = Inl e \<Longrightarrow> triple P (f e) Q R" and "\<And>x. r = Inr x \<Longrightarrow> triple P (g x) Q R"
  shows "triple P (case r of Inl e \<Rightarrow> f e | Inr x \<Rightarrow> g x) Q R"
  using assms by (cases r) auto

lemma triple_case_option [triple]:
  assumes "r = None \<Longrightarrow> triple P m Q R" and "\<And>x. r = Some x \<Longrightarrow> triple P (g x) Q R"
  shows "triple P (case r of None \<Rightarrow> m | Some x \<Rightarrow> g x) Q R"
  using assms by (cases r) auto

lemma triple_case_prod [triple]:
  assumes "\<And>a b. r = (a, b) \<Longrightarrow> triple P (f a b) Q R"
  shows "triple P (case r of (a, b) \<Rightarrow> f a b) Q R"
  using assms by (cases r) auto

section \<open>Loops over a list of operations\<close>

text \<open>\<open>for _, x := range xs { if err := f(x); err != nil { return err } }\<close>\<close>

fun for_each :: "('x \<Rightarrow> ('s, unit) op) \<Rightarrow> 'x list \<Rightarrow> ('s, unit) op" where
  "for_each f [] = ret ()"
| "for_each f (x # xs) = andThen (f x) (\<lambda>_. for_each f xs)"

lemma triple_for_each:
  assumes "\<And>x. x \<in> set xs \<Longrightarrow> triple I (f x) (\<lambda>_. I) R"
  shows "triple I (for_each f xs) (\<lambda>_. I) R"
  using assms by (induction xs) (auto intro!: triple_ret triple_andThen)

lemma for_each_append: "for_each f (xs @ ys) = andThen (for_each f xs) (\<lambda>_. for_each f ys)"
  by (induction xs) (simp_all add: andThen_assoc)

end
