(* ===== verification/GoStd.thy ===== *)
theory GoStd
  imports Prelude "HOL-Library.Char_ord"
begin

text \<open>
  The parts of Go's standard library the operator uses on data: decimal printing
  (\<open>strconv.Itoa\<close>, \<open>%d\<close>) and \<open>strconv.ParseInt\<close> in base 10, \<open>encoding/base64\<close>,
  and \<open>regexp.FindStringSubmatch\<close> for patterns made of literals and capturing groups
  \<open>(class+)\<close>. A Go string is a list of bytes (HOL's \<open>char\<close>). The locale \<open>codec\<close> is the
  contract of an encoder and its decoder.
\<close>

section \<open>The contract of an encoder and a decoder\<close>

locale codec =
  fixes enc :: "'a \<Rightarrow> 'b" and dec :: "'b \<Rightarrow> 'e + 'a" and valid :: "'a \<Rightarrow> bool"
  assumes dec_enc: "valid x \<Longrightarrow> dec (enc x) = Inr x"
begin

lemma enc_inj: "valid x \<Longrightarrow> valid y \<Longrightarrow> enc x = enc y \<longleftrightarrow> x = y"
  by (metis dec_enc sum.inject(2))

lemma dec_enc_total: "valid x \<Longrightarrow> \<exists>y. dec (enc x) = Inr y"
  by (auto simp: dec_enc)

lemma distinct_map_enc: "(\<forall>x \<in> set xs. valid x) \<Longrightarrow> distinct (map enc xs) \<longleftrightarrow> distinct xs"
  by (auto simp: distinct_map inj_on_def enc_inj)

end

section \<open>Prefixes\<close>

text \<open>The rest of a text after a given prefix, as \<open>strings.CutPrefix\<close> returns it.\<close>

fun strip_prefix :: "string \<Rightarrow> string \<Rightarrow> string option" where
  "strip_prefix [] s = Some s"
| "strip_prefix (c # p) [] = None"
| "strip_prefix (c # p) (d # s) = (if c = d then strip_prefix p s else None)"

lemma strip_prefix_append [simp]: "strip_prefix p (p @ s) = Some s"
  by (induction p) simp_all

lemma strip_prefix_Some: "strip_prefix p s = Some r \<longleftrightarrow> s = p @ r"
  by (induction p s rule: strip_prefix.induct) auto

section \<open>Joining strings\<close>

fun strings_Join :: "string list \<Rightarrow> string \<Rightarrow> string" where
  "strings_Join [] sep = []"
| "strings_Join [x] sep = x"
| "strings_Join (x # xs) sep = x @ sep @ strings_Join xs sep"

text \<open>The verb \<open>%v\<close> on a slice of strings.\<close>

definition fmt_strings :: "string list \<Rightarrow> string" where
  "fmt_strings xs = ''['' @ strings_Join xs '' '' @ '']''"

section \<open>Decimal numbers\<close>

definition digit_char :: "nat \<Rightarrow> char" where
  "digit_char d = ''0123456789'' ! d"

definition is_digit :: "char \<Rightarrow> bool" where
  "is_digit c \<longleftrightarrow> 48 \<le> (of_char c :: nat) \<and> (of_char c :: nat) \<le> 57"

definition digit_val :: "char \<Rightarrow> nat" where
  "digit_val c = of_char c - 48"

fun fmt_nat :: "nat \<Rightarrow> string" where
  "fmt_nat n = (if n < 10 then [digit_char n] else fmt_nat (n div 10) @ [digit_char (n mod 10)])"

declare fmt_nat.simps [simp del]

definition fmt_int :: "int \<Rightarrow> string" where
  "fmt_int i = (if i < 0 then ''-'' @ fmt_nat (nat (- i)) else fmt_nat (nat i))"

text \<open>\<open>%d\<close> and \<open>strconv.Itoa\<close> on a machine integer: its signed value.\<close>

definition Itoa :: "'a::len word \<Rightarrow> string" where
  "Itoa w = fmt_int (sint w)"

definition digits_val :: "string \<Rightarrow> nat" where
  "digits_val s = foldl (\<lambda>a c. 10 * a + digit_val c) 0 s"

datatype num_error = ErrSyntax | ErrRange

definition parse_digits :: "string \<Rightarrow> nat option" where
  "parse_digits s = (if s \<noteq> [] \<and> list_all is_digit s then Some (digits_val s) else None)"

fun split_sign :: "string \<Rightarrow> bool \<times> string" where
  "split_sign [] = (False, [])"
| "split_sign (c # r) =
     (if c = CHR ''-'' then (True, r) else if c = CHR ''+'' then (False, r) else (False, c # r))"

text \<open>\<open>strconv.ParseInt(s, 10, 64)\<close>.\<close>

definition ParseInt64 :: "string \<Rightarrow> num_error + int64" where
  "ParseInt64 s =
     (case split_sign s of (neg, body) \<Rightarrow>
       (case parse_digits body of
          None \<Rightarrow> Inl ErrSyntax
        | Some n \<Rightarrow>
            if \<not> neg \<and> 2 ^ 63 \<le> n then Inl ErrRange
            else if neg \<and> 2 ^ 63 < n then Inl ErrRange
            else Inr (word_of_int (if neg then - int n else int n))))"

lemma of_char_digit [simp]: "d < 10 \<Longrightarrow> (of_char (digit_char d) :: nat) = 48 + d"
proof -
  assume "d < 10"
  then have "d \<in> {0, 1, 2, 3, 4, 5, 6, 7, 8, 9}" by auto
  then show ?thesis by (auto simp: digit_char_def)
qed

lemma is_digit_digit_char [simp]: "d < 10 \<Longrightarrow> is_digit (digit_char d)"
  by (simp add: is_digit_def)

lemma digit_val_digit_char [simp]: "d < 10 \<Longrightarrow> digit_val (digit_char d) = d"
  by (simp add: digit_val_def)

lemma digits_val_snoc: "digits_val (s @ [c]) = 10 * digits_val s + digit_val c"
  by (simp add: digits_val_def)

lemma fmt_nat_nonempty [simp]: "fmt_nat n \<noteq> []"
  by (subst fmt_nat.simps) simp

lemma fmt_nat_digits: "list_all is_digit (fmt_nat n)"
proof (induction n rule: fmt_nat.induct)
  case (1 n)
  then show ?case by (cases "n < 10") (simp_all add: fmt_nat.simps [of n])
qed

lemma digits_val_fmt_nat: "digits_val (fmt_nat n) = n"
proof (induction n rule: fmt_nat.induct)
  case (1 n)
  show ?case
  proof (cases "n < 10")
    case True
    then show ?thesis by (simp add: fmt_nat.simps [of n] digits_val_def)
  next
    case False
    with 1 show ?thesis by (simp add: fmt_nat.simps [of n] digits_val_snoc)
  qed
qed

lemma parse_digits_fmt_nat [simp]: "parse_digits (fmt_nat n) = Some n"
  by (simp add: parse_digits_def fmt_nat_digits digits_val_fmt_nat)

lemma is_digit_not_sign: "is_digit c \<Longrightarrow> c \<noteq> CHR ''-'' \<and> c \<noteq> CHR ''+''"
  by (auto simp: is_digit_def)

lemma split_sign_fmt_nat [simp]: "split_sign (fmt_nat n) = (False, fmt_nat n)"
proof (cases "fmt_nat n")
  case Nil
  then show ?thesis by simp
next
  case (Cons c r)
  with fmt_nat_digits [of n] have "is_digit c" by simp
  with Cons show ?thesis by (auto dest: is_digit_not_sign)
qed

lemma split_sign_fmt_int: "split_sign (fmt_int i) = (i < 0, fmt_nat (nat \<bar>i\<bar>))"
  by (simp add: fmt_int_def)

lemma ParseInt64_Itoa: "ParseInt64 (Itoa w) = Inr w"
proof -
  have "- (2 ^ 63) \<le> sint w" and "sint w < 2 ^ 63"
    using sint_ge [of w] sint_lt [of w] by simp_all
  then show ?thesis
    by (auto simp: ParseInt64_def Itoa_def split_sign_fmt_int nat_less_iff le_nat_iff)
qed

lemma sint_of_nat_int64: "n < 2 ^ 63 \<Longrightarrow> sint (word_of_nat n :: int64) = int n"
  by (simp add: signed_of_nat signed_take_bit_int_eq_self)

interpretation int64_decimal: codec "Itoa :: int64 \<Rightarrow> string" ParseInt64 "\<lambda>_. True"
  by unfold_locales (rule ParseInt64_Itoa)

lemma ParseInt64_digits:
  assumes "s \<noteq> []" and "list_all is_digit s"
  shows "ParseInt64 s = (if digits_val s < 2 ^ 63 then Inr (word_of_nat (digits_val s)) else Inl ErrRange)"
proof -
  obtain c r where s: "s = c # r" using assms(1) by (cases s) auto
  with assms(2) have "split_sign s = (False, s)"
    by (auto dest: is_digit_not_sign)
  with assms show ?thesis
    by (simp add: ParseInt64_def parse_digits_def)
qed

lemma fmt_nat_inj: "fmt_nat m = fmt_nat n \<longleftrightarrow> m = n"
  by (metis digits_val_fmt_nat)

lemma fmt_int_inj: "fmt_int i = fmt_int j \<longleftrightarrow> i = j"
proof
  assume "fmt_int i = fmt_int j"
  then have "(i < 0, fmt_nat (nat \<bar>i\<bar>)) = (j < 0, fmt_nat (nat \<bar>j\<bar>))"
    by (metis split_sign_fmt_int)
  then have "(i < 0) = (j < 0)" and "nat \<bar>i\<bar> = nat \<bar>j\<bar>"
    by (simp_all add: fmt_nat_inj)
  then show "i = j" by linarith
qed simp

lemma Itoa_inj: "Itoa v = Itoa w \<longleftrightarrow> v = w"
  by (auto simp: Itoa_def fmt_int_inj intro: signed_word_eqI)

section \<open>Base 64 (\<open>base64.StdEncoding\<close>)\<close>

definition b64_alphabet :: string where
  "b64_alphabet = ''ABCDEFGHIJKLMNOPQRSTUVWXYZabcdefghijklmnopqrstuvwxyz0123456789+/''"

definition b64_char :: "nat \<Rightarrow> char" where
  "b64_char n = b64_alphabet ! n"

fun index_of :: "char \<Rightarrow> string \<Rightarrow> nat option" where
  "index_of c [] = None"
| "index_of c (d # ds) = (if c = d then Some 0 else map_option Suc (index_of c ds))"

definition b64_val :: "char \<Rightarrow> nat option" where
  "b64_val c = index_of c b64_alphabet"

abbreviation byte :: "char \<Rightarrow> nat" where
  "byte c \<equiv> of_char c"

fun EncodeToString :: "string \<Rightarrow> string" where
  "EncodeToString [] = []"
| "EncodeToString [a] =
     [b64_char (byte a div 4), b64_char (byte a mod 4 * 16), CHR ''='', CHR ''='']"
| "EncodeToString [a, b] =
     [b64_char (byte a div 4), b64_char (byte a mod 4 * 16 + byte b div 16),
      b64_char (byte b mod 16 * 4), CHR ''='']"
| "EncodeToString (a # b # c # r) =
     b64_char (byte a div 4) # b64_char (byte a mod 4 * 16 + byte b div 16) #
     b64_char (byte b mod 16 * 4 + byte c div 64) # b64_char (byte c mod 64) # EncodeToString r"

datatype b64_error = CorruptInput

definition b64_byte1 :: "nat \<Rightarrow> nat \<Rightarrow> char" where
  "b64_byte1 i j = char_of (i * 4 + j div 16)"

definition b64_byte2 :: "nat \<Rightarrow> nat \<Rightarrow> char" where
  "b64_byte2 j k = char_of (j mod 16 * 16 + k div 4)"

definition b64_byte3 :: "nat \<Rightarrow> nat \<Rightarrow> char" where
  "b64_byte3 k l = char_of (k mod 4 * 64 + l)"

text \<open>
  Decoding quantum by quantum: padding only in the last one, nothing after it, no partial
  quantum. Line breaks have been dropped before.
\<close>

fun b64_quanta :: "string \<Rightarrow> string option" where
  "b64_quanta [] = Some []"
| "b64_quanta (w # x # y # z # r) =
     (case (b64_val w, b64_val x) of
        (Some i, Some j) \<Rightarrow>
          if z = CHR ''='' then
            (if r \<noteq> [] then None
             else if y = CHR ''='' then Some [b64_byte1 i j]
             else map_option (\<lambda>k. [b64_byte1 i j, b64_byte2 j k]) (b64_val y))
          else
            (case (b64_val y, b64_val z) of
               (Some k, Some l) \<Rightarrow>
                 map_option (\<lambda>t. b64_byte1 i j # b64_byte2 j k # b64_byte3 k l # t) (b64_quanta r)
             | _ \<Rightarrow> None)
      | _ \<Rightarrow> None)"
| "b64_quanta _ = None"

definition is_newline :: "char \<Rightarrow> bool" where
  "is_newline c \<longleftrightarrow> byte c = 10 \<or> byte c = 13"

definition DecodeString :: "string \<Rightarrow> b64_error + string" where
  "DecodeString s = (case b64_quanta (filter (\<lambda>c. \<not> is_newline c) s) of
      None \<Rightarrow> Inl CorruptInput | Some t \<Rightarrow> Inr t)"

lemma index_of_nth: "distinct cs \<Longrightarrow> n < length cs \<Longrightarrow> index_of (cs ! n) cs = Some n"
proof (induction cs arbitrary: n)
  case (Cons d ds)
  then show ?case by (cases n) (auto simp: in_set_conv_nth)
qed simp

lemma length_b64_alphabet: "length b64_alphabet = 64"
  by (simp add: b64_alphabet_def)

lemma b64_val_char [simp]: "n < 64 \<Longrightarrow> b64_val (b64_char n) = Some n"
  unfolding b64_val_def b64_char_def
  by (rule index_of_nth) (simp_all add: b64_alphabet_def)

lemma b64_char_in: "n < 64 \<Longrightarrow> b64_char n \<in> set b64_alphabet"
  by (simp add: b64_char_def length_b64_alphabet)

lemma b64_alphabet_plain: "c \<in> set b64_alphabet \<Longrightarrow> c \<noteq> CHR ''='' \<and> \<not> is_newline c"
  by (auto simp: b64_alphabet_def is_newline_def)

lemma b64_char_plain [simp]: "n < 64 \<Longrightarrow> b64_char n \<noteq> CHR ''=''" "n < 64 \<Longrightarrow> \<not> is_newline (b64_char n)"
  using b64_alphabet_plain b64_char_in by blast+

lemma pad_not_newline [simp]: "\<not> is_newline (CHR ''='')"
  by (simp add: is_newline_def)

lemma byte_bound [simp]: "byte c < 256"
  by (rule nat_of_char_less_256)

lemma b64_indices [simp]:
  "byte a div 4 < 64" "byte a mod 4 * 16 < 64" "byte a mod 4 * 16 + byte b div 16 < 64"
  "byte b mod 16 * 4 < 64" "byte b mod 16 * 4 + byte c div 64 < 64" "byte c mod 64 < 64"
  using byte_bound [of a] byte_bound [of b] byte_bound [of c] by linarith+

lemma b64_bytes [simp]:
  "b64_byte1 (byte a div 4) (byte a mod 4 * 16) = a"
  "b64_byte1 (byte a div 4) (byte a mod 4 * 16 + byte b div 16) = a"
  "b64_byte2 (byte a mod 4 * 16 + byte b div 16) (byte b mod 16 * 4) = b"
  "b64_byte2 (byte a mod 4 * 16 + byte b div 16) (byte b mod 16 * 4 + byte c div 64) = b"
  "b64_byte3 (byte b mod 16 * 4 + byte c div 64) (byte c mod 64) = c"
proof -
  have a: "byte a div 4 * 4 + byte a mod 4 = byte a"
    and b: "byte b div 16 * 16 + byte b mod 16 = byte b"
    and c: "byte c div 64 * 64 + byte c mod 64 = byte c" by simp_all
  have b4: "byte b div 16 < 16" and c2: "byte c div 64 < 4"
    using byte_bound [of b] byte_bound [of c] by linarith+
  show "b64_byte1 (byte a div 4) (byte a mod 4 * 16) = a"
    by (simp add: b64_byte1_def)
  show "b64_byte1 (byte a div 4) (byte a mod 4 * 16 + byte b div 16) = a"
    using a b4 by (simp add: b64_byte1_def)
  show "b64_byte2 (byte a mod 4 * 16 + byte b div 16) (byte b mod 16 * 4) = b"
    using b b4 by (simp add: b64_byte2_def)
  show "b64_byte2 (byte a mod 4 * 16 + byte b div 16) (byte b mod 16 * 4 + byte c div 64) = b"
    using b b4 c2 by (simp add: b64_byte2_def)
  show "b64_byte3 (byte b mod 16 * 4 + byte c div 64) (byte c mod 64) = c"
    using c c2 by (simp add: b64_byte3_def)
qed

lemma EncodeToString_no_newline: "filter (\<lambda>c. \<not> is_newline c) (EncodeToString s) = EncodeToString s"
  by (induction s rule: EncodeToString.induct) simp_all

lemma b64_quanta_EncodeToString: "b64_quanta (EncodeToString s) = Some s"
  by (induction s rule: EncodeToString.induct) simp_all

lemma DecodeString_EncodeToString: "DecodeString (EncodeToString s) = Inr s"
  by (simp add: DecodeString_def EncodeToString_no_newline b64_quanta_EncodeToString)

interpretation base64: codec EncodeToString DecodeString "\<lambda>_. True"
  by unfold_locales (rule DecodeString_EncodeToString)

section \<open>Regular expressions (\<open>regexp.FindStringSubmatch\<close>)\<close>

text \<open>
  The fragment the operator uses: a sequence of literal characters and capturing groups
  \<open>([class]+)\<close>. Go's matcher prefers, among the matches at the leftmost position where one
  exists, the one a backtracking search finds first: \<open>+\<close> takes as much as it can and gives
  back one character at a time. \<open>match_items\<close> lists all matches at a position in that order.
\<close>

datatype re_item = Lit char | GroupPlus "char \<Rightarrow> bool"

fun plus_splits :: "(char \<Rightarrow> bool) \<Rightarrow> string \<Rightarrow> (string \<times> string) list" where
  "plus_splits p [] = []"
| "plus_splits p (c # s) =
     (if p c then map (\<lambda>(g, t). (c # g, t)) (plus_splits p s) @ [([c], s)] else [])"

fun match_items :: "re_item list \<Rightarrow> string \<Rightarrow> (string list \<times> string) list" where
  "match_items [] s = [([], s)]"
| "match_items (Lit c # r) s =
     (case s of [] \<Rightarrow> [] | x # t \<Rightarrow> if x = c then match_items r t else [])"
| "match_items (GroupPlus p # r) s =
     concat (map (\<lambda>(g, t). map (\<lambda>(gs, u). (g # gs, u)) (match_items r t)) (plus_splits p s))"

definition submatch_at :: "re_item list \<Rightarrow> string \<Rightarrow> string list option" where
  "submatch_at re s = (case match_items re s of
      [] \<Rightarrow> None
    | (gs, u) # _ \<Rightarrow> Some (take (length s - length u) s # gs))"

text \<open>The whole match and the groups, leftmost position first; nil (the empty list) if none.\<close>

fun FindStringSubmatch :: "re_item list \<Rightarrow> string \<Rightarrow> string list" where
  "FindStringSubmatch re [] = (case submatch_at re [] of None \<Rightarrow> [] | Some m \<Rightarrow> m)"
| "FindStringSubmatch re (c # s) =
     (case submatch_at re (c # s) of None \<Rightarrow> FindStringSubmatch re s | Some m \<Rightarrow> m)"

text \<open>
  A pattern is separated when each group is last or followed by a literal outside its class.
  Such a pattern never backtracks: a single scan that takes maximal runs finds the match.
\<close>

fun separated :: "re_item list \<Rightarrow> bool" where
  "separated [] = True"
| "separated (Lit c # r) = separated r"
| "separated [GroupPlus p] = True"
| "separated (GroupPlus p # Lit c # r) = (\<not> p c \<and> separated r)"
| "separated (GroupPlus p # GroupPlus q # r) = False"

fun scan :: "re_item list \<Rightarrow> string \<Rightarrow> (string list \<times> string) option" where
  "scan [] s = Some ([], s)"
| "scan (Lit c # r) s =
     (case s of [] \<Rightarrow> None | x # t \<Rightarrow> if x = c then scan r t else None)"
| "scan (GroupPlus p # r) s =
     (if takeWhile p s = [] then None
      else map_option (\<lambda>(gs, u). (takeWhile p s # gs, u)) (scan r (dropWhile p s)))"

definition first_of :: "'a list \<Rightarrow> 'a option" where
  "first_of xs = (case xs of [] \<Rightarrow> None | x # _ \<Rightarrow> Some x)"

lemma first_of_simps [simp]:
  "first_of [] = None" "first_of (x # xs) = Some x"
  by (simp_all add: first_of_def)

lemma first_of_append: "first_of (xs @ ys) = (if xs = [] then first_of ys else first_of xs)"
  by (cases xs) simp_all

lemma first_of_map: "first_of (map f xs) = map_option f (first_of xs)"
  by (cases xs) simp_all

lemma plus_splits_shape:
  "\<exists>rest. plus_splits p s =
     (if takeWhile p s = [] then [] else (takeWhile p s, dropWhile p s) # rest)
     \<and> (\<forall>(g, t) \<in> set rest. \<exists>x u. t = x # u \<and> p x)"
proof (induction s)
  case (Cons c s)
  then obtain rest where rest: "plus_splits p s =
      (if takeWhile p s = [] then [] else (takeWhile p s, dropWhile p s) # rest)"
    "\<forall>(g, t) \<in> set rest. \<exists>x u. t = x # u \<and> p x" by blast
  show ?case
  proof (cases "p c")
    case True
    show ?thesis
    proof (cases s)
      case Nil
      with True show ?thesis by simp
    next
      case (Cons d s')
      show ?thesis
      proof (cases "p d")
        case True
        with rest Cons \<open>p c\<close> show ?thesis
          by (intro exI [of _ "map (\<lambda>(g, t). (c # g, t)) rest @ [([c], s)]"]) auto
      next
        case False
        with rest Cons \<open>p c\<close> show ?thesis by simp
      qed
    qed
  next
    case False
    then show ?thesis by (intro exI [of _ "[]"]) simp
  qed
qed (auto intro: exI [of _ "[]"])

lemma match_group_last:
  "first_of (match_items [GroupPlus p] s) = scan [GroupPlus p] s"
proof -
  obtain rest where "plus_splits p s =
      (if takeWhile p s = [] then [] else (takeWhile p s, dropWhile p s) # rest)"
    using plus_splits_shape by blast
  then show ?thesis by simp
qed

lemma match_group_separated:
  assumes "\<not> p c"
  shows "first_of (match_items (GroupPlus p # Lit c # r) s) =
    (if takeWhile p s = [] then None
     else map_option (\<lambda>(gs, u). (takeWhile p s # gs, u))
            (first_of (match_items (Lit c # r) (dropWhile p s))))"
proof -
  obtain rest where rest: "plus_splits p s =
      (if takeWhile p s = [] then [] else (takeWhile p s, dropWhile p s) # rest)"
    "\<forall>(g, t) \<in> set rest. \<exists>x u. t = x # u \<and> p x"
    using plus_splits_shape by blast
  let ?f = "\<lambda>(g, t). map (\<lambda>(gs, u). (g # gs, u)) (match_items (Lit c # r) t)"
  have none: "concat (map ?f rest) = []"
    using rest(2) assms by fastforce
  show ?thesis
  proof (cases "takeWhile p s = []")
    case True
    with rest(1) show ?thesis by simp
  next
    case False
    with rest(1) have "match_items (GroupPlus p # Lit c # r) s
        = ?f (takeWhile p s, dropWhile p s) @ concat (map ?f rest)"
      by (simp del: match_items.simps(2))
    also have "\<dots> = ?f (takeWhile p s, dropWhile p s)"
      by (simp only: none append_Nil2)
    finally show ?thesis
      using False by (simp add: first_of_map del: match_items.simps)
  qed
qed

lemma match_separated: "separated re \<Longrightarrow> first_of (match_items re s) = scan re s"
proof (induction re arbitrary: s rule: separated.induct)
  case (3 p)
  show ?case by (rule match_group_last)
next
  case (4 p c r)
  then have "first_of (match_items (Lit c # r) t) = scan (Lit c # r) t" for t
    by (auto split: list.splits)
  with 4 show ?case
    by (simp add: match_group_separated del: match_items.simps scan.simps(2))
qed (auto split: list.splits)

lemma submatch_at_separated:
  assumes "separated re"
  shows "submatch_at re s =
    map_option (\<lambda>(gs, u). take (length s - length u) s # gs) (scan re s)"
proof -
  have "submatch_at re s =
      map_option (\<lambda>(gs, u). take (length s - length u) s # gs) (first_of (match_items re s))"
    by (simp add: submatch_at_def first_of_def split: list.splits)
  with assms show ?thesis by (simp add: match_separated)
qed

end
