(* ===== verification/Gtid.thy ===== *)
theory Gtid
  imports GoStd
begin

text \<open>
  \<open>internal/pkg/mysql/gtid.go\<close>: parsing of GTID sets \<open>uuid:start-end\<close> and the choice of
  the member with the highest executed transaction, used to pick a bootstrap member.
\<close>

section \<open>The code\<close>

record GTID =
  Host :: string
  UUID :: string
  ServerID :: int64
  Start :: int64
  End :: int64

definition zero_GTID :: GTID where
  "zero_GTID = \<lparr>Host = [], UUID = [], ServerID = 0, Start = 0, End = 0\<rparr>"

definition is_hexdash :: "char \<Rightarrow> bool" where
  "is_hexdash c \<longleftrightarrow>
     48 \<le> byte c \<and> byte c \<le> 57 \<or> 97 \<le> byte c \<and> byte c \<le> 102 \<or> c = CHR ''-''"

text \<open>The pattern \<open>([0-9a-f-]+):(\d+)-(\d+)\<close>, not anchored.\<close>

definition gtidPattern :: "re_item list" where
  "gtidPattern =
     [GroupPlus is_hexdash, Lit (CHR '':''), GroupPlus is_digit, Lit (CHR ''-''), GroupPlus is_digit]"

definition invalid_format :: "string \<Rightarrow> go_error" where
  "invalid_format gtid = PlainError (''invalid GTID format: '' @ gtid)"

definition parseGTID :: "string \<Rightarrow> go_error + GTID" where
  "parseGTID gtid =
     (if gtid = ''0'' \<or> gtid = ''1''
      then Inl (PlainError ''gtid is 0 or 1, skip parse comparison'')
      else
        (let matches = FindStringSubmatch gtidPattern gtid in
         if length matches \<noteq> 4 then Inl (invalid_format gtid)
         else
           (case ParseInt64 (matches ! 2) of
              Inl e \<Rightarrow> Inl (invalid_format gtid)
            | Inr start \<Rightarrow>
                (case ParseInt64 (matches ! 3) of
                   Inl e \<Rightarrow> Inl (invalid_format gtid)
                 | Inr end_ \<Rightarrow>
                     Inr (zero_GTID\<lparr>UUID := matches ! 1, Start := start, End := end_\<rparr>)))))"

fun compareGTIDs_loop :: "GTID \<Rightarrow> GTID list \<Rightarrow> GTID" where
  "compareGTIDs_loop maxGTID [] = maxGTID"
| "compareGTIDs_loop maxGTID (gtid # rest) =
     compareGTIDs_loop (if sint (End gtid) > sint (End maxGTID) then gtid else maxGTID) rest"

fun compareGTIDs :: "GTID list \<Rightarrow> GTID" where
  "compareGTIDs [] = zero_GTID"
| "compareGTIDs (g # gs) = compareGTIDs_loop g gs"

text \<open>The loop of \<open>GetMaxGTIDMember\<close>: \<open>gtids\<close> is the slice built so far.\<close>

fun collectGTIDs :: "GTID list \<Rightarrow> string list \<Rightarrow> go_error + GTID list" where
  "collectGTIDs gtids [] = Inr gtids"
| "collectGTIDs gtids (gtidStr # rest) =
     (case parseGTID gtidStr of
        Inl err \<Rightarrow> Inl err
      | Inr gtid \<Rightarrow>
          if End gtid = 0 then collectGTIDs gtids rest
          else collectGTIDs (gtids @ [gtid]) rest)"

definition GetMaxGTIDMember :: "string list \<Rightarrow> go_error + GTID" where
  "GetMaxGTIDMember gtidArryList = res_bind (collectGTIDs [] gtidArryList) (\<lambda>gtids. Inr (compareGTIDs gtids))"

section \<open>Printing, and the round trip\<close>

definition print_GTID :: "GTID \<Rightarrow> string" where
  "print_GTID g = UUID g @ '':'' @ Itoa (Start g) @ ''-'' @ Itoa (End g)"

text \<open>What a parsed GTID looks like: a non-empty identifier, no sign, no host or server id.\<close>

definition wf_GTID :: "GTID \<Rightarrow> bool" where
  "wf_GTID g \<longleftrightarrow> UUID g \<noteq> [] \<and> list_all is_hexdash (UUID g) \<and> Host g = [] \<and> ServerID g = 0
     \<and> 0 \<le> sint (Start g) \<and> 0 \<le> sint (End g)"

lemma separated_gtidPattern [simp]: "separated gtidPattern"
  by (simp add: gtidPattern_def is_hexdash_def is_digit_def)

lemma takeWhile_run:
  "list_all p xs \<Longrightarrow> \<not> p c \<Longrightarrow> takeWhile p (xs @ c # ys) = xs \<and> dropWhile p (xs @ c # ys) = c # ys"
  by (auto simp: list_all_iff takeWhile_append dropWhile_append)

lemma scan_gtidPattern:
  assumes "u \<noteq> []" "list_all is_hexdash u" "s \<noteq> []" "list_all is_digit s" "e \<noteq> []" "list_all is_digit e"
  shows "scan gtidPattern (u @ CHR '':'' # s @ CHR ''-'' # e) = Some ([u, s, e], [])"
proof -
  have "\<not> is_hexdash (CHR '':'')" and "\<not> is_digit (CHR ''-'')"
    by (simp_all add: is_hexdash_def is_digit_def)
  moreover have "takeWhile is_digit e = e" "dropWhile is_digit e = []"
    using assms by (simp_all add: list_all_iff takeWhile_eq_all_conv dropWhile_eq_Nil_conv)
  ultimately show ?thesis
    using assms by (simp add: gtidPattern_def takeWhile_run del: takeWhile_eq_all_conv dropWhile_eq_Nil_conv)
qed

lemma FindStringSubmatch_at_start:
  "submatch_at re s = Some m \<Longrightarrow> FindStringSubmatch re s = m"
  by (cases s) simp_all

lemma FindStringSubmatch_gtid:
  assumes "u \<noteq> []" "list_all is_hexdash u" "s \<noteq> []" "list_all is_digit s" "e \<noteq> []" "list_all is_digit e"
  shows "FindStringSubmatch gtidPattern (u @ CHR '':'' # s @ CHR ''-'' # e)
    = [u @ CHR '':'' # s @ CHR ''-'' # e, u, s, e]"
  by (rule FindStringSubmatch_at_start)
    (simp add: submatch_at_separated scan_gtidPattern [OF assms])

lemma colon_not_01: "u \<noteq> [] \<Longrightarrow> u @ CHR '':'' # r \<noteq> ''0'' \<and> u @ CHR '':'' # r \<noteq> ''1''"
  by (cases u) auto

lemma Itoa_nonneg: "0 \<le> sint w \<Longrightarrow> Itoa w \<noteq> [] \<and> list_all is_digit (Itoa w)"
  by (simp add: Itoa_def fmt_int_def fmt_nat_digits)

lemma parse_print_GTID: "wf_GTID g \<Longrightarrow> parseGTID (print_GTID g) = Inr g"
  using FindStringSubmatch_gtid [of "UUID g" "Itoa (Start g)" "Itoa (End g)"]
    colon_not_01 [of "UUID g" "Itoa (Start g) @ CHR ''-'' # Itoa (End g)"]
  by (cases g) (simp add: wf_GTID_def print_GTID_def parseGTID_def zero_GTID_def Itoa_nonneg
      ParseInt64_Itoa)

interpretation gtid_codec: codec print_GTID parseGTID wf_GTID
  by unfold_locales (rule parse_print_GTID)

section \<open>What a match looks like\<close>

lemma scan_gtidPattern_groups:
  assumes "scan gtidPattern s = Some (gs, u)"
  obtains a b c where "gs = [a, b, c]" "a \<noteq> []" "list_all is_hexdash a"
    "b \<noteq> []" "list_all is_digit b" "c \<noteq> []" "list_all is_digit c"
  using assms
  by (fastforce simp: gtidPattern_def list_all_iff dest: set_takeWhileD
      split: if_splits list.splits)

lemma FindStringSubmatch_gtid_groups:
  assumes "length (FindStringSubmatch gtidPattern s) = 4"
  obtains w a b c where "FindStringSubmatch gtidPattern s = [w, a, b, c]"
    "a \<noteq> []" "list_all is_hexdash a" "b \<noteq> []" "list_all is_digit b" "c \<noteq> []" "list_all is_digit c"
proof -
  have "\<exists>w a b c. FindStringSubmatch gtidPattern s = [w, a, b, c] \<and> a \<noteq> [] \<and> list_all is_hexdash a
      \<and> b \<noteq> [] \<and> list_all is_digit b \<and> c \<noteq> [] \<and> list_all is_digit c"
    using assms
    by (induction gtidPattern s rule: FindStringSubmatch.induct)
      (fastforce simp: submatch_at_separated elim: scan_gtidPattern_groups split: option.splits)+
  with that show ?thesis by blast
qed

lemma parseGTID_wf:
  assumes "parseGTID s = Inr g"
  shows "wf_GTID g"
proof -
  from assms have "length (FindStringSubmatch gtidPattern s) = 4"
    by (auto simp: parseGTID_def Let_def split: if_splits)
  then obtain w a b c where m: "FindStringSubmatch gtidPattern s = [w, a, b, c]"
    "a \<noteq> []" "list_all is_hexdash a" "b \<noteq> []" "list_all is_digit b" "c \<noteq> []" "list_all is_digit c"
    by (rule FindStringSubmatch_gtid_groups)
  have nn: "0 \<le> sint w" if "ParseInt64 d = Inr w" "d \<noteq> []" "list_all is_digit d" for d w
  proof -
    from that have "w = word_of_nat (digits_val d)" and "digits_val d < 2 ^ 63"
      by (auto simp: ParseInt64_digits split: if_splits)
    then show ?thesis by (simp add: sint_of_nat_int64)
  qed
  from assms m show ?thesis
    by (auto simp: parseGTID_def Let_def wf_GTID_def zero_GTID_def nn split: if_splits sum.splits)
qed

section \<open>The loops\<close>

lemma compareGTIDs_loop_max:
  "sint (End m) \<le> sint (End (compareGTIDs_loop m gs))
   \<and> (\<forall>g \<in> set gs. sint (End g) \<le> sint (End (compareGTIDs_loop m gs)))
   \<and> compareGTIDs_loop m gs \<in> set (m # gs)"
proof (induction gs arbitrary: m)
  case (Cons g gs)
  show ?case
    using Cons [of g] Cons [of m] by (cases "sint (End g) > sint (End m)") auto
qed simp

lemma compareGTIDs_max: "gs \<noteq> [] \<Longrightarrow> compareGTIDs gs \<in> set gs"
  "g \<in> set gs \<Longrightarrow> sint (End g) \<le> sint (End (compareGTIDs gs))"
  using compareGTIDs_loop_max by (cases gs; fastforce)+

text \<open>On a tie the member listed first wins.\<close>

lemma compareGTIDs_loop_first:
  "\<exists>pre post. m # gs = pre @ compareGTIDs_loop m gs # post
     \<and> (\<forall>x \<in> set pre. sint (End x) < sint (End (compareGTIDs_loop m gs)))"
proof (induction gs arbitrary: m)
  case (Cons g gs)
  show ?case
  proof (cases "sint (End g) > sint (End m)")
    case True
    then have eq: "compareGTIDs_loop m (g # gs) = compareGTIDs_loop g gs" by simp
    obtain pre post where split: "g # gs = pre @ compareGTIDs_loop g gs # post"
      and less: "\<forall>x \<in> set pre. sint (End x) < sint (End (compareGTIDs_loop g gs))"
      using Cons by blast
    have "m # g # gs = (m # pre) @ compareGTIDs_loop g gs # post"
      using split by simp
    moreover have "\<forall>x \<in> set (m # pre). sint (End x) < sint (End (compareGTIDs_loop g gs))"
      using True less compareGTIDs_loop_max [of g gs] by simp
    ultimately show ?thesis unfolding eq by blast
  next
    case False
    obtain pre post where split: "m # gs = pre @ compareGTIDs_loop m gs # post"
      and less: "\<forall>x \<in> set pre. sint (End x) < sint (End (compareGTIDs_loop m gs))"
      using Cons by blast
    show ?thesis
    proof (cases pre)
      case Nil
      with split have "compareGTIDs_loop m gs = m" by (metis append_Nil list.inject)
      with False show ?thesis by (intro exI [of _ "[]"] exI [of _ "g # gs"]) simp
    next
      case (Cons m' pre')
      with False split less show ?thesis
        by (intro exI [of _ "m # g # pre'"] exI [of _ post]) auto
    qed
  qed
qed (simp, intro exI [of _ "[]"], simp)

lemma compareGTIDs_first:
  "gs \<noteq> [] \<Longrightarrow> \<exists>pre post. gs = pre @ compareGTIDs gs # post
     \<and> (\<forall>x \<in> set pre. sint (End x) < sint (End (compareGTIDs gs)))"
  using compareGTIDs_loop_first by (cases gs) auto

text \<open>The parsed members, in order.\<close>

definition parsedGTIDs :: "string list \<Rightarrow> GTID list" where
  "parsedGTIDs ss = concat (map (\<lambda>s. case parseGTID s of Inl _ \<Rightarrow> [] | Inr g \<Rightarrow> [g]) ss)"

lemma collectGTIDs_Inr_iff:
  "collectGTIDs acc ss = Inr gs \<longleftrightarrow>
     (\<forall>s \<in> set ss. \<exists>g. parseGTID s = Inr g)
     \<and> gs = acc @ filter (\<lambda>g. End g \<noteq> 0) (parsedGTIDs ss)"
proof (induction ss arbitrary: acc)
  case Nil
  show ?case by (auto simp: parsedGTIDs_def)
next
  case (Cons s ss)
  show ?case by (cases "parseGTID s") (auto simp: Cons.IH parsedGTIDs_def)
qed

lemma collectGTIDs_Inl_iff:
  "collectGTIDs acc ss = Inl e \<longleftrightarrow>
     (\<exists>pre s post. ss = pre @ s # post \<and> (\<forall>p \<in> set pre. \<exists>g. parseGTID p = Inr g)
        \<and> parseGTID s = Inl e)"
proof (induction ss arbitrary: acc)
  case (Cons s ss)
  show ?case
  proof (cases "parseGTID s")
    case (Inl e')
    then show ?thesis by (fastforce simp: Cons_eq_append_conv)
  next
    case (Inr g)
    then have "collectGTIDs acc (s # ss) = Inl e \<longleftrightarrow>
        (\<exists>pre s' post. ss = pre @ s' # post \<and> (\<forall>p \<in> set pre. \<exists>g. parseGTID p = Inr g)
           \<and> parseGTID s' = Inl e)" (is "_ \<longleftrightarrow> (\<exists>pre s' post. ?R pre s' post)")
      by (simp add: Cons.IH)
    also have "\<dots> \<longleftrightarrow> (\<exists>pre s' post. s # ss = pre @ s' # post
        \<and> (\<forall>p \<in> set pre. \<exists>g. parseGTID p = Inr g) \<and> parseGTID s' = Inl e)" (is "_ \<longleftrightarrow> (\<exists>pre s' post. ?S pre s' post)")
    proof
      assume "\<exists>pre s' post. ?R pre s' post"
      then obtain pre s' post where "?R pre s' post" by blast
      with Inr have "?S (s # pre) s' post" by simp
      then show "\<exists>pre s' post. ?S pre s' post" by blast
    next
      assume "\<exists>pre s' post. ?S pre s' post"
      then obtain pre s' post where S: "?S pre s' post" by blast
      with Inr obtain pre' where "pre = s # pre'" by (cases pre) auto
      with S have "?R pre' s' post" by simp
      then show "\<exists>pre s' post. ?R pre s' post" by blast
    qed
    finally show ?thesis .
  qed
qed simp

lemma GetMaxGTIDMember_Inr_iff:
  "GetMaxGTIDMember ss = Inr r \<longleftrightarrow>
     (\<forall>s \<in> set ss. \<exists>g. parseGTID s = Inr g)
     \<and> r = compareGTIDs (filter (\<lambda>g. End g \<noteq> 0) (parsedGTIDs ss))"
  by (auto simp: GetMaxGTIDMember_def res_bind_Inr_iff collectGTIDs_Inr_iff)

lemma parsedGTIDs_wf: "g \<in> set (parsedGTIDs ss) \<Longrightarrow> wf_GTID g"
  by (auto simp: parsedGTIDs_def parseGTID_wf split: sum.splits)

lemma parsedGTIDs_in: "s \<in> set ss \<Longrightarrow> parseGTID s = Inr g \<Longrightarrow> g \<in> set (parsedGTIDs ss)"
  by (force simp: parsedGTIDs_def)

lemma sint_zero_iff: "sint (w :: int64) = 0 \<longleftrightarrow> w = 0"
  by (metis signed_0 signed_word_eqI)

lemma zero_GTID_End [simp]: "End zero_GTID = 0"
  by (simp add: zero_GTID_def)

lemma selected_End:
  "sint (End (compareGTIDs (filter (\<lambda>g. End g \<noteq> 0) (parsedGTIDs ss))))
     = Max (insert 0 ((\<lambda>g. sint (End g)) ` set (parsedGTIDs ss)))"
  (is "sint (End (compareGTIDs ?gs)) = Max (insert 0 ?E)")
proof (rule Max_eqI [symmetric])
  fix y assume "y \<in> insert 0 ?E"
  then consider "y = 0" | g where "g \<in> set (parsedGTIDs ss)" "y = sint (End g)" by auto
  then show "y \<le> sint (End (compareGTIDs ?gs))"
  proof cases
    case 1
    show ?thesis
    proof (cases "?gs = []")
      case False
      then have "compareGTIDs ?gs \<in> set (parsedGTIDs ss)"
        using compareGTIDs_max(1) by fastforce
      with 1 show ?thesis using parsedGTIDs_wf by (auto simp: wf_GTID_def)
    qed (simp add: 1)
  next
    case 2
    show ?thesis
    proof (cases "End g = 0")
      case True
      show ?thesis
      proof (cases "?gs = []")
        case False
        then have "compareGTIDs ?gs \<in> set (parsedGTIDs ss)"
          using compareGTIDs_max(1) by fastforce
        with 2 True show ?thesis using parsedGTIDs_wf by (auto simp: wf_GTID_def)
      qed (simp add: 2 True)
    next
      case False
      with 2 show ?thesis by (simp add: compareGTIDs_max(2))
    qed
  qed
next
  show "sint (End (compareGTIDs ?gs)) \<in> insert 0 ?E"
    using compareGTIDs_max(1) [of ?gs] by (cases "?gs = []") auto
qed simp

section \<open>The scanner as a reference\<close>

text \<open>One pass without backtracking from each position, leftmost first.\<close>

fun scan_submatch :: "string \<Rightarrow> string list" where
  "scan_submatch [] = []"
| "scan_submatch (c # s) =
     (case scan gtidPattern (c # s) of
        None \<Rightarrow> scan_submatch s
      | Some (gs, u) \<Rightarrow> take (length (c # s) - length u) (c # s) # gs)"

lemma FindStringSubmatch_Cons:
  "FindStringSubmatch gtidPattern (c # s) =
     (case scan gtidPattern (c # s) of
        None \<Rightarrow> FindStringSubmatch gtidPattern s
      | Some (gs, u) \<Rightarrow> take (length (c # s) - length u) (c # s) # gs)"
  by (simp add: submatch_at_separated split: option.splits)

lemma FindStringSubmatch_Nil: "FindStringSubmatch gtidPattern [] = []"
  by (simp add: submatch_at_separated) (simp add: gtidPattern_def)

lemma FindStringSubmatch_scan: "FindStringSubmatch gtidPattern s = scan_submatch s"
proof (induction s)
  case Nil
  show ?case by (simp only: FindStringSubmatch_Nil scan_submatch.simps)
next
  case (Cons c s)
  then show ?case
    by (simp add: FindStringSubmatch_Cons del: FindStringSubmatch.simps split: option.splits)
qed

text \<open>Evaluation of \<open>parseGTID\<close> on a concrete text.\<close>

lemma scan_gtidPattern_eval: "scan gtidPattern s = scan
     [GroupPlus is_hexdash, Lit (CHR '':''), GroupPlus is_digit, Lit (CHR ''-''), GroupPlus is_digit] s"
  by (simp only: gtidPattern_def)

lemmas parse_eval = parseGTID_def FindStringSubmatch_scan scan_gtidPattern_eval is_hexdash_def is_digit_def
  ParseInt64_def parse_digits_def digits_val_def digit_val_def Let_def

lemmas print_eval = print_GTID_def zero_GTID_def Itoa_def fmt_int_def fmt_nat.simps digit_char_def

section \<open>Properties\<close>


text \<open>
  C29. Printing a GTID with a non-empty hexadecimal identifier and non-negative bounds as
  \<open>uuid:start-end\<close> and parsing the text gives the GTID back.
\<close>

theorem parseGTID_roundtrip: "wf_GTID g \<Longrightarrow> parseGTID (print_GTID g) = Inr g"
  by (rule gtid_codec.dec_enc)

theorem parseGTID_roundtrip_witness:
  "parseGTID ''3f65a290-a2f8-11ee-acdd-d08e7908bcb1:1-1049331886'' =
     Inr (zero_GTID\<lparr>UUID := ''3f65a290-a2f8-11ee-acdd-d08e7908bcb1'', Start := 1, End := 1049331886\<rparr>)"
proof -
  let ?g = "zero_GTID\<lparr>UUID := ''3f65a290-a2f8-11ee-acdd-d08e7908bcb1'', Start := 1, End := 1049331886\<rparr>"
  have "wf_GTID ?g"
    by (simp add: wf_GTID_def zero_GTID_def is_hexdash_def)
  moreover have "print_GTID ?g = ''3f65a290-a2f8-11ee-acdd-d08e7908bcb1:1-1049331886''"
    by (simp add: print_eval)
  ultimately show ?thesis using parseGTID_roundtrip [of ?g] by (simp only:)
qed

text \<open>
  C30. When \<open>GetMaxGTIDMember\<close> succeeds, every entry of the list parsed, and the End of its
  result is the largest End of all entries (0 when there is none); if that is not 0, the
  result is one of the parsed entries.
\<close>

theorem GetMaxGTIDMember_max:
  assumes "GetMaxGTIDMember ss = Inr r"
  shows "(\<forall>s \<in> set ss. \<exists>g. parseGTID s = Inr g)
    \<and> sint (End r) = Max (insert 0 ((\<lambda>g. sint (End g)) ` set (parsedGTIDs ss)))
    \<and> (End r \<noteq> 0 \<longrightarrow> r \<in> set (parsedGTIDs ss))"
proof -
  from assms have ok: "\<forall>s \<in> set ss. \<exists>g. parseGTID s = Inr g"
    and r: "r = compareGTIDs (filter (\<lambda>g. End g \<noteq> 0) (parsedGTIDs ss))"
    by (simp_all add: GetMaxGTIDMember_Inr_iff)
  have "r \<in> set (parsedGTIDs ss)" if "End r \<noteq> 0"
  proof -
    from that r have "filter (\<lambda>g. End g \<noteq> 0) (parsedGTIDs ss) \<noteq> []"
      by (metis compareGTIDs.simps(1) zero_GTID_End)
    then show ?thesis using compareGTIDs_max(1) r by fastforce
  qed
  with ok selected_End [of ss] show ?thesis by (simp add: r)
qed

theorem GetMaxGTIDMember_max_witness:
  "GetMaxGTIDMember [''a-1:1-54'', ''b-2:1-1906'', ''c-3:1-76''] =
     Inr (zero_GTID\<lparr>UUID := ''b-2'', Start := 1, End := 1906\<rparr>)
   \<and> (\<exists>g. parseGTID ''c-3:1-76'' = Inr g)"
proof -
  have "GetMaxGTIDMember [''a-1:1-54'', ''b-2:1-1906'', ''c-3:1-76''] =
      Inr (zero_GTID\<lparr>UUID := ''b-2'', Start := 1, End := 1906\<rparr>)"
    by (simp add: GetMaxGTIDMember_def parse_eval zero_GTID_def del: FindStringSubmatch.simps)
  with GetMaxGTIDMember_max [OF this] show ?thesis by simp
qed

text \<open>
  C31. \<open>GetMaxGTIDMember\<close> fails exactly when some entry does not parse, with the error of the
  first such entry, whatever follows it.
\<close>

theorem GetMaxGTIDMember_error_iff:
  "GetMaxGTIDMember ss = Inl e \<longleftrightarrow>
     (\<exists>pre s post. ss = pre @ s # post \<and> list_all (\<lambda>p. \<not> isl (parseGTID p)) pre \<and> parseGTID s = Inl e)"
  by (simp add: GetMaxGTIDMember_def res_bind_Inl_iff collectGTIDs_Inl_iff list_all_iff not_isl_iff)

text \<open>
  A member whose GTID is reported as \<open>0\<close> (or \<open>1\<close>) is not skipped: the whole selection
  fails, even when the other members parse. (The error text and the code's own check for an
  End of 0 say such a member is to be skipped.)
\<close>

theorem GetMaxGTIDMember_no_skip:
  assumes "''0'' \<in> set ss \<or> ''1'' \<in> set ss"
  shows "\<exists>e. GetMaxGTIDMember ss = Inl e"
proof (cases "GetMaxGTIDMember ss")
  case (Inr r)
  then have "\<forall>s \<in> set ss. \<exists>g. parseGTID s = Inr g"
    by (simp add: GetMaxGTIDMember_Inr_iff)
  with assms show ?thesis by (auto simp: parseGTID_def)
qed simp

theorem GetMaxGTIDMember_no_skip_witness:
  "(\<exists>e. GetMaxGTIDMember [''a-1:1-54'', ''0''] = Inl e)
   \<and> (\<exists>r. GetMaxGTIDMember [''a-1:1-54''] = Inr r)"
proof -
  have "\<exists>r. GetMaxGTIDMember [''a-1:1-54''] = Inr r"
    by (simp add: GetMaxGTIDMember_def parse_eval del: FindStringSubmatch.simps)
  then show ?thesis using GetMaxGTIDMember_no_skip [of "[''a-1:1-54'', ''0'']"] by simp
qed

end
