(* ===== verification/K8s.thy ===== *)
theory K8s
  imports Prelude
begin

text \<open>
  The Kubernetes API objects the operator builds, reads and writes, restricted to the fields
  it touches: a Go struct is a record, a pointer an \<open>option\<close>, a slice a list, a map a
  \<open>gomap\<close>. A value the operator only copies from a custom resource into an object (a probe, a
  security context, a toleration, a port's protocol) is kept as the document it is, of type
  \<open>json\<close>; a resource quantity is its text. Pointers shared between objects are copied: the
  code never writes through them.
\<close>

datatype json =
    JNull
  | JBool bool
  | JInt int
  | JStr string
  | JArr "json list"
  | JObj "(string \<times> json) list"

type_synonym quantity = string

text \<open>A \<open>metav1.Time\<close>: the zero time or a time with its printed form.\<close>

datatype gtime = ZeroTime | AtTime string

datatype int_or_string = IntVal int32 | StrVal string

record type_meta =
  APIVersion :: string
  Kind :: string

record owner_reference =
  or_APIVersion :: string
  or_Kind :: string
  or_Name :: string
  or_UID :: string
  or_Controller :: "bool option"
  or_BlockOwnerDeletion :: "bool option"

record object_meta =
  Name :: string
  Namespace :: string
  UID :: string
  ResourceVersion :: string
  CreationTimestamp :: gtime
  DeletionTimestamp :: "gtime option"
  Labels :: "string gomap"
  Annotations :: "string gomap"
  OwnerReferences :: "owner_reference list"
  Finalizers :: "string list"

record namespaced_name =
  nn_Namespace :: string
  nn_Name :: string

record group_version_kind =
  gvk_Group :: string
  gvk_Version :: string
  gvk_Kind :: string

section \<open>Pods\<close>

record resource_requirements =
  Limits :: "quantity gomap"
  Requests :: "quantity gomap"

record env_var =
  ev_Name :: string
  ev_Value :: string
  ev_ValueFrom :: "json option"

record volume_mount =
  vm_Name :: string
  vm_MountPath :: string
  vm_SubPath :: string

record container_port =
  cp_Name :: string
  cp_ContainerPort :: int32
  cp_Protocol :: string

record container =
  ct_Name :: string
  ct_Image :: string
  ct_Resources :: resource_requirements
  ct_StartupProbe :: "json option"
  ct_ReadinessProbe :: "json option"
  ct_LivenessProbe :: "json option"
  ct_SecurityContext :: "json option"
  ct_Ports :: "container_port list"
  ct_ImagePullPolicy :: string
  ct_Env :: "env_var list"
  ct_VolumeMounts :: "volume_mount list"

record config_map_volume_source =
  cmv_Name :: string
  cmv_DefaultMode :: "int32 option"

record volume =
  vol_Name :: string
  vol_ConfigMap :: "config_map_volume_source option"
  vol_PersistentVolumeClaim :: "string option"

record pod_affinity_term =
  pat_MatchLabels :: "string gomap"
  pat_TopologyKey :: string

record node_selector_requirement =
  nsr_Key :: string
  nsr_Operator :: string
  nsr_Values :: "string list"

record affinity =
  aff_PodAffinity :: "pod_affinity_term list"
  aff_PodAntiAffinity :: "pod_affinity_term list"
  aff_NodeAffinity :: "node_selector_requirement list list"

record core_pod_spec =
  pod_Containers :: "container list"
  pod_TerminationGracePeriodSeconds :: "int64 option"
  pod_SchedulerName :: string
  pod_Affinity :: "affinity option"
  pod_ServiceAccountName :: string
  pod_SecurityContext :: "json option"
  pod_NodeSelector :: "string gomap"
  pod_Tolerations :: "json list"
  pod_Volumes :: "volume list"
  pod_DNSPolicy :: string
  pod_NodeName :: string

record pod_template =
  pt_Meta :: object_meta
  pt_Spec :: core_pod_spec

record pod =
  po_TypeMeta :: type_meta
  po_Meta :: object_meta
  po_Spec :: core_pod_spec
  po_PodIP :: string
  po_RestartCounts :: "int32 list" \<comment> \<open>\<open>Status.ContainerStatuses[i].RestartCount\<close>\<close>

section \<open>Workloads, services, storage\<close>

record pvc_spec =
  pvc_AccessModes :: "string list"
  pvc_Resources :: resource_requirements
  pvc_StorageClassName :: "string option"
  pvc_VolumeMode :: "string option"

record pvc =
  pvc_TypeMeta :: type_meta
  pvc_Meta :: object_meta
  pvc_Spec :: pvc_spec
  pvc_Phase :: string

record rolling_update_deployment =
  rud_MaxUnavailable :: "int_or_string option"
  rud_MaxSurge :: "int_or_string option"

record deployment =
  dep_TypeMeta :: type_meta
  dep_Meta :: object_meta
  dep_Replicas :: "int32 option"
  dep_Selector :: "string gomap"
  dep_Template :: pod_template
  dep_StrategyType :: string
  dep_RollingUpdate :: "rolling_update_deployment option"
  dep_StatusReplicas :: int32

record rolling_update_statefulset =
  rus_Partition :: "int32 option"
  rus_MaxUnavailable :: "int_or_string option"

record statefulset =
  sts_TypeMeta :: type_meta
  sts_Meta :: object_meta
  sts_Replicas :: "int32 option"
  sts_ServiceName :: string
  sts_Selector :: "string gomap"
  sts_Template :: pod_template
  sts_VolumeClaimTemplates :: "pvc list"
  sts_UpdateStrategyType :: string
  sts_RollingUpdate :: "rolling_update_statefulset option"
  sts_StatusReplicas :: int32

record service_port =
  sp_Name :: string
  sp_Port :: int32
  sp_NodePort :: int32
  sp_Rest :: json

record service =
  svc_TypeMeta :: type_meta
  svc_Meta :: object_meta
  svc_Type :: string
  svc_ClusterIP :: string
  svc_Ports :: "service_port list"
  svc_Selector :: "string gomap"
  svc_Ingress :: "string list" \<comment> \<open>\<open>Status.LoadBalancer.Ingress[i].IP\<close>\<close>

record configmap =
  cm_TypeMeta :: type_meta
  cm_Meta :: object_meta
  cm_Data :: "string gomap"

record secret =
  sec_TypeMeta :: type_meta
  sec_Meta :: object_meta
  sec_Data :: "string gomap"
  sec_Type :: string

section \<open>Zero values\<close>

definition zero_meta :: object_meta where
  "zero_meta = \<lparr>Name = [], Namespace = [], UID = [], ResourceVersion = [],
     CreationTimestamp = ZeroTime, DeletionTimestamp = None, Labels = None, Annotations = None,
     OwnerReferences = [], Finalizers = []\<rparr>"

definition zero_type_meta :: type_meta where
  "zero_type_meta = \<lparr>APIVersion = [], Kind = []\<rparr>"

definition zero_resources :: resource_requirements where
  "zero_resources = \<lparr>Limits = None, Requests = None\<rparr>"

definition zero_pod_spec :: core_pod_spec where
  "zero_pod_spec = \<lparr>pod_Containers = [], pod_TerminationGracePeriodSeconds = None,
     pod_SchedulerName = [], pod_Affinity = None, pod_ServiceAccountName = [],
     pod_SecurityContext = None, pod_NodeSelector = None, pod_Tolerations = [],
     pod_Volumes = [], pod_DNSPolicy = [], pod_NodeName = []\<rparr>"

definition zero_template :: pod_template where
  "zero_template = \<lparr>pt_Meta = zero_meta, pt_Spec = zero_pod_spec\<rparr>"

definition zero_pvc :: pvc where
  "zero_pvc = \<lparr>pvc_TypeMeta = zero_type_meta, pvc_Meta = zero_meta,
     pvc_Spec = \<lparr>pvc_AccessModes = [], pvc_Resources = zero_resources,
       pvc_StorageClassName = None, pvc_VolumeMode = None\<rparr>, pvc_Phase = []\<rparr>"

definition zero_deployment :: deployment where
  "zero_deployment = \<lparr>dep_TypeMeta = zero_type_meta, dep_Meta = zero_meta, dep_Replicas = None,
     dep_Selector = None, dep_Template = zero_template, dep_StrategyType = [],
     dep_RollingUpdate = None, dep_StatusReplicas = 0\<rparr>"

definition zero_statefulset :: statefulset where
  "zero_statefulset = \<lparr>sts_TypeMeta = zero_type_meta, sts_Meta = zero_meta, sts_Replicas = None,
     sts_ServiceName = [], sts_Selector = None, sts_Template = zero_template,
     sts_VolumeClaimTemplates = [], sts_UpdateStrategyType = [], sts_RollingUpdate = None,
     sts_StatusReplicas = 0\<rparr>"

definition zero_service :: service where
  "zero_service = \<lparr>svc_TypeMeta = zero_type_meta, svc_Meta = zero_meta, svc_Type = [],
     svc_ClusterIP = [], svc_Ports = [], svc_Selector = None, svc_Ingress = []\<rparr>"

definition zero_configmap :: configmap where
  "zero_configmap = \<lparr>cm_TypeMeta = zero_type_meta, cm_Meta = zero_meta, cm_Data = None\<rparr>"

definition IsZero_time :: "gtime option \<Rightarrow> bool" where
  "IsZero_time t \<longleftrightarrow> t = None \<or> t = Some ZeroTime"

fun time_String :: "gtime \<Rightarrow> string" where
  "time_String ZeroTime = ''0001-01-01 00:00:00 +0000 UTC''"
| "time_String (AtTime s) = s"

end
