(* ===== verification/Consts.thy ===== *)
theory Consts
  imports Prelude
begin

text \<open>
  \<open>internal/consts\<close>: the constants of the operator, by their Go names. The ones that clash
  with other names of the development carry the suffix \<open>_const\<close>.
\<close>

definition DataDir :: string where "DataDir = ''/data/''"
definition ErrorLogDir :: string where "ErrorLogDir = DataDir @ ''error.log''"
definition ConfigDir :: string where "ConfigDir = ''/etc/''"
definition ConfigFile :: string where "ConfigFile = ''my.cnf''"

definition MysqlPortName :: string where "MysqlPortName = ''mysql''"
definition MysqlPort :: int32 where "MysqlPort = 3306"
definition MgrCommunicaName :: string where "MgrCommunicaName = ''mgr-node-comm''"
definition MgrCommunicatePort :: int32 where "MgrCommunicatePort = 33061"
definition MgrAdminName :: string where "MgrAdminName = ''mgr-admin''"
definition MgrAdminPort :: int32 where "MgrAdminPort = 33060"

definition Config_const :: string where "Config_const = ''config''"
definition DB_const :: string where "DB_const = ''db''"
definition Init_const :: string where "Init_const = ''init''"
definition SnapPath :: string where "SnapPath = ''/snap''"

definition RootUser :: string where "RootUser = ''root''"
definition MySQLDB :: string where "MySQLDB = ''mysql''"
definition MySQLRootPassWord :: string where "MySQLRootPassWord = ''MYSQL_ROOT_PASSWORD''"
definition MySQLRootPassWordValue :: string where "MySQLRootPassWordValue = ''R3JlYXRTUUxAMjAyNA==''"
definition ReplicationChannelUser :: string where "ReplicationChannelUser = ''repl''"
definition ReplicationChannelPassword :: string where
  "ReplicationChannelPassword = ''R3JlYXRTUUxAMjAyNA==''"

definition GreatSqlFinalizer_const :: string where
  "GreatSqlFinalizer_const = ''finalizer.greatsql.cn''"

definition SingleInstance_kind :: string where "SingleInstance_kind = ''SingleInstance''"
definition GroupReplicationCluster_kind :: string where
  "GroupReplicationCluster_kind = ''GroupReplicationCluster''"
definition ReplicaofGroupCluster_kind :: string where
  "ReplicaofGroupCluster_kind = ''ReplicaofGroupCluster''"

definition Primary :: string where "Primary = ''primary''"
definition Sencondary :: string where "Sencondary = ''sencondary''"
definition Arbitrator :: string where "Arbitrator = ''arbitrator''"

definition ConfigMapDataHash :: string where "ConfigMapDataHash = ''greatsql.cn/configmap-data-hash''"
definition Controller_const :: string where "Controller_const = ''controller''"

definition AppKubernetesComponent :: string where
  "AppKubernetesComponent = ''app.kubernetes.io/component''"
definition AppKubernetesName :: string where "AppKubernetesName = ''app.kubernetes.io/name''"
definition AppKubernetesInstance :: string where
  "AppKubernetesInstance = ''app.kubernetes.io/instance''"

lemma label_keys_distinct [simp]:
  "AppKubernetesName \<noteq> AppKubernetesInstance" "AppKubernetesInstance \<noteq> AppKubernetesName"
  by (simp_all add: AppKubernetesName_def AppKubernetesInstance_def)

end
