(* ===== verification/Types.thy ===== *)
theory Types
  imports K8s Consts
begin

text \<open>
  \<open>api/v1\<close>: the custom resources \<open>SingleInstance\<close> and \<open>GroupReplicationCluster\<close>, their
  size methods and the pod affinity built from them.
\<close>

section \<open>Common types\<close>

record v1_pod_affinity =
  TopologyKey :: "string option"

record container_spec =
  Image :: string
  ImagePullPolicy :: string
  ImagePullSecrets :: "json list"
  Resources :: resource_requirements
  StartupProbe :: json
  ReadinessProbe :: json
  LivenessProbe :: json
  SecurityContext :: "json option"
  Envs :: "env_var list"

record v1_pod_spec =
  Affinity :: "v1_pod_affinity option"
  Annotation :: "string gomap"
  ps_Labels :: "string gomap"
  NodeSelector :: "string gomap"
  Tolerations :: "json list"
  TerminationGracePeriodSeconds :: "int64 option"
  SchedulerName :: string
  PodSecurityContext :: "json option"
  ServiceAccountName :: string
  ps_ServiceName :: string
  Version :: string
  Containers :: "container_spec list"
  PersistentVolumeClaimTemplate :: "pvc_spec option"

record upgrade_options =
  VersionServiceEndpoint :: string
  Apply :: string

record roleling_update =
  Partition :: "int32 option"
  MaxUnavailable :: "int_or_string option"

record v1_update_strategy =
  us_Type :: string
  RolelingUpdate :: "roleling_update option"

record mysql_group_replication_cluster =
  PodSpec :: "v1_pod_spec option"
  Ports :: "service_port list"
  Type :: string
  DnsPolicy :: string
  UpgradeOptions :: upgrade_options
  UpdateStrategy :: "v1_update_strategy option"

record service_expose =
  se_Enabled :: bool
  se_Type :: string
  se_LoadBalancerSourceRanges :: "string list"
  se_LoadBalancerIP :: string
  se_Annotations :: "string gomap"
  se_Labels :: "string gomap"
  se_ExternalTrafficPolicy :: string
  se_InternalTrafficPolicy :: string
  se_TrafficPolicy :: string

record proxy =
  px_Enabled :: bool
  px_PodSpec :: v1_pod_spec
  px_Expose :: service_expose

record enable_switch = \<comment> \<open>\<open>SchedulerBuckup\<close>, \<open>MetricsCollection\<close>\<close>
  Enable :: "bool option"

definition zero_v1_pod_spec :: v1_pod_spec where
  "zero_v1_pod_spec = \<lparr>Affinity = None, Annotation = None, ps_Labels = None, NodeSelector = None,
     Tolerations = [], TerminationGracePeriodSeconds = None, SchedulerName = [],
     PodSecurityContext = None, ServiceAccountName = [], ps_ServiceName = [], Version = [],
     Containers = [], PersistentVolumeClaimTemplate = None\<rparr>"

section \<open>SingleInstance\<close>

record single_instance_spec =
  Size :: "int32 option"
  sis_PodSpec :: v1_pod_spec
  sis_Ports :: "service_port list"
  sis_Type :: string
  sis_DnsPolicy :: string
  sis_UpgradeOptions :: upgrade_options
  sis_UpdateStrategy :: string

record single_instance_status =
  AccessPoint :: string
  st_Size :: int32
  Ready :: int32
  Age :: string
  DeploymentStatus :: json

record single_instance =
  si_TypeMeta :: type_meta
  si_Meta :: object_meta
  Spec :: single_instance_spec
  Status :: single_instance_status

definition GetSize :: "single_instance_spec \<Rightarrow> int32" where
  "GetSize s = (case Size s of Some n \<Rightarrow> n | None \<Rightarrow> 1)"

definition SingleInstanceList_Finalizer :: "string list" where
  "SingleInstanceList_Finalizer = [''finalizer.SingleInstance.greatsql.cn'']"

definition zero_single_instance_spec :: single_instance_spec where
  "zero_single_instance_spec = \<lparr>Size = None, sis_PodSpec = zero_v1_pod_spec, sis_Ports = [],
     sis_Type = [], sis_DnsPolicy = [],
     sis_UpgradeOptions = \<lparr>VersionServiceEndpoint = [], Apply = []\<rparr>, sis_UpdateStrategy = []\<rparr>"

definition zero_single_instance_status :: single_instance_status where
  "zero_single_instance_status =
     \<lparr>AccessPoint = [], st_Size = 0, Ready = 0, Age = [], DeploymentStatus = JObj []\<rparr>"

definition zero_single_instance :: single_instance where
  "zero_single_instance = \<lparr>si_TypeMeta = zero_type_meta, si_Meta = zero_meta,
     Spec = zero_single_instance_spec, Status = zero_single_instance_status\<rparr>"

section \<open>GroupReplicationCluster\<close>

record member =
  Role :: string
  m_Size :: "int32 option"

record group_replication_cluster_spec =
  Member :: "member list"
  ClusterSpec :: "mysql_group_replication_cluster option"
  ProxySpec :: "proxy option"
  SchedulerBuckup :: "enable_switch option"
  MetricsCollection :: "enable_switch option"

record group_replication_cluster =
  grc_TypeMeta :: type_meta
  grc_Meta :: object_meta
  grc_Spec :: group_replication_cluster_spec
  grc_Status :: json

text \<open>\<open>count\<close> starts at 0 and is incremented once when a size is given.\<close>

definition Member_GetSize :: "member \<Rightarrow> int32" where
  "Member_GetSize m = (let count = 0 in if m_Size m \<noteq> None then count + 1 else count)"

definition zero_group_replication_cluster :: group_replication_cluster where
  "zero_group_replication_cluster = \<lparr>grc_TypeMeta = zero_type_meta, grc_Meta = zero_meta,
     grc_Spec = \<lparr>Member = [], ClusterSpec = None, ProxySpec = None, SchedulerBuckup = None,
       MetricsCollection = None\<rparr>, grc_Status = JObj []\<rparr>"

section \<open>Pod affinity\<close>

text \<open>
  The dynamic types of the argument \<open>spec interface{}\<close> of \<open>SetPodAffinity\<close>: those its type
  switch names and those its callers pass.
\<close>

datatype any =
    AnySingleInstance single_instance
  | AnyGroupReplicationCluster group_replication_cluster
  | AnySingleInstanceSpec single_instance_spec
  | AnyGroupReplicationClusterSpec group_replication_cluster_spec

definition affinity_of_key :: "string \<Rightarrow> string gomap \<Rightarrow> affinity" where
  "affinity_of_key key labels =
     (let term = \<lparr>pat_MatchLabels = labels, pat_TopologyKey = key\<rparr> in
      \<lparr>aff_PodAffinity = [term], aff_PodAntiAffinity = [term],
       aff_NodeAffinity = [[\<lparr>nsr_Key = key, nsr_Operator = ''NotIn'', nsr_Values = [[]]\<rparr>]]\<rparr>)"

fun SetPodAffinity_key :: "any \<Rightarrow> string option option res" where
  "SetPodAffinity_key (AnySingleInstance s) =
     res_bind (deref (Affinity (sis_PodSpec (Spec s)))) (\<lambda>a. Inr (Some (TopologyKey a)))"
| "SetPodAffinity_key (AnyGroupReplicationCluster s) =
     res_bind (deref (ClusterSpec (grc_Spec s))) (\<lambda>cs.
     res_bind (deref (PodSpec cs)) (\<lambda>ps.
     res_bind (deref (Affinity ps)) (\<lambda>a. Inr (Some (TopologyKey a)))))"
| "SetPodAffinity_key _ = Inr None"

definition SetPodAffinity :: "any \<Rightarrow> string gomap \<Rightarrow> affinity option res" where
  "SetPodAffinity spec labels =
     res_bind (SetPodAffinity_key spec) (\<lambda>topologyKey.
       case topologyKey of
         None \<Rightarrow> Inr None \<comment> \<open>the \<open>default\<close> case returns nil\<close>
       | Some None \<Rightarrow> Inr None
       | Some (Some key) \<Rightarrow> Inr (Some (affinity_of_key key labels)))"

definition SingleInstance_PodAffinity :: "single_instance \<Rightarrow> string gomap \<Rightarrow> affinity option res" where
  "SingleInstance_PodAffinity s labels = SetPodAffinity (AnySingleInstanceSpec (Spec s)) labels"

definition GroupReplicationCluster_PodAffinity ::
  "group_replication_cluster \<Rightarrow> string gomap \<Rightarrow> affinity option res" where
  "GroupReplicationCluster_PodAffinity s labels =
     SetPodAffinity (AnyGroupReplicationClusterSpec (grc_Spec s)) labels"

lemma PodAffinity_nil:
  "SingleInstance_PodAffinity s labels = Inr None"
  "GroupReplicationCluster_PodAffinity c labels = Inr None"
  by (simp_all add: SingleInstance_PodAffinity_def GroupReplicationCluster_PodAffinity_def
      SetPodAffinity_def)

lemma GetSize_simps [simp]:
  "Size s = Some n \<Longrightarrow> GetSize s = n" "Size s = None \<Longrightarrow> GetSize s = 1"
  by (simp_all add: GetSize_def)

lemma Member_GetSize_cases: "Member_GetSize m = (if m_Size m = None then 0 else 1)"
  by (simp add: Member_GetSize_def)

end
