(* ===== verification/Library.thy ===== *)
theory Library
  imports Types GoStd
begin

text \<open>
  The functions of the Kubernetes libraries the operator calls on data. Their code is not in
  the repository, so they are parameters, gathered in the record \<open>k8s_lib\<close>; what their
  documentation promises is the locale \<open>k8s_library\<close>. \<open>doc_lib\<close> is a concrete library with
  that behaviour.
\<close>

record k8s_lib =
  IsNotFound :: "go_error \<Rightarrow> bool" \<comment> \<open>\<open>api/errors\<close>\<close>
  NewBadRequest :: "string \<Rightarrow> go_error"
  IgnoreNotFound :: "go_error \<Rightarrow> go_error option" \<comment> \<open>\<open>controller-runtime/pkg/client\<close>\<close>
  ContainsFinalizer :: "object_meta \<Rightarrow> string \<Rightarrow> bool" \<comment> \<open>\<open>controllerutil\<close>\<close>
  AddFinalizer :: "object_meta \<Rightarrow> string \<Rightarrow> object_meta"
  RemoveFinalizer :: "object_meta \<Rightarrow> string \<Rightarrow> object_meta"
  GroupVersion_String :: "string \<Rightarrow> string \<Rightarrow> string" \<comment> \<open>\<open>runtime/schema\<close>\<close>
  NewControllerRef :: "object_meta \<Rightarrow> group_version_kind \<Rightarrow> owner_reference" \<comment> \<open>\<open>metav1\<close>\<close>
  NewQuantity_BinarySI :: "int64 \<Rightarrow> quantity" \<comment> \<open>\<open>api/resource\<close>\<close>
  Quantity_Value :: "quantity \<Rightarrow> int64"
  Quantity_String :: "quantity \<Rightarrow> string"
  MustParse :: "string \<Rightarrow> quantity res"
  ResourceList_Storage :: "quantity gomap \<Rightarrow> quantity"
  ResourceList_Memory :: "quantity gomap \<Rightarrow> quantity"
  EnvVarSource_String :: "json option \<Rightarrow> string"
  Marshal :: "single_instance_spec \<Rightarrow> go_error + string" \<comment> \<open>\<open>sonic\<close>\<close>

locale k8s_library =
  fixes L :: k8s_lib
  assumes is_not_found: "IsNotFound L e \<longleftrightarrow> (\<exists>m. e = ApiError NotFound m)"
    and new_bad_request: "NewBadRequest L m = ApiError BadRequest m"
    and ignore_not_found: "IgnoreNotFound L e = (if IsNotFound L e then None else Some e)"
    and contains_finalizer: "ContainsFinalizer L o' f \<longleftrightarrow> f \<in> set (Finalizers o')"
    and add_finalizer: "AddFinalizer L o' f =
      (if f \<in> set (Finalizers o') then o' else o'\<lparr>Finalizers := Finalizers o' @ [f]\<rparr>)"
    and remove_finalizer: "RemoveFinalizer L o' f = o'\<lparr>Finalizers := removeAll f (Finalizers o')\<rparr>"
    and group_version_string: "GroupVersion_String L g v = (if g = [] then v else g @ ''/'' @ v)"
    and new_controller_ref: "NewControllerRef L o' gvk =
      \<lparr>or_APIVersion = GroupVersion_String L (gvk_Group gvk) (gvk_Version gvk),
       or_Kind = gvk_Kind gvk, or_Name = Name o', or_UID = UID o',
       or_Controller = Some True, or_BlockOwnerDeletion = Some True\<rparr>"
    and quantity_value_new: "Quantity_Value L (NewQuantity_BinarySI L n) = n"
    and must_parse_string: "\<exists>q'. MustParse L (Quantity_String L q) = Inr q'
      \<and> Quantity_Value L q' = Quantity_Value L q"
    and resource_storage: "ResourceList_Storage L rl =
      (case map_read rl ''storage'' of Some q \<Rightarrow> q | None \<Rightarrow> NewQuantity_BinarySI L 0)"
    and resource_memory: "ResourceList_Memory L rl =
      (case map_read rl ''memory'' of Some q \<Rightarrow> q | None \<Rightarrow> NewQuantity_BinarySI L 0)"
begin

lemma not_found_simps [simp]:
  "IsNotFound L (ApiError NotFound m)"
  "\<not> IsNotFound L (PlainError m)"
  "\<not> IsNotFound L (ApiError AlreadyExists m)"
  "\<not> IsNotFound L (ApiError Conflict m)"
  "\<not> IsNotFound L (ApiError BadRequest m)"
  by (simp_all add: is_not_found)

lemma bad_request_not_found [simp]: "\<not> IsNotFound L (NewBadRequest L m)"
  by (simp add: is_not_found new_bad_request)

lemma contains_add [simp]: "ContainsFinalizer L (AddFinalizer L m f) f"
  by (simp add: contains_finalizer add_finalizer)

lemma contains_remove [simp]: "\<not> ContainsFinalizer L (RemoveFinalizer L m f) f"
  by (simp add: contains_finalizer remove_finalizer)

lemma contains_remove_other: "g \<noteq> f \<Longrightarrow>
  ContainsFinalizer L (RemoveFinalizer L m f) g \<longleftrightarrow> ContainsFinalizer L m g"
  by (simp add: contains_finalizer remove_finalizer)

lemma add_when_contained: "ContainsFinalizer L m f \<Longrightarrow> AddFinalizer L m f = m"
  by (simp add: contains_finalizer add_finalizer)

lemma add_remove: "f \<notin> set (Finalizers m) \<Longrightarrow> RemoveFinalizer L (AddFinalizer L m f) f = m"
  by (simp add: add_finalizer remove_finalizer)

lemma finalizer_frame [simp]:
  "Name (RemoveFinalizer L m f) = Name m" "Namespace (RemoveFinalizer L m f) = Namespace m"
  "Name (AddFinalizer L m f) = Name m" "Namespace (AddFinalizer L m f) = Namespace m"
  "DeletionTimestamp (RemoveFinalizer L m f) = DeletionTimestamp m"
  "DeletionTimestamp (AddFinalizer L m f) = DeletionTimestamp m"
  "ResourceVersion (RemoveFinalizer L m f) = ResourceVersion m"
  "ResourceVersion (AddFinalizer L m f) = ResourceVersion m"
  by (simp_all add: add_finalizer remove_finalizer)

end

section \<open>A library with the documented behaviour\<close>

definition doc_not_found :: "go_error \<Rightarrow> bool" where
  "doc_not_found e = (case e of ApiError NotFound _ \<Rightarrow> True | _ \<Rightarrow> False)"

fun binary_suffix :: "string \<Rightarrow> nat" where
  "binary_suffix s = (if s = ''Ki'' then 2 ^ 10 else if s = ''Mi'' then 2 ^ 20
     else if s = ''Gi'' then 2 ^ 30 else 1)"

definition doc_value :: "quantity \<Rightarrow> int64" where
  "doc_value q =
     (case ParseInt64 q of
        Inr n \<Rightarrow> n
      | Inl _ \<Rightarrow> word_of_nat (digits_val (takeWhile is_digit q) * binary_suffix (dropWhile is_digit q)))"

definition doc_resource :: "string \<Rightarrow> quantity gomap \<Rightarrow> quantity" where
  "doc_resource name rl = (case map_read rl name of Some q \<Rightarrow> q | None \<Rightarrow> Itoa (0 :: int64))"

definition doc_lib :: k8s_lib where
  "doc_lib = \<lparr>
     IsNotFound = doc_not_found,
     NewBadRequest = ApiError BadRequest,
     IgnoreNotFound = (\<lambda>e. if doc_not_found e then None else Some e),
     ContainsFinalizer = (\<lambda>m f. f \<in> set (Finalizers m)),
     AddFinalizer = (\<lambda>m f. if f \<in> set (Finalizers m) then m
       else m\<lparr>Finalizers := Finalizers m @ [f]\<rparr>),
     RemoveFinalizer = (\<lambda>m f. m\<lparr>Finalizers := removeAll f (Finalizers m)\<rparr>),
     GroupVersion_String = (\<lambda>g v. if g = [] then v else g @ ''/'' @ v),
     NewControllerRef = (\<lambda>m gvk.
       \<lparr>or_APIVersion = (if gvk_Group gvk = [] then gvk_Version gvk
          else gvk_Group gvk @ ''/'' @ gvk_Version gvk),
        or_Kind = gvk_Kind gvk, or_Name = Name m, or_UID = UID m,
        or_Controller = Some True, or_BlockOwnerDeletion = Some True\<rparr>),
     NewQuantity_BinarySI = Itoa,
     Quantity_Value = doc_value,
     Quantity_String = (\<lambda>q. q),
     MustParse = Inr,
     ResourceList_Storage = doc_resource ''storage'',
     ResourceList_Memory = doc_resource ''memory'',
     EnvVarSource_String = (\<lambda>s. case s of None \<Rightarrow> ''nil'' | Some _ \<Rightarrow> ''&EnvVarSource{}''),
     Marshal = (\<lambda>s. Inr ''{}'')\<rparr>"

lemma doc_not_found_iff: "doc_not_found e \<longleftrightarrow> (\<exists>m. e = ApiError NotFound m)"
  by (auto simp: doc_not_found_def split: go_error.splits api_reason.splits)

interpretation doc: k8s_library doc_lib
  by unfold_locales
    (simp_all add: doc_lib_def doc_not_found_iff doc_value_def doc_resource_def ParseInt64_Itoa
      split: option.splits)

end
