(* ===== verification/Samples.thy ===== *)
theory Samples
  imports Library
begin

text \<open>
  Concrete custom resources for the witnesses, after \<open>example/single/singleinstance.yaml\<close> and
  \<open>example/cluster/groupreplicationclusters.yaml\<close> (with the containers as the list the type asks
  for).
\<close>

definition tcp_probe :: json where
  "tcp_probe = JObj [(''tcpSocket'', JObj [(''port'', JInt 3306)])]"

definition sample_container :: container_spec where
  "sample_container = \<lparr>Image = ''greatsql/greatsql:latest'', ImagePullPolicy = ''IfNotPresent'',
     ImagePullSecrets = [],
     Resources = \<lparr>Limits = Some [''memory'' \<mapsto> ''8Gi''], Requests = Some [''memory'' \<mapsto> ''2Gi'']\<rparr>,
     StartupProbe = tcp_probe, ReadinessProbe = tcp_probe, LivenessProbe = tcp_probe,
     SecurityContext = None,
     Envs = [\<lparr>ev_Name = ''MYSQL_ROOT_PASSWORD'', ev_Value = ''GreatSQL@2024'', ev_ValueFrom = None\<rparr>]\<rparr>"

definition sample_claim :: pvc_spec where
  "sample_claim = \<lparr>pvc_AccessModes = [],
     pvc_Resources = \<lparr>Limits = None, Requests = Some [''storage'' \<mapsto> ''5Gi'']\<rparr>,
     pvc_StorageClassName = Some ''ebs-gp3-sc'', pvc_VolumeMode = None\<rparr>"

definition sample_pod_spec :: v1_pod_spec where
  "sample_pod_spec = zero_v1_pod_spec\<lparr>
     Affinity := Some \<lparr>TopologyKey = Some ''kubernetes.io/hostname''\<rparr>,
     TerminationGracePeriodSeconds := Some 30, SchedulerName := ''default-scheduler'',
     ServiceAccountName := ''default'', Containers := [sample_container],
     PersistentVolumeClaimTemplate := Some sample_claim\<rparr>"

definition sample_port :: service_port where
  "sample_port = \<lparr>sp_Name = ''mysql'', sp_Port = 3306, sp_NodePort = 0, sp_Rest = JNull\<rparr>"

definition sample_meta :: object_meta where
  "sample_meta = zero_meta\<lparr>Name := ''greatsql'', Namespace := ''greatsql'', UID := ''u-1'',
     ResourceVersion := ''7''\<rparr>"

definition sample_single :: single_instance where
  "sample_single = zero_single_instance\<lparr>si_Meta := sample_meta,
     Spec := zero_single_instance_spec\<lparr>Size := Some 1, sis_PodSpec := sample_pod_spec,
       sis_Ports := [sample_port], sis_Type := ''LoadBalancer'',
       sis_DnsPolicy := ''ClusterFirst'', sis_UpdateStrategy := ''RollingUpdate''\<rparr>\<rparr>"

definition sample_cluster_spec :: mysql_group_replication_cluster where
  "sample_cluster_spec = \<lparr>PodSpec = Some sample_pod_spec, Ports = [sample_port],
     Type = ''LoadBalancer'', DnsPolicy = ''ClusterFirst'',
     UpgradeOptions = \<lparr>VersionServiceEndpoint = [], Apply = []\<rparr>,
     UpdateStrategy = Some \<lparr>us_Type = ''RollingUpdate'',
       RolelingUpdate = Some \<lparr>Partition = Some 0, MaxUnavailable = Some (IntVal 1)\<rparr>\<rparr>\<rparr>"

definition sample_cluster :: group_replication_cluster where
  "sample_cluster = zero_group_replication_cluster\<lparr>
     grc_Meta := sample_meta\<lparr>Name := ''greatsql-mgr''\<rparr>,
     grc_Spec := \<lparr>Member = [\<lparr>Role = ''primary'', m_Size = Some 1\<rparr>,
         \<lparr>Role = ''sencondary'', m_Size = Some 2\<rparr>, \<lparr>Role = ''arbitrator'', m_Size = Some 1\<rparr>],
       ClusterSpec = Some sample_cluster_spec, ProxySpec = None, SchedulerBuckup = None,
       MetricsCollection = None\<rparr>\<rparr>"

lemma sample_single_simps [simp]:
  "Name sample_meta = ''greatsql''"
  "Namespace sample_meta = ''greatsql''"
  "UID sample_meta = ''u-1''"
  "ResourceVersion sample_meta = ''7''"
  "DeletionTimestamp sample_meta = None"
  "Finalizers sample_meta = []"
  "Annotations sample_meta = None"
  "si_Meta sample_single = sample_meta"
  "Size (Spec sample_single) = Some 1"
  "sis_PodSpec (Spec sample_single) = sample_pod_spec"
  "sis_Ports (Spec sample_single) = [sample_port]"
  "sis_Type (Spec sample_single) = ''LoadBalancer''"
  by (simp_all add: sample_single_def sample_meta_def zero_meta_def)

lemma sample_pod_spec_simps [simp]:
  "Containers sample_pod_spec = [sample_container]"
  "PersistentVolumeClaimTemplate sample_pod_spec = Some sample_claim"
  "Affinity sample_pod_spec = Some \<lparr>TopologyKey = Some ''kubernetes.io/hostname''\<rparr>"
  by (simp_all add: sample_pod_spec_def)

lemma sample_cluster_simps [simp]:
  "Name (grc_Meta sample_cluster) = ''greatsql-mgr''"
  "Namespace (grc_Meta sample_cluster) = ''greatsql''"
  "ClusterSpec (grc_Spec sample_cluster) = Some sample_cluster_spec"
  "PodSpec sample_cluster_spec = Some sample_pod_spec"
  "Member (grc_Spec sample_cluster) = [\<lparr>Role = ''primary'', m_Size = Some 1\<rparr>,
     \<lparr>Role = ''sencondary'', m_Size = Some 2\<rparr>, \<lparr>Role = ''arbitrator'', m_Size = Some 1\<rparr>]"
  by (simp_all add: sample_cluster_def sample_cluster_spec_def sample_meta_def)

end
