(* ===== verification/Webhook.thy ===== *)
theory Webhook
  imports Samples
begin

text \<open>
  \<open>api/v1/groupreplicationcluster_webhook.go\<close>: the defaulting webhook, which the API server
  calls on every create and update of a cluster, and the validating one, which accepts
  everything. The errors the defaulting webhook logs are returned beside the object.
\<close>

definition set_members :: "member list \<Rightarrow> group_replication_cluster \<Rightarrow> group_replication_cluster" where
  "set_members ms r = r\<lparr>grc_Spec := (grc_Spec r)\<lparr>Member := ms\<rparr>\<rparr>"

definition Default ::
  "group_replication_cluster \<Rightarrow> group_replication_cluster \<times> go_error list" where
  "Default r = (case Member (grc_Spec r) of
     m0 # m1 # ms \<Rightarrow>
       if sint (Member_GetSize m0) < 3 then
         (set_members (m0 # m1\<lparr>m_Size := Some (case m_Size m1 of Some n \<Rightarrow> n + 1 | None \<Rightarrow> 3)\<rparr> # ms) r, [])
       else (r, [])
   | _ \<Rightarrow> (r, [PlainError ''insufficient members'']))"

definition ValidateCreate :: "group_replication_cluster \<Rightarrow> string list \<times> go_error option" where
  "ValidateCreate r = ([], None)"

definition ValidateUpdate ::
  "group_replication_cluster \<Rightarrow> group_replication_cluster \<Rightarrow> string list \<times> go_error option" where
  "ValidateUpdate r old = ([], None)"

definition ValidateDelete :: "group_replication_cluster \<Rightarrow> string list \<times> go_error option" where
  "ValidateDelete r = ([], None)"

text \<open>The object after \<open>k\<close> admissions, and the size its second member then has.\<close>

definition admissions :: "nat \<Rightarrow> group_replication_cluster \<Rightarrow> group_replication_cluster" where
  "admissions k = ((\<lambda>r. fst (Default r)) ^^ k)"

definition second_size :: "group_replication_cluster \<Rightarrow> int32 option" where
  "second_size r = m_Size (Member (grc_Spec r) ! 1)"

lemma Member_GetSize_small: "sint (Member_GetSize m) < 3"
  by (simp add: Member_GetSize_cases)

lemma set_members_simps [simp]:
  "Member (grc_Spec (set_members ms r)) = ms"
  "set_members ms (set_members ns r) = set_members ms r"
  by (simp_all add: set_members_def)

lemma Default_step:
  assumes "Member (grc_Spec r) = m0 # m1 # ms"
  shows "Default r = (set_members (m0 # m1\<lparr>m_Size := Some
    (case m_Size m1 of Some n \<Rightarrow> n + 1 | None \<Rightarrow> 3)\<rparr> # ms) r, [])"
  using assms Member_GetSize_small [of m0] by (simp add: Default_def)

lemma admissions_given:
  assumes "Member (grc_Spec r) = m0 # m1 # ms" and "m_Size m1 = Some n"
  shows "admissions k r = set_members (m0 # m1\<lparr>m_Size := Some (n + word_of_nat k)\<rparr> # ms) r"
proof (induction k)
  case 0
  have "m1\<lparr>m_Size := Some n\<rparr> = m1" using assms(2) by simp
  then show ?case using assms(1) by (simp add: admissions_def set_members_def)
next
  case (Suc k)
  then show ?case
    by (simp add: admissions_def Default_step [OF set_members_simps(1)] algebra_simps)
qed

text \<open>
  Every admission of a cluster with at least two members adds one to the size of the second
  member (the guard on the first member's size never stops it, since \<open>Member.GetSize\<close> is at most
  1), so the webhook is not idempotent: after \<open>k\<close> admissions a given size \<open>n\<close> has become \<open>n + k\<close>
  in 32-bit arithmetic. All other members and the rest of the object are left alone.
\<close>

theorem Default_increments:
  assumes "Member (grc_Spec r) = m0 # m1 # ms" and "m_Size m1 = Some n"
  shows "admissions k r = set_members (m0 # m1\<lparr>m_Size := Some (n + word_of_nat k)\<rparr> # ms) r
    \<and> second_size (admissions k r) = Some (n + word_of_nat k)"
  using admissions_given [OF assms] by (simp add: second_size_def)

theorem Default_increments_witness:
  "second_size (admissions 3 sample_cluster) = Some 5"
  using Default_increments [OF sample_cluster_simps(5), of 2 3]
  by (simp add: second_size_def)

text \<open>
  Without a size the second member gets 3, whatever the first member has; with fewer than two
  members nothing changes and an error is logged; and a size of \<open>2^31 - 1\<close> wraps around to a
  negative one.
\<close>

theorem Default_edge_cases:
  assumes "m_Size m1 = None" and "m_Size m2 = Some 0x7FFFFFFF"
  shows "second_size (fst (Default (set_members (m0 # m1 # ms) r))) = Some 3
    \<and> Default (set_members [m0] r) = (set_members [m0] r, [PlainError ''insufficient members''])
    \<and> Default (set_members [] r) = (set_members [] r, [PlainError ''insufficient members''])
    \<and> map_option sint (second_size (fst (Default (set_members (m0 # m2 # ms) r)))) = Some (- (2 ^ 31))"
  using assms by (simp add: Default_step [OF set_members_simps(1)] second_size_def)
    (simp add: Default_def)

theorem Default_edge_cases_witness:
  "second_size (fst (Default (set_members [\<lparr>Role = ''primary'', m_Size = Some 3\<rparr>,
      \<lparr>Role = ''sencondary'', m_Size = None\<rparr>] sample_cluster))) = Some 3"
  using Default_edge_cases [of "\<lparr>Role = ''sencondary'', m_Size = None\<rparr>"
      "\<lparr>Role = ''sencondary'', m_Size = Some 0x7FFFFFFF\<rparr>" "\<lparr>Role = ''primary'', m_Size = Some 3\<rparr>" "[]"]
  by simp

end
