(* ===== verification/Utils.thy ===== *)
theory Utils
  imports Samples
begin

text \<open>
  \<open>internal/utils\<close>: the base64 and UUID helpers, the access point of a Service and the owner
  reference of an object (the finalizer is the theory \<open>Finalizer\<close>).
\<close>

section \<open>encrypt.go, id.go\<close>

definition Base64Encode :: "string \<Rightarrow> string" where
  "Base64Encode data = EncodeToString data"

definition Base64Decode :: "string \<Rightarrow> b64_error + string" where
  "Base64Decode data = (case DecodeString data of Inl err \<Rightarrow> Inl err | Inr decode \<Rightarrow> Inr decode)"

text \<open>\<open>uuid.New().String()\<close> draws from the world; its text is the parameter.\<close>

definition GetUUID :: "('w \<Rightarrow> string \<times> 'w) \<Rightarrow> 'w \<Rightarrow> string \<times> 'w" where
  "GetUUID uuid_New w = uuid_New w"

definition GetUUIDWithoutDashes :: "('w \<Rightarrow> string \<times> 'w) \<Rightarrow> 'w \<Rightarrow> string \<times> 'w" where
  "GetUUIDWithoutDashes uuid_New w =
     (case uuid_New w of (uuid, w') \<Rightarrow> (filter (\<lambda>c. c \<noteq> CHR ''-'') uuid, w'))"

text \<open>The text of a UUID: five groups of lower-case hexadecimal digits, joined by dashes.\<close>

definition is_hex :: "char \<Rightarrow> bool" where
  "is_hex c \<longleftrightarrow> c \<in> set ''0123456789abcdef''"

definition uuid_text :: "string list \<Rightarrow> string" where
  "uuid_text gs = concat (map (\<lambda>g. g @ ''-'') (butlast gs)) @ last gs"

definition uuid_groups :: "string list \<Rightarrow> bool" where
  "uuid_groups gs \<longleftrightarrow> map length gs = [8, 4, 4, 4, 12] \<and> list_all (list_all is_hex) gs"

section \<open>kube.go\<close>

definition GetServiceAccessPoint :: "service \<Rightarrow> string res" where
  "GetServiceAccessPoint svc =
     (if svc_Type svc = ''ClusterIP'' then
        res_bind (index0 (svc_Ports svc)) (\<lambda>p. Inr (svc_ClusterIP svc @ '':'' @ Itoa (sp_Port p)))
      else if svc_Type svc = ''NodePort'' then
        res_bind (index0 (svc_Ports svc)) (\<lambda>p. Inr (svc_ClusterIP svc @ '':'' @ Itoa (sp_NodePort p)))
      else if svc_Type svc = ''LoadBalancer'' then
        (if length (svc_Ingress svc) > 0 then
           res_bind (index0 (svc_Ingress svc)) (\<lambda>ip.
           res_bind (index0 (svc_Ports svc)) (\<lambda>p.
             Inr (ip @ '':'' @ Itoa (scast (sp_Port p) :: int64))))
         else Inr [])
      else Inr [])"

definition CreateOwnerReference :: "k8s_lib \<Rightarrow> object_meta \<Rightarrow> group_version_kind \<Rightarrow> owner_reference" where
  "CreateOwnerReference L owner gvk =
     \<lparr>or_APIVersion = GroupVersion_String L (gvk_Group gvk) (gvk_Version gvk),
      or_Kind = gvk_Kind gvk, or_Name = Name owner, or_UID = UID owner,
      or_Controller = Some True, or_BlockOwnerDeletion = Some True\<rparr>"

section \<open>Properties\<close>

lemma hex_not_dash: "is_hex c \<Longrightarrow> c \<noteq> CHR ''-''"
  by (auto simp: is_hex_def)

lemma filter_hex: "list_all is_hex g \<Longrightarrow> filter (\<lambda>c. c \<noteq> CHR ''-'') g = g"
  by (induction g) (auto dest: hex_not_dash)

lemma uuid_groups_cases:
  assumes "uuid_groups gs"
  obtains a b c d e where "gs = [a, b, c, d, e]" "length a = 8" "length b = 4" "length c = 4"
    "length d = 4" "length e = 12" "list_all is_hex a" "list_all is_hex b" "list_all is_hex c"
    "list_all is_hex d" "list_all is_hex e"
  using assms by (auto simp: uuid_groups_def map_eq_Cons_conv)

lemma without_dashes: "uuid_groups gs \<Longrightarrow> filter (\<lambda>c. c \<noteq> CHR ''-'') (uuid_text gs) = concat gs"
  by (erule uuid_groups_cases) (simp add: uuid_text_def filter_hex)

lemma uuid_groups_inj:
  assumes "uuid_groups gs" and "uuid_groups hs" and "concat gs = concat hs"
  shows "gs = hs"
  using assms by (elim uuid_groups_cases) (simp add: append_eq_append_conv)

lemma Itoa_scast [simp]: "Itoa (scast (p :: int32) :: int64) = Itoa p"
  by (simp add: Itoa_def sint_up_scast is_up)

text \<open>
  Decoding what \<open>Base64Encode\<close> made of some bytes gives these bytes back; in particular
  encoding is injective.
\<close>

theorem Base64_roundtrip:
  "Base64Decode (Base64Encode data) = Inr data
   \<and> (Base64Encode data = Base64Encode data') = (data = data')"
  by (simp add: Base64Decode_def Base64Encode_def base64.dec_enc base64.enc_inj)

text \<open>
  \<open>GetUUIDWithoutDashes\<close> turns the text of a UUID into 32 hexadecimal digits without a dash,
  and different UUIDs into different identifiers.
\<close>

theorem GetUUIDWithoutDashes_ok:
  assumes "uuid_New w = (uuid_text gs, w')" and "uuid_groups gs"
  shows "length (fst (GetUUIDWithoutDashes uuid_New w)) = 32
    \<and> list_all is_hex (fst (GetUUIDWithoutDashes uuid_New w))
    \<and> (\<forall>hs. uuid_groups hs \<longrightarrow>
        fst (GetUUIDWithoutDashes (\<lambda>v. (uuid_text hs, v)) w) = fst (GetUUIDWithoutDashes uuid_New w)
        \<longrightarrow> uuid_text hs = fst (GetUUID uuid_New w))"
  using assms uuid_groups_inj [OF _ assms(2)]
  by (auto simp: GetUUIDWithoutDashes_def GetUUID_def without_dashes elim!: uuid_groups_cases)

theorem GetUUIDWithoutDashes_ok_witness:
  "length (fst (GetUUIDWithoutDashes
     (\<lambda>w :: unit. (uuid_text [''01234567'', ''89ab'', ''cdef'', ''0123'', ''456789abcdef''], w)) ())) = 32"
  using GetUUIDWithoutDashes_ok
    [of "\<lambda>w :: unit. (uuid_text [''01234567'', ''89ab'', ''cdef'', ''0123'', ''456789abcdef''], w)" "()"
      "[''01234567'', ''89ab'', ''cdef'', ''0123'', ''456789abcdef'']" "()"]
  by (simp add: uuid_groups_def is_hex_def)

text \<open>
  \<open>GetServiceAccessPoint\<close> panics exactly when the Service has no port and is a ClusterIP or
  NodePort service, or a load balancer with an address; otherwise the access point is the
  address the type asks for with the first port (the node port for NodePort), and empty for a
  load balancer without an address and for any other type.
\<close>

theorem GetServiceAccessPoint_cases:
  "(GetServiceAccessPoint svc = Inl (Panicked IndexOutOfRange)) =
     (svc_Ports svc = [] \<and> (svc_Type svc = ''ClusterIP'' \<or> svc_Type svc = ''NodePort''
        \<or> svc_Type svc = ''LoadBalancer'' \<and> 0 < length (svc_Ingress svc)))
   \<and> (case svc_Ports svc of [] \<Rightarrow> True | p # _ \<Rightarrow> GetServiceAccessPoint svc = Inr
       (if svc_Type svc = ''ClusterIP'' then svc_ClusterIP svc @ '':'' @ Itoa (sp_Port p)
        else if svc_Type svc = ''NodePort'' then svc_ClusterIP svc @ '':'' @ Itoa (sp_NodePort p)
        else if svc_Type svc = ''LoadBalancer''
          then (case svc_Ingress svc of [] \<Rightarrow> [] | ip # _ \<Rightarrow> ip @ '':'' @ Itoa (sp_Port p))
        else []))"
  by (cases "svc_Ports svc"; cases "svc_Ingress svc") (simp_all add: GetServiceAccessPoint_def)

text \<open>
  \<open>CreateOwnerReference\<close> builds the controller reference that the library's own
  \<open>NewControllerRef\<close> builds for the same owner and kind.
\<close>

theorem CreateOwnerReference_is_controller_ref:
  assumes "k8s_library L"
  shows "CreateOwnerReference L owner gvk = NewControllerRef L owner gvk"
  by (simp add: CreateOwnerReference_def k8s_library.new_controller_ref [OF assms])

theorem CreateOwnerReference_is_controller_ref_witness:
  "CreateOwnerReference doc_lib sample_meta \<lparr>gvk_Group = ''apps'', gvk_Version = ''v1'', gvk_Kind = ''SingleInstance''\<rparr>
   = NewControllerRef doc_lib sample_meta \<lparr>gvk_Group = ''apps'', gvk_Version = ''v1'', gvk_Kind = ''SingleInstance''\<rparr>"
  by (rule CreateOwnerReference_is_controller_ref [OF doc.k8s_library_axioms])

end
