(* ===== verification/Mysql_Cnf.thy ===== *)
theory Mysql_Cnf
  imports GoStd
begin

text \<open>
  \<open>internal/pkg/mysql/config.go\<close>: rendering \<open>my.cnf\<close> from its template. The package
  \<open>text/template\<close> is modelled as far as the template uses it (text, fields, \<open>if\<close>); the
  template is \<open>tmpl/my.cnf.tmpl\<close> as parsed, the text between two actions as its lines. The
  UTF-8 bytes of its comments are written in hexadecimal.
\<close>

section \<open>Templates\<close>

datatype tmpl_value = VString string | VBool bool | VInt int64

datatype tmpl_node =
    TText string
  | TField string
  | TIf string "tmpl_node list"

fun tmpl_print :: "tmpl_value \<Rightarrow> string" where
  "tmpl_print (VString s) = s"
| "tmpl_print (VBool b) = (if b then ''true'' else ''false'')"
| "tmpl_print (VInt n) = Itoa n"

fun tmpl_truth :: "tmpl_value \<Rightarrow> bool" where
  "tmpl_truth (VString s) \<longleftrightarrow> s \<noteq> []"
| "tmpl_truth (VBool b) \<longleftrightarrow> b"
| "tmpl_truth (VInt n) \<longleftrightarrow> n \<noteq> 0"

definition tmpl_field :: "(string \<Rightarrow> tmpl_value option) \<Rightarrow> string \<Rightarrow> tmpl_value res" where
  "tmpl_field data name = (case data name of
     Some v \<Rightarrow> Inr v
   | None \<Rightarrow> Inl (Returned (PlainError (''can't evaluate field '' @ name))))"

fun tmpl_Execute :: "(string \<Rightarrow> tmpl_value option) \<Rightarrow> tmpl_node list \<Rightarrow> string res" where
  "tmpl_Execute data [] = Inr []"
| "tmpl_Execute data (TText s # ns) = res_bind (tmpl_Execute data ns) (\<lambda>r. Inr (s @ r))"
| "tmpl_Execute data (TField x # ns) =
     res_bind (tmpl_field data x) (\<lambda>v.
     res_bind (tmpl_Execute data ns) (\<lambda>r. Inr (tmpl_print v @ r)))"
| "tmpl_Execute data (TIf x body # ns) =
     res_bind (tmpl_field data x) (\<lambda>v.
     res_bind (if tmpl_truth v then tmpl_Execute data body else Inr []) (\<lambda>b.
     res_bind (tmpl_Execute data ns) (\<lambda>r. Inr (b @ r))))"

definition newline :: char where "newline = CHR 0x0A"

definition text_lines :: "string list \<Rightarrow> string" where
  "text_lines ls = concat (map (\<lambda>l. l @ [newline]) ls)"

section \<open>tmpl/my.cnf.tmpl\<close>

definition cnf_head :: "string list" where
  "cnf_head = [
   [], ''[client]'', ''socket    = /data/GreatSQL/mysql.sock'', ''[mysql]'',
   ''loose-skip-binary-as-hex'',
   ''prompt = '' @ [CHR 0x22] @ ''('' @ [CHR 0x5C, CHR 0x5C] @ ''D)['' @ [CHR 0x5C, CHR 0x5C] @
     ''u@GreatSQL]['' @ [CHR 0x5C, CHR 0x5C] @ ''d]>'' @ [CHR 0x22], ''no-auto-rehash'',
   ''[mysqld]'', ''user    = mysql'', ''port    = 3306'']"

definition cnf_base :: "string list" where
  "cnf_base = [
   ''basedir = /usr/'', ''datadir    = /data/GreatSQL'', ''socket    = /data/GreatSQL/mysql.sock'',
   ''pid-file = mysql.pid'', ''character-set-server = UTF8MB4'', ''skip_name_resolve = 1'',
   ''# '' @ [CHR 0xE8, CHR 0x8B, CHR 0xA5, CHR 0xE6, CHR 0x95, CHR 0xB0, CHR 0xE6, CHR 0x8D,
     CHR 0xAE, CHR 0xE5, CHR 0xBA, CHR 0x93, CHR 0xE4, CHR 0xB8, CHR 0xBB, CHR 0xE8, CHR 0xA6,
     CHR 0x81, CHR 0xE8, CHR 0xBF, CHR 0x90, CHR 0xE8, CHR 0xA1, CHR 0x8C, CHR 0xE5, CHR 0x9C,
     CHR 0xA8, CHR 0xE5, CHR 0xA2, CHR 0x83, CHR 0xE5, CHR 0xA4, CHR 0x96, CHR 0xEF, CHR 0xBC,
     CHR 0x8C, CHR 0xE8, CHR 0xAF, CHR 0xB7, CHR 0xE5, CHR 0x8A, CHR 0xA1, CHR 0xE5, CHR 0xBF,
     CHR 0x85, CHR 0xE6, CHR 0xA0, CHR 0xB9, CHR 0xE6, CHR 0x8D, CHR 0xAE, CHR 0xE5, CHR 0xAE,
     CHR 0x9E, CHR 0xE9, CHR 0x99, CHR 0x85, CHR 0xE6, CHR 0x83, CHR 0x85, CHR 0xE5, CHR 0x86,
     CHR 0xB5, CHR 0xE8, CHR 0xB0, CHR 0x83, CHR 0xE6, CHR 0x95, CHR 0xB4, CHR 0xE6, CHR 0x9C,
     CHR 0xAC, CHR 0xE5, CHR 0x8F, CHR 0x82, CHR 0xE6, CHR 0x95, CHR 0xB0],
   ''default_time_zone = '' @ [CHR 0x22] @ ''+8:00'' @ [CHR 0x22],
   ''bind_address = '' @ [CHR 0x22] @ ''0.0.0.0'' @ [CHR 0x22], [], ''# performance setttings'',
   ''lock_wait_timeout = 3600'', ''open_files_limit    = 65535'', ''back_log = 1024'',
   ''max_connections = 1024'', ''max_connect_errors = 1000000'', ''table_open_cache = 2048'',
   ''table_definition_cache = 2048'', ''thread_stack = 512K'', ''sort_buffer_size = 4M'',
   ''join_buffer_size = 4M'', ''read_buffer_size = 8M'', ''read_rnd_buffer_size = 4M'',
   ''bulk_insert_buffer_size = 64M'', ''thread_cache_size = 768'', ''interactive_timeout = 600'',
   ''wait_timeout = 600'', ''tmp_table_size = 96M'', ''max_heap_table_size = 96M'',
   ''max_allowed_packet = 64M'', ''net_buffer_shrink_interval = 180'', ''# GIPK'',
   ''loose-sql_generate_invisible_primary_key = ON'', [], ''# log settings'',
   ''log_timestamps = SYSTEM'', ''log_error = /data/GreatSQL/error.log'',
   ''log_error_verbosity = 3'', ''slow_query_log = 1'', ''log_slow_extra = 1'',
   ''slow_query_log_file = /data/GreatSQL/slow.log'',
   ''# '' @ [CHR 0xE8, CHR 0xAE, CHR 0xBE, CHR 0xE7, CHR 0xBD, CHR 0xAE] @ ''slow log'' @
     [CHR 0xE6, CHR 0x96, CHR 0x87, CHR 0xE4, CHR 0xBB, CHR 0xB6, CHR 0xE5, CHR 0xA4, CHR 0xA7,
     CHR 0xE5, CHR 0xB0, CHR 0x8F] @ ''1G'' @ [CHR 0xE5, CHR 0x8F, CHR 0x8A, CHR 0xE6, CHR 0x80,
     CHR 0xBB, CHR 0xE6, CHR 0x96, CHR 0x87, CHR 0xE4, CHR 0xBB, CHR 0xB6, CHR 0xE6, CHR 0x95,
     CHR 0xB0] @ ''10'', ''max_slowlog_size = 1073741824'', ''max_slowlog_files = 10'',
   ''long_query_time = 0.01'', ''log_queries_not_using_indexes = 1'',
   ''log_throttle_queries_not_using_indexes = 60'', ''min_examined_row_limit = 100'',
   ''log_slow_admin_statements = 1'', ''log_slow_slave_statements = 1'',
   ''log_slow_verbosity = FULL'', ''log_bin = /data/GreatSQL/binlog'', ''binlog_format = ROW'',
   ''sync_binlog = 1'', ''binlog_cache_size = 4M'', ''max_binlog_cache_size = 6G'',
   ''max_binlog_size = 1G'',
   ''# '' @ [CHR 0xE6, CHR 0x8E, CHR 0xA7, CHR 0xE5, CHR 0x88, CHR 0xB6] @ ''binlog'' @
     [CHR 0xE6, CHR 0x80, CHR 0xBB, CHR 0xE5, CHR 0xA4, CHR 0xA7, CHR 0xE5, CHR 0xB0, CHR 0x8F,
     CHR 0xEF, CHR 0xBC, CHR 0x8C, CHR 0xE9, CHR 0x81, CHR 0xBF, CHR 0xE5, CHR 0x85, CHR 0x8D,
     CHR 0xE7, CHR 0xA3, CHR 0x81, CHR 0xE7, CHR 0x9B, CHR 0x98, CHR 0xE7, CHR 0xA9, CHR 0xBA,
     CHR 0xE9, CHR 0x97, CHR 0xB4, CHR 0xE8, CHR 0xA2, CHR 0xAB, CHR 0xE6, CHR 0x92, CHR 0x91,
     CHR 0xE7, CHR 0x88, CHR 0x86], ''binlog_space_limit = 500G'',
   ''binlog_rows_query_log_events = 1'', ''binlog_expire_logs_seconds = 604800'',
   ''binlog_checksum = CRC32'', ''gtid_mode = ON'', ''enforce_gtid_consistency = TRUE'', [],
   ''# myisam settings'', ''key_buffer_size = 32M'', ''myisam_sort_buffer_size = 128M'', [],
   ''# replication settings'', ''relay_log_recovery = 1'', ''slave_parallel_type = LOGICAL_CLOCK'',
   ''# '' @ [CHR 0xE5, CHR 0xB9, CHR 0xB6, CHR 0xE8, CHR 0xA1, CHR 0x8C, CHR 0xE5, CHR 0xA4,
     CHR 0x8D, CHR 0xE5, CHR 0x88, CHR 0xB6, CHR 0xE7, CHR 0xBA, CHR 0xBF, CHR 0xE7, CHR 0xA8,
     CHR 0x8B, CHR 0xE6, CHR 0x95, CHR 0xB0, CHR 0xE5, CHR 0x8F, CHR 0xAF, CHR 0xE4, CHR 0xBB,
     CHR 0xA5, CHR 0xE8, CHR 0xAE, CHR 0xBE, CHR 0xE7, CHR 0xBD, CHR 0xAE, CHR 0xE4, CHR 0xB8,
     CHR 0xBA, CHR 0xE9, CHR 0x80, CHR 0xBB, CHR 0xE8, CHR 0xBE, CHR 0x91] @ ''CPU'' @
     [CHR 0xE6, CHR 0x95, CHR 0xB0, CHR 0xE9, CHR 0x87, CHR 0x8F, CHR 0xE7, CHR 0x9A, CHR 0x84] @
     ''2'' @ [CHR 0xE5, CHR 0x80, CHR 0x8D], ''slave_parallel_workers = 64'',
   ''binlog_transaction_dependency_tracking = WRITESET'', ''slave_preserve_commit_order = 1'',
   ''slave_checkpoint_period = 2'', [],
   ''# '' @ [CHR 0xE5, CHR 0x90, CHR 0xAF, CHR 0xE7, CHR 0x94, CHR 0xA8] @ ''InnoDB'' @
     [CHR 0xE5, CHR 0xB9, CHR 0xB6, CHR 0xE8, CHR 0xA1, CHR 0x8C, CHR 0xE6, CHR 0x9F, CHR 0xA5,
     CHR 0xE8, CHR 0xAF, CHR 0xA2, CHR 0xE4, CHR 0xBC, CHR 0x98, CHR 0xE5, CHR 0x8C, CHR 0x96,
     CHR 0xE5, CHR 0x8A, CHR 0x9F, CHR 0xE8, CHR 0x83, CHR 0xBD],
   ''loose-force_parallel_execute = OFF'',
   ''# '' @ [CHR 0xE8, CHR 0xAE, CHR 0xBE, CHR 0xE7, CHR 0xBD, CHR 0xAE, CHR 0xE6, CHR 0xAF,
     CHR 0x8F, CHR 0xE4, CHR 0xB8, CHR 0xAA] @ ''SQL'' @ [CHR 0xE8, CHR 0xAF, CHR 0xAD,
     CHR 0xE5, CHR 0x8F, CHR 0xA5, CHR 0xE7, CHR 0x9A, CHR 0x84, CHR 0xE5, CHR 0xB9, CHR 0xB6,
     CHR 0xE8, CHR 0xA1, CHR 0x8C, CHR 0xE6, CHR 0x9F, CHR 0xA5, CHR 0xE8, CHR 0xAF, CHR 0xA2,
     CHR 0xE6, CHR 0x9C, CHR 0x80, CHR 0xE5, CHR 0xA4, CHR 0xA7, CHR 0xE5, CHR 0xB9, CHR 0xB6,
     CHR 0xE5, CHR 0x8F, CHR 0x91, CHR 0xE5, CHR 0xBA, CHR 0xA6],
   ''loose-parallel_default_dop = 8'',
   ''# '' @ [CHR 0xE8, CHR 0xAE, CHR 0xBE, CHR 0xE7, CHR 0xBD, CHR 0xAE, CHR 0xE7, CHR 0xB3,
     CHR 0xBB, CHR 0xE7, CHR 0xBB, CHR 0x9F, CHR 0xE4, CHR 0xB8, CHR 0xAD, CHR 0xE6, CHR 0x80,
     CHR 0xBB, CHR 0xE7, CHR 0x9A, CHR 0x84, CHR 0xE5, CHR 0xB9, CHR 0xB6, CHR 0xE8, CHR 0xA1,
     CHR 0x8C, CHR 0xE6, CHR 0x9F, CHR 0xA5, CHR 0xE8, CHR 0xAF, CHR 0xA2, CHR 0xE7, CHR 0xBA,
     CHR 0xBF, CHR 0xE7, CHR 0xA8, CHR 0x8B, CHR 0xE6, CHR 0x95, CHR 0xB0, CHR 0xEF, CHR 0xBC,
     CHR 0x8C, CHR 0xE5, CHR 0x8F, CHR 0xAF, CHR 0xE4, CHR 0xBB, CHR 0xA5, CHR 0xE5, CHR 0x92,
     CHR 0x8C, CHR 0xE6, CHR 0x9C, CHR 0x80, CHR 0xE5, CHR 0xA4, CHR 0xA7, CHR 0xE9, CHR 0x80,
     CHR 0xBB, CHR 0xE8, CHR 0xBE, CHR 0x91] @ ''CPU'' @ [CHR 0xE6, CHR 0x95, CHR 0xB0,
     CHR 0xE9, CHR 0x87, CHR 0x8F, CHR 0xE4, CHR 0xB8, CHR 0x80, CHR 0xE6, CHR 0xA0, CHR 0xB7],
   ''loose-parallel_max_threads = 64'',
   ''# '' @ [CHR 0xE5, CHR 0xB9, CHR 0xB6, CHR 0xE8, CHR 0xA1, CHR 0x8C, CHR 0xE6, CHR 0x89,
     CHR 0xA7, CHR 0xE8, CHR 0xA1, CHR 0x8C, CHR 0xE6, CHR 0x97, CHR 0xB6] @ ''leader'' @
     [CHR 0xE7, CHR 0xBA, CHR 0xBF, CHR 0xE7, CHR 0xA8, CHR 0x8B, CHR 0xE5, CHR 0x92, CHR 0x8C] @
     ''worker'' @ [CHR 0xE7, CHR 0xBA, CHR 0xBF, CHR 0xE7, CHR 0xA8, CHR 0x8B, CHR 0xE4,
     CHR 0xBD, CHR 0xBF, CHR 0xE7, CHR 0x94, CHR 0xA8, CHR 0xE7, CHR 0x9A, CHR 0x84, CHR 0xE6,
     CHR 0x80, CHR 0xBB, CHR 0xE5, CHR 0x86, CHR 0x85, CHR 0xE5, CHR 0xAD, CHR 0x98, CHR 0xE5,
     CHR 0xA4, CHR 0xA7, CHR 0xE5, CHR 0xB0, CHR 0x8F, CHR 0xE4, CHR 0xB8, CHR 0x8A, CHR 0xE9,
     CHR 0x99, CHR 0x90, CHR 0xEF, CHR 0xBC, CHR 0x8C, CHR 0xE5, CHR 0x8F, CHR 0xAF, CHR 0xE4,
     CHR 0xBB, CHR 0xA5, CHR 0xE8, CHR 0xAE, CHR 0xBE, CHR 0xE7, CHR 0xBD, CHR 0xAE, CHR 0xE7,
     CHR 0x89, CHR 0xA9, CHR 0xE7, CHR 0x90, CHR 0x86, CHR 0xE5, CHR 0x86, CHR 0x85, CHR 0xE5,
     CHR 0xAD, CHR 0x98, CHR 0xE7, CHR 0x9A, CHR 0x84] @ ''5-10%'' @ [CHR 0xE5, CHR 0xB7,
     CHR 0xA6, CHR 0xE5, CHR 0x8F, CHR 0xB3], ''loose-parallel_memory_limit = 2G'', [],
   ''# parallel load data'', ''loose-gdb_parallel_load_chunk_size = 4M'', [], ''# rapid engine'',
   ''loose-rapid_memory_limit = 12G'', ''loose-rapid_worker_threads = 32'',
   ''loose-rapid_hash_table_memory_limit = 30'',
   ''loose-secondary_engine_parallel_load_workers = 16'', []]"

definition cnf_mgr_plugins :: "string list" where
  "cnf_mgr_plugins = [
   [], ''# mgr settings'',
   ''loose-plugin_load_add = '' @ [CHR 0x27] @ ''mysql_clone.so'' @ [CHR 0x27],
   ''loose-plugin_load_add = '' @ [CHR 0x27] @ ''group_replication.so'' @ [CHR 0x27]]"

definition cnf_mgr_local :: "string list" where
  "cnf_mgr_local = [
   ''# MGR'' @ [CHR 0xE6, CHR 0x9C, CHR 0xAC, CHR 0xE5, CHR 0x9C, CHR 0xB0, CHR 0xE8, CHR 0x8A,
     CHR 0x82, CHR 0xE7, CHR 0x82, CHR 0xB9] @ ''IP:PORT'']"

definition cnf_mgr_seeds :: "string list" where
  "cnf_mgr_seeds = [
   ''# MGR'' @ [CHR 0xE9, CHR 0x9B, CHR 0x86, CHR 0xE7, CHR 0xBE, CHR 0xA4, CHR 0xE6, CHR 0x89,
     CHR 0x80, CHR 0xE6, CHR 0x9C, CHR 0x89, CHR 0xE8, CHR 0x8A, CHR 0x82, CHR 0xE7, CHR 0x82,
     CHR 0xB9] @ ''IP:PORT'']"

definition cnf_mgr_options :: "string list" where
  "cnf_mgr_options = [
   ''loose-group_replication_start_on_boot = ON'',
   ''loose-group_replication_bootstrap_group = OFF'',
   ''loose-group_replication_exit_state_action = READ_ONLY'',
   ''loose-group_replication_flow_control_mode = '' @ [CHR 0x22] @ ''DISABLED'' @ [CHR 0x22],
   ''loose-group_replication_single_primary_mode = ON'',
   ''loose-group_replication_enforce_update_everywhere_checks=0'',
   ''loose-group_replication_majority_after_mode = ON'',
   ''loose-group_replication_communication_max_message_size = 10M'',
   ''loose-group_replication_arbitrator = 0'',
   ''loose-group_replication_single_primary_fast_mode = 1'',
   ''loose-group_replication_request_time_threshold = 100'',
   ''loose-group_replication_primary_election_mode = GTID_FIRST'',
   ''loose-group_replication_unreachable_majority_timeout = 0'',
   ''loose-group_replication_member_expel_timeout = 5'',
   ''loose-group_replication_autorejoin_tries = 288'',
   ''loose-group_replication_recovery_get_public_key = ON'']"

definition cnf_mgr_tail :: "string list" where
  "cnf_mgr_tail = [
   [],
   ''# MGR'' @ [CHR 0xE5, CHR 0x88, CHR 0x87, CHR 0xE4, CHR 0xB8, CHR 0xBB, CHR 0xE5, CHR 0x90,
     CHR 0x8E, CHR 0xE6, CHR 0x98, CHR 0xAF, CHR 0xE5, CHR 0x90, CHR 0xA6, CHR 0xE6, CHR 0x96,
     CHR 0xAD, CHR 0xE5, CHR 0xBC, CHR 0x80, CHR 0xE6, CHR 0x97, CHR 0xA7] @ ''Priamry'' @
     [CHR 0xE8, CHR 0x8A, CHR 0x82, CHR 0xE7, CHR 0x82, CHR 0xB9, CHR 0xE4, CHR 0xB8, CHR 0x8A,
     CHR 0xE7, CHR 0x9A, CHR 0x84, CHR 0xE6, CHR 0x89, CHR 0x80, CHR 0xE6, CHR 0x9C, CHR 0x89,
     CHR 0xE5, CHR 0xBA, CHR 0x94, CHR 0xE7, CHR 0x94, CHR 0xA8, CHR 0xE8, CHR 0xBF, CHR 0x9E,
     CHR 0xE6, CHR 0x8E, CHR 0xA5], ''loose-greatdb_ha_mgr_exit_primary_kill_connection_mode = 0'']"

definition cnf_innodb :: "string list" where
  "cnf_innodb = [
   ''# innodb settings'']"

definition cnf_tail :: "string list" where
  "cnf_tail = [
   ''innodb_buffer_pool_instances = 8'', ''innodb_data_file_path = ibdata1:12M:autoextend'',
   ''innodb_flush_log_at_trx_commit = 1'', ''innodb_log_buffer_size = 32M'',
   ''innodb_log_file_size = 2G'', ''innodb_log_files_in_group = 3'',
   ''innodb_redo_log_capacity = 6G'', ''innodb_doublewrite_files = 2'',
   ''innodb_max_undo_log_size = 4G'',
   ''# '' @ [CHR 0xE6, CHR 0xA0, CHR 0xB9, CHR 0xE6, CHR 0x8D, CHR 0xAE, CHR 0xE6, CHR 0x82,
     CHR 0xA8, CHR 0xE7, CHR 0x9A, CHR 0x84, CHR 0xE6, CHR 0x9C, CHR 0x8D, CHR 0xE5, CHR 0x8A,
     CHR 0xA1, CHR 0xE5, CHR 0x99, CHR 0xA8] @ ''IOPS'' @ [CHR 0xE8, CHR 0x83, CHR 0xBD,
     CHR 0xE5, CHR 0x8A, CHR 0x9B, CHR 0xE9, CHR 0x80, CHR 0x82, CHR 0xE5, CHR 0xBD, CHR 0x93,
     CHR 0xE8, CHR 0xB0, CHR 0x83, CHR 0xE6, CHR 0x95, CHR 0xB4],
   ''# '' @ [CHR 0xE4, CHR 0xB8, CHR 0x80, CHR 0xE8, CHR 0x88, CHR 0xAC, CHR 0xE9, CHR 0x85,
     CHR 0x8D, CHR 0xE6, CHR 0x99, CHR 0xAE, CHR 0xE9, CHR 0x80, CHR 0x9A] @ ''SSD'' @
     [CHR 0xE7, CHR 0x9B, CHR 0x98, CHR 0xE7, CHR 0x9A, CHR 0x84, CHR 0xE8, CHR 0xAF, CHR 0x9D,
     CHR 0xEF, CHR 0xBC, CHR 0x8C, CHR 0xE5, CHR 0x8F, CHR 0xAF, CHR 0xE4, CHR 0xBB, CHR 0xA5,
     CHR 0xE8, CHR 0xB0, CHR 0x83, CHR 0xE6, CHR 0x95, CHR 0xB4, CHR 0xE5, CHR 0x88, CHR 0xB0] @
     '' 10000 - 20000'',
   ''# '' @ [CHR 0xE9, CHR 0x85, CHR 0x8D, CHR 0xE7, CHR 0xBD, CHR 0xAE, CHR 0xE9, CHR 0xAB,
     CHR 0x98, CHR 0xE7, CHR 0xAB, CHR 0xAF] @ ''PCIe SSD'' @ [CHR 0xE5, CHR 0x8D, CHR 0xA1,
     CHR 0xE7, CHR 0x9A, CHR 0x84, CHR 0xE8, CHR 0xAF, CHR 0x9D, CHR 0xEF, CHR 0xBC, CHR 0x8C,
     CHR 0xE5, CHR 0x88, CHR 0x99, CHR 0xE5, CHR 0x8F, CHR 0xAF, CHR 0xE4, CHR 0xBB, CHR 0xA5,
     CHR 0xE8, CHR 0xB0, CHR 0x83, CHR 0xE6, CHR 0x95, CHR 0xB4, CHR 0xE7, CHR 0x9A, CHR 0x84,
     CHR 0xE6, CHR 0x9B, CHR 0xB4, CHR 0xE9, CHR 0xAB, CHR 0x98, CHR 0xEF, CHR 0xBC, CHR 0x8C,
     CHR 0xE6, CHR 0xAF, CHR 0x94, CHR 0xE5, CHR 0xA6, CHR 0x82] @ '' 50000 - 80000'',
   ''innodb_io_capacity = 4000'', ''innodb_io_capacity_max = 8000'', ''innodb_open_files = 65534'',
   ''# '' @ [CHR 0xE6, CHR 0x8F, CHR 0x90, CHR 0xE9, CHR 0x86, CHR 0x92, CHR 0xEF, CHR 0xBC,
     CHR 0x9A, CHR 0xE5, CHR 0xBD, CHR 0x93, CHR 0xE9, CHR 0x9C, CHR 0x80, CHR 0xE8, CHR 0xA6,
     CHR 0x81, CHR 0xE7, CHR 0x94, CHR 0xA8] @ ''CLONE'' @ [CHR 0xE5, CHR 0x8A, CHR 0xA0,
     CHR 0xE5, CHR 0xAF, CHR 0x86, CHR 0xE7, CHR 0x89, CHR 0xB9, CHR 0xE6, CHR 0x80, CHR 0xA7,
     CHR 0xE6, CHR 0x97, CHR 0xB6, CHR 0xEF, CHR 0xBC, CHR 0x8C, CHR 0xE4, CHR 0xB8, CHR 0x8D,
     CHR 0xE8, CHR 0xA6, CHR 0x81, CHR 0xE9, CHR 0x80, CHR 0x89, CHR 0xE7, CHR 0x94, CHR 0xA8] @
     ''O_DIRECT'' @ [CHR 0xE6, CHR 0xA8, CHR 0xA1, CHR 0xE5, CHR 0xBC, CHR 0x8F, CHR 0xEF,
     CHR 0xBC, CHR 0x8C, CHR 0xE5, CHR 0x90, CHR 0xA6, CHR 0xE5, CHR 0x88, CHR 0x99, CHR 0xE4,
     CHR 0xBC, CHR 0x9A, CHR 0xE6, CHR 0xAF, CHR 0x94, CHR 0xE8, CHR 0xBE, CHR 0x83, CHR 0xE6,
     CHR 0x85, CHR 0xA2], ''innodb_flush_method = O_DIRECT'', ''innodb_lru_scan_depth = 4000'',
   ''innodb_lock_wait_timeout = 10'', ''innodb_rollback_on_timeout = 1'',
   ''innodb_print_all_deadlocks = 1'', ''innodb_online_alter_log_max_size = 4G'',
   ''innodb_print_ddl_logs = 1'', ''innodb_status_file = 1'', ''innodb_status_output = 0'',
   ''innodb_status_output_locks = 1'', ''innodb_sort_buffer_size = 64M'',
   ''innodb_adaptive_hash_index = 0'',
   ''# '' @ [CHR 0xE5, CHR 0xBC, CHR 0x80, CHR 0xE5, CHR 0x90, CHR 0xAF] @ ''NUMA'' @ [CHR 0xE6,
     CHR 0x94, CHR 0xAF, CHR 0xE6, CHR 0x8C, CHR 0x81], ''innodb_numa_interleave = ON'',
   ''innodb_print_lock_wait_timeout_info = 1'',
   ''# '' @ [CHR 0xE8, CHR 0x87, CHR 0xAA, CHR 0xE5, CHR 0x8A, CHR 0xA8, CHR 0xE6, CHR 0x9D,
     CHR 0x80, CHR 0xE6, CHR 0x8E, CHR 0x89, CHR 0xE8, CHR 0xB6, CHR 0x85, CHR 0xE8, CHR 0xBF,
     CHR 0x87] @ ''5'' @ [CHR 0xE5, CHR 0x88, CHR 0x86, CHR 0xE9, CHR 0x92, CHR 0x9F, CHR 0xE4,
     CHR 0xB8, CHR 0x8D, CHR 0xE6, CHR 0xB4, CHR 0xBB, CHR 0xE8, CHR 0xB7, CHR 0x83, CHR 0xE4,
     CHR 0xBA, CHR 0x8B, CHR 0xE5, CHR 0x8A, CHR 0xA1, CHR 0xEF, CHR 0xBC, CHR 0x8C, CHR 0xE9,
     CHR 0x81, CHR 0xBF, CHR 0xE5, CHR 0x85, CHR 0x8D, CHR 0xE8, CHR 0xA1, CHR 0x8C, CHR 0xE9,
     CHR 0x94, CHR 0x81, CHR 0xE8, CHR 0xA2, CHR 0xAB, CHR 0xE9, CHR 0x95, CHR 0xBF, CHR 0xE6,
     CHR 0x97, CHR 0xB6, CHR 0xE9, CHR 0x97, CHR 0xB4, CHR 0xE6, CHR 0x8C, CHR 0x81, CHR 0xE6,
     CHR 0x9C, CHR 0x89], ''kill_idle_transaction = 300'',
   ''# '' @ [CHR 0xE5, CHR 0xBC, CHR 0x82, CHR 0xE6, CHR 0xAD, CHR 0xA5, CHR 0xE6, CHR 0xB8,
     CHR 0x85, CHR 0xE7, CHR 0x90, CHR 0x86, CHR 0xE5, CHR 0xA4, CHR 0xA7, CHR 0xE8, CHR 0xA1,
     CHR 0xA8], ''innodb_data_file_async_purge = ON'', [], ''# innodb monitor settings'',
   ''#innodb_monitor_enable = '' @ [CHR 0x22] @
     ''module_innodb,module_server,module_dml,module_ddl,module_trx,module_os'' @
     '',module_purge,module_log,module_lock,module_buffer,module_index,module'' @
     ''_ibuf_system,module_buffer_page,module_adaptive_hash'' @ [CHR 0x22], [], ''# pfs settings'',
   ''performance_schema = 1'',
   ''performance_schema_instrument = '' @ [CHR 0x27] @ ''%lock%=on'' @ [CHR 0x27]]"

definition my_cnf_tmpl :: "tmpl_node list" where
  "my_cnf_tmpl =
    [TText (text_lines cnf_head @ ''server_id = ''), TField ''ServerID'',
     TText (newline # text_lines cnf_base),
     TIf ''EnableCluster''
      [TText (text_lines cnf_mgr_plugins @ ''loose-group_replication_group_name = ''),
       TField ''GroupReplicationGroupName'',
       TText (newline # text_lines cnf_mgr_local @ ''loose-group_replication_local_address = ''),
       TField ''GroupReplicationLocalAddress'',
       TText (newline # text_lines cnf_mgr_seeds @ ''loose-group_replication_group_seeds = ''),
       TField ''GroupReplicationGroupSeeds'',
       TText (newline # text_lines cnf_mgr_options @ ''report_host = ''), TField ''ReportHost'',
       TText (newline # ''report_port = ''), TField ''ReportPort'',
       TText (newline # text_lines cnf_mgr_tail)],
     TText (text_lines cnf_innodb @ ''innodb_buffer_pool_size = ''), TField ''InnodbBufferPoolSize'',
     TText (newline # text_lines cnf_tail)]"

section \<open>config.go\<close>

record MySQLConfig =
  ServerID :: string
  EnableCluster :: bool
  GroupReplicationGroupName :: string
  GroupReplicationLocalAddress :: string
  GroupReplicationGroupSeeds :: string
  ReportHost :: string
  ReportPort :: int64
  InnodbBufferPoolSize :: string

definition zero_MySQLConfig :: MySQLConfig where
  "zero_MySQLConfig = \<lparr>ServerID = [], EnableCluster = False, GroupReplicationGroupName = [],
     GroupReplicationLocalAddress = [], GroupReplicationGroupSeeds = [], ReportHost = [],
     ReportPort = 0, InnodbBufferPoolSize = []\<rparr>"

definition MySQLConfig_field :: "MySQLConfig \<Rightarrow> string \<Rightarrow> tmpl_value option" where
  "MySQLConfig_field c = map_of
    [(''ServerID'', VString (ServerID c)), (''EnableCluster'', VBool (EnableCluster c)),
     (''GroupReplicationGroupName'', VString (GroupReplicationGroupName c)),
     (''GroupReplicationLocalAddress'', VString (GroupReplicationLocalAddress c)),
     (''GroupReplicationGroupSeeds'', VString (GroupReplicationGroupSeeds c)),
     (''ReportHost'', VString (ReportHost c)), (''ReportPort'', VInt (ReportPort c)),
     (''InnodbBufferPoolSize'', VString (InnodbBufferPoolSize c))]"

definition wrap_error :: "string \<Rightarrow> 'a res \<Rightarrow> 'a res" where
  "wrap_error prefix r = (case r of Inl (Returned e) \<Rightarrow> Inl (Returned (Errorf prefix e)) | _ \<Rightarrow> r)"

text \<open>\<open>String\<close> copies its argument into the receiver and renders that.\<close>

definition MySQLConfig_String :: "MySQLConfig \<Rightarrow> MySQLConfig \<Rightarrow> string res \<times> MySQLConfig" where
  "MySQLConfig_String c cnf =
     (let c = c\<lparr>ServerID := ServerID cnf, EnableCluster := EnableCluster cnf,
            GroupReplicationGroupName := GroupReplicationGroupName cnf,
            GroupReplicationLocalAddress := GroupReplicationLocalAddress cnf,
            GroupReplicationGroupSeeds := GroupReplicationGroupSeeds cnf,
            ReportHost := ReportHost cnf, ReportPort := ReportPort cnf,
            InnodbBufferPoolSize := InnodbBufferPoolSize cnf\<rparr>
      in (wrap_error ''failed to render template: '' (tmpl_Execute (MySQLConfig_field c) my_cnf_tmpl), c))"

text \<open>The operating system's file operations, over an arbitrary file system \<open>'f\<close>.\<close>

record 'f os =
  os_Create :: "string \<Rightarrow> 'f \<Rightarrow> go_error option \<times> 'f"
  os_WriteString :: "string \<Rightarrow> 'f \<Rightarrow> go_error option \<times> 'f"
  os_Close :: "'f \<Rightarrow> go_error option \<times> 'f"

text \<open>
  \<open>File\<close>: the deferred function assigns the error of \<open>Close\<close> to a local variable after the
  result is fixed, so \<open>Close\<close> runs but its error is lost.
\<close>

definition MySQLConfig_File :: "'f os \<Rightarrow> MySQLConfig \<Rightarrow> MySQLConfig \<Rightarrow> ('f, unit) op" where
  "MySQLConfig_File os c cnf = (\<lambda>f.
     case fst (MySQLConfig_String c cnf) of
       Inl e \<Rightarrow> (Inl e, f)
     | Inr config \<Rightarrow>
        (case os_Create os ''/tmp/my.cnf'' f of
          (Some e, f') \<Rightarrow> (Inl (Returned (Errorf ''failed to create file: '' e)), f')
        | (None, f') \<Rightarrow>
           (case os_WriteString os config f' of (err, f'') \<Rightarrow>
             ((case err of
                Some e \<Rightarrow> Inl (Returned (Errorf ''failed to write config: '' e))
              | None \<Rightarrow> Inr ()), snd (os_Close os f'')))))"

section \<open>Reading the rendered file\<close>

fun file_lines :: "string \<Rightarrow> string list" where
  "file_lines [] = []"
| "file_lines (c # s) =
     (if c = newline then [] # file_lines s
      else case file_lines s of [] \<Rightarrow> [[c]] | l # ls \<Rightarrow> (c # l) # ls)"

text \<open>The values of the lines \<open>key = value\<close> of a file.\<close>

definition settings :: "string \<Rightarrow> string list \<Rightarrow> string list" where
  "settings key ls = List.map_filter (strip_prefix (key @ '' = '')) ls"

definition one_line :: "string \<Rightarrow> bool" where
  "one_line s \<longleftrightarrow> list_all (\<lambda>c. c \<noteq> newline) s"

definition my_cnf_lines :: "MySQLConfig \<Rightarrow> string list" where
  "my_cnf_lines c = cnf_head @ (''server_id = '' @ ServerID c) # cnf_base
     @ (if EnableCluster c then
          cnf_mgr_plugins @ (''loose-group_replication_group_name = '' @ GroupReplicationGroupName c)
          # cnf_mgr_local @ (''loose-group_replication_local_address = '' @ GroupReplicationLocalAddress c)
          # cnf_mgr_seeds @ (''loose-group_replication_group_seeds = '' @ GroupReplicationGroupSeeds c)
          # cnf_mgr_options @ (''report_host = '' @ ReportHost c)
          # (''report_port = '' @ Itoa (ReportPort c)) # cnf_mgr_tail
        else [])
     @ cnf_innodb @ (''innodb_buffer_pool_size = '' @ InnodbBufferPoolSize c) # cnf_tail"

lemma text_lines_simps [simp]:
  "text_lines [] = []"
  "text_lines (l # ls) = l @ newline # text_lines ls"
  "text_lines (ls @ ls') = text_lines ls @ text_lines ls'"
  by (simp_all add: text_lines_def)

lemma MySQLConfig_String_lines:
  "MySQLConfig_String c cnf = (Inr (text_lines (my_cnf_lines cnf)), cnf)"
  by (simp add: MySQLConfig_String_def Let_def my_cnf_tmpl_def my_cnf_lines_def tmpl_field_def
      MySQLConfig_field_def wrap_error_def)

lemma file_lines_one: "one_line l \<Longrightarrow> file_lines (l @ newline # s) = l # file_lines s"
  by (induction l) (simp_all add: one_line_def)

lemma file_lines_text_lines: "list_all one_line ls \<Longrightarrow> file_lines (text_lines ls) = ls"
  by (induction ls) (simp_all add: file_lines_one)

lemma settings_simps [simp]:
  "settings k [] = []"
  "settings k (ls @ ls') = settings k ls @ settings k ls'"
  "settings k (l # ls) = (case strip_prefix (k @ '' = '') l of
     None \<Rightarrow> settings k ls | Some v \<Rightarrow> v # settings k ls)"
  by (simp_all add: settings_def List.map_filter_def split: option.split)

lemma cnf_one_line:
  "list_all one_line cnf_head" "list_all one_line cnf_base" "list_all one_line cnf_mgr_plugins"
  "list_all one_line cnf_mgr_local" "list_all one_line cnf_mgr_seeds"
  "list_all one_line cnf_mgr_options" "list_all one_line cnf_mgr_tail"
  "list_all one_line cnf_innodb" "list_all one_line cnf_tail"
  by (simp_all add: one_line_def newline_def cnf_head_def cnf_base_def cnf_mgr_plugins_def
      cnf_mgr_local_def cnf_mgr_seeds_def cnf_mgr_options_def cnf_mgr_tail_def cnf_innodb_def cnf_tail_def)

lemmas cnf_texts = cnf_head_def cnf_base_def cnf_mgr_plugins_def cnf_mgr_local_def cnf_mgr_seeds_def
  cnf_mgr_options_def cnf_mgr_tail_def cnf_innodb_def cnf_tail_def

text \<open>The options that are filled in occur nowhere in the text of the template.\<close>

definition cnf_keys :: "string list" where
  "cnf_keys = [''server_id'', ''innodb_buffer_pool_size'', ''loose-group_replication_group_name'',
     ''loose-group_replication_local_address'', ''loose-group_replication_group_seeds'',
     ''report_host'', ''report_port'']"

definition static_line :: "string \<Rightarrow> bool" where
  "static_line l \<longleftrightarrow> list_all (\<lambda>k. strip_prefix (k @ '' = '') l = None) cnf_keys"

lemma cnf_static_lines:
  "list_all static_line cnf_head" "list_all static_line cnf_base" "list_all static_line cnf_mgr_plugins"
  "list_all static_line cnf_mgr_local" "list_all static_line cnf_mgr_seeds"
  "list_all static_line cnf_mgr_options" "list_all static_line cnf_mgr_tail"
  "list_all static_line cnf_innodb" "list_all static_line cnf_tail"
  by (simp_all add: static_line_def cnf_keys_def cnf_texts)

lemma settings_static:
  assumes "list_all static_line ls" and "k \<in> set cnf_keys"
  shows "settings k ls = []"
  using assms by (induction ls) (auto simp: static_line_def list_all_iff)

lemma settings_lines:
  assumes "k \<in> set cnf_keys"
  shows "settings k (my_cnf_lines c) =
    settings k [''server_id'' @ '' = '' @ ServerID c]
    @ (if EnableCluster c then
         settings k [''loose-group_replication_group_name = '' @ GroupReplicationGroupName c,
           ''loose-group_replication_local_address = '' @ GroupReplicationLocalAddress c,
           ''loose-group_replication_group_seeds = '' @ GroupReplicationGroupSeeds c,
           ''report_host = '' @ ReportHost c, ''report_port = '' @ Itoa (ReportPort c)] else [])
    @ settings k [''innodb_buffer_pool_size = '' @ InnodbBufferPoolSize c]"
  using cnf_static_lines [THEN settings_static, OF assms]
  by (simp add: my_cnf_lines_def split: option.split)

lemma one_line_simps [simp]:
  "one_line []" "one_line (c # s) \<longleftrightarrow> c \<noteq> newline \<and> one_line s" "one_line (s @ t) \<longleftrightarrow> one_line s \<and> one_line t"
  by (auto simp: one_line_def)

lemma fmt_nat_one_line [simp]: "one_line (fmt_nat n)"
  unfolding one_line_def using fmt_nat_digits [of n]
  by (rule list.pred_mono_strong) (auto simp: is_digit_def newline_def)

lemma Itoa_one_line [simp]: "one_line (Itoa (n :: 'a::len word))"
  by (simp add: Itoa_def fmt_int_def newline_def)

lemma my_cnf_one_line:
  assumes "list_all one_line [ServerID c, GroupReplicationGroupName c, GroupReplicationLocalAddress c,
    GroupReplicationGroupSeeds c, ReportHost c, InnodbBufferPoolSize c]"
  shows "list_all one_line (my_cnf_lines c)"
  using assms by (simp add: my_cnf_lines_def cnf_one_line newline_def)

section \<open>Properties\<close>

lemma String_readback:
  assumes "list_all one_line [ServerID cnf, GroupReplicationGroupName cnf,
    GroupReplicationLocalAddress cnf, GroupReplicationGroupSeeds cnf, ReportHost cnf,
    InnodbBufferPoolSize cnf]"
  shows "\<exists>s. MySQLConfig_String c cnf = (Inr s, cnf)
    \<and> settings ''server_id'' (file_lines s) = [ServerID cnf]
    \<and> settings ''innodb_buffer_pool_size'' (file_lines s) = [InnodbBufferPoolSize cnf]
    \<and> map (\<lambda>k. settings k (file_lines s))
        [''loose-group_replication_group_name'', ''loose-group_replication_local_address'',
         ''loose-group_replication_group_seeds'', ''report_host'', ''report_port'']
      = (if EnableCluster cnf
         then [[GroupReplicationGroupName cnf], [GroupReplicationLocalAddress cnf],
           [GroupReplicationGroupSeeds cnf], [ReportHost cnf], [Itoa (ReportPort cnf)]]
         else [[], [], [], [], []])"
  using my_cnf_one_line [OF assms]
  by (simp add: MySQLConfig_String_lines file_lines_text_lines settings_lines cnf_keys_def)

text \<open>
  C21. \<open>String\<close> never fails, and reading the file it renders gives back what the configuration
  says, for values without a line break: the server id and the buffer pool size exactly once,
  and the group replication options and the report address exactly once when the cluster is
  enabled and not at all otherwise. The receiver ends up as a copy of the argument.
\<close>

theorem MySQLConfig_String_readback:
  assumes "list_all one_line [ServerID cnf, GroupReplicationGroupName cnf,
    GroupReplicationLocalAddress cnf, GroupReplicationGroupSeeds cnf, ReportHost cnf,
    InnodbBufferPoolSize cnf]"
  shows "\<exists>s. MySQLConfig_String c cnf = (Inr s, cnf)
    \<and> settings ''server_id'' (file_lines s) = [ServerID cnf]
    \<and> settings ''innodb_buffer_pool_size'' (file_lines s) = [InnodbBufferPoolSize cnf]
    \<and> map (\<lambda>k. settings k (file_lines s))
        [''loose-group_replication_group_name'', ''loose-group_replication_local_address'',
         ''loose-group_replication_group_seeds'', ''report_host'', ''report_port'']
      = (if EnableCluster cnf
         then [[GroupReplicationGroupName cnf], [GroupReplicationLocalAddress cnf],
           [GroupReplicationGroupSeeds cnf], [ReportHost cnf], [Itoa (ReportPort cnf)]]
         else [[], [], [], [], []])"
  by (rule String_readback [OF assms])

theorem MySQLConfig_String_readback_witness:
  "\<exists>s. fst (MySQLConfig_String zero_MySQLConfig (zero_MySQLConfig\<lparr>ServerID := ''1'', EnableCluster := True,
      ReportPort := 3306, InnodbBufferPoolSize := ''1536M''\<rparr>)) = Inr s
    \<and> settings ''server_id'' (file_lines s) = [''1'']
    \<and> settings ''innodb_buffer_pool_size'' (file_lines s) = [''1536M'']"
  using MySQLConfig_String_readback [of "zero_MySQLConfig\<lparr>ServerID := ''1'', EnableCluster := True,
      ReportPort := 3306, InnodbBufferPoolSize := ''1536M''\<rparr>" zero_MySQLConfig]
  by (auto simp: zero_MySQLConfig_def one_line_def newline_def)

text \<open>
  C37. \<open>File\<close> closes the file it created whether the write succeeds or not and reports an error
  exactly when creating or writing failed: a failing \<open>Close\<close> is not reported (the deferred
  assignment to \<open>err\<close> comes after the result is fixed).
\<close>

theorem MySQLConfig_File_closes:
  "case os_Create os ''/tmp/my.cnf'' f of
     (Some e, f') \<Rightarrow> MySQLConfig_File os c cnf f
       = (Inl (Returned (PlainError (''failed to create file: '' @ err_string e))), f')
   | (None, f') \<Rightarrow>
      (case os_WriteString os (text_lines (my_cnf_lines cnf)) f' of (err, f'') \<Rightarrow>
         snd (MySQLConfig_File os c cnf f) = snd (os_Close os f'')
         \<and> isl (fst (MySQLConfig_File os c cnf f)) = (\<exists>e. err = Some e))"
  by (auto simp: MySQLConfig_File_def MySQLConfig_String_lines Errorf_def split: prod.split option.split)

end
