(* ===== verification/Mysql.thy ===== *)
theory Mysql
  imports Consts GoStd "HOL-Library.Signed_Division"
begin

text \<open>
  \<open>internal/pkg/mysql/mysql.go\<close> and \<open>mysql_util.go\<close>. The package \<open>database/sql\<close> with its
  driver is a parameter over an arbitrary database \<open>'d\<close>; the calls made to it are logged in
  the state, which no operation reads.
\<close>

section \<open>mysql_util.go\<close>

text \<open>Go's \<open>/\<close> on \<open>int64\<close> truncates towards zero; \<open>*\<close> wraps around.\<close>

definition go_div :: "int64 \<Rightarrow> int64 \<Rightarrow> int64" where
  "go_div a b = word_of_int (sint a sdiv sint b)"

definition CalculateInnodbBufferPoolSize :: "int64 \<Rightarrow> string" where
  "CalculateInnodbBufferPoolSize memoryReq =
     (let innodbBufferPoolSize = go_div (memoryReq * 75) 100
      in Itoa (go_div innodbBufferPoolSize (1024 * 1024)) @ ''M'')"

section \<open>The database\<close>

type_synonym conn = nat

datatype db_call =
    CallOpen string
  | CallPing conn
  | CallExec conn string "string list"
  | CallQuery conn string
  | CallClose conn

record 'd driver =
  drv_Open :: "string \<Rightarrow> 'd \<Rightarrow> (go_error + conn) \<times> 'd"
  drv_Ping :: "conn \<Rightarrow> 'd \<Rightarrow> go_error option \<times> 'd"
  drv_Exec :: "conn \<Rightarrow> string \<Rightarrow> string list \<Rightarrow> 'd \<Rightarrow> go_error option \<times> 'd"
  drv_QueryRow :: "conn \<Rightarrow> string \<Rightarrow> 'd \<Rightarrow> (go_error + string) \<times> 'd"
  drv_Close :: "conn \<Rightarrow> 'd \<Rightarrow> go_error option \<times> 'd"

record 'd dbstate =
  database :: 'd
  calls :: "(db_call \<times> go_error option) list"
  printed :: "string list"

definition db_call :: "('d \<Rightarrow> 'r \<times> 'd) \<Rightarrow> db_call \<Rightarrow> ('r \<Rightarrow> go_error option) \<Rightarrow> ('d dbstate, 'r) op" where
  "db_call f c err = (\<lambda>s. case f (database s) of (r, d) \<Rightarrow>
     (Inr r, s\<lparr>database := d, calls := calls s @ [(c, err r)]\<rparr>))"

definition err_of :: "go_error + 'a \<Rightarrow> go_error option" where
  "err_of r = (case r of Inl e \<Rightarrow> Some e | Inr _ \<Rightarrow> None)"

definition db_Open where "db_Open drv dsn = db_call (drv_Open drv dsn) (CallOpen dsn) err_of"
definition db_Ping where "db_Ping drv c = db_call (drv_Ping drv c) (CallPing c) (\<lambda>e. e)"
definition db_Exec where "db_Exec drv c q args = db_call (drv_Exec drv c q args) (CallExec c q args) (\<lambda>e. e)"
definition db_QueryRow where "db_QueryRow drv c q = db_call (drv_QueryRow drv c q) (CallQuery c q) err_of"
definition db_Close where "db_Close drv c = db_call (drv_Close drv c) (CallClose c) (\<lambda>e. e)"

definition print_err :: "go_error option \<Rightarrow> ('d dbstate, unit) op" where
  "print_err err = (case err of
     Some e \<Rightarrow> modify (\<lambda>s. s\<lparr>printed := printed s @ [err_string e]\<rparr>) | None \<Rightarrow> ret ())"

text \<open>\<open>defer fin()\<close>: run after the body on every path; the body's result is the result.\<close>

definition defer_op :: "('s, unit) op \<Rightarrow> ('s, 'a) op \<Rightarrow> ('s, 'a) op" where
  "defer_op fin m = (\<lambda>s. case m s of (r, s') \<Rightarrow> (r, snd (fin s')))"

section \<open>mysql.go\<close>

record MySQL =
  my_UserName :: string
  my_Password :: string
  my_Host :: string
  my_Port :: int32
  my_DB :: string

definition NewClient ::
  "'d driver \<Rightarrow> string \<Rightarrow> string \<Rightarrow> string \<Rightarrow> string \<Rightarrow> int32 \<Rightarrow> ('d dbstate, conn) op" where
  "NewClient drv username password host db port =
     (let dsn = username @ '':'' @ password @ ''@tcp('' @ host @ '':'' @ Itoa port @ '')/'' @ db
            @ ''?charset=utf8mb4&parseTime=True&loc=Local''
      in
      andThen (db_Open drv dsn) (\<lambda>r. case r of
        Inl err \<Rightarrow> throw (Returned err)
      | Inr dbConn \<Rightarrow>
          andThen (db_Ping drv dbConn) (\<lambda>err. case err of
            Some err \<Rightarrow>
              andThen (db_Close drv dbConn) (\<lambda>closeErr. case closeErr of
                Some closeErr \<Rightarrow> throw (Returned (PlainError (
                    ''error verifying connection with database: '' @ err_string err
                    @ '', additionally failed to close connection: '' @ err_string closeErr)))
              | None \<Rightarrow> throw (Returned (PlainError (
                    ''error verifying connection with database: '' @ err_string err))))
          | None \<Rightarrow> ret dbConn)))"

definition NewClient_of :: "'d driver \<Rightarrow> MySQL \<Rightarrow> ('d dbstate, conn) op" where
  "NewClient_of drv m = NewClient drv (my_UserName m) (my_Password m) (my_Host m) (my_DB m) (my_Port m)"

definition close_and_print :: "'d driver \<Rightarrow> conn \<Rightarrow> ('d dbstate, unit) op" where
  "close_and_print drv c = andThen (db_Close drv c) print_err"

definition executeQuery :: "'d driver \<Rightarrow> MySQL \<Rightarrow> string \<Rightarrow> string list \<Rightarrow> ('d dbstate, unit) op" where
  "executeQuery drv m query args =
     andThen (NewClient_of drv m) (\<lambda>c.
       defer_op (close_and_print drv c)
         (andThen (db_Exec drv c query args) return_err))"

definition GetGTID :: "'d driver \<Rightarrow> MySQL \<Rightarrow> ('d dbstate, string) op" where
  "GetGTID drv m =
     andThen (NewClient_of drv m) (\<lambda>c.
       defer_op (close_and_print drv c)
         (andThen (db_QueryRow drv c ''SELECT @@global.gtid_executed;'') (\<lambda>r. case r of
            Inl err \<Rightarrow> throw (Returned err) | Inr gtid \<Rightarrow> ret gtid)))"

definition apostrophe :: char where "apostrophe = CHR 0x27"

definition at_any_host :: string where "at_any_host = ''@'' @ [apostrophe] @ ''%'' @ [apostrophe]"

definition ModifyRootPassword :: "'d driver \<Rightarrow> MySQL \<Rightarrow> string \<Rightarrow> ('d dbstate, unit) op" where
  "ModifyRootPassword drv m password =
     executeQuery drv m (''ALTER USER '' @ [apostrophe] @ ''root'' @ [apostrophe] @ at_any_host
       @ '' IDENTIFIED BY ?;'') [password]"

definition CreateUser :: "'d driver \<Rightarrow> MySQL \<Rightarrow> string \<Rightarrow> string \<Rightarrow> ('d dbstate, unit) op" where
  "CreateUser drv m username password =
     executeQuery drv m (''CREATE USER ?'' @ at_any_host @ '' IDENTIFIED BY ?;'') [username, password]"

definition GrantPrivileges :: "'d driver \<Rightarrow> MySQL \<Rightarrow> string \<Rightarrow> ('d dbstate, unit) op" where
  "GrantPrivileges drv m username =
     executeQuery drv m (''GRANT BACKUP_ADMIN, REPLICATION SLAVE ON *.* TO ?'' @ at_any_host @ '';'') [username]"

definition SetBootstrapMember :: "'d driver \<Rightarrow> MySQL \<Rightarrow> ('d dbstate, unit) op" where
  "SetBootstrapMember drv m = executeQuery drv m ''SET GLOBAL group_replication_bootstrap_group=ON;'' []"

section \<open>Sessions\<close>

text \<open>
  \<open>session c op err cs\<close>: the calls \<open>cs\<close> are those of one complete use of the database: a failed
  open, a failed ping followed by a close, or one call \<open>op c\<close> between a good ping and a close.
\<close>

definition session ::
  "string \<Rightarrow> (conn \<Rightarrow> db_call) \<Rightarrow> bool \<Rightarrow> (db_call \<times> go_error option) list \<Rightarrow> bool" where
  "session dsn op ok cs \<longleftrightarrow>
     (\<exists>e. \<not> ok \<and> cs = [(CallOpen dsn, Some e)])
     \<or> (\<exists>c e e'. \<not> ok \<and> cs = [(CallOpen dsn, None), (CallPing c, Some e), (CallClose c, e')])
     \<or> (\<exists>c e e'. ok = (e = None) \<and>
          cs = [(CallOpen dsn, None), (CallPing c, None), (op c, e), (CallClose c, e')])"

definition dsn_of :: "MySQL \<Rightarrow> string" where
  "dsn_of m = my_UserName m @ '':'' @ my_Password m @ ''@tcp('' @ my_Host m @ '':'' @ Itoa (my_Port m)
     @ '')/'' @ my_DB m @ ''?charset=utf8mb4&parseTime=True&loc=Local''"

lemmas db_ops = db_Open_def db_Ping_def db_Exec_def db_QueryRow_def db_Close_def db_call_def
  defer_op_def close_and_print_def print_err_def return_err_def err_of_def op_defs

lemma executeQuery_session:
  "\<exists>cs. calls (snd (executeQuery drv m q args s)) = calls s @ cs
    \<and> session (dsn_of m) (\<lambda>c. CallExec c q args) (\<not> isl (fst (executeQuery drv m q args s))) cs"
  by (auto simp: executeQuery_def NewClient_of_def NewClient_def Let_def db_ops session_def dsn_of_def
      split: prod.splits sum.splits option.splits)

lemma GetGTID_session:
  "\<exists>cs. calls (snd (GetGTID drv m s)) = calls s @ cs
    \<and> session (dsn_of m) (\<lambda>c. CallQuery c ''SELECT @@global.gtid_executed;'') (\<not> isl (fst (GetGTID drv m s))) cs"
  by (auto simp: GetGTID_def NewClient_of_def NewClient_def Let_def db_ops session_def dsn_of_def
      split: prod.splits sum.splits option.splits)

section \<open>Properties\<close>

lemma sint_word_of_int_small: "\<lbrakk>- (2 ^ 63) \<le> i; i < 2 ^ 63\<rbrakk> \<Longrightarrow> sint (word_of_int i :: int64) = i"
  by (simp add: signed_of_int signed_take_bit_int_eq_self)

lemma sint_int64_less: "sint (a :: int64) < 2 ^ 63"
  using sint_lt [of a] by simp

lemma go_div_nonneg:
  assumes "0 \<le> sint a" and "0 < sint b"
  shows "sint (go_div a b) = sint a div sint b"
proof -
  have eq: "sint a sdiv sint b = sint a div sint b"
    using assms by (auto simp: signed_divide_int_def sgn_if)
  have "sint a div sint b \<le> sint a"
    using assms zdiv_mono2 [of "sint a" 1 "sint b"] by simp
  moreover have "0 \<le> sint a div sint b" using assms by (simp add: pos_imp_zdiv_nonneg_iff)
  ultimately show ?thesis
    using sint_int64_less [of a] by (simp add: go_div_def eq sint_word_of_int_small)
qed

lemma buffer_pool_value:
  fixes m :: int64
  assumes "0 \<le> sint m" and "sint m * 75 < 2 ^ 63"
  shows "CalculateInnodbBufferPoolSize m = fmt_nat (nat (sint m * 75 div (100 * 2 ^ 20))) @ ''M''"
proof -
  have "m * 75 = word_of_int (sint m * 75)" by simp
  then have m75: "sint (m * 75) = sint m * 75"
    using assms sint_word_of_int_small [of "sint m * 75"] by simp
  have "sint (go_div (go_div (m * 75) 100) (1024 * 1024)) = sint m * 75 div 100 div 1048576"
    using assms by (subst go_div_nonneg; simp add: go_div_nonneg m75 pos_imp_zdiv_nonneg_iff)
  also have "\<dots> = sint m * 75 div (100 * 2 ^ 20)"
    using zdiv_zmult2_eq [of 1048576 "sint m * 75" 100] by simp
  finally show ?thesis
    using assms(1) by (simp add: CalculateInnodbBufferPoolSize_def Let_def Itoa_def fmt_int_def
        pos_imp_zdiv_neg_iff not_less)
qed

text \<open>
  C36. For a memory request that does not overflow when multiplied by 75 (below about 10^17 bytes),
  the buffer pool size is the largest number of mebibytes that is at most 75 percent of it.
\<close>

theorem CalculateInnodbBufferPoolSize_ok:
  assumes "0 \<le> sint m" and "sint m * 75 < 2 ^ 63"
  shows "\<exists>v. CalculateInnodbBufferPoolSize m = fmt_nat v @ ''M''
    \<and> int v * 2 ^ 20 * 100 \<le> sint m * 75 \<and> sint m * 75 < (int v + 1) * 2 ^ 20 * 100"
proof -
  let ?v = "sint m * 75 div (100 * 2 ^ 20)"
  have "0 \<le> ?v" using assms(1) by (simp add: pos_imp_zdiv_nonneg_iff)
  moreover have "?v * (100 * 2 ^ 20) \<le> sint m * 75 \<and> sint m * 75 < (?v + 1) * (100 * 2 ^ 20)"
    by (simp add: algebra_simps) (use pos_mod_bound [of 104857600 "sint m * 75"]
      pos_mod_sign [of 104857600 "sint m * 75"] mult_div_mod_eq [of 104857600 "sint m * 75"] in linarith)
  ultimately show ?thesis
    using buffer_pool_value [OF assms] by (intro exI [of _ "nat ?v"]) (simp add: algebra_simps)
qed

theorem CalculateInnodbBufferPoolSize_ok_witness:
  "CalculateInnodbBufferPoolSize 0x80000000 = fmt_nat 1536 @ ''M''"
proof -
  obtain v where v: "CalculateInnodbBufferPoolSize 0x80000000 = fmt_nat v @ ''M''" "v \<le> 1536" "1535 < v"
    using CalculateInnodbBufferPoolSize_ok [of "0x80000000"] by auto
  then have "v = 1536" by simp
  with v(1) show ?thesis by simp
qed

text \<open>
  Beyond that bound the multiplication wraps around: a request of \<open>2^57\<close> bytes gives a negative
  size, and below 4/3 of a mebibyte the size is 0.
\<close>

theorem CalculateInnodbBufferPoolSize_overflow:
  "hd (CalculateInnodbBufferPoolSize (2 ^ 57)) = CHR ''-''
   \<and> CalculateInnodbBufferPoolSize 0 = ''0M''"
  by (simp add: CalculateInnodbBufferPoolSize_def go_div_def Let_def Itoa_def fmt_int_def fmt_nat.simps
      digit_char_def)

text \<open>
  C22. Every database operation opens at most one connection and closes it before it returns, on
  every path: nothing follows a failed open; a failed ping is followed by the close; the
  statement runs exactly once, with its arguments as given and never inside the query text,
  between a good ping and the close; and the operation succeeds exactly when the statement did.
\<close>

theorem database_operations_close:
  "(\<exists>cs. calls (snd (executeQuery drv m q args s)) = calls s @ cs
     \<and> session (dsn_of m) (\<lambda>c. CallExec c q args) (\<not> isl (fst (executeQuery drv m q args s))) cs)
   \<and> (\<exists>cs. calls (snd (GetGTID drv m s)) = calls s @ cs
     \<and> session (dsn_of m) (\<lambda>c. CallQuery c ''SELECT @@global.gtid_executed;'')
         (\<not> isl (fst (GetGTID drv m s))) cs)"
  using executeQuery_session GetGTID_session by blast

end
