(* ===== verification/Kube.thy ===== *)
theory Kube
  imports Samples
begin

text \<open>
  \<open>internal/pkg/kube\<close>: the functions that build the Kubernetes objects of an instance, each
  as a function from its arguments and the library parameter \<open>L\<close> to the object, or to the
  panic the code runs into where it dereferences a nil pointer or indexes an empty slice.
\<close>

section \<open>ConfigMap, Secret, Service\<close>

definition NewConfigMap :: "string \<Rightarrow> string \<Rightarrow> string \<Rightarrow> string \<Rightarrow> configmap" where
  "NewConfigMap name namespace key value =
     \<lparr>cm_TypeMeta = \<lparr>APIVersion = ''v1'', Kind = ''ConfigMap''\<rparr>,
      cm_Meta = zero_meta\<lparr>Name := name, Namespace := namespace\<rparr>,
      cm_Data = Some [key \<mapsto> value]\<rparr>"

definition NewSecret :: "string \<Rightarrow> string \<Rightarrow> string \<Rightarrow> secret" where
  "NewSecret name namespace key =
     \<lparr>sec_TypeMeta = \<lparr>APIVersion = ''v1'', Kind = ''Secret''\<rparr>,
      sec_Meta = zero_meta\<lparr>Name := name, Namespace := namespace,
        Labels := Some [AppKubernetesName \<mapsto> name]\<rparr>,
      sec_Data = Some [key \<mapsto> []],
      sec_Type = ''Opaque''\<rparr>"

fun secret_env_data :: "k8s_lib \<Rightarrow> (string \<rightharpoonup> string) \<Rightarrow> env_var list \<Rightarrow> (string \<rightharpoonup> string)" where
  "secret_env_data L data [] = data"
| "secret_env_data L data (env # envs) =
     secret_env_data L (data(ev_Name env \<mapsto> EnvVarSource_String L (ev_ValueFrom env))) envs"

definition NewSecretEnv :: "k8s_lib \<Rightarrow> string \<Rightarrow> string \<Rightarrow> env_var list \<Rightarrow> secret" where
  "NewSecretEnv L name namespace envs =
     \<lparr>sec_TypeMeta = \<lparr>APIVersion = ''v1'', Kind = ''Secret''\<rparr>,
      sec_Meta = zero_meta\<lparr>Name := name, Namespace := namespace,
        Labels := Some [AppKubernetesName \<mapsto> name]\<rparr>,
      sec_Data = Some (secret_env_data L Map.empty envs),
      sec_Type = ''Opaque''\<rparr>"

text \<open>An \<open>EnvFromSource\<close>: the name of its \<open>SecretRef\<close>, if it has one.\<close>

record env_from_source =
  SecretRef :: "string option"

fun NewSecretEnvFrom :: "string \<Rightarrow> string \<Rightarrow> env_from_source list \<Rightarrow> secret option" where
  "NewSecretEnvFrom name namespace [] = None"
| "NewSecretEnvFrom name namespace (envFrom # refs) =
     (case SecretRef envFrom of
        Some ref \<Rightarrow> Some (NewSecret ref name namespace)
      | None \<Rightarrow> NewSecretEnvFrom name namespace refs)"

definition NewService ::
  "k8s_lib \<Rightarrow> string \<Rightarrow> string \<Rightarrow> string \<Rightarrow> object_meta \<Rightarrow> service_port list \<Rightarrow> string \<Rightarrow> service" where
  "NewService L name nameSpace kind objectMeta port svcType =
     \<lparr>svc_TypeMeta = \<lparr>APIVersion = ''v1'', Kind = ''Service''\<rparr>,
      svc_Meta = zero_meta\<lparr>Name := name, Namespace := nameSpace,
        OwnerReferences := [NewControllerRef L objectMeta
          \<lparr>gvk_Group = ''apps'', gvk_Version = ''v1'', gvk_Kind = kind\<rparr>],
        Labels := Some [AppKubernetesName \<mapsto> name]\<rparr>,
      svc_Type = svcType, svc_ClusterIP = [], svc_Ports = port,
      svc_Selector = Some [AppKubernetesName \<mapsto> name], svc_Ingress = []\<rparr>"

section \<open>Containers and pods\<close>

definition NewContainers ::
  "string \<Rightarrow> v1_pod_spec option \<Rightarrow> int64 \<Rightarrow> bool \<Rightarrow> container list res" where
  "NewContainers name cr ordinal isStatefulSet =
     (let configName = (if isStatefulSet
            then name @ ''-'' @ Config_const @ ''-'' @ Itoa ordinal
            else name @ ''-'' @ Config_const);
          dbName = (if isStatefulSet
            then name @ ''-'' @ DB_const @ ''-'' @ Itoa ordinal
            else name @ ''-'' @ DB_const);
          configVolumeMount = \<lparr>vm_Name = configName, vm_MountPath = ConfigDir @ ConfigFile,
            vm_SubPath = ConfigFile\<rparr>;
          dbVolumeMount = \<lparr>vm_Name = dbName, vm_MountPath = DB_const, vm_SubPath = []\<rparr>
      in
      res_bind (deref cr) (\<lambda>ps.
      res_bind (index0 (Containers ps)) (\<lambda>c.
        Inr [\<lparr>ct_Name = name, ct_Image = Image c, ct_Resources = Resources c,
              ct_StartupProbe = Some (StartupProbe c), ct_ReadinessProbe = Some (ReadinessProbe c),
              ct_LivenessProbe = Some (LivenessProbe c), ct_SecurityContext = SecurityContext c,
              ct_Ports = [\<lparr>cp_Name = MysqlPortName, cp_ContainerPort = MysqlPort,
                cp_Protocol = ''TCP''\<rparr>],
              ct_ImagePullPolicy = ImagePullPolicy c, ct_Env = Envs c,
              ct_VolumeMounts = [configVolumeMount, dbVolumeMount]\<rparr>])))"

text \<open>The two volumes of a pod; the permissions are octal 664.\<close>

definition config_volume :: "string \<Rightarrow> string \<Rightarrow> volume" where
  "config_volume name configMapName =
     \<lparr>vol_Name = name @ Config_const,
      vol_ConfigMap = Some \<lparr>cmv_Name = configMapName, cmv_DefaultMode = Some 436\<rparr>,
      vol_PersistentVolumeClaim = None\<rparr>"

definition db_volume :: "string \<Rightarrow> volume" where
  "db_volume name =
     \<lparr>vol_Name = name @ DB_const, vol_ConfigMap = None,
      vol_PersistentVolumeClaim = Some (name @ DB_const)\<rparr>"

definition instance_labels :: "string \<Rightarrow> string gomap" where
  "instance_labels name = Some [AppKubernetesName \<mapsto> name, AppKubernetesInstance \<mapsto> name]"

definition NewPod :: "string \<Rightarrow> group_replication_cluster \<Rightarrow> int64 \<Rightarrow> pod res" where
  "NewPod configMapName cr ordinal =
     res_bind (deref (ClusterSpec (grc_Spec cr))) (\<lambda>cs.
     res_bind (NewContainers (Name (grc_Meta cr)) (PodSpec cs) ordinal False) (\<lambda>containers.
     res_bind (deref (PodSpec cs)) (\<lambda>ps.
       Inr \<lparr>po_TypeMeta = \<lparr>APIVersion = ''apps/v1'', Kind = ''Pod''\<rparr>,
            po_Meta = zero_meta\<lparr>Name := Name (grc_Meta cr) @ ''-manager'',
              Namespace := Name (grc_Meta cr),
              Labels := instance_labels (Name (grc_Meta cr))\<rparr>,
            po_Spec = zero_pod_spec\<lparr>
              pod_Containers := containers,
              pod_TerminationGracePeriodSeconds := TerminationGracePeriodSeconds ps,
              pod_SchedulerName := SchedulerName ps,
              pod_ServiceAccountName := ServiceAccountName ps,
              pod_SecurityContext := PodSecurityContext ps,
              pod_NodeSelector := NodeSelector ps,
              pod_Tolerations := Tolerations ps,
              pod_Volumes := [config_volume (Name (grc_Meta cr)) configMapName,
                db_volume (Name (grc_Meta cr))],
              pod_DNSPolicy := DnsPolicy cs\<rparr>,
            po_PodIP = [], po_RestartCounts = []\<rparr>)))"

definition GetNodeName :: "pod \<Rightarrow> string" where
  "GetNodeName p = (if pod_NodeName (po_Spec p) \<noteq> [] then pod_NodeName (po_Spec p) else [])"

definition GetPodDNS :: "pod \<Rightarrow> string" where
  "GetPodDNS p = (if po_PodIP p \<noteq> [] then po_PodIP p else [])"

definition GetPodIP :: "pod \<Rightarrow> string" where
  "GetPodIP p = (if po_PodIP p \<noteq> [] then po_PodIP p else [])"

section \<open>Deployment and StatefulSet\<close>

definition GroupVersion_Group :: string where "GroupVersion_Group = ''greatsql.greatsql.cn''"
definition GroupVersion_Version :: string where "GroupVersion_Version = ''v1''"

definition NewDeployment ::
  "k8s_lib \<Rightarrow> string \<Rightarrow> single_instance \<Rightarrow> int64 \<Rightarrow> deployment res" where
  "NewDeployment L configMapName cr ordinal =
     (let name = Name (si_Meta cr);
          spec = Spec cr;
          ps = sis_PodSpec spec;
          labels = instance_labels name
      in
      res_bind (case Affinity ps of None \<Rightarrow> Inr None | Some _ \<Rightarrow> SingleInstance_PodAffinity cr labels)
        (\<lambda>affinity.
      res_bind (NewContainers name (Some ps) ordinal False) (\<lambda>containers.
        Inr \<lparr>dep_TypeMeta = \<lparr>APIVersion = ''apps/v1'', Kind = ''Deployment''\<rparr>,
             dep_Meta = zero_meta\<lparr>Name := name, Namespace := Namespace (si_Meta cr),
               OwnerReferences := [NewControllerRef L (si_Meta cr)
                 \<lparr>gvk_Group = GroupVersion_Group, gvk_Version = GroupVersion_Version,
                  gvk_Kind = SingleInstance_kind\<rparr>],
               Labels := labels\<rparr>,
             dep_Replicas = Size spec,
             dep_Selector = labels,
             dep_Template = \<lparr>pt_Meta = zero_meta\<lparr>Labels := labels\<rparr>,
               pt_Spec = zero_pod_spec\<lparr>
                 pod_Containers := containers,
                 pod_TerminationGracePeriodSeconds := TerminationGracePeriodSeconds ps,
                 pod_SchedulerName := SchedulerName ps,
                 pod_Affinity := affinity,
                 pod_ServiceAccountName := ServiceAccountName ps,
                 pod_SecurityContext := PodSecurityContext ps,
                 pod_NodeSelector := NodeSelector ps,
                 pod_Tolerations := Tolerations ps,
                 pod_Volumes := [config_volume name configMapName, db_volume name],
                 pod_DNSPolicy := sis_DnsPolicy spec\<rparr>\<rparr>,
             dep_StrategyType = sis_UpdateStrategy spec,
             dep_RollingUpdate = Some \<lparr>rud_MaxUnavailable = Some (IntVal 1),
               rud_MaxSurge = Some (IntVal 1)\<rparr>,
             dep_StatusReplicas = 0\<rparr>)))"

definition NewStatefulSet ::
  "k8s_lib \<Rightarrow> string \<Rightarrow> string \<Rightarrow> group_replication_cluster \<Rightarrow> int64 \<Rightarrow> statefulset res" where
  "NewStatefulSet L configMapName serviceName cr ordinal =
     (let name = Name (grc_Meta cr);
          labels = instance_labels name
      in
      res_bind (GroupReplicationCluster_PodAffinity cr labels) (\<lambda>affinity.
      res_bind (index0 (Member (grc_Spec cr))) (\<lambda>m0.
      res_bind (deref (ClusterSpec (grc_Spec cr))) (\<lambda>cs.
      res_bind (NewContainers name (PodSpec cs) ordinal True) (\<lambda>containers.
      res_bind (deref (PodSpec cs)) (\<lambda>ps.
      res_bind (deref (PersistentVolumeClaimTemplate ps)) (\<lambda>claim.
      res_bind (deref (UpdateStrategy cs)) (\<lambda>us.
      res_bind (deref (RolelingUpdate us)) (\<lambda>ru.
        Inr \<lparr>sts_TypeMeta = \<lparr>APIVersion = ''apps/v1'', Kind = ''StatefulSet''\<rparr>,
             sts_Meta = zero_meta\<lparr>Name := name, Namespace := Namespace (grc_Meta cr),
               OwnerReferences := [NewControllerRef L (grc_Meta cr)
                 \<lparr>gvk_Group = GroupVersion_Group, gvk_Version = GroupVersion_Version,
                  gvk_Kind = GroupReplicationCluster_kind\<rparr>],
               Labels := labels\<rparr>,
             sts_Replicas = m_Size m0,
             sts_ServiceName = serviceName,
             sts_Selector = labels,
             sts_Template = \<lparr>pt_Meta = zero_meta\<lparr>Labels := Some [AppKubernetesName \<mapsto> name]\<rparr>,
               pt_Spec = zero_pod_spec\<lparr>
                 pod_Containers := containers,
                 pod_TerminationGracePeriodSeconds := TerminationGracePeriodSeconds ps,
                 pod_SchedulerName := SchedulerName ps,
                 pod_Affinity := affinity,
                 pod_ServiceAccountName := ServiceAccountName ps,
                 pod_SecurityContext := PodSecurityContext ps,
                 pod_NodeSelector := NodeSelector ps,
                 pod_Tolerations := Tolerations ps,
                 pod_Volumes := [config_volume name configMapName,
                   \<lparr>vol_Name = [], vol_ConfigMap = None, vol_PersistentVolumeClaim = None\<rparr>],
                 pod_DNSPolicy := DnsPolicy cs\<rparr>\<rparr>,
             sts_VolumeClaimTemplates =
               [zero_pvc\<lparr>pvc_Meta := zero_meta\<lparr>Name := name @ DB_const @ Itoa ordinal,
                  Labels := labels\<rparr>,
                pvc_Spec := \<lparr>pvc_AccessModes = [''ReadWriteOnce''],
                  pvc_Resources = pvc_Resources claim,
                  pvc_StorageClassName = pvc_StorageClassName claim, pvc_VolumeMode = None\<rparr>\<rparr>],
             sts_UpdateStrategyType = us_Type us,
             sts_RollingUpdate = Some \<lparr>rus_Partition = Partition ru,
               rus_MaxUnavailable = MaxUnavailable ru\<rparr>,
             sts_StatusReplicas = 0\<rparr>)))))))))"

section \<open>Storage\<close>

definition setDefaultStorage :: "k8s_lib \<Rightarrow> v1_pod_spec option \<Rightarrow> quantity res" where
  "setDefaultStorage L cr =
     res_bind (deref cr) (\<lambda>ps.
     res_bind (deref (PersistentVolumeClaimTemplate ps)) (\<lambda>claim.
       let storageQuantity = NewQuantity_BinarySI L
             (Quantity_Value L (ResourceList_Storage L (Requests (pvc_Resources claim))))
       in if sint (Quantity_Value L storageQuantity) \<le> 0
          then Inr (NewQuantity_BinarySI L 5) else Inr storageQuantity))"

definition setDefaultPersistentVolumeMode :: "string option" where
  "setDefaultPersistentVolumeMode = Some ''Filesystem''"

definition NewPersistentVolumeClaim ::
  "k8s_lib \<Rightarrow> string \<Rightarrow> string \<Rightarrow> v1_pod_spec option \<Rightarrow> pvc res" where
  "NewPersistentVolumeClaim L name namespace cr =
     res_bind (setDefaultStorage L cr) (\<lambda>defaultStorage.
     res_bind (MustParse L (Quantity_String L defaultStorage)) (\<lambda>q.
     res_bind (deref cr) (\<lambda>ps.
     res_bind (deref (PersistentVolumeClaimTemplate ps)) (\<lambda>claim.
       Inr \<lparr>pvc_TypeMeta = \<lparr>APIVersion = ''v1'', Kind = ''PersistentVolumeClaim''\<rparr>,
            pvc_Meta = zero_meta\<lparr>Name := name @ DB_const, Namespace := namespace\<rparr>,
            pvc_Spec = \<lparr>pvc_AccessModes = [''ReadWriteOnce''],
              pvc_Resources = \<lparr>Limits = None, Requests = Some [''storage'' \<mapsto> q]\<rparr>,
              pvc_StorageClassName = pvc_StorageClassName claim,
              pvc_VolumeMode = setDefaultPersistentVolumeMode\<rparr>,
            pvc_Phase = []\<rparr>))))"

section \<open>Shapes of the results\<close>

text \<open>The names under which a container mounts its volumes.\<close>

definition mount_names :: "container list \<Rightarrow> string set" where
  "mount_names cs = (\<Union>c \<in> set cs. vm_Name ` set (ct_VolumeMounts c))"

definition volume_names :: "core_pod_spec \<Rightarrow> string set" where
  "volume_names ps = vol_Name ` set (pod_Volumes ps)"

lemma NewContainers_Inr_iff:
  "(\<exists>cs. NewContainers name cr ordinal b = Inr cs) \<longleftrightarrow>
     (\<exists>ps. cr = Some ps \<and> Containers ps \<noteq> [])"
  by (cases cr) (auto simp: NewContainers_def Let_def res_bind_Inr_iff neq_Nil_conv)

lemma NewContainers_mounts:
  assumes "NewContainers name cr ordinal b = Inr cs"
  shows "mount_names cs =
    (if b then {name @ ''-config-'' @ Itoa ordinal, name @ ''-db-'' @ Itoa ordinal}
     else {name @ ''-config'', name @ ''-db''})"
  using assms
  by (auto simp: NewContainers_def Let_def res_bind_Inr_iff mount_names_def Config_const_def DB_const_def)

lemma NewContainers_single:
  assumes "NewContainers name cr ordinal b = Inr cs"
  obtains ps c rest ct where "cr = Some ps" "Containers ps = c # rest" "cs = [ct]"
    "ct_Name ct = name" "ct_Image ct = Image c" "ct_Env ct = Envs c"
    "ct_Ports ct = [\<lparr>cp_Name = MysqlPortName, cp_ContainerPort = MysqlPort, cp_Protocol = ''TCP''\<rparr>]"
  using assms by (auto simp: NewContainers_def Let_def res_bind_Inr_iff)

lemma NewDeployment_Inr:
  assumes "NewDeployment L cm cr ordinal = Inr d"
  obtains cs where "NewContainers (Name (si_Meta cr)) (Some (sis_PodSpec (Spec cr))) ordinal False = Inr cs"
    "pod_Containers (pt_Spec (dep_Template d)) = cs"
    "pod_Volumes (pt_Spec (dep_Template d)) =
       [config_volume (Name (si_Meta cr)) cm, db_volume (Name (si_Meta cr))]"
    "dep_Meta d = zero_meta\<lparr>Name := Name (si_Meta cr), Namespace := Namespace (si_Meta cr),
       OwnerReferences := [NewControllerRef L (si_Meta cr)
         \<lparr>gvk_Group = GroupVersion_Group, gvk_Version = GroupVersion_Version,
          gvk_Kind = SingleInstance_kind\<rparr>],
       Labels := instance_labels (Name (si_Meta cr))\<rparr>"
    "dep_Replicas d = Size (Spec cr)" "dep_Selector d = instance_labels (Name (si_Meta cr))"
    "Labels (pt_Meta (dep_Template d)) = instance_labels (Name (si_Meta cr))"
    "pod_Affinity (pt_Spec (dep_Template d)) = None"
  using assms
  by (auto simp: NewDeployment_def Let_def res_bind_Inr_iff PodAffinity_nil split: option.splits)

lemma NewDeployment_Inr_iff:
  "(\<exists>d. NewDeployment L cm cr ordinal = Inr d) \<longleftrightarrow> Containers (sis_PodSpec (Spec cr)) \<noteq> []"
proof -
  have "(\<exists>d. NewDeployment L cm cr ordinal = Inr d) \<longleftrightarrow>
      (\<exists>cs. NewContainers (Name (si_Meta cr)) (Some (sis_PodSpec (Spec cr))) ordinal False = Inr cs)"
    by (auto simp: NewDeployment_def Let_def res_bind_Inr_iff PodAffinity_nil split: option.splits)
  then show ?thesis by (simp add: NewContainers_Inr_iff)
qed

lemma NewDeployment_panics:
  "Containers (sis_PodSpec (Spec cr)) = [] \<Longrightarrow>
   NewDeployment L cm cr ordinal = Inl (Panicked IndexOutOfRange)"
  by (simp add: NewDeployment_def Let_def NewContainers_def PodAffinity_nil split: option.splits)

lemma NewStatefulSet_Inr:
  assumes "NewStatefulSet L cm svc cr ordinal = Inr s"
  obtains cs ps m ms where "Member (grc_Spec cr) = m # ms" "ClusterSpec (grc_Spec cr) = Some cs"
    "NewContainers (Name (grc_Meta cr)) (PodSpec cs) ordinal True = Inr ps"
    "pod_Containers (pt_Spec (sts_Template s)) = ps"
    "volume_names (pt_Spec (sts_Template s)) = {Name (grc_Meta cr) @ ''config'', []}"
    "Name (sts_Meta s) = Name (grc_Meta cr)" "Namespace (sts_Meta s) = Namespace (grc_Meta cr)"
    "sts_Selector s = instance_labels (Name (grc_Meta cr))"
    "Labels (pt_Meta (sts_Template s)) = Some [AppKubernetesName \<mapsto> Name (grc_Meta cr)]"
    "sts_Replicas s = m_Size m" "sts_ServiceName s = svc"
    "OwnerReferences (sts_Meta s) = [NewControllerRef L (grc_Meta cr)
       \<lparr>gvk_Group = GroupVersion_Group, gvk_Version = GroupVersion_Version, gvk_Kind = GroupReplicationCluster_kind\<rparr>]"
  using assms
  by (fastforce simp: NewStatefulSet_def Let_def res_bind_Inr_iff PodAffinity_nil volume_names_def
      config_volume_def Config_const_def)

lemma NewDeployment_dangling:
  assumes "NewDeployment L cm cr ordinal = Inr d"
  shows "mount_names (pod_Containers (pt_Spec (dep_Template d))) \<noteq> {}
    \<and> mount_names (pod_Containers (pt_Spec (dep_Template d))) \<inter> volume_names (pt_Spec (dep_Template d)) = {}"
  using assms
  by (auto elim!: NewDeployment_Inr simp: NewContainers_mounts volume_names_def config_volume_def
      db_volume_def Config_const_def DB_const_def)

lemma secret_env_data_map_of:
  "secret_env_data L data envs =
     data ++ map_of (rev (map (\<lambda>e. (ev_Name e, EnvVarSource_String L (ev_ValueFrom e))) envs))"
  by (induction envs arbitrary: data) (simp_all add: map_add_upd_left)

section \<open>Properties\<close>

lemma sample_deployment:
  obtains d where "NewDeployment doc_lib cm sample_single ordinal = Inr d"
  using NewDeployment_Inr_iff [of doc_lib cm sample_single ordinal] by auto

lemma NewPersistentVolumeClaim_run:
  assumes "k8s_library L" and "PersistentVolumeClaimTemplate ps = Some claim"
    and "v = Quantity_Value L (ResourceList_Storage L (Requests (pvc_Resources claim)))"
  shows "\<exists>p q. NewPersistentVolumeClaim L name ns (Some ps) = Inr p
    \<and> Name (pvc_Meta p) = name @ ''db'' \<and> Namespace (pvc_Meta p) = ns
    \<and> pvc_StorageClassName (pvc_Spec p) = pvc_StorageClassName claim
    \<and> map_read (Requests (pvc_Resources (pvc_Spec p))) ''storage'' = Some q
    \<and> Quantity_Value L q = (if sint v \<le> 0 then 5 else v)"
proof -
  let ?q = "if sint v \<le> 0 then NewQuantity_BinarySI L 5 else NewQuantity_BinarySI L v"
  have storage: "setDefaultStorage L (Some ps) = Inr ?q"
    using assms by (simp add: setDefaultStorage_def Let_def k8s_library.quantity_value_new)
  obtain q where q: "MustParse L (Quantity_String L ?q) = Inr q" "Quantity_Value L q = Quantity_Value L ?q"
    using k8s_library.must_parse_string [OF assms(1)] by blast
  have "Quantity_Value L ?q = (if sint v \<le> 0 then 5 else v)"
    by (simp add: k8s_library.quantity_value_new [OF assms(1)])
  with storage q assms(2) show ?thesis
    by (simp add: NewPersistentVolumeClaim_def DB_const_def)
qed

text \<open>
  \<open>NewDeployment\<close> returns exactly when the instance's pod spec lists a container (it panics
  with an index out of range otherwise). The Deployment it returns has the instance's name,
  namespace and size, is controlled by the instance (a controller reference to its kind, name
  and UID in the operator's API group), and its selector selects its own pod template, as the
  API server requires.
\<close>

theorem NewDeployment_correct:
  assumes "k8s_library L"
  shows "(\<exists>d. NewDeployment L cm cr ordinal = Inr d) = (Containers (sis_PodSpec (Spec cr)) \<noteq> [])
    \<and> (\<forall>d. NewDeployment L cm cr ordinal = Inr d \<longrightarrow>
        Name (dep_Meta d) = Name (si_Meta cr) \<and> Namespace (dep_Meta d) = Namespace (si_Meta cr)
        \<and> dep_Replicas d = Size (Spec cr)
        \<and> selects (dep_Selector d) (Labels (pt_Meta (dep_Template d)))
        \<and> OwnerReferences (dep_Meta d) =
           [\<lparr>or_APIVersion = ''greatsql.greatsql.cn/v1'', or_Kind = ''SingleInstance'',
             or_Name = Name (si_Meta cr), or_UID = UID (si_Meta cr),
             or_Controller = Some True, or_BlockOwnerDeletion = Some True\<rparr>])"
  using assms
  by (auto simp: NewDeployment_Inr_iff k8s_library.new_controller_ref k8s_library.group_version_string
      GroupVersion_Group_def GroupVersion_Version_def SingleInstance_kind_def
      elim!: NewDeployment_Inr)

theorem NewDeployment_correct_witness:
  "\<exists>d. NewDeployment doc_lib ''greatsqlconfig'' sample_single 1 = Inr d \<and> dep_Replicas d = Some 1
     \<and> selects (dep_Selector d) (Labels (pt_Meta (dep_Template d)))"
  using NewDeployment_correct [OF doc.k8s_library_axioms, of "''greatsqlconfig''" sample_single 1]
  by auto

text \<open>
  The database volume of the Deployment claims exactly the PersistentVolumeClaim that
  \<open>NewPersistentVolumeClaim\<close> names for the same instance.
\<close>

theorem NewDeployment_claims_its_pvc:
  assumes "NewDeployment L cm cr ordinal = Inr d"
    and "NewPersistentVolumeClaim L (Name (si_Meta cr)) ns ps = Inr p"
  shows "[v \<leftarrow> pod_Volumes (pt_Spec (dep_Template d)). vol_PersistentVolumeClaim v \<noteq> None]
    = [db_volume (Name (si_Meta cr))]
    \<and> vol_PersistentVolumeClaim (db_volume (Name (si_Meta cr))) = Some (Name (pvc_Meta p))"
  using assms
  by (auto simp: NewPersistentVolumeClaim_def res_bind_Inr_iff config_volume_def db_volume_def
      elim!: NewDeployment_Inr)

theorem NewDeployment_claims_its_pvc_witness:
  "\<exists>d p. NewDeployment doc_lib ''greatsqlconfig'' sample_single 1 = Inr d
    \<and> NewPersistentVolumeClaim doc_lib ''greatsql'' ''greatsql'' (Some sample_pod_spec) = Inr p
    \<and> vol_PersistentVolumeClaim (db_volume ''greatsql'') = Some (Name (pvc_Meta p))"
proof -
  obtain d where d: "NewDeployment doc_lib ''greatsqlconfig'' sample_single 1 = Inr d"
    by (rule sample_deployment)
  obtain p where p: "NewPersistentVolumeClaim doc_lib ''greatsql'' ''greatsql'' (Some sample_pod_spec) = Inr p"
    using NewPersistentVolumeClaim_run [OF doc.k8s_library_axioms sample_pod_spec_simps(2) refl] by blast
  show ?thesis using d p NewDeployment_claims_its_pvc [OF d, of _ "Some sample_pod_spec" p] by auto
qed

text \<open>
  No volume mount of the Deployment's container names a volume of its pod: the mounts are
  called \<open>name-config\<close> and \<open>name-db\<close>, the volumes \<open>nameconfig\<close> and \<open>namedb\<close>. (A pod whose mounts
  have no volume is rejected by the API server.)
\<close>

theorem NewDeployment_mounts_dangle:
  assumes "NewDeployment L cm cr ordinal = Inr d"
  shows "mount_names (pod_Containers (pt_Spec (dep_Template d))) \<noteq> {}
    \<and> mount_names (pod_Containers (pt_Spec (dep_Template d))) \<inter> volume_names (pt_Spec (dep_Template d)) = {}"
  by (rule NewDeployment_dangling [OF assms])

theorem NewDeployment_mounts_dangle_witness:
  "\<exists>d. NewDeployment doc_lib ''greatsqlconfig'' sample_single 1 = Inr d
    \<and> mount_names (pod_Containers (pt_Spec (dep_Template d))) \<inter> volume_names (pt_Spec (dep_Template d)) = {}"
proof -
  obtain d where d: "NewDeployment doc_lib ''greatsqlconfig'' sample_single 1 = Inr d"
    by (rule sample_deployment)
  then show ?thesis using NewDeployment_mounts_dangle [OF d] by blast
qed

lemma sample_statefulset:
  obtains s where "NewStatefulSet doc_lib cm svc sample_cluster ordinal = Inr s"
  by (auto simp: NewStatefulSet_def Let_def PodAffinity_nil NewContainers_def sample_cluster_spec_def)

text \<open>
  The selector of the StatefulSet never selects its pod template: the selector asks for the
  instance label, which the template lacks, and its mounts have no volume either. (The API
  server rejects a StatefulSet whose selector does not match its template.)
\<close>

theorem NewStatefulSet_selector_mismatch:
  assumes "NewStatefulSet L cm svc cr ordinal = Inr s"
  shows "\<not> selects (sts_Selector s) (Labels (pt_Meta (sts_Template s)))
    \<and> mount_names (pod_Containers (pt_Spec (sts_Template s))) \<inter> volume_names (pt_Spec (sts_Template s)) = {}"
  using assms
  by (auto elim!: NewStatefulSet_Inr simp: NewContainers_mounts selects_def instance_labels_def)

theorem NewStatefulSet_selector_mismatch_witness:
  "\<exists>s. NewStatefulSet doc_lib ''greatsql-mgr-config-1'' ''greatsql-mgr-headless'' sample_cluster 1 = Inr s
    \<and> \<not> selects (sts_Selector s) (Labels (pt_Meta (sts_Template s)))"
proof -
  obtain s where s: "NewStatefulSet doc_lib ''greatsql-mgr-config-1'' ''greatsql-mgr-headless'' sample_cluster 1 = Inr s"
    by (rule sample_statefulset)
  then show ?thesis using NewStatefulSet_selector_mismatch [OF s] by blast
qed

text \<open>
  C35. For an instance with a claim template, \<open>NewPersistentVolumeClaim\<close> never panics and always
  requests a positive amount of storage: the template's amount when that is positive, and
  otherwise the default, which is 5 bytes (the examples document a default of 5Gi).
\<close>

theorem NewPersistentVolumeClaim_storage:
  assumes "k8s_library L" and "PersistentVolumeClaimTemplate ps = Some claim"
  shows "\<exists>p q. NewPersistentVolumeClaim L name ns (Some ps) = Inr p
    \<and> map_read (Requests (pvc_Resources (pvc_Spec p))) ''storage'' = Some q
    \<and> 0 < sint (Quantity_Value L q)
    \<and> Quantity_Value L q =
       (let v = Quantity_Value L (ResourceList_Storage L (Requests (pvc_Resources claim)))
        in if sint v \<le> 0 then 5 else v)"
proof -
  let ?v = "Quantity_Value L (ResourceList_Storage L (Requests (pvc_Resources claim)))"
  obtain p q where "NewPersistentVolumeClaim L name ns (Some ps) = Inr p"
    "map_read (Requests (pvc_Resources (pvc_Spec p))) ''storage'' = Some q"
    "Quantity_Value L q = (if sint ?v \<le> 0 then 5 else ?v)"
    using NewPersistentVolumeClaim_run [OF assms refl, of name ns] by blast
  then show ?thesis by (intro exI [of _ p] exI [of _ q]) (simp add: Let_def)
qed

theorem NewPersistentVolumeClaim_storage_witness:
  "\<exists>p q. NewPersistentVolumeClaim doc_lib ''greatsql'' ''greatsql'' (Some sample_pod_spec) = Inr p
    \<and> map_read (Requests (pvc_Resources (pvc_Spec p))) ''storage'' = Some q
    \<and> 0 < sint (Quantity_Value doc_lib q)"
  using NewPersistentVolumeClaim_storage [OF doc.k8s_library_axioms sample_pod_spec_simps(2)] by blast

text \<open>
  The Secret built from a container's environment holds, under every variable's name, the
  source text of the last variable with that name, and no other key.
\<close>

theorem NewSecretEnv_data:
  "sec_Data (NewSecretEnv L name ns envs) =
     Some (map_of (rev (map (\<lambda>e. (ev_Name e, EnvVarSource_String L (ev_ValueFrom e))) envs)))
   \<and> dom (the (sec_Data (NewSecretEnv L name ns envs))) = ev_Name ` set envs"
  by (simp add: NewSecretEnv_def secret_env_data_map_of dom_map_of_conv_image_fst image_image)

text \<open>
  \<open>NewSecretEnvFrom\<close> uses the first source that refers to a secret, and mixes up its
  arguments: the Secret's namespace is the name it was asked for and its only key the namespace.
\<close>

theorem NewSecretEnvFrom_arguments:
  "NewSecretEnvFrom name ns refs =
     (case filter (\<lambda>r. SecretRef r \<noteq> None) refs of
        [] \<Rightarrow> None
      | r # _ \<Rightarrow> Some (NewSecret (the (SecretRef r)) name ns))
   \<and> Namespace (sec_Meta (NewSecret ref name ns)) = name
   \<and> sec_Data (NewSecret ref name ns) = Some [ns \<mapsto> []]"
  by (induction refs) (auto simp: NewSecret_def split: option.splits)

end
