(* ===== verification/Client.thy ===== *)
theory Client
  imports Kube
begin

text \<open>
  The reconcilers' world: the union of the objects they exchange with the API server, the
  client interface of controller-runtime as a parameter \<open>'w client\<close> over an arbitrary world
  \<open>'w\<close>, the state of a reconcile (the world, the in-memory custom resource, the recorded
  events) and a trace of the requests issued with their outcomes, which no operation reads.
  \<open>emits\<close> states what an operation adds to the trace.
\<close>

section \<open>Objects\<close>

datatype k8s_object =
    ODeployment deployment
  | OStatefulSet statefulset
  | OService service
  | OConfigMap configmap
  | OPVC pvc
  | OSecret secret
  | OSingle single_instance
  | OCluster group_replication_cluster

datatype kind = KDeployment | KStatefulSet | KService | KConfigMap | KPVC | KSecret | KSingle | KCluster

fun kind_of :: "k8s_object \<Rightarrow> kind" where
  "kind_of (ODeployment _) = KDeployment"
| "kind_of (OStatefulSet _) = KStatefulSet"
| "kind_of (OService _) = KService"
| "kind_of (OConfigMap _) = KConfigMap"
| "kind_of (OPVC _) = KPVC"
| "kind_of (OSecret _) = KSecret"
| "kind_of (OSingle _) = KSingle"
| "kind_of (OCluster _) = KCluster"

fun obj_meta :: "k8s_object \<Rightarrow> object_meta" where
  "obj_meta (ODeployment x) = dep_Meta x"
| "obj_meta (OStatefulSet x) = sts_Meta x"
| "obj_meta (OService x) = svc_Meta x"
| "obj_meta (OConfigMap x) = cm_Meta x"
| "obj_meta (OPVC x) = pvc_Meta x"
| "obj_meta (OSecret x) = sec_Meta x"
| "obj_meta (OSingle x) = si_Meta x"
| "obj_meta (OCluster x) = grc_Meta x"

fun set_obj_meta :: "object_meta \<Rightarrow> k8s_object \<Rightarrow> k8s_object" where
  "set_obj_meta m (ODeployment x) = ODeployment (x\<lparr>dep_Meta := m\<rparr>)"
| "set_obj_meta m (OStatefulSet x) = OStatefulSet (x\<lparr>sts_Meta := m\<rparr>)"
| "set_obj_meta m (OService x) = OService (x\<lparr>svc_Meta := m\<rparr>)"
| "set_obj_meta m (OConfigMap x) = OConfigMap (x\<lparr>cm_Meta := m\<rparr>)"
| "set_obj_meta m (OPVC x) = OPVC (x\<lparr>pvc_Meta := m\<rparr>)"
| "set_obj_meta m (OSecret x) = OSecret (x\<lparr>sec_Meta := m\<rparr>)"
| "set_obj_meta m (OSingle x) = OSingle (x\<lparr>si_Meta := m\<rparr>)"
| "set_obj_meta m (OCluster x) = OCluster (x\<lparr>grc_Meta := m\<rparr>)"

text \<open>
  The contract of \<open>metav1.Object\<close>: an object gives access to its metadata, and writing them
  changes nothing else.
\<close>

locale meta_object =
  fixes get_meta :: "'o \<Rightarrow> object_meta" and put_meta :: "object_meta \<Rightarrow> 'o \<Rightarrow> 'o"
  assumes get_put [simp]: "get_meta (put_meta m x) = m"
    and put_get [simp]: "put_meta (get_meta x) x = x"
    and put_put [simp]: "put_meta m (put_meta n x) = put_meta m x"
begin

lemma put_inj: "put_meta m x = put_meta n x \<longleftrightarrow> m = n"
  by (metis get_put)

lemma same_rest: "put_meta m x = put_meta m y \<Longrightarrow> get_meta x = get_meta y \<Longrightarrow> x = y"
  by (metis put_get put_put)

end

interpretation obj: meta_object obj_meta set_obj_meta
proof
  show "obj_meta (set_obj_meta m x) = m" for m x by (cases x) simp_all
  show "set_obj_meta (obj_meta x) x = x" for x by (cases x) simp_all
  show "set_obj_meta m (set_obj_meta n x) = set_obj_meta m x" for m n x by (cases x) simp_all
qed

interpretation single: meta_object si_Meta "\<lambda>m x. x\<lparr>si_Meta := m\<rparr>"
  by unfold_locales simp_all

interpretation deploy: meta_object dep_Meta "\<lambda>m x. x\<lparr>dep_Meta := m\<rparr>"
  by unfold_locales simp_all

declare obj.get_put [simp] obj.put_get [simp] obj.put_put [simp]

lemma kind_of_set_obj_meta [simp]: "kind_of (set_obj_meta m x) = kind_of x"
  by (cases x) simp_all

type_synonym object_key = "kind \<times> namespaced_name"

definition obj_name :: "k8s_object \<Rightarrow> namespaced_name" where
  "obj_name x = \<lparr>nn_Namespace = Namespace (obj_meta x), nn_Name = Name (obj_meta x)\<rparr>"

definition obj_key :: "k8s_object \<Rightarrow> object_key" where
  "obj_key x = (kind_of x, obj_name x)"

definition with_suffix :: "namespaced_name \<Rightarrow> string \<Rightarrow> namespaced_name" where
  "with_suffix nn suffix = \<lparr>nn_Namespace = nn_Namespace nn, nn_Name = nn_Name nn @ suffix\<rparr>"

fun as_single :: "k8s_object \<Rightarrow> single_instance \<Rightarrow> single_instance" where
  "as_single (OSingle x) _ = x"
| "as_single _ old = old"

fun as_cluster :: "k8s_object \<Rightarrow> group_replication_cluster \<Rightarrow> group_replication_cluster" where
  "as_cluster (OCluster x) _ = x"
| "as_cluster _ old = old"

fun as_service :: "k8s_object \<Rightarrow> service \<Rightarrow> service" where
  "as_service (OService x) _ = x"
| "as_service _ old = old"

section \<open>The client and the state of a reconcile\<close>

text \<open>
  \<open>client.Client\<close>: every call may change the world and writes the server's answer into the
  object it was given, so it returns an error or nil and the object's new content.
\<close>

record 'w client =
  api_Get :: "namespaced_name \<Rightarrow> k8s_object \<Rightarrow> 'w \<Rightarrow> (go_error option \<times> k8s_object) \<times> 'w"
  api_Create :: "k8s_object \<Rightarrow> 'w \<Rightarrow> (go_error option \<times> k8s_object) \<times> 'w"
  api_Update :: "k8s_object \<Rightarrow> 'w \<Rightarrow> (go_error option \<times> k8s_object) \<times> 'w"
  api_StatusUpdate :: "k8s_object \<Rightarrow> 'w \<Rightarrow> (go_error option \<times> k8s_object) \<times> 'w"
  api_Delete :: "k8s_object \<Rightarrow> 'w \<Rightarrow> go_error option \<times> 'w"

datatype api_request =
    ReqGet kind namespaced_name
  | ReqCreate k8s_object
  | ReqUpdate k8s_object
  | ReqStatusUpdate k8s_object
  | ReqDelete kind namespaced_name

type_synonym api_call = "api_request \<times> go_error option"

record event =
  ev_Type :: string
  ev_Reason :: string
  ev_Message :: string

record ('w, 'c) rstate =
  world :: 'w
  cr :: 'c
  events :: "event list"
  trace :: "api_call list"

text \<open>One request: ask the world, remember the request and its outcome.\<close>

definition api_call ::
  "('w \<Rightarrow> 'r \<times> 'w) \<Rightarrow> api_request \<Rightarrow> ('r \<Rightarrow> go_error option) \<Rightarrow> (('w, 'c) rstate, 'r) op" where
  "api_call f req err =
     (\<lambda>s. case f (world s) of (r, w) \<Rightarrow>
        (Inr r, s\<lparr>world := w, trace := trace s @ [(req, err r)]\<rparr>))"

definition check_err :: "go_error option \<times> 'o \<Rightarrow> ('s, 'o) op" where
  "check_err r = (case r of (e, x) \<Rightarrow>
     case e of None \<Rightarrow> ret x | Some err \<Rightarrow> throw (Returned err))"

definition client_Get ::
  "'w client \<Rightarrow> namespaced_name \<Rightarrow> k8s_object \<Rightarrow> (('w, 'c) rstate, go_error option \<times> k8s_object) op" where
  "client_Get cl nn x = api_call (api_Get cl nn x) (ReqGet (kind_of x) nn) fst"

definition client_Create :: "'w client \<Rightarrow> k8s_object \<Rightarrow> (('w, 'c) rstate, k8s_object) op" where
  "client_Create cl x = andThen (api_call (api_Create cl x) (ReqCreate x) fst) check_err"

definition client_Update :: "'w client \<Rightarrow> k8s_object \<Rightarrow> (('w, 'c) rstate, k8s_object) op" where
  "client_Update cl x = andThen (api_call (api_Update cl x) (ReqUpdate x) fst) check_err"

definition client_Delete :: "'w client \<Rightarrow> k8s_object \<Rightarrow> (('w, 'c) rstate, go_error option) op" where
  "client_Delete cl x =
     api_call (api_Delete cl x) (ReqDelete (kind_of x) (obj_name x)) (\<lambda>e. e)"

definition set_cr :: "('c \<Rightarrow> 'c) \<Rightarrow> (('w, 'c) rstate, unit) op" where
  "set_cr f = modify (\<lambda>s. s\<lparr>cr := f (cr s)\<rparr>)"

definition record_event :: "event \<Rightarrow> (('w, 'c) rstate, unit) op" where
  "record_event e = modify (\<lambda>s. s\<lparr>events := events s @ [e]\<rparr>)"

text \<open>\<open>Update\<close> and \<open>Status().Update\<close> of the in-memory custom resource, which takes the answer.\<close>

definition store_single :: "go_error option \<times> k8s_object \<Rightarrow> (('w, single_instance) rstate, unit) op" where
  "store_single r = (case r of (e, x) \<Rightarrow>
     andThen (set_cr (as_single x))
       (\<lambda>_. case e of None \<Rightarrow> ret () | Some err \<Rightarrow> throw (Returned err)))"

definition update_single :: "'w client \<Rightarrow> (('w, single_instance) rstate, unit) op" where
  "update_single cl =
     andThen (gets cr) (\<lambda>c.
     andThen (api_call (api_Update cl (OSingle c)) (ReqUpdate (OSingle c)) fst) store_single)"

definition update_single_status :: "'w client \<Rightarrow> (('w, single_instance) rstate, unit) op" where
  "update_single_status cl =
     andThen (gets cr) (\<lambda>c.
     andThen (api_call (api_StatusUpdate cl (OSingle c)) (ReqStatusUpdate (OSingle c)) fst) store_single)"

definition get_single :: "'w client \<Rightarrow> namespaced_name \<Rightarrow> (('w, single_instance) rstate, go_error option) op" where
  "get_single cl nn =
     andThen (gets cr) (\<lambda>c.
     andThen (client_Get cl nn (OSingle c)) (\<lambda>(e, x).
     andThen (set_cr (as_single x)) (\<lambda>_. ret e)))"

section \<open>What an operation emits\<close>

text \<open>
  \<open>emits c m Q\<close>: run on the custom resource \<open>c\<close>, whatever the world answers, \<open>m\<close> only appends
  to the trace, and \<open>Q\<close> holds of its result, the custom resource it leaves and what it appended.
  The rule for sequencing computes the weakest condition on the first part.
\<close>

definition emits ::
  "'c \<Rightarrow> (('w, 'c) rstate, 'a) op \<Rightarrow> ('a res \<Rightarrow> 'c \<Rightarrow> api_call list \<Rightarrow> bool) \<Rightarrow> bool" where
  "emits c m Q \<longleftrightarrow> (\<forall>s. cr s = c \<longrightarrow>
     (\<exists>new. trace (snd (m s)) = trace s @ new \<and> Q (fst (m s)) (cr (snd (m s))) new))"

named_theorems emits_rules "what the operations emit, applied backwards"

lemma emits_run:
  assumes "emits c m Q" and "cr s = c" and "m s = (r, t)"
  shows "\<exists>new. trace t = trace s @ new \<and> Q r (cr t) new"
proof -
  from assms(1,2) have "\<exists>new. trace (snd (m s)) = trace s @ new \<and> Q (fst (m s)) (cr (snd (m s))) new"
    by (simp add: emits_def)
  with assms(3) show ?thesis by simp
qed

lemma emits_weaken:
  "emits c m P \<Longrightarrow> (\<And>r c' new. P r c' new \<Longrightarrow> Q r c' new) \<Longrightarrow> emits c m Q"
  unfolding emits_def by blast

lemma emits_ret [emits_rules]: "Q (Inr x) c [] \<Longrightarrow> emits c (ret x) Q"
  by (simp add: emits_def op_defs)

lemma emits_throw [emits_rules]: "Q (Inl e) c [] \<Longrightarrow> emits c (throw e) Q"
  by (simp add: emits_def op_defs)

lemma emits_pure [emits_rules]: "Q r c [] \<Longrightarrow> emits c (pure r) Q"
  by (simp add: emits_def op_defs)

lemma emits_gets_cr [emits_rules]: "Q (Inr c) c [] \<Longrightarrow> emits c (gets cr) Q"
  by (simp add: emits_def op_defs)

lemma emits_set_cr [emits_rules]: "Q (Inr ()) (f c) [] \<Longrightarrow> emits c (set_cr f) Q"
  by (simp add: emits_def op_defs set_cr_def)

lemma emits_record_event [emits_rules]: "Q (Inr ()) c [] \<Longrightarrow> emits c (record_event e) Q"
  by (simp add: emits_def op_defs record_event_def)

lemma emits_api_call [emits_rules]:
  "(\<And>r. Q (Inr r) c [(req, err r)]) \<Longrightarrow> emits c (api_call f req err) Q"
  by (auto simp: emits_def api_call_def split: prod.splits)

lemma emits_andThen [emits_rules]:
  fixes m :: "(('w, 'c) rstate, 'a) op" and f :: "'a \<Rightarrow> (('w, 'c) rstate, 'b) op"
  assumes "emits c m (\<lambda>r c' n. case r of
      Inl e \<Rightarrow> Q (Inl e) c' n | Inr x \<Rightarrow> emits c' (f x) (\<lambda>r' c'' n'. Q r' c'' (n @ n')))"
  shows "emits c (andThen m f) Q"
  unfolding emits_def
proof (intro allI impI)
  fix s :: "('w, 'c) rstate"
  assume c: "cr s = c"
  obtain r t where m: "m s = (r, t)" by (cases "m s")
  from emits_run [OF assms c m] obtain n where n: "trace t = trace s @ n"
    "case r of Inl e \<Rightarrow> Q (Inl e) (cr t) n | Inr x \<Rightarrow> emits (cr t) (f x) (\<lambda>r' c'' n'. Q r' c'' (n @ n'))"
    by blast
  show "\<exists>new. trace (snd (andThen m f s)) = trace s @ new
      \<and> Q (fst (andThen m f s)) (cr (snd (andThen m f s))) new"
  proof (cases r)
    case (Inl e)
    with m n show ?thesis by (auto simp: op_defs)
  next
    case (Inr x)
    obtain r' t' where f: "f x t = (r', t')" by (cases "f x t")
    from Inr n(2) have "emits (cr t) (f x) (\<lambda>r' c'' n'. Q r' c'' (n @ n'))" by simp
    from emits_run [OF this refl f] obtain n' where "trace t' = trace t @ n'" "Q r' (cr t') (n @ n')"
      by blast
    with m Inr f n(1) show ?thesis by (auto simp: op_defs)
  qed
qed

lemma emits_if [emits_rules]:
  "(b \<Longrightarrow> emits c m Q) \<Longrightarrow> (\<not> b \<Longrightarrow> emits c n Q) \<Longrightarrow> emits c (if b then m else n) Q"
  by simp

lemma emits_case_option [emits_rules]:
  "(r = None \<Longrightarrow> emits c m Q) \<Longrightarrow> (\<And>x. r = Some x \<Longrightarrow> emits c (g x) Q) \<Longrightarrow>
   emits c (case r of None \<Rightarrow> m | Some x \<Rightarrow> g x) Q"
  by (cases r) auto

lemma emits_case_prod [emits_rules]:
  "(\<And>a b. r = (a, b) \<Longrightarrow> emits c (f a b) Q) \<Longrightarrow> emits c (case r of (a, b) \<Rightarrow> f a b) Q"
  by (cases r) auto

lemma emits_case_sum [emits_rules]:
  "(\<And>e. r = Inl e \<Longrightarrow> emits c (f e) Q) \<Longrightarrow> (\<And>x. r = Inr x \<Longrightarrow> emits c (g x) Q) \<Longrightarrow>
   emits c (case r of Inl e \<Rightarrow> f e | Inr x \<Rightarrow> g x) Q"
  by (cases r) auto

lemma emits_return_err [emits_rules]:
  "(e = None \<Longrightarrow> Q (Inr ()) c []) \<Longrightarrow> (\<And>x. e = Some x \<Longrightarrow> Q (Inl (Returned x)) c []) \<Longrightarrow>
   emits c (return_err e) Q"
  unfolding return_err_def by (auto intro!: emits_ret emits_throw split: option.split)

lemma emits_client_Get [emits_rules]:
  "(\<And>r. Q (Inr r) c [(ReqGet (kind_of x) nn, fst r)]) \<Longrightarrow> emits c (client_Get cl nn x) Q"
  unfolding client_Get_def by (rule emits_api_call)

lemma emits_client_Delete [emits_rules]:
  "(\<And>r. Q (Inr r) c [(ReqDelete (kind_of x) (obj_name x), r)]) \<Longrightarrow> emits c (client_Delete cl x) Q"
  unfolding client_Delete_def by (rule emits_api_call)

lemma emits_check_err:
  "(\<And>x. r = (None, x) \<Longrightarrow> Q (Inr x) c []) \<Longrightarrow> (\<And>e x. r = (Some e, x) \<Longrightarrow> Q (Inl (Returned e)) c []) \<Longrightarrow>
   emits c (check_err r) Q"
  by (auto simp: check_err_def intro!: emits_rules)

lemma emits_client_Create [emits_rules]:
  "(\<And>y. Q (Inr y) c [(ReqCreate x, None)]) \<Longrightarrow>
   (\<And>e. Q (Inl (Returned e)) c [(ReqCreate x, Some e)]) \<Longrightarrow> emits c (client_Create cl x) Q"
  unfolding client_Create_def by (auto intro!: emits_rules emits_check_err)

lemma emits_client_Update [emits_rules]:
  "(\<And>y. Q (Inr y) c [(ReqUpdate x, None)]) \<Longrightarrow>
   (\<And>e. Q (Inl (Returned e)) c [(ReqUpdate x, Some e)]) \<Longrightarrow> emits c (client_Update cl x) Q"
  unfolding client_Update_def by (auto intro!: emits_rules emits_check_err)

lemma emits_update_single [emits_rules]:
  "(\<And>c'. Q (Inr ()) c' [(ReqUpdate (OSingle c), None)]) \<Longrightarrow>
   (\<And>c' e. Q (Inl (Returned e)) c' [(ReqUpdate (OSingle c), Some e)]) \<Longrightarrow>
   emits c (update_single cl) Q"
  unfolding update_single_def store_single_def by (auto intro!: emits_rules)

lemma emits_update_single_status [emits_rules]:
  "(\<And>c'. Q (Inr ()) c' [(ReqStatusUpdate (OSingle c), None)]) \<Longrightarrow>
   (\<And>c' e. Q (Inl (Returned e)) c' [(ReqStatusUpdate (OSingle c), Some e)]) \<Longrightarrow>
   emits c (update_single_status cl) Q"
  unfolding update_single_status_def store_single_def by (auto intro!: emits_rules)

lemma emits_get_single [emits_rules]:
  "(\<And>r c'. Q (Inr r) c' [(ReqGet KSingle nn, r)]) \<Longrightarrow> emits c (get_single cl nn) Q"
  unfolding get_single_def by (auto intro!: emits_rules)

section \<open>Stopping at the first failed write\<close>

text \<open>
  A request is fatal when it is a write the server rejected; a deletion that finds nothing to
  delete is not. A well-behaved operation stops at the first fatal request and fails.
\<close>

fun fatal :: "k8s_lib \<Rightarrow> api_call \<Rightarrow> bool" where
  "fatal L (ReqGet _ _, _) \<longleftrightarrow> False"
| "fatal L (ReqDelete _ _, Some e) \<longleftrightarrow> \<not> IsNotFound L e"
| "fatal L (_, Some e) \<longleftrightarrow> True"
| "fatal L (_, None) \<longleftrightarrow> False"

definition settled :: "k8s_lib \<Rightarrow> api_call list \<Rightarrow> bool" where
  "settled L t \<longleftrightarrow> list_all (\<lambda>c. \<not> fatal L c) t"

definition stops_at_failure :: "k8s_lib \<Rightarrow> 'a res \<Rightarrow> api_call list \<Rightarrow> bool" where
  "stops_at_failure L r new \<longleftrightarrow> settled L new \<or> settled L (butlast new) \<and> isl r"

lemma settled_simps [simp]:
  "settled L []" "settled L (c # cs) \<longleftrightarrow> \<not> fatal L c \<and> settled L cs"
  "settled L (cs @ ds) \<longleftrightarrow> settled L cs \<and> settled L ds"
  by (auto simp: settled_def)

lemma stops_Inr [simp]: "stops_at_failure L (Inr x) new \<longleftrightarrow> settled L new"
  by (simp add: stops_at_failure_def)

lemma stops_settled: "settled L new \<Longrightarrow> stops_at_failure L r new"
  by (simp add: stops_at_failure_def)

lemma stops_append: "settled L n \<Longrightarrow> stops_at_failure L r n' \<Longrightarrow> stops_at_failure L r (n @ n')"
  by (cases "n' = []") (auto simp: stops_at_failure_def butlast_append)

definition fail_fast :: "k8s_lib \<Rightarrow> (('w, 'c) rstate, 'a) op \<Rightarrow> bool" where
  "fail_fast L m \<longleftrightarrow> (\<forall>c. emits c m (\<lambda>r _. stops_at_failure L r))"

named_theorems ff_rules "operations that stop at the first failed write"

lemma fail_fastD:
  assumes "fail_fast L m" and "m s = (r, t)"
  obtains new where "trace t = trace s @ new" and "stops_at_failure L r new"
proof -
  have "emits (cr s) m (\<lambda>r _. stops_at_failure L r)" using assms(1) by (simp add: fail_fast_def)
  from emits_run [OF this refl assms(2)] show thesis using that by blast
qed

lemma fail_fast_andThen [ff_rules]:
  fixes m :: "(('w, 'c) rstate, 'a) op" and f :: "'a \<Rightarrow> (('w, 'c) rstate, 'b) op"
  assumes "fail_fast L m" and "\<And>x. fail_fast L (f x)"
  shows "fail_fast L (andThen m f)"
  unfolding fail_fast_def
proof
  fix c :: 'c
  have "emits c m (\<lambda>r _. stops_at_failure L r)" using assms(1) by (simp add: fail_fast_def)
  then have "emits c m (\<lambda>r c' n. case r of
      Inl e \<Rightarrow> stops_at_failure L (Inl e) n
    | Inr x \<Rightarrow> emits c' (f x) (\<lambda>r' c'' n'. stops_at_failure L r' (n @ n')))"
  proof (rule emits_weaken)
    fix r :: "'a res" and c' :: 'c and n
    assume n: "stops_at_failure L r n"
    show "case r of Inl e \<Rightarrow> stops_at_failure L (Inl e) n
      | Inr x \<Rightarrow> emits c' (f x) (\<lambda>r' c'' n'. stops_at_failure L r' (n @ n'))"
    proof (cases r)
      case (Inl e)
      with n show ?thesis by (simp add: stops_at_failure_def)
    next
      case (Inr x)
      have "emits c' (f x) (\<lambda>r _. stops_at_failure L r)"
        using assms(2) by (simp add: fail_fast_def)
      with n Inr show ?thesis by (auto elim!: emits_weaken intro: stops_append)
    qed
  qed
  then show "emits c (andThen m f) (\<lambda>r _. stops_at_failure L r)" by (rule emits_andThen)
qed

lemma fail_fast_basic [ff_rules]:
  "fail_fast L (ret x)" "fail_fast L (throw e)" "fail_fast L (pure r)" "fail_fast L (gets cr)"
  "fail_fast L (set_cr f)" "fail_fast L (record_event ev)"
  by (auto simp: fail_fast_def stops_settled intro!: emits_rules)

lemma fail_fast_client [ff_rules]:
  "fail_fast L (client_Get cl nn x)" "fail_fast L (client_Create cl x)"
  "fail_fast L (client_Update cl x)" "fail_fast L (update_single cl)"
  "fail_fast L (update_single_status cl)" "fail_fast L (get_single cl nn)"
  by (auto simp: fail_fast_def stops_at_failure_def intro!: emits_rules)

lemma fail_fast_if [ff_rules]:
  "(b \<Longrightarrow> fail_fast L m) \<Longrightarrow> (\<not> b \<Longrightarrow> fail_fast L n) \<Longrightarrow> fail_fast L (if b then m else n)"
  by simp

lemma fail_fast_case_option [ff_rules]:
  "(r = None \<Longrightarrow> fail_fast L m) \<Longrightarrow> (\<And>x. r = Some x \<Longrightarrow> fail_fast L (g x)) \<Longrightarrow>
   fail_fast L (case r of None \<Rightarrow> m | Some x \<Rightarrow> g x)"
  by (cases r) auto

lemma fail_fast_case_prod [ff_rules]:
  "(\<And>a b. r = (a, b) \<Longrightarrow> fail_fast L (f a b)) \<Longrightarrow> fail_fast L (case r of (a, b) \<Rightarrow> f a b)"
  by (cases r) auto

lemma fail_fast_case_sum [ff_rules]:
  "(\<And>e. r = Inl e \<Longrightarrow> fail_fast L (f e)) \<Longrightarrow> (\<And>x. r = Inr x \<Longrightarrow> fail_fast L (g x)) \<Longrightarrow>
   fail_fast L (case r of Inl e \<Rightarrow> f e | Inr x \<Rightarrow> g x)"
  by (cases r) auto

lemma fail_fast_return_err [ff_rules]: "fail_fast L (return_err e)"
  unfolding return_err_def by (intro ff_rules)

lemma fail_fast_for_each [ff_rules]: "(\<And>x. fail_fast L (f x)) \<Longrightarrow> fail_fast L (for_each f xs)"
  by (induction xs) (simp_all add: ff_rules)

end
