(* ===== verification/Server.thy ===== *)
theory Server
  imports Client
begin

text \<open>
  The API server behind the client. The locale \<open>api_server\<close> states, of a client \<open>cl\<close> and the
  objects \<open>objs w\<close> its server holds in a world \<open>w\<close>, what the Kubernetes API documents: names are
  unique per kind, a write of an outdated resource version conflicts, admission may reject an
  object, an object with finalizers is only marked when it is deleted and disappears when its
  last finalizer does. \<open>mem_client\<close> is a server with that behaviour, for any admission.
\<close>

section \<open>The contract\<close>

abbreviation obj_rv :: "k8s_object \<Rightarrow> string" where
  "obj_rv x \<equiv> ResourceVersion (obj_meta x)"

abbreviation obj_deleted :: "k8s_object \<Rightarrow> bool" where
  "obj_deleted x \<equiv> DeletionTimestamp (obj_meta x) \<noteq> None"

text \<open>
  \<open>stored_as x old z\<close>: \<open>z\<close> is what the server keeps of a written \<open>x\<close> that replaces \<open>old\<close>: the
  metadata it owns are its own, the other metadata, the spec of a custom resource and the type
  and ports of a Service are those written. (It may fill in defaults elsewhere, as it does for a
  Service's addresses and node ports.)
\<close>

definition same_spec :: "k8s_object \<Rightarrow> k8s_object \<Rightarrow> bool" where
  "same_spec x z \<longleftrightarrow> kind_of z = kind_of x \<and>
     (\<forall>s. x = OSingle s \<longrightarrow> (\<exists>s'. z = OSingle s' \<and> Spec s' = Spec s)) \<and>
     (\<forall>s. x = OCluster s \<longrightarrow> (\<exists>s'. z = OCluster s' \<and> grc_Spec s' = grc_Spec s)) \<and>
     (\<forall>s. x = OService s \<longrightarrow> (\<exists>s'. z = OService s' \<and> svc_Type s' = svc_Type s
        \<and> map sp_Port (svc_Ports s') = map sp_Port (svc_Ports s)))"

definition stored_as :: "k8s_object \<Rightarrow> k8s_object \<Rightarrow> k8s_object \<Rightarrow> bool" where
  "stored_as x old z \<longleftrightarrow> same_spec x z \<and>
     obj_meta z = (obj_meta x)\<lparr>UID := UID (obj_meta old),
       CreationTimestamp := CreationTimestamp (obj_meta old),
       DeletionTimestamp := DeletionTimestamp (obj_meta old),
       ResourceVersion := obj_rv z\<rparr>"

definition created_as :: "k8s_object \<Rightarrow> k8s_object \<Rightarrow> bool" where
  "created_as x z \<longleftrightarrow> same_spec x z \<and>
     obj_meta z = (obj_meta x)\<lparr>UID := UID (obj_meta z),
       CreationTimestamp := CreationTimestamp (obj_meta z),
       DeletionTimestamp := None, ResourceVersion := obj_rv z\<rparr>"

definition writable :: "k8s_object \<Rightarrow> k8s_object \<Rightarrow> bool" where
  "writable x old \<longleftrightarrow> obj_rv x = [] \<or> obj_rv x = obj_rv old"

definition vanishes :: "k8s_object \<Rightarrow> k8s_object \<Rightarrow> bool" where
  "vanishes x old \<longleftrightarrow> obj_deleted old \<and> Finalizers (obj_meta x) = []"

locale api_server =
  fixes cl :: "'w client"
    and adm :: "k8s_object \<Rightarrow> go_error option"
    and objs :: "'w \<Rightarrow> object_key \<Rightarrow> k8s_object option"
  assumes get_found: "objs w (kind_of x, nn) = Some y \<Longrightarrow> api_Get cl nn x w = ((None, y), w)"
    and get_missing: "objs w (kind_of x, nn) = None \<Longrightarrow>
      \<exists>m. api_Get cl nn x w = ((Some (ApiError NotFound m), x), w)"
    and objs_kind: "objs w k = Some y \<Longrightarrow> obj_key y = k"
    and objs_rv: "objs w k = Some y \<Longrightarrow> obj_rv y \<noteq> []"
    and create_exists: "objs w (obj_key x) \<noteq> None \<Longrightarrow>
      \<exists>m. api_Create cl x w = ((Some (ApiError AlreadyExists m), x), w)"
    and create_rejected: "objs w (obj_key x) = None \<Longrightarrow> adm x = Some e \<Longrightarrow>
      api_Create cl x w = ((Some e, x), w)"
    and create_ok: "objs w (obj_key x) = None \<Longrightarrow> adm x = None \<Longrightarrow>
      \<exists>z w'. api_Create cl x w = ((None, z), w') \<and> objs w' = (objs w)(obj_key x \<mapsto> z)
        \<and> created_as x z"
    and update_missing: "objs w (obj_key x) = None \<Longrightarrow>
      \<exists>m. api_Update cl x w = ((Some (ApiError NotFound m), x), w)"
    and update_stale: "objs w (obj_key x) = Some y \<Longrightarrow> \<not> writable x y \<Longrightarrow>
      \<exists>m. api_Update cl x w = ((Some (ApiError Conflict m), x), w)"
    and update_rejected: "objs w (obj_key x) = Some y \<Longrightarrow> writable x y \<Longrightarrow> adm x = Some e \<Longrightarrow>
      api_Update cl x w = ((Some e, x), w)"
    and update_ok: "objs w (obj_key x) = Some y \<Longrightarrow> writable x y \<Longrightarrow> adm x = None \<Longrightarrow>
      \<exists>z w'. api_Update cl x w = ((None, z), w') \<and> stored_as x y z
        \<and> (vanishes x y \<or> z = y \<or> obj_rv z \<noteq> obj_rv y)
        \<and> objs w' = (objs w)(obj_key x := if vanishes x y then None else Some z)"
    and status_missing: "objs w (obj_key x) = None \<Longrightarrow>
      \<exists>m. api_StatusUpdate cl x w = ((Some (ApiError NotFound m), x), w)"
    and status_stale: "objs w (obj_key x) = Some y \<Longrightarrow> \<not> writable x y \<Longrightarrow>
      \<exists>m. api_StatusUpdate cl x w = ((Some (ApiError Conflict m), x), w)"
    and status_ok: "objs w (obj_key x) = Some y \<Longrightarrow> writable x y \<Longrightarrow>
      \<exists>z w'. api_StatusUpdate cl x w = ((None, z), w') \<and> objs w' = (objs w)(obj_key x \<mapsto> z)
        \<and> stored_as y y z \<and> (z = y \<or> obj_rv z \<noteq> obj_rv y)"
    and delete_missing: "objs w (obj_key x) = None \<Longrightarrow>
      \<exists>m. api_Delete cl x w = (Some (ApiError NotFound m), w)"
    and delete_now: "objs w (obj_key x) = Some y \<Longrightarrow> Finalizers (obj_meta y) = [] \<Longrightarrow>
      \<exists>w'. api_Delete cl x w = (None, w') \<and> objs w' = (objs w)(obj_key x := None)"
    and delete_marks: "objs w (obj_key x) = Some y \<Longrightarrow> Finalizers (obj_meta y) \<noteq> [] \<Longrightarrow>
      \<exists>w' z. api_Delete cl x w = (None, w') \<and> objs w' = (objs w)(obj_key x \<mapsto> z)
        \<and> kind_of z = kind_of y \<and> obj_deleted z"

section \<open>A server in memory\<close>

text \<open>The stored objects, and for every key how often it was written: the resource version.\<close>

record mem =
  store :: "object_key \<Rightarrow> k8s_object option"
  revs :: "object_key \<Rightarrow> nat"

definition with_rv :: "string \<Rightarrow> k8s_object \<Rightarrow> k8s_object" where
  "with_rv v x = set_obj_meta ((obj_meta x)\<lparr>ResourceVersion := v\<rparr>) x"

text \<open>An object is held under its own key whatever the store says it is called.\<close>

definition mem_objs :: "mem \<Rightarrow> object_key \<Rightarrow> k8s_object option" where
  "mem_objs w k = (case store w k of
     Some x \<Rightarrow> if obj_key x = k then Some (with_rv (fmt_nat (revs w k)) x) else None
   | None \<Rightarrow> None)"

definition mem_write :: "k8s_object \<Rightarrow> mem \<Rightarrow> mem" where
  "mem_write x w = w\<lparr>store := (store w)(obj_key x \<mapsto> x),
     revs := (revs w)(obj_key x := Suc (revs w (obj_key x)))\<rparr>"

definition mem_remove :: "object_key \<Rightarrow> mem \<Rightarrow> mem" where
  "mem_remove k w = w\<lparr>store := (store w)(k := None)\<rparr>"

definition mem_Get :: "namespaced_name \<Rightarrow> k8s_object \<Rightarrow> mem \<Rightarrow> (go_error option \<times> k8s_object) \<times> mem" where
  "mem_Get nn x w = (case mem_objs w (kind_of x, nn) of
     Some y \<Rightarrow> ((None, y), w)
   | None \<Rightarrow> ((Some (ApiError NotFound (nn_Name nn @ '' not found'')), x), w))"

definition mem_put :: "k8s_object \<Rightarrow> mem \<Rightarrow> (go_error option \<times> k8s_object) \<times> mem" where
  "mem_put x w = (let n = Suc (revs w (obj_key x)) in ((None, with_rv (fmt_nat n) x), mem_write x w))"

definition mem_Create ::
  "(k8s_object \<Rightarrow> go_error option) \<Rightarrow> k8s_object \<Rightarrow> mem \<Rightarrow> (go_error option \<times> k8s_object) \<times> mem" where
  "mem_Create adm x w = (case mem_objs w (obj_key x) of
     Some y \<Rightarrow> ((Some (ApiError AlreadyExists (Name (obj_meta x) @ '' already exists'')), x), w)
   | None \<Rightarrow> (case adm x of
       Some e \<Rightarrow> ((Some e, x), w)
     | None \<Rightarrow> mem_put (set_obj_meta ((obj_meta x)\<lparr>
         UID := ''uid-'' @ fmt_nat (revs w (obj_key x)),
         CreationTimestamp := AtTime (''t'' @ fmt_nat (revs w (obj_key x))),
         DeletionTimestamp := None\<rparr>) x) w))"

fun merge_status :: "k8s_object \<Rightarrow> k8s_object \<Rightarrow> k8s_object" where
  "merge_status (OSingle a) (OSingle b) = OSingle (a\<lparr>Status := Status b\<rparr>)"
| "merge_status (OCluster a) (OCluster b) = OCluster (a\<lparr>grc_Status := grc_Status b\<rparr>)"
| "merge_status a _ = a"

definition mem_merge :: "k8s_object \<Rightarrow> k8s_object \<Rightarrow> k8s_object" where
  "mem_merge x y = set_obj_meta ((obj_meta x)\<lparr>UID := UID (obj_meta y),
     CreationTimestamp := CreationTimestamp (obj_meta y),
     DeletionTimestamp := DeletionTimestamp (obj_meta y),
     ResourceVersion := obj_rv y\<rparr>) (merge_status x y)"

definition mem_Update ::
  "(k8s_object \<Rightarrow> go_error option) \<Rightarrow> k8s_object \<Rightarrow> mem \<Rightarrow> (go_error option \<times> k8s_object) \<times> mem" where
  "mem_Update adm x w = (case mem_objs w (obj_key x) of
     None \<Rightarrow> ((Some (ApiError NotFound (Name (obj_meta x) @ '' not found'')), x), w)
   | Some y \<Rightarrow>
       if \<not> writable x y then ((Some (ApiError Conflict ''the object has been modified''), x), w)
       else (case adm x of
         Some e \<Rightarrow> ((Some e, x), w)
       | None \<Rightarrow>
           if vanishes x y then ((None, mem_merge x y), mem_remove (obj_key x) w)
           else if mem_merge x y = y then ((None, y), w)
           else mem_put (mem_merge x y) w))"

definition mem_StatusUpdate :: "k8s_object \<Rightarrow> mem \<Rightarrow> (go_error option \<times> k8s_object) \<times> mem" where
  "mem_StatusUpdate x w = (case mem_objs w (obj_key x) of
     None \<Rightarrow> ((Some (ApiError NotFound (Name (obj_meta x) @ '' not found'')), x), w)
   | Some y \<Rightarrow>
       if \<not> writable x y then ((Some (ApiError Conflict ''the object has been modified''), x), w)
       else if merge_status y x = y then ((None, y), w)
       else mem_put (merge_status y x) w)"

definition mem_Delete :: "k8s_object \<Rightarrow> mem \<Rightarrow> go_error option \<times> mem" where
  "mem_Delete x w = (case mem_objs w (obj_key x) of
     None \<Rightarrow> (Some (ApiError NotFound (Name (obj_meta x) @ '' not found'')), w)
   | Some y \<Rightarrow>
       if Finalizers (obj_meta y) = [] then (None, mem_remove (obj_key x) w)
       else if obj_deleted y then (None, w)
       else (None, snd (mem_put (set_obj_meta ((obj_meta y)\<lparr>DeletionTimestamp := Some (AtTime ''now'')\<rparr>) y) w)))"

definition mem_client :: "(k8s_object \<Rightarrow> go_error option) \<Rightarrow> mem client" where
  "mem_client adm = \<lparr>api_Get = mem_Get, api_Create = mem_Create adm, api_Update = mem_Update adm,
     api_StatusUpdate = mem_StatusUpdate, api_Delete = mem_Delete\<rparr>"

lemma obj_key_with [simp]:
  "obj_key (with_rv v x) = obj_key x"
  "kind_of (with_rv v x) = kind_of x"
  "obj_meta (with_rv v x) = (obj_meta x)\<lparr>ResourceVersion := v\<rparr>"
  by (simp_all add: with_rv_def obj_key_def obj_name_def)

lemma with_rv_absorb: "obj_rv x = v \<Longrightarrow> with_rv v x = x"
  by (metis obj.put_get object_meta.surjective object_meta.update_convs(4) with_rv_def)

lemma mem_objs_key: "mem_objs w k = Some y \<Longrightarrow> obj_key y = k \<and> obj_rv y = fmt_nat (revs w k)"
  by (auto simp: mem_objs_def split: option.splits if_splits)

lemma merge_status_meta [simp]:
  "obj_meta (merge_status x y) = obj_meta x" "kind_of (merge_status x y) = kind_of x"
  "same_spec x (merge_status x y)"
  by (cases "(x, y)" rule: merge_status.cases; simp add: same_spec_def)+

lemma same_spec_set_meta [simp]: "same_spec x (set_obj_meta m z) = same_spec x z"
  by (cases z) (auto simp: same_spec_def)

lemma same_spec_refl [simp]: "same_spec x x"
  by (simp add: same_spec_def)

lemma mem_merge_simps [simp]:
  "obj_key (mem_merge x y) = obj_key x"
  "obj_rv (mem_merge x y) = obj_rv y"
  "stored_as x y (mem_merge x y)"
  by (simp_all add: mem_merge_def obj_key_def obj_name_def stored_as_def)

lemma obj_key_merge_status [simp]: "obj_key (merge_status x y) = obj_key x"
  by (simp add: obj_key_def obj_name_def)

lemma mem_objs_write [simp]:
  "mem_objs (mem_write x w) = (mem_objs w)(obj_key x \<mapsto> with_rv (fmt_nat (Suc (revs w (obj_key x)))) x)"
  by (auto simp: mem_objs_def mem_write_def fun_eq_iff split: option.split)

lemma mem_objs_remove [simp]: "mem_objs (mem_remove k w) = (mem_objs w)(k := None)"
  by (auto simp: mem_objs_def mem_remove_def fun_eq_iff split: option.split)

lemma mem_put_simps:
  "mem_put x w = ((None, with_rv (fmt_nat (Suc (revs w (obj_key x)))) x), mem_write x w)"
  by (simp add: mem_put_def Let_def)

lemma fresh_rv: "mem_objs w k = Some y \<Longrightarrow> fmt_nat (Suc (revs w k)) \<noteq> obj_rv y"
  by (auto dest!: mem_objs_key simp: fmt_nat_inj)

lemma stored_as_with_rv [simp]: "stored_as x y (with_rv v z) = stored_as x y z"
  by (cases "obj_meta x"; cases "obj_meta y"; cases "obj_meta z") (auto simp: stored_as_def with_rv_def)

lemma same_spec_with_rv [simp]: "same_spec x (with_rv v z) = same_spec x z"
  by (simp add: with_rv_def)

lemma merge_unchanged: "mem_merge x y = y \<Longrightarrow> stored_as x y y"
  by (metis mem_merge_simps(3))

interpretation mem: api_server "mem_client adm" adm mem_objs
proof
  show "\<exists>z w'. api_Update (mem_client adm) x w = ((None, z), w') \<and> stored_as x y z
      \<and> (vanishes x y \<or> z = y \<or> obj_rv z \<noteq> obj_rv y)
      \<and> mem_objs w' = (mem_objs w)(obj_key x := if vanishes x y then None else Some z)"
    if "mem_objs w (obj_key x) = Some y" "writable x y" "adm x = None" for w x y
    using that fresh_rv [OF that(1)] mem_merge_simps(3) [of x y]
    by (auto simp: mem_client_def mem_Update_def mem_put_simps merge_unchanged)
  show "\<exists>z w'. api_StatusUpdate (mem_client adm) x w = ((None, z), w')
      \<and> mem_objs w' = (mem_objs w)(obj_key x \<mapsto> z) \<and> stored_as y y z \<and> (z = y \<or> obj_rv z \<noteq> obj_rv y)"
    if "mem_objs w (obj_key x) = Some y" "writable x y" for w x y
    using that fresh_rv [OF that(1)] mem_objs_key [OF that(1)]
    by (auto simp: mem_client_def mem_StatusUpdate_def mem_put_simps stored_as_def)
  show "\<exists>z w'. api_Create (mem_client adm) x w = ((None, z), w')
      \<and> mem_objs w' = (mem_objs w)(obj_key x \<mapsto> z) \<and> created_as x z"
    if "mem_objs w (obj_key x) = None" "adm x = None" for w x
    using that by (auto simp: mem_client_def mem_Create_def mem_put_simps created_as_def obj_key_def obj_name_def with_rv_def)
  show "\<exists>w' z. api_Delete (mem_client adm) x w = (None, w')
      \<and> mem_objs w' = (mem_objs w)(obj_key x \<mapsto> z) \<and> kind_of z = kind_of y \<and> obj_deleted z"
    if "mem_objs w (obj_key x) = Some y" "Finalizers (obj_meta y) \<noteq> []" for w x y
  proof (cases "obj_deleted y")
    case True
    with that mem_objs_key [OF that(1)] show ?thesis
      by (intro exI [of _ w] exI [of _ y])
        (simp add: mem_client_def mem_Delete_def fun_upd_idem)
  next
    case False
    let ?z = "set_obj_meta ((obj_meta y)\<lparr>DeletionTimestamp := Some (AtTime ''now'')\<rparr>) y"
    have "obj_key ?z = obj_key x"
      using mem_objs_key [OF that(1)] by (simp add: obj_key_def obj_name_def)
    with that False show ?thesis
      by (intro exI [of _ "mem_write ?z w"]
          exI [of _ "with_rv (fmt_nat (Suc (revs w (obj_key x)))) ?z"])
        (simp add: mem_client_def mem_Delete_def mem_put_simps)
  qed
qed (auto simp: mem_client_def mem_Get_def mem_Create_def mem_Update_def mem_StatusUpdate_def
    mem_Delete_def mem_objs_key)

section \<open>What the operations do to the server's objects\<close>

context api_server
begin

lemma get_cases:
  assumes "api_Get cl nn x w = ((e, y), w')"
  shows "w' = w \<and> (case objs w (kind_of x, nn) of
    Some z \<Rightarrow> e = None \<and> y = z | None \<Rightarrow> (\<exists>m. e = Some (ApiError NotFound m)) \<and> y = x)"
  using assms get_found [of w x nn] get_missing [of w x nn]
  by (cases "objs w (kind_of x, nn)") auto

lemma create_cases:
  assumes "api_Create cl x w = ((e, z), w')"
  obtains (failed) err where "e = Some err" "w' = w" "objs w (obj_key x) \<noteq> None \<or> adm x \<noteq> None"
  | (ok) "e = None" "objs w (obj_key x) = None" "adm x = None" "created_as x z"
    "objs w' = (objs w)(obj_key x \<mapsto> z)"
  using assms create_exists [of w x] create_rejected [of w x] create_ok [of w x]
  by (cases "objs w (obj_key x)"; cases "adm x") auto

lemma update_cases:
  assumes "api_Update cl x w = ((e, z), w')"
  obtains (failed) err where "e = Some err" "w' = w"
  | (ok) y where "e = None" "objs w (obj_key x) = Some y" "writable x y" "adm x = None" "stored_as x y z"
    "objs w' = (objs w)(obj_key x := if vanishes x y then None else Some z)"
proof (cases "objs w (obj_key x)")
  case None
  then show thesis using assms failed update_missing [of w x] by auto
next
  case (Some y)
  show thesis
  proof (cases "writable x y \<and> adm x = None")
    case True
    then show thesis using assms ok Some update_ok [OF Some] by auto
  next
    case False
    then show thesis
      using assms failed update_stale [OF Some] update_rejected [OF Some] by (cases "adm x") auto
  qed
qed

lemma status_cases:
  assumes "api_StatusUpdate cl x w = ((e, z), w')"
  obtains (failed) err where "e = Some err" "w' = w"
  | (ok) y where "e = None" "objs w (obj_key x) = Some y" "writable x y" "stored_as y y z"
    "objs w' = (objs w)(obj_key x \<mapsto> z)"
proof (cases "objs w (obj_key x)")
  case None
  then show thesis using assms failed status_missing [of w x] by auto
next
  case (Some y)
  then show thesis
    using assms failed ok [of y] status_stale [OF Some] status_ok [OF Some] by (cases "writable x y") auto
qed

lemma delete_cases:
  assumes "api_Delete cl x w = (e, w')"
  obtains (missing) m where "e = Some (ApiError NotFound m)" "w' = w" "objs w (obj_key x) = None"
  | (removed) y where "e = None" "objs w (obj_key x) = Some y" "Finalizers (obj_meta y) = []"
    "objs w' = (objs w)(obj_key x := None)"
  | (marked) y z where "e = None" "objs w (obj_key x) = Some y" "Finalizers (obj_meta y) \<noteq> []"
    "objs w' = (objs w)(obj_key x \<mapsto> z)" "kind_of z = kind_of y" "obj_deleted z"
proof (cases "objs w (obj_key x)")
  case None
  then show thesis using assms missing delete_missing [of w x] by auto
next
  case (Some y)
  then show thesis
    using assms removed [of y] marked [of y] delete_now [OF Some] delete_marks [OF Some]
    by (cases "Finalizers (obj_meta y) = []") auto
qed

end

text \<open>
  \<open>keeps objs I m\<close>: the operation preserves the property \<open>I\<close> of the server's objects, whether it
  succeeds or fails.
\<close>

definition keeps ::
  "('w \<Rightarrow> object_key \<Rightarrow> k8s_object option) \<Rightarrow> ((object_key \<Rightarrow> k8s_object option) \<Rightarrow> bool) \<Rightarrow>
   (('w, 'c) rstate, 'a) op \<Rightarrow> bool" where
  "keeps objs I m \<longleftrightarrow>
     triple (\<lambda>s. I (objs (world s))) m (\<lambda>_ s. I (objs (world s))) (\<lambda>_ s. I (objs (world s)))"

named_theorems keeps_rules "operations that preserve a property of the server's objects"

lemma keeps_andThen [keeps_rules]:
  "keeps objs I m \<Longrightarrow> (\<And>x. keeps objs I (f x)) \<Longrightarrow> keeps objs I (andThen m f)"
  unfolding keeps_def by (rule triple_andThen)

lemma keeps_basic [keeps_rules]:
  "keeps objs I (ret x)" "keeps objs I (throw e)" "keeps objs I (pure r)" "keeps objs I (gets g)"
  "keeps objs I (set_cr f)" "keeps objs I (record_event ev)"
  by (auto simp: keeps_def set_cr_def record_event_def intro!: triple)

lemma keeps_if [keeps_rules]:
  "(b \<Longrightarrow> keeps objs I m) \<Longrightarrow> (\<not> b \<Longrightarrow> keeps objs I n) \<Longrightarrow> keeps objs I (if b then m else n)"
  by simp

lemma keeps_case_option [keeps_rules]:
  "(r = None \<Longrightarrow> keeps objs I m) \<Longrightarrow> (\<And>x. r = Some x \<Longrightarrow> keeps objs I (g x)) \<Longrightarrow>
   keeps objs I (case r of None \<Rightarrow> m | Some x \<Rightarrow> g x)"
  by (cases r) auto

lemma keeps_case_sum [keeps_rules]:
  "(\<And>e. r = Inl e \<Longrightarrow> keeps objs I (f e)) \<Longrightarrow> (\<And>x. r = Inr x \<Longrightarrow> keeps objs I (g x)) \<Longrightarrow>
   keeps objs I (case r of Inl e \<Rightarrow> f e | Inr x \<Rightarrow> g x)"
  by (cases r) auto

lemma keeps_case_prod [keeps_rules]:
  "(\<And>a b. r = (a, b) \<Longrightarrow> keeps objs I (f a b)) \<Longrightarrow> keeps objs I (case r of (a, b) \<Rightarrow> f a b)"
  by (cases r) auto

lemma keeps_return_err [keeps_rules]: "keeps objs I (return_err e)"
  unfolding return_err_def by (intro keeps_rules)

lemma keeps_for_each [keeps_rules]:
  "(\<And>x. keeps objs I (f x)) \<Longrightarrow> keeps objs I (for_each f xs)"
  by (induction xs) (simp_all add: keeps_rules)

lemma keeps_api_call:
  assumes "\<And>w r w'. I (objs w) \<Longrightarrow> f w = (r, w') \<Longrightarrow> I (objs w')"
  shows "keeps objs I (api_call f req err)"
  using assms by (auto simp: keeps_def triple_def api_call_def split: prod.splits)

lemma keepsD: "keeps objs I m \<Longrightarrow> I (objs (world s)) \<Longrightarrow> I (objs (world (snd (m s))))"
  by (auto simp: keeps_def triple_def split: prod.splits sum.splits) (metis prod.collapse)

context api_server
begin

lemma keeps_Get [keeps_rules]: "keeps objs I (client_Get cl nn x)"
  unfolding client_Get_def by (rule keeps_api_call) (auto dest: get_cases)

lemma keeps_check_err [keeps_rules]: "keeps objs I (check_err r)"
  unfolding check_err_def by (intro keeps_rules)

lemma keeps_api_Create:
  assumes "\<And>O' z. I O' \<Longrightarrow> O' (obj_key x) = None \<Longrightarrow> adm x = None \<Longrightarrow> I (O'(obj_key x \<mapsto> z))"
  shows "keeps objs I (api_call (api_Create cl x) req err)"
  by (rule keeps_api_call) (auto elim!: create_cases intro!: assms)

lemma keeps_api_Update:
  assumes "\<And>O' v. I O' \<Longrightarrow> O' (obj_key x) \<noteq> None \<Longrightarrow> I (O'(obj_key x := v))"
  shows "keeps objs I (api_call (api_Update cl x) req err)"
  by (rule keeps_api_call) (auto elim!: update_cases intro!: assms)

lemma keeps_api_StatusUpdate:
  assumes "\<And>O' v. I O' \<Longrightarrow> O' (obj_key x) \<noteq> None \<Longrightarrow> I (O'(obj_key x := v))"
  shows "keeps objs I (api_call (api_StatusUpdate cl x) req err)"
  by (rule keeps_api_call) (auto elim!: status_cases intro!: assms)

lemma keeps_client_Delete:
  assumes "\<And>O' v. I O' \<Longrightarrow> O' (obj_key x) \<noteq> None \<Longrightarrow> I (O'(obj_key x := v))"
  shows "keeps objs I (client_Delete cl x)"
  unfolding client_Delete_def
  by (rule keeps_api_call) (auto elim!: delete_cases intro!: assms)

lemma keeps_client_Create:
  assumes "\<And>O' z. I O' \<Longrightarrow> O' (obj_key x) = None \<Longrightarrow> adm x = None \<Longrightarrow> I (O'(obj_key x \<mapsto> z))"
  shows "keeps objs I (client_Create cl x)"
  unfolding client_Create_def by (intro keeps_rules keeps_api_Create assms)

lemma keeps_client_Update:
  assumes "\<And>O' v. I O' \<Longrightarrow> O' (obj_key x) \<noteq> None \<Longrightarrow> I (O'(obj_key x := v))"
  shows "keeps objs I (client_Update cl x)"
  unfolding client_Update_def by (intro keeps_rules keeps_api_Update assms)

text \<open>Properties that writing existing custom resources cannot break.\<close>

lemma keeps_single:
  assumes "\<And>O' nn v. I O' \<Longrightarrow> O' (KSingle, nn) \<noteq> None \<Longrightarrow> I (O'((KSingle, nn) := v))"
  shows "keeps objs I (update_single cl)" "keeps objs I (update_single_status cl)"
    "keeps objs I (get_single cl nn)"
  unfolding update_single_def update_single_status_def get_single_def store_single_def
  by (intro keeps_rules keeps_api_Update keeps_api_StatusUpdate; simp add: obj_key_def assms)+

end

end
