(* ===== verification/Finalizer.thy ===== *)
theory Finalizer
  imports Server
begin

text \<open>
  \<open>internal/utils/finalizer.go\<close>: the finalizer of a SingleInstance. \<open>g.GreatSql\<close> is the
  in-memory custom resource of the reconcile's state. \<open>script\<close> specifies an operation by the
  list of requests it is to issue: it issues them in order and stops at the first that fails.
\<close>

section \<open>Scripts of requests\<close>

definition script :: "k8s_lib \<Rightarrow> api_request list \<Rightarrow> 'a res \<Rightarrow> api_call list \<Rightarrow> bool" where
  "script L reqs r new \<longleftrightarrow> (case r of
     Inr _ \<Rightarrow> map fst new = reqs \<and> settled L new
   | Inl f \<Rightarrow> \<exists>pre req e post. reqs = map fst pre @ req # post \<and> settled L pre
       \<and> new = pre @ [(req, Some e)] \<and> fatal L (req, Some e) \<and> f = Returned e)"

lemma script_nil [simp, intro]: "script L [] (Inr x) []"
  by (simp add: script_def)

lemma script_stop:
  "fatal L (q, Some e) \<Longrightarrow> script L (q # qs) (Inl (Returned e)) [(q, Some e)]"
  by (auto simp: script_def)

lemma script_one:
  "\<not> fatal L (q, out) \<Longrightarrow> script L [q] (Inr x) [(q, out)]"
  by (simp add: script_def)

lemma script_append:
  assumes "script L qs (Inr x) n" and "script L qs' r n'"
  shows "script L (qs @ qs') r (n @ n')"
proof (cases r)
  case (Inl f)
  with assms obtain pre req e post where "qs' = map fst pre @ req # post" "settled L pre"
    "n' = pre @ [(req, Some e)]" "fatal L (req, Some e)" "f = Returned e"
    by (auto simp: script_def)
  with assms(1) Inl show ?thesis
    by (auto simp: script_def intro!: exI [of _ "n @ pre"])
qed (use assms in \<open>auto simp: script_def\<close>)

lemma script_Cons:
  "\<not> fatal L (q, out) \<Longrightarrow> script L qs r n \<Longrightarrow> script L (q # qs) r ((q, out) # n)"
  using script_append [OF script_one, of L q out qs r n] by simp

lemma script_cut:
  assumes "script L qs (Inl f :: 'a res) n"
  shows "script L (qs @ qs') (Inl f :: 'b res) n"
proof -
  from assms obtain pre req e post where "qs = map fst pre @ req # post" "settled L pre"
    "n = pre @ [(req, Some e)]" "fatal L (req, Some e)" "f = Returned e"
    by (auto simp: script_def)
  then show ?thesis by (auto simp: script_def)
qed

lemma script_stops: "script L qs r n \<Longrightarrow> stops_at_failure L r n"
  by (auto simp: script_def stops_at_failure_def split: sum.splits)

lemma script_prefix: "script L qs r n \<Longrightarrow> map fst n = take (length n) qs"
  by (auto simp: script_def split: sum.splits)

text \<open>Sequencing of operations that follow scripts and leave the custom resource alone.\<close>

definition follows :: "k8s_lib \<Rightarrow> 'c \<Rightarrow> (('w, 'c) rstate, 'a) op \<Rightarrow> api_request list \<Rightarrow> bool" where
  "follows L c m reqs \<longleftrightarrow> emits c m (\<lambda>r c' new. c' = c \<and> script L reqs r new)"

lemma emits_follows:
  fixes m :: "(('w, 'c) rstate, 'a) op" and f :: "'a \<Rightarrow> (('w, 'c) rstate, 'b) op"
  assumes "follows L c m qs"
    and "\<And>x n. script L qs (Inr x :: 'a res) n \<Longrightarrow> emits c (f x) (\<lambda>r c' n'. Q r c' (n @ n'))"
    and "\<And>e n. script L qs (Inl e :: 'a res) n \<Longrightarrow> Q (Inl e) c n"
  shows "emits c (andThen m f) Q"
  using assms(1) unfolding follows_def
  by (intro emits_andThen, elim emits_weaken) (auto split: sum.splits intro: assms(2,3))

lemma follows_ret: "follows L c (ret x) []"
  by (auto simp: follows_def intro!: emits_rules)

lemma follows_andThen:
  fixes m :: "(('w, 'c) rstate, 'a) op" and f :: "'a \<Rightarrow> (('w, 'c) rstate, 'b) op"
  assumes "follows L c m qs" and "\<And>x. follows L c (f x) qs'"
  shows "follows L c (andThen m f) (qs @ qs')"
  unfolding follows_def
proof (rule emits_follows [OF assms(1)])
  fix x n
  assume "script L qs (Inr x :: 'a res) n"
  then show "emits c (f x) (\<lambda>r c' n'. c' = c \<and> script L (qs @ qs') r (n @ n'))"
    using assms(2) [of x] unfolding follows_def
    by (auto elim!: emits_weaken intro: script_append)
qed (auto intro: script_cut)

lemma follows_gets_cr: "follows L c (f c) qs \<Longrightarrow> follows L c (andThen (gets cr) f) qs"
  by (auto simp: follows_def intro!: emits_andThen emits_gets_cr)

lemma follows_for_each:
  "(\<And>x. x \<in> set xs \<Longrightarrow> follows L c (f x) (q x)) \<Longrightarrow>
   follows L c (for_each f xs) (concat (map q xs))"
  by (induction xs) (auto intro: follows_ret follows_andThen)

section \<open>The finalizer\<close>

text \<open>\<open>err := Delete(obj); if err != nil && !IsNotFound(err) { return err }; return nil\<close>\<close>

definition delete_if_found :: "k8s_lib \<Rightarrow> 'w client \<Rightarrow> k8s_object \<Rightarrow> (('w, 'c) rstate, unit) op" where
  "delete_if_found L cl x =
     andThen (client_Delete cl x) (\<lambda>err. case err of
       Some e \<Rightarrow> if \<not> IsNotFound L e then throw (Returned e) else ret ()
     | None \<Rightarrow> ret ())"

definition finalizePersistentVolumeClaims ::
  "k8s_lib \<Rightarrow> 'w client \<Rightarrow> (('w, single_instance) rstate, unit) op" where
  "finalizePersistentVolumeClaims L cl =
     andThen (gets cr) (\<lambda>g.
       for_each (\<lambda>i. delete_if_found L cl (OPVC (zero_pvc\<lparr>pvc_Meta := zero_meta\<lparr>
           Name := Name (si_Meta g) @ ''-db-'' @ fmt_nat i,
           Namespace := Namespace (si_Meta g)\<rparr>\<rparr>)))
         [0..<nat (sint (GetSize (Spec g)))])"

definition finalizeDeployment :: "k8s_lib \<Rightarrow> 'w client \<Rightarrow> (('w, single_instance) rstate, unit) op" where
  "finalizeDeployment L cl =
     andThen (gets cr) (\<lambda>g.
       delete_if_found L cl (ODeployment (zero_deployment\<lparr>dep_Meta := zero_meta\<lparr>
         Name := Name (si_Meta g), Namespace := Namespace (si_Meta g)\<rparr>\<rparr>)))"

definition finalizeService :: "k8s_lib \<Rightarrow> 'w client \<Rightarrow> (('w, single_instance) rstate, unit) op" where
  "finalizeService L cl =
     andThen (gets cr) (\<lambda>g.
       delete_if_found L cl (OService (zero_service\<lparr>svc_Meta := zero_meta\<lparr>
         Name := Name (si_Meta g), Namespace := Namespace (si_Meta g)\<rparr>\<rparr>)))"

definition finalizeConfigMap :: "k8s_lib \<Rightarrow> 'w client \<Rightarrow> (('w, single_instance) rstate, unit) op" where
  "finalizeConfigMap L cl =
     andThen (gets cr) (\<lambda>g.
       delete_if_found L cl (OConfigMap (zero_configmap\<lparr>cm_Meta := zero_meta\<lparr>
         Name := Name (si_Meta g) @ ''config'', Namespace := Namespace (si_Meta g)\<rparr>\<rparr>)))"

definition without_finalizer :: "k8s_lib \<Rightarrow> single_instance \<Rightarrow> single_instance" where
  "without_finalizer L g = g\<lparr>si_Meta := RemoveFinalizer L (si_Meta g) GreatSqlFinalizer_const\<rparr>"

definition with_finalizer :: "k8s_lib \<Rightarrow> single_instance \<Rightarrow> single_instance" where
  "with_finalizer L g = g\<lparr>si_Meta := AddFinalizer L (si_Meta g) GreatSqlFinalizer_const\<rparr>"

definition has_finalizer :: "k8s_lib \<Rightarrow> single_instance \<Rightarrow> bool" where
  "has_finalizer L g = ContainsFinalizer L (si_Meta g) GreatSqlFinalizer_const"

definition HandleFinalizer :: "k8s_lib \<Rightarrow> 'w client \<Rightarrow> (('w, single_instance) rstate, unit) op" where
  "HandleFinalizer L cl =
     andThen (gets cr) (\<lambda>g.
       if \<not> IsZero_time (DeletionTimestamp (si_Meta g)) then
         if has_finalizer L g then
           andThen (finalizePersistentVolumeClaims L cl) (\<lambda>_.
           andThen (finalizeDeployment L cl) (\<lambda>_.
           andThen (finalizeService L cl) (\<lambda>_.
           andThen (finalizeConfigMap L cl) (\<lambda>_.
           andThen (set_cr (without_finalizer L)) (\<lambda>_.
             update_single cl)))))
         else ret ()
       else ret ())"

definition GreatSqlFinalizer_AddFinalizer ::
  "k8s_lib \<Rightarrow> 'w client \<Rightarrow> (('w, single_instance) rstate, unit) op" where
  "GreatSqlFinalizer_AddFinalizer L cl =
     andThen (gets cr) (\<lambda>g.
       if \<not> has_finalizer L g then
         andThen (set_cr (with_finalizer L)) (\<lambda>_. update_single cl)
       else ret ())"

definition GreatSqlFinalizer_RemoveFinalizer ::
  "k8s_lib \<Rightarrow> 'w client \<Rightarrow> (('w, single_instance) rstate, unit) op" where
  "GreatSqlFinalizer_RemoveFinalizer L cl =
     andThen (gets cr) (\<lambda>g.
       if has_finalizer L g then
         andThen (set_cr (without_finalizer L)) (\<lambda>_. update_single cl)
       else ret ())"

text \<open>The handler's cleanup, and the removal of the finalizer that follows it.\<close>

lemma HandleFinalizer_parts:
  "HandleFinalizer L cl =
     andThen (gets cr) (\<lambda>g.
       if \<not> IsZero_time (DeletionTimestamp (si_Meta g)) \<and> has_finalizer L g then
         andThen
           (andThen (finalizePersistentVolumeClaims L cl) (\<lambda>_.
            andThen (finalizeDeployment L cl) (\<lambda>_.
            andThen (finalizeService L cl) (\<lambda>_. finalizeConfigMap L cl))))
           (\<lambda>_. andThen (set_cr (without_finalizer L)) (\<lambda>_. update_single cl))
       else ret ())"
  unfolding HandleFinalizer_def by (intro arg_cong [where f = "andThen (gets cr)"] ext) (simp add: andThen_assoc)

section \<open>What the finalizer requests\<close>

definition named :: "single_instance \<Rightarrow> string \<Rightarrow> namespaced_name" where
  "named g suffix = \<lparr>nn_Namespace = Namespace (si_Meta g), nn_Name = Name (si_Meta g) @ suffix\<rparr>"

definition pvc_cleanup :: "single_instance \<Rightarrow> api_request list" where
  "pvc_cleanup g = map (\<lambda>i. ReqDelete KPVC (named g (''-db-'' @ fmt_nat i))) [0..<nat (sint (GetSize (Spec g)))]"

definition cleanup :: "single_instance \<Rightarrow> api_request list" where
  "cleanup g = pvc_cleanup g @ [ReqDelete KDeployment (named g []), ReqDelete KService (named g []),
     ReqDelete KConfigMap (named g ''config'')]"

lemma follows_delete_if_found:
  assumes "qs = [ReqDelete (kind_of x) (obj_name x)]"
  shows "follows L c (delete_if_found L cl x) qs"
  unfolding follows_def delete_if_found_def assms
  by (intro emits_rules) (auto intro!: script_one script_stop emits_rules)

lemma follows_finalizePVCs: "follows L g (finalizePersistentVolumeClaims L cl) (pvc_cleanup g)"
proof -
  have "follows L g (finalizePersistentVolumeClaims L cl)
      (concat (map (\<lambda>i. [ReqDelete KPVC (named g (''-db-'' @ fmt_nat i))]) [0..<nat (sint (GetSize (Spec g)))]))"
    unfolding finalizePersistentVolumeClaims_def
    by (intro follows_gets_cr follows_for_each follows_delete_if_found)
      (simp add: obj_name_def named_def)
  then show ?thesis by (simp add: pvc_cleanup_def concat_map_singleton)
qed

lemma follows_finalize:
  "follows L g (finalizeDeployment L cl) [ReqDelete KDeployment (named g [])]"
  "follows L g (finalizeService L cl) [ReqDelete KService (named g [])]"
  "follows L g (finalizeConfigMap L cl) [ReqDelete KConfigMap (named g ''config'')]"
  unfolding finalizeDeployment_def finalizeService_def finalizeConfigMap_def
  by (intro follows_gets_cr follows_delete_if_found; simp add: obj_name_def named_def)+

lemma script_update [simp]:
  "script L [ReqUpdate x] (Inr y) [(ReqUpdate x, None)]"
  "script L [ReqUpdate x] (Inl (Returned e)) [(ReqUpdate x, Some e)]"
  by (auto intro: script_one script_stop)

lemma emits_update_script:
  "emits c (update_single cl) (\<lambda>r _. script L [ReqUpdate (OSingle c)] r)"
  by (auto intro!: emits_rules script_update)

lemma script_update_issued:
  "script L [ReqUpdate x] r n \<Longrightarrow> \<exists>out. n = [(ReqUpdate x, out)]"
  by (auto simp: script_def Cons_eq_append_conv split: sum.splits)

lemma HandleFinalizer_emits:
  assumes "\<not> IsZero_time (DeletionTimestamp (si_Meta g))" and "has_finalizer L g"
  shows "emits g (HandleFinalizer L cl) (\<lambda>r c' n.
    script L (cleanup g @ [ReqUpdate (OSingle (without_finalizer L g))]) r n
    \<and> ((\<exists>x. ReqUpdate x \<in> fst ` set n) \<or> c' = g))"
proof -
  let ?first = "andThen (finalizePersistentVolumeClaims L cl) (\<lambda>_.
     andThen (finalizeDeployment L cl) (\<lambda>_.
     andThen (finalizeService L cl) (\<lambda>_. finalizeConfigMap L cl)))"
  let ?last = "andThen (set_cr (without_finalizer L)) (\<lambda>_. update_single cl)"
  have "follows L g ?first (pvc_cleanup g @ [ReqDelete KDeployment (named g [])]
      @ [ReqDelete KService (named g [])] @ [ReqDelete KConfigMap (named g ''config'')])"
    by (intro follows_andThen follows_finalizePVCs follows_finalize)
  then have first: "follows L g ?first (cleanup g)" by (simp add: cleanup_def)
  have last: "emits g ?last (\<lambda>r _ n. script L [ReqUpdate (OSingle (without_finalizer L g))] r n)"
    by (intro emits_andThen emits_set_cr) (simp add: emits_update_script)
  have "emits g (andThen ?first (\<lambda>_. ?last)) (\<lambda>r c' n.
    script L (cleanup g @ [ReqUpdate (OSingle (without_finalizer L g))]) r n
    \<and> ((\<exists>x. ReqUpdate x \<in> fst ` set n) \<or> c' = g))"
  proof (rule emits_follows [OF first])
    fix x :: unit and n
    assume "script L (cleanup g) (Inr x :: unit res) n"
    with last show "emits g ?last (\<lambda>r c' n'.
      script L (cleanup g @ [ReqUpdate (OSingle (without_finalizer L g))]) r (n @ n')
      \<and> ((\<exists>x. ReqUpdate x \<in> fst ` set (n @ n')) \<or> c' = g))"
      by (elim emits_weaken) (use script_update_issued in \<open>fastforce intro: script_append\<close>)
  qed (auto intro: script_cut)
  then show ?thesis
    unfolding HandleFinalizer_parts using assms by (intro emits_andThen emits_gets_cr) simp
qed

lemma HandleFinalizer_idle:
  assumes "IsZero_time (DeletionTimestamp (si_Meta g)) \<or> \<not> has_finalizer L g"
  shows "emits g (HandleFinalizer L cl) (\<lambda>r c' n. r = Inr () \<and> c' = g \<and> n = [])"
  unfolding HandleFinalizer_def using assms by (auto intro!: emits_rules)

lemma AddFinalizer_emits:
  "emits g (GreatSqlFinalizer_AddFinalizer L cl) (\<lambda>r c' n.
     if has_finalizer L g then r = Inr () \<and> c' = g \<and> n = []
     else script L [ReqUpdate (OSingle (with_finalizer L g))] r n)"
  unfolding GreatSqlFinalizer_AddFinalizer_def
  by (auto intro!: emits_rules)

lemma RemoveFinalizer_emits:
  "emits g (GreatSqlFinalizer_RemoveFinalizer L cl) (\<lambda>r c' n.
     if \<not> has_finalizer L g then r = Inr () \<and> c' = g \<and> n = []
     else script L [ReqUpdate (OSingle (without_finalizer L g))] r n)"
  unfolding GreatSqlFinalizer_RemoveFinalizer_def
  by (auto intro!: emits_rules)

lemma fail_fast_finalizer [ff_rules]:
  "fail_fast L (delete_if_found L cl x)"
  "fail_fast L (HandleFinalizer L cl)"
  "fail_fast L (GreatSqlFinalizer_AddFinalizer L cl)"
  "fail_fast L (GreatSqlFinalizer_RemoveFinalizer L cl)"
proof -
  show delete: "fail_fast L (delete_if_found L cl x)" for x :: k8s_object and cl :: "'w client"
    unfolding fail_fast_def
    by (intro allI, rule emits_weaken [OF follows_delete_if_found [OF refl, unfolded follows_def]])
      (blast intro: script_stops)
  show "fail_fast L (HandleFinalizer L cl)" for cl :: "'w client"
    unfolding HandleFinalizer_def finalizePersistentVolumeClaims_def finalizeDeployment_def
      finalizeService_def finalizeConfigMap_def
    by (intro ff_rules delete)
  show "fail_fast L (GreatSqlFinalizer_AddFinalizer L cl)" for cl :: "'w client"
    unfolding GreatSqlFinalizer_AddFinalizer_def by (intro ff_rules)
  show "fail_fast L (GreatSqlFinalizer_RemoveFinalizer L cl)" for cl :: "'w client"
    unfolding GreatSqlFinalizer_RemoveFinalizer_def by (intro ff_rules)
qed

section \<open>Properties\<close>

lemma emits_state: "emits (cr s) m Q \<Longrightarrow>
  \<exists>new. trace (snd (m s)) = trace s @ new \<and> Q (fst (m s)) (cr (snd (m s))) new"
  by (simp add: emits_def)

text \<open>
  C9. For a deleted instance that carries the finalizer, whatever the server answers, the handler
  requests the deletion of the claims \<open>name-db-i\<close> below the size, of the Deployment, the Service and
  the ConfigMap \<open>nameconfig\<close>, in this order, and only then the update that removes the finalizer. It
  stops at the first deletion that fails with anything but NotFound and returns that error, the
  in-memory object still carrying the finalizer; it succeeds only if every request was made.
\<close>

theorem HandleFinalizer_cleans_up_first:
  assumes "\<not> IsZero_time (DeletionTimestamp (si_Meta (cr s)))" and "has_finalizer L (cr s)"
  shows "\<exists>new. trace (snd (HandleFinalizer L cl s)) = trace s @ new
    \<and> script L (cleanup (cr s) @ [ReqUpdate (OSingle (without_finalizer L (cr s)))])
        (fst (HandleFinalizer L cl s)) new
    \<and> ((\<exists>x. ReqUpdate x \<in> fst ` set new) \<or> cr (snd (HandleFinalizer L cl s)) = cr s)"
  using emits_state [OF HandleFinalizer_emits [OF assms]] by blast

definition dying_state :: "(mem, single_instance) rstate" where
  "dying_state = \<lparr>world = \<lparr>store = (\<lambda>_. None), revs = (\<lambda>_. 0)\<rparr>,
     cr = sample_single\<lparr>si_Meta := sample_meta\<lparr>DeletionTimestamp := Some (AtTime ''now''),
       Finalizers := [GreatSqlFinalizer_const]\<rparr>\<rparr>, events = [], trace = []\<rparr>"

theorem HandleFinalizer_cleans_up_first_witness:
  "\<exists>new. trace (snd (HandleFinalizer doc_lib (mem_client (\<lambda>_. None)) dying_state)) = new
    \<and> script doc_lib (cleanup (cr dying_state) @ [ReqUpdate (OSingle (without_finalizer doc_lib (cr dying_state)))])
        (fst (HandleFinalizer doc_lib (mem_client (\<lambda>_. None)) dying_state)) new"
  using HandleFinalizer_cleans_up_first [of dying_state doc_lib "mem_client (\<lambda>_. None)"]
  by (simp add: dying_state_def IsZero_time_def has_finalizer_def doc.contains_finalizer)

text \<open>
  The cleanup never names an object under the name it is created with: no request deletes the
  PersistentVolumeClaim \<open>namedb\<close> or the ConfigMap \<open>name-config\<close>, while the Deployment and the Service
  are deleted under their names.
\<close>

theorem cleanup_names:
  "ReqDelete KPVC (named g ''db'') \<notin> set (cleanup g)
   \<and> ReqDelete KConfigMap (named g ''-config'') \<notin> set (cleanup g)
   \<and> ReqDelete KDeployment (named g []) \<in> set (cleanup g)
   \<and> ReqDelete KService (named g []) \<in> set (cleanup g)
   \<and> length (cleanup g) = nat (sint (GetSize (Spec g))) + 3"
  by (auto simp: cleanup_def pvc_cleanup_def named_def)

text \<open>
  \<open>AddFinalizer\<close> is idempotent: an instance that has the finalizer is neither changed nor
  written; any other gets it added in memory, at the end of its finalizers, and is written once.
\<close>

theorem AddFinalizer_idempotent:
  assumes "k8s_library L"
  shows "if GreatSqlFinalizer_const \<in> set (Finalizers (si_Meta (cr s)))
    then GreatSqlFinalizer_AddFinalizer L cl s = (Inr (), s)
    else \<exists>out. trace (snd (GreatSqlFinalizer_AddFinalizer L cl s)) = trace s
        @ [(ReqUpdate (OSingle ((cr s)\<lparr>si_Meta := (si_Meta (cr s))
              \<lparr>Finalizers := Finalizers (si_Meta (cr s)) @ [GreatSqlFinalizer_const]\<rparr>\<rparr>)), out)]
      \<and> isl (fst (GreatSqlFinalizer_AddFinalizer L cl s)) = (out \<noteq> None)"
proof -
  have upd: "\<exists>out. n = [(ReqUpdate x, out)] \<and> isl r = (out \<noteq> None)" if "script L [ReqUpdate x] r n" for x n and r :: "unit res"
    using that by (cases r; cases "snd (hd n)") (auto simp: script_def Cons_eq_append_conv)
  show ?thesis
  proof (cases "has_finalizer L (cr s)")
    case True
    then show ?thesis
      by (simp add: GreatSqlFinalizer_AddFinalizer_def op_defs has_finalizer_def k8s_library.contains_finalizer [OF assms])
  next
    case False
    then show ?thesis
      using emits_state [OF AddFinalizer_emits [of "cr s" L cl]] upd
      by (fastforce simp: has_finalizer_def with_finalizer_def k8s_library.contains_finalizer [OF assms]
          k8s_library.add_finalizer [OF assms])
  qed
qed

theorem AddFinalizer_idempotent_witness:
  "GreatSqlFinalizer_AddFinalizer doc_lib (mem_client (\<lambda>_. None)) dying_state = (Inr (), dying_state)"
  using AddFinalizer_idempotent [OF doc.k8s_library_axioms, of dying_state "mem_client (\<lambda>_. None)"]
  by (simp add: dying_state_def)

end
