(* ===== verification/Single_Controller.thy ===== *)
theory Single_Controller
  imports Finalizer Utils Mysql_Cnf
begin

text \<open>
  \<open>internal/controller/singleinstance_controller.go\<close>: the reconcile loop of a SingleInstance.
  \<open>req\<close> is the namespaced name of the request, \<open>cr\<close> of the state the in-memory object.
\<close>

section \<open>Creating the resources\<close>

definition single_cnf :: MySQLConfig where
  "single_cnf = zero_MySQLConfig\<lparr>ServerID := ''0'', EnableCluster := False,
     GroupReplicationGroupName := ''greatsql'', GroupReplicationGroupSeeds := [],
     ReportHost := [], ReportPort := 3306, InnodbBufferPoolSize := ''1G''\<rparr>"

definition Single_createConfigMap :: "'w client \<Rightarrow> namespaced_name \<Rightarrow> (('w, single_instance) rstate, unit) op" where
  "Single_createConfigMap cl req =
     andThen (pure (fst (MySQLConfig_String single_cnf single_cnf))) (\<lambda>data.
     andThen (client_Create cl (OConfigMap
         (NewConfigMap (nn_Name req @ ''-config'') (nn_Namespace req) ''my.cnf'' data))) (\<lambda>_.
       ret ()))"

definition Single_createPersistentVolumeClaim ::
  "k8s_lib \<Rightarrow> 'w client \<Rightarrow> namespaced_name \<Rightarrow> (('w, single_instance) rstate, unit) op" where
  "Single_createPersistentVolumeClaim L cl req =
     andThen (gets cr) (\<lambda>c.
     andThen (pure (NewPersistentVolumeClaim L (nn_Name req) (nn_Namespace req)
         (Some (sis_PodSpec (Spec c))))) (\<lambda>pvc.
     andThen (client_Create cl (OPVC pvc)) (\<lambda>_. ret ())))"

definition deployment_of :: "k8s_lib \<Rightarrow> namespaced_name \<Rightarrow> single_instance \<Rightarrow> deployment res" where
  "deployment_of L req c =
     res_bind (deref (Size (Spec c))) (\<lambda>size.
       NewDeployment L (nn_Name req @ Config_const) c (scast size))"

definition Single_createDeployment ::
  "k8s_lib \<Rightarrow> 'w client \<Rightarrow> namespaced_name \<Rightarrow> (('w, single_instance) rstate, unit) op" where
  "Single_createDeployment L cl req =
     andThen (gets cr) (\<lambda>c.
     andThen (pure (deployment_of L req c)) (\<lambda>deploy.
     andThen (client_Create cl (ODeployment deploy)) (\<lambda>_. ret ())))"

text \<open>
  \<open>reflect.DeepEqual(singleGreatsql.Status, status)\<close> compares a struct with a pointer, values of
  different types: it is never true.
\<close>

definition DeepEqual_value_pointer :: "'a \<Rightarrow> 'a \<Rightarrow> bool" where
  "DeepEqual_value_pointer x p = False"

definition Single_updateStatus ::
  "'w client \<Rightarrow> service \<Rightarrow> (('w, single_instance) rstate, unit) op" where
  "Single_updateStatus cl svc =
     andThen (pure (GetServiceAccessPoint svc)) (\<lambda>accessPoint.
     andThen (gets cr) (\<lambda>c.
     andThen (pure (deref (Size (Spec c)))) (\<lambda>size.
       let status = \<lparr>AccessPoint = accessPoint, st_Size = size, Ready = 0,
             Age = time_String (CreationTimestamp (svc_Meta svc)), DeploymentStatus = JObj []\<rparr>
       in if DeepEqual_value_pointer (Status c) status then ret ()
          else andThen (set_cr (\<lambda>c. c\<lparr>Status := status\<rparr>)) (\<lambda>_. update_single_status cl))))"

definition service_of :: "k8s_lib \<Rightarrow> namespaced_name \<Rightarrow> single_instance \<Rightarrow> service" where
  "service_of L req c =
     NewService L (nn_Name req) (nn_Namespace req) SingleInstance_kind (si_Meta c)
       (sis_Ports (Spec c)) (sis_Type (Spec c))"

definition Single_createService ::
  "k8s_lib \<Rightarrow> 'w client \<Rightarrow> namespaced_name \<Rightarrow> (('w, single_instance) rstate, unit) op" where
  "Single_createService L cl req =
     andThen (gets cr) (\<lambda>c.
       let service = service_of L req c in
       andThen (client_Create cl (OService service)) (\<lambda>answer.
         Single_updateStatus cl (as_service answer service)))"

definition Single_createResources ::
  "k8s_lib \<Rightarrow> 'w client \<Rightarrow> namespaced_name \<Rightarrow> (('w, single_instance) rstate, unit) op" where
  "Single_createResources L cl req =
     andThen (client_Get cl req (ODeployment zero_deployment)) (\<lambda>(err, _).
       if err \<noteq> None then
         andThen (Single_createConfigMap cl req) (\<lambda>_.
         andThen (Single_createPersistentVolumeClaim L cl req) (\<lambda>_.
         andThen (Single_createDeployment L cl req) (\<lambda>_.
           Single_createService L cl req)))
       else ret ())"

section \<open>Fetching, validating, finalizing\<close>

definition Single_getSingleInstance ::
  "k8s_lib \<Rightarrow> 'w client \<Rightarrow> namespaced_name \<Rightarrow> (('w, single_instance) rstate, unit) op" where
  "Single_getSingleInstance L cl req =
     andThen (get_single cl req) (\<lambda>err. case err of
       Some e \<Rightarrow> if IsNotFound L e then ret () else return_err (IgnoreNotFound L e)
     | None \<Rightarrow> ret ())"

definition Single_handleFinalizer :: "k8s_lib \<Rightarrow> 'w client \<Rightarrow> (('w, single_instance) rstate, unit) op" where
  "Single_handleFinalizer L cl =
     andThen (gets cr) (\<lambda>c.
       if DeletionTimestamp (si_Meta c) \<noteq> None then
         andThen (HandleFinalizer L cl) (\<lambda>_.
         andThen (GreatSqlFinalizer_RemoveFinalizer L cl) (\<lambda>_.
           update_single cl))
       else ret ())"

definition invalid_spec :: "string \<Rightarrow> event" where
  "invalid_spec msg = \<lparr>ev_Type = ''Warning'', ev_Reason = ''InvalidSpec'', ev_Message = msg\<rparr>"

definition Single_validateSpec :: "k8s_lib \<Rightarrow> single_instance_spec \<Rightarrow> (('w, single_instance) rstate, unit) op" where
  "Single_validateSpec L spec =
     (if Size spec = None \<or> Size spec = Some 0 then
        andThen (record_event (invalid_spec ''size is required'')) (\<lambda>_.
          throw (Returned (NewBadRequest L ''size is required'')))
      else
        andThen (pure (deref (PersistentVolumeClaimTemplate (sis_PodSpec spec)))) (\<lambda>claim.
          if pvc_StorageClassName claim = None then
            andThen (record_event (invalid_spec ''storageClassName cannot be empty'')) (\<lambda>_.
              throw (Returned (NewBadRequest L ''storageClassName is required'')))
          else ret ()))"

definition Single_validateAndAddFinalizer ::
  "k8s_lib \<Rightarrow> 'w client \<Rightarrow> (('w, single_instance) rstate, unit) op" where
  "Single_validateAndAddFinalizer L cl =
     andThen (gets cr) (\<lambda>c.
     andThen (Single_validateSpec L (Spec c)) (\<lambda>_.
       GreatSqlFinalizer_AddFinalizer L cl))"

section \<open>Watching the resources\<close>

definition annotate_spec :: "string \<Rightarrow> single_instance \<Rightarrow> single_instance" where
  "annotate_spec data c = c\<lparr>si_Meta := (si_Meta c)\<lparr>Annotations :=
     Some ((case Annotations (si_Meta c) of None \<Rightarrow> Map.empty | Some m \<Rightarrow> m)(''spec'' \<mapsto> data))\<rparr>\<rparr>"

definition Single_updateSpecAnnotation :: "k8s_lib \<Rightarrow> 'w client \<Rightarrow> (('w, single_instance) rstate, unit) op" where
  "Single_updateSpecAnnotation L cl =
     andThen (gets cr) (\<lambda>c. case Marshal L (Spec c) of
       Inl e \<Rightarrow> throw (Returned e)
     | Inr data \<Rightarrow> andThen (set_cr (annotate_spec data)) (\<lambda>_. update_single cl))"

text \<open>\<open>if err := ...; err != nil { return fmt.Errorf(prefix + "%v", err) }\<close>\<close>

definition errorf_check :: "string \<Rightarrow> go_error option \<times> 'o \<Rightarrow> ('s, unit) op" where
  "errorf_check prefix r = (case r of (err, _) \<Rightarrow>
     case err of Some e \<Rightarrow> throw (Returned (Errorf prefix e)) | None \<Rightarrow> ret ())"

definition copy_metadata :: "k8s_object \<Rightarrow> k8s_object \<Rightarrow> k8s_object" where
  "copy_metadata obj existing = set_obj_meta ((obj_meta existing)\<lparr>
     Annotations := Annotations (obj_meta obj), Labels := Labels (obj_meta obj),
     OwnerReferences := OwnerReferences (obj_meta obj), Finalizers := Finalizers (obj_meta obj)\<rparr>) existing"

definition Single_updateResource ::
  "k8s_lib \<Rightarrow> 'w client \<Rightarrow> namespaced_name \<Rightarrow> k8s_object \<Rightarrow> (('w, single_instance) rstate, unit) op" where
  "Single_updateResource L cl nn obj =
     andThen (client_Get cl nn obj) (\<lambda>(err, existing).
       let existing = copy_metadata obj existing in
       andThen
         (case err of
            Some e \<Rightarrow>
              if IsNotFound L e then
                andThen (api_call (api_Create cl obj) (ReqCreate obj) fst)
                  (errorf_check ''could not create resource: '')
              else throw (Returned (Errorf ''could not get resource: '' e))
          | None \<Rightarrow>
              let obj = with_rv (obj_rv existing) obj in
              andThen (api_call (api_Update cl obj) (ReqUpdate obj) fst)
                (errorf_check ''could not update resource: ''))
         (\<lambda>_. andThen (client_Update cl existing) (\<lambda>_. ret ())))"

definition Single_updateDeployment ::
  "k8s_lib \<Rightarrow> 'w client \<Rightarrow> namespaced_name \<Rightarrow> (('w, single_instance) rstate, unit) op" where
  "Single_updateDeployment L cl req =
     andThen (gets cr) (\<lambda>c.
     andThen (pure (deployment_of L req c)) (\<lambda>deploy.
       Single_updateResource L cl req (ODeployment deploy)))"

definition Single_updateService ::
  "k8s_lib \<Rightarrow> 'w client \<Rightarrow> namespaced_name \<Rightarrow> (('w, single_instance) rstate, unit) op" where
  "Single_updateService L cl req =
     andThen (gets cr) (\<lambda>c. Single_updateResource L cl req (OService (service_of L req c)))"

definition Single_updateConfigMap ::
  "k8s_lib \<Rightarrow> 'w client \<Rightarrow> namespaced_name \<Rightarrow> (('w, single_instance) rstate, unit) op" where
  "Single_updateConfigMap L cl req =
     andThen (pure (fst (MySQLConfig_String single_cnf single_cnf))) (\<lambda>cnfData.
       Single_updateResource L cl (with_suffix req ''-config'')
         (OConfigMap (NewConfigMap (nn_Name req @ ''-config'') (nn_Namespace req) ''my.cnf'' cnfData)))"

definition Single_watchResource ::
  "k8s_lib \<Rightarrow> 'w client \<Rightarrow> namespaced_name \<Rightarrow> (('w, single_instance) rstate, unit) op" where
  "Single_watchResource L cl req =
     andThen (Single_updateSpecAnnotation L cl) (\<lambda>_.
     andThen (Single_updateDeployment L cl req) (\<lambda>_.
     andThen (Single_updateService L cl req) (\<lambda>_.
       Single_updateConfigMap L cl req)))"

section \<open>Reconcile\<close>

definition Single_Reconcile ::
  "k8s_lib \<Rightarrow> 'w client \<Rightarrow> namespaced_name \<Rightarrow> (('w, single_instance) rstate, unit) op" where
  "Single_Reconcile L cl req =
     andThen (set_cr (\<lambda>_. zero_single_instance)) (\<lambda>_.
     andThen (Single_getSingleInstance L cl req) (\<lambda>_.
     andThen (Single_handleFinalizer L cl) (\<lambda>_.
     andThen (Single_validateAndAddFinalizer L cl) (\<lambda>_.
     andThen (Single_createResources L cl req) (\<lambda>_.
       Single_watchResource L cl req)))))"

end
