(* ===== verification/Single_Proofs.thy ===== *)
theory Single_Proofs
  imports Single_Controller
begin

text \<open>
  What the reconcile loop of a SingleInstance requests, for every client, whatever it answers.
\<close>

section \<open>Stopping at the first failed write\<close>

lemma fail_fast_errorf_write:
  "fail_fast L (andThen (api_call f (ReqCreate x) fst) (errorf_check prefix))"
  "fail_fast L (andThen (api_call f (ReqUpdate x) fst) (errorf_check prefix))"
  unfolding fail_fast_def errorf_check_def
  by (auto simp: stops_at_failure_def intro!: emits_rules)

lemma fail_fast_create [ff_rules]:
  "fail_fast L (Single_createConfigMap cl req)"
  "fail_fast L (Single_createPersistentVolumeClaim L cl req)"
  "fail_fast L (Single_createDeployment L cl req)"
  "fail_fast L (Single_updateStatus cl svc)"
  "fail_fast L (Single_validateSpec L spec)"
  unfolding Single_createConfigMap_def Single_createPersistentVolumeClaim_def
    Single_createDeployment_def Single_updateStatus_def Single_validateSpec_def Let_def
  by (intro ff_rules)+

lemma fail_fast_updateResource [ff_rules]: "fail_fast L (Single_updateResource L cl nn obj)"
  unfolding Single_updateResource_def Let_def
  by (intro ff_rules fail_fast_errorf_write)

lemma fail_fast_createService [ff_rules]: "fail_fast L (Single_createService L cl req)"
  unfolding Single_createService_def Let_def by (intro ff_rules)

lemma fail_fast_phases [ff_rules]:
  "fail_fast L (Single_getSingleInstance L cl req)"
  "fail_fast L (Single_handleFinalizer L cl)"
  "fail_fast L (Single_validateAndAddFinalizer L cl)"
  "fail_fast L (Single_createResources L cl req)"
  "fail_fast L (Single_watchResource L cl req)"
  unfolding Single_getSingleInstance_def Single_handleFinalizer_def
    Single_validateAndAddFinalizer_def Single_createResources_def Single_watchResource_def
    Single_updateSpecAnnotation_def Single_updateDeployment_def Single_updateService_def
    Single_updateConfigMap_def
  by (intro ff_rules)+

lemma fail_fast_Reconcile: "fail_fast L (Single_Reconcile L cl req)"
  unfolding Single_Reconcile_def by (intro ff_rules)

section \<open>The order of creation\<close>

text \<open>\<open>runs_through qs r n\<close>: a prefix of \<open>qs\<close> was requested, and all of it, without failure, on success.\<close>

definition runs_through :: "k8s_lib \<Rightarrow> api_request list \<Rightarrow> 'a res \<Rightarrow> api_call list \<Rightarrow> bool" where
  "runs_through L qs r n \<longleftrightarrow>
     map fst n = take (length n) qs \<and> (\<not> isl r \<longrightarrow> length n = length qs \<and> settled L n)"

lemma runs_through_nil [simp]: "runs_through L [] r []" "runs_through L qs (Inl e) []"
  by (simp_all add: runs_through_def)

lemma runs_through_Cons [simp]:
  "runs_through L (q # qs) r ((q', out) # n) \<longleftrightarrow>
     q' = q \<and> (\<not> isl r \<longrightarrow> \<not> fatal L (q, out)) \<and> runs_through L qs r n"
  by (auto simp: runs_through_def)

definition with_status :: "single_instance \<Rightarrow> string \<Rightarrow> int32 \<Rightarrow> string \<Rightarrow> single_instance" where
  "with_status c ap sz age = c\<lparr>Status := \<lparr>AccessPoint = ap, st_Size = sz, Ready = 0, Age = age,
     DeploymentStatus = JObj []\<rparr>\<rparr>"

definition creations ::
  "namespaced_name \<Rightarrow> single_instance \<Rightarrow> service \<Rightarrow> pvc \<Rightarrow> deployment \<Rightarrow> single_instance \<Rightarrow> api_request list" where
  "creations req c svc p d c' =
     [ReqCreate (OConfigMap (NewConfigMap (nn_Name req @ ''-config'') (nn_Namespace req) ''my.cnf''
        (text_lines (my_cnf_lines single_cnf)))),
      ReqCreate (OPVC p), ReqCreate (ODeployment d), ReqCreate (OService svc),
      ReqStatusUpdate (OSingle c')]"

lemma Single_updateStatus_emits:
  assumes "Size (Spec c) = Some sz"
  shows "emits c (Single_updateStatus cl svc) (\<lambda>r _ n.
    \<exists>ap age. runs_through L [ReqStatusUpdate (OSingle (with_status c ap sz age))] r n)"
proof (cases "GetServiceAccessPoint svc")
  case (Inl e)
  then show ?thesis by (auto simp: Single_updateStatus_def intro!: emits_throw)
next
  case (Inr ap)
  with assms show ?thesis
    by (auto simp: Single_updateStatus_def Let_def DeepEqual_value_pointer_def with_status_def
        intro!: emits_rules) blast+
qed

lemma Single_createResources_emits:
  assumes "NewPersistentVolumeClaim L (nn_Name req) (nn_Namespace req) (Some (sis_PodSpec (Spec c))) = Inr p"
    and "deployment_of L req c = Inr d" and "Size (Spec c) = Some sz"
  shows "emits c (Single_createResources L cl req) (\<lambda>r _ n.
    n = [(ReqGet KDeployment req, None)] \<and> r = Inr ()
    \<or> (\<exists>e rest ap age. n = (ReqGet KDeployment req, Some e) # rest
        \<and> runs_through L (creations req c (service_of L req c) p d (with_status c ap sz age)) r rest))"
proof -
  have status: "emits c (Single_updateStatus cl svc) (\<lambda>r _ n. \<exists>ap age.
      runs_through L [ReqStatusUpdate (OSingle (with_status c ap sz age))] r n)" for svc
    by (rule Single_updateStatus_emits [OF assms(3)])
  show ?thesis
    unfolding Single_createResources_def Single_createConfigMap_def
      Single_createPersistentVolumeClaim_def Single_createDeployment_def Single_createService_def Let_def
    by (auto simp: creations_def assms(1,2) MySQLConfig_String_lines
        intro!: emits_rules emits_weaken [OF status])
qed

section \<open>Properties\<close>

text \<open>
  C10. For every client and every answer it gives, \<open>Reconcile\<close> issues no request after a write the
  server rejected (a deletion of something missing aside), and then returns an error: the
  trace of a reconcile has no rejected write before its last request, and if that one is
  rejected the reconcile fails.
\<close>

theorem Reconcile_stops_at_failure:
  "\<exists>new. trace (snd (Single_Reconcile L cl req s)) = trace s @ new
    \<and> (settled L new \<or> settled L (butlast new) \<and> isl (fst (Single_Reconcile L cl req s)))"
  using emits_state [of s "Single_Reconcile L cl req"] fail_fast_Reconcile [of L cl req]
  by (fastforce simp: fail_fast_def stops_at_failure_def)


definition found_state :: "(mem, single_instance) rstate" where
  "found_state = \<lparr>world = \<lparr>store = (\<lambda>_. None), revs = (\<lambda>_. 0)\<rparr>, cr = sample_single, events = [], trace = []\<rparr>"


end
