(* ===== verification/Single_Server.thy ===== *)
theory Single_Server
  imports Single_Proofs
begin

text \<open>
  The reconcile loop of a SingleInstance against an API server: what it leaves behind, over one
  reconcile and over any number of them.
\<close>

fun reconciles ::
  "k8s_lib \<Rightarrow> 'w client \<Rightarrow> namespaced_name \<Rightarrow> nat \<Rightarrow> ('w, single_instance) rstate \<Rightarrow> ('w, single_instance) rstate" where
  "reconciles L cl req 0 s = s"
| "reconciles L cl req (Suc n) s = snd (Single_Reconcile L cl req (reconciles L cl req n s))"

text \<open>\<open>stuck P m\<close>: started with \<open>P\<close> of the server's objects, \<open>m\<close> fails and \<open>P\<close> still holds.\<close>

definition stuck ::
  "('w \<Rightarrow> object_key \<Rightarrow> k8s_object option) \<Rightarrow> ((object_key \<Rightarrow> k8s_object option) \<Rightarrow> bool) \<Rightarrow>
   (('w, 'c) rstate, 'a) op \<Rightarrow> bool" where
  "stuck objs I m \<longleftrightarrow>
     triple (\<lambda>s. I (objs (world s))) m (\<lambda>_ _. False) (\<lambda>_ s. I (objs (world s)))"

lemma stuck_later:
  assumes "keeps objs I m" and "\<And>x. stuck objs I (f x)"
  shows "stuck objs I (andThen m f)"
  using assms unfolding keeps_def stuck_def by (rule triple_andThen)

lemma stuck_first: "stuck objs I m \<Longrightarrow> stuck objs I (andThen m f)"
  unfolding stuck_def by (rule triple_andThen) (auto simp: triple_def)

lemma stuck_pure:
  "(\<And>x. r = Inr x \<Longrightarrow> stuck objs I (f x)) \<Longrightarrow> stuck objs I (andThen (pure r) f)"
  by (cases r) (auto simp: stuck_def triple_def op_defs)

lemma stuckD:
  "stuck objs I m \<Longrightarrow> I (objs (world s)) \<Longrightarrow> isl (fst (m s)) \<and> I (objs (world (snd (m s))))"
  by (cases "fst (m s)"; cases "m s") (auto simp: stuck_def triple_def)

lemma stuck_forever:
  assumes "stuck objs I (Single_Reconcile L cl req)" and "I (objs (world s))"
  shows "I (objs (world (reconciles L cl req n s)))
    \<and> isl (fst (Single_Reconcile L cl req (reconciles L cl req n s)))"
  using stuckD [OF assms(1)] assms(2) by (induction n) auto

section \<open>An API server that validates pods\<close>

context api_server
begin

lemma keeps_absent:
  "keeps objs (\<lambda>O'. O' k = None) (delete_if_found L cl x)"
  "keeps objs (\<lambda>O'. O' k = None) (update_single cl)"
  "keeps objs (\<lambda>O'. O' k = None) (update_single_status cl)"
  "keeps objs (\<lambda>O'. O' k = None) (get_single cl nn)"
  "keeps objs (\<lambda>O'. O' k = None) (client_Update cl x)"
  unfolding delete_if_found_def
  by (intro keeps_rules keeps_client_Delete keeps_single keeps_client_Update; auto)+

lemma keeps_absent_Create:
  assumes "obj_key x \<noteq> k \<or> adm x \<noteq> None"
  shows "keeps objs (\<lambda>O'. O' k = None) (client_Create cl x)"
  by (rule keeps_client_Create) (use assms in auto)

lemma keeps_absent_finalizer:
  "keeps objs (\<lambda>O'. O' k = None) (HandleFinalizer L cl)"
  "keeps objs (\<lambda>O'. O' k = None) (GreatSqlFinalizer_RemoveFinalizer L cl)"
  "keeps objs (\<lambda>O'. O' k = None) (GreatSqlFinalizer_AddFinalizer L cl)"
  unfolding HandleFinalizer_def finalizePersistentVolumeClaims_def finalizeDeployment_def
    finalizeService_def finalizeConfigMap_def GreatSqlFinalizer_RemoveFinalizer_def
    GreatSqlFinalizer_AddFinalizer_def
  by (intro keeps_rules keeps_absent)+

lemma keeps_validateSpec: "keeps objs I (Single_validateSpec L spec)"
  unfolding Single_validateSpec_def by (intro keeps_rules)

lemma keeps_absent_phases:
  "keeps objs (\<lambda>O'. O' k = None) (Single_getSingleInstance L cl req)"
  "keeps objs (\<lambda>O'. O' k = None) (Single_handleFinalizer L cl)"
  "keeps objs (\<lambda>O'. O' k = None) (Single_validateAndAddFinalizer L cl)"
  unfolding Single_getSingleInstance_def Single_handleFinalizer_def Single_validateAndAddFinalizer_def
  by (intro keeps_rules keeps_absent keeps_absent_finalizer keeps_validateSpec)+

lemma keeps_absent_createConfigMap:
  "fst k \<noteq> KConfigMap \<Longrightarrow> keeps objs (\<lambda>O'. O' k = None) (Single_createConfigMap cl req)"
  unfolding Single_createConfigMap_def
  by (intro keeps_rules keeps_absent_Create) (auto simp: obj_key_def)

lemma keeps_absent_createPVC:
  "fst k \<noteq> KPVC \<Longrightarrow> keeps objs (\<lambda>O'. O' k = None) (Single_createPersistentVolumeClaim L cl req)"
  unfolding Single_createPersistentVolumeClaim_def
  by (intro keeps_rules keeps_absent_Create) (auto simp: obj_key_def)

lemma rejected_create: "adm x \<noteq> None \<Longrightarrow> stuck objs (\<lambda>O'. O' k = None) (client_Create cl x)"
  unfolding stuck_def client_Create_def
  by (auto simp: triple_def op_defs api_call_def check_err_def elim!: create_cases split: prod.splits)

lemma stuck_createDeployment:
  assumes "\<And>d. adm (ODeployment d) = None \<Longrightarrow>
    mount_names (pod_Containers (pt_Spec (dep_Template d))) \<subseteq> volume_names (pt_Spec (dep_Template d))"
  shows "stuck objs (\<lambda>O'. O' k = None) (Single_createDeployment L cl req)"
proof -
  have "adm (ODeployment d) \<noteq> None" if "deployment_of L req c = Inr d" for c d
    using that assms [of d] NewDeployment_dangling [of L "nn_Name req @ Config_const" c _ d]
    by (fastforce simp: deployment_of_def res_bind_Inr_iff)
  then show ?thesis
    unfolding Single_createDeployment_def
    by (intro stuck_later [OF keeps_basic(4)] stuck_pure stuck_first rejected_create)
qed

lemma stuck_after_Get:
  assumes "\<And>m. stuck objs I (f (Some (ApiError NotFound m), x))"
    and "\<And>O'. I O' \<Longrightarrow> O' (kind_of x, nn) = None"
  shows "stuck objs I (andThen (client_Get cl nn x) f)"
  unfolding stuck_def
proof (rule triple_andThen)
  show "triple (\<lambda>s. I (objs (world s))) (client_Get cl nn x)
      (\<lambda>(e, y) s. I (objs (world s)) \<and> y = x \<and> (\<exists>m. e = Some (ApiError NotFound m))) (\<lambda>_ s. I (objs (world s)))"
    using assms(2) get_cases
    by (fastforce simp: triple_def client_Get_def api_call_def split: prod.splits)
qed (use assms(1) in \<open>fastforce simp: stuck_def triple_def split: prod.splits sum.splits\<close>)

lemma stuck_Reconcile_rejected:
  assumes "\<And>d. adm (ODeployment d) = None \<Longrightarrow>
    mount_names (pod_Containers (pt_Spec (dep_Template d))) \<subseteq> volume_names (pt_Spec (dep_Template d))"
  shows "stuck objs (\<lambda>O'. O' (KDeployment, req) = None) (Single_Reconcile L cl req)"
proof -
  have "stuck objs (\<lambda>O'. O' (KDeployment, req) = None) (Single_createResources L cl req)"
    unfolding Single_createResources_def
    by (intro stuck_after_Get)
      (auto intro!: stuck_later keeps_absent_createConfigMap keeps_absent_createPVC
        stuck_first [OF stuck_createDeployment] assms)
  then show ?thesis
    unfolding Single_Reconcile_def
    by (intro stuck_later keeps_basic(5) keeps_absent_phases stuck_first)
qed

end

text \<open>
  The dangling volume mounts are fatal: on an API server that rejects Deployments whose
  containers mount volumes the pod does not have, as Kubernetes does, no number of reconciles
  ever creates the Deployment of a SingleInstance, and every one of them fails.
\<close>

theorem no_deployment_ever:
  assumes "api_server cl adm objs"
    and "\<And>d. adm (ODeployment d) = None \<Longrightarrow>
      mount_names (pod_Containers (pt_Spec (dep_Template d))) \<subseteq> volume_names (pt_Spec (dep_Template d))"
    and "objs (world s) (KDeployment, req) = None"
  shows "objs (world (reconciles L cl req n s)) (KDeployment, req) = None
    \<and> isl (fst (Single_Reconcile L cl req (reconciles L cl req n s)))"
  by (rule stuck_forever [OF api_server.stuck_Reconcile_rejected [OF assms(1,2)] assms(3)])

definition pod_admission :: "k8s_object \<Rightarrow> go_error option" where
  "pod_admission x = (case x of
     ODeployment d \<Rightarrow>
       if list_all (\<lambda>c. list_all (\<lambda>m. List.member (map vol_Name (pod_Volumes (pt_Spec (dep_Template d)))) (vm_Name m))
           (ct_VolumeMounts c)) (pod_Containers (pt_Spec (dep_Template d)))
       then None else Some (ApiError (OtherReason ''Invalid'') ''volumeMounts.name: Not found'')
   | _ \<Rightarrow> None)"

definition empty_server :: mem where
  "empty_server = \<lparr>store = (\<lambda>_. None), revs = (\<lambda>_. 0)\<rparr>"

definition start :: "'w \<Rightarrow> ('w, single_instance) rstate" where
  "start w = \<lparr>world = w, cr = zero_single_instance, events = [], trace = []\<rparr>"

definition sample_name :: namespaced_name where
  "sample_name = \<lparr>nn_Namespace = ''greatsql'', nn_Name = ''greatsql''\<rparr>"

text \<open>A server that holds the sample SingleInstance and nothing else.\<close>

definition sample_server :: mem where
  "sample_server = mem_write (OSingle sample_single) empty_server"

lemma sample_server_objs [simp]:
  "mem_objs sample_server = [(KSingle, sample_name) \<mapsto> with_rv (fmt_nat 1) (OSingle sample_single)]"
  by (auto simp: sample_server_def empty_server_def mem_objs_def obj_key_def obj_name_def sample_name_def fun_eq_iff)

lemma pod_admission_ok:
  "pod_admission (ODeployment d) = None \<Longrightarrow>
     mount_names (pod_Containers (pt_Spec (dep_Template d))) \<subseteq> volume_names (pt_Spec (dep_Template d))"
  by (auto simp: pod_admission_def list_all_iff mount_names_def volume_names_def split: if_splits)

theorem no_deployment_ever_witness:
  "mem_objs (world (reconciles doc_lib (mem_client pod_admission) sample_name 7 (start sample_server)))
     (KDeployment, sample_name) = None"
  using no_deployment_ever [OF mem.api_server_axioms pod_admission_ok,
      where s = "start sample_server" and req = sample_name and L = doc_lib and n = 7]
  by (simp add: start_def)

section \<open>A creation that failed half-way\<close>

text \<open>
  \<open>keeps_at\<close>: as \<open>keeps\<close>, for operations that read the custom resource \<open>g\<close> and leave it alone.
\<close>

definition keeps_at ::
  "('w \<Rightarrow> object_key \<Rightarrow> k8s_object option) \<Rightarrow> ((object_key \<Rightarrow> k8s_object option) \<Rightarrow> bool) \<Rightarrow> 'c \<Rightarrow>
   (('w, 'c) rstate, 'a) op \<Rightarrow> bool" where
  "keeps_at objs I g m \<longleftrightarrow>
     triple (\<lambda>s. cr s = g \<and> I (objs (world s))) m (\<lambda>_ s. cr s = g \<and> I (objs (world s)))
       (\<lambda>_ s. I (objs (world s)))"

lemma keeps_at_andThen:
  "keeps_at objs I g m \<Longrightarrow> (\<And>x. keeps_at objs I g (f x)) \<Longrightarrow> keeps_at objs I g (andThen m f)"
  unfolding keeps_at_def by (rule triple_andThen)

lemma keeps_at_gets: "keeps_at objs I g (f g) \<Longrightarrow> keeps_at objs I g (andThen (gets cr) f)"
  by (auto simp: keeps_at_def triple_def op_defs)

lemma keeps_at_ret: "keeps_at objs I g (ret x)"
  unfolding keeps_at_def by (rule triple_ret) simp

lemma triple_gets_at:
  assumes "triple (\<lambda>s. cr s = g \<and> P s) (f g) Q R"
  shows "triple (\<lambda>s. cr s = g \<and> P s) (andThen (gets cr) f) Q R"
  using assms by (auto simp: triple_def op_defs)

lemma keeps_at_for_each: "(\<And>x. keeps_at objs I g (f x)) \<Longrightarrow> keeps_at objs I g (for_each f xs)"
  by (induction xs) (simp_all add: keeps_at_ret keeps_at_andThen)

lemma keeps_at_then:
  assumes "keeps_at objs I g m" and "\<And>x. keeps objs I (f x)"
  shows "triple (\<lambda>s. cr s = g \<and> I (objs (world s))) (andThen m f)
    (\<lambda>_ s. I (objs (world s))) (\<lambda>_ s. I (objs (world s)))"
  using assms(1) unfolding keeps_at_def
proof (rule triple_andThen)
  show "triple (\<lambda>s. cr s = g \<and> I (objs (world s))) (f x) (\<lambda>_ s. I (objs (world s)))
      (\<lambda>_ s. I (objs (world s)))" for x
    using assms(2) [of x] unfolding keeps_def by (rule triple_weaken) auto
qed

lemma keeps_gets_cr:
  assumes "\<And>g. triple (\<lambda>s. cr s = g \<and> I (objs (world s))) (f g) (\<lambda>_ s. I (objs (world s)))
      (\<lambda>_ s. I (objs (world s)))"
  shows "keeps objs I (andThen (gets cr) f)"
  using assms by (fastforce simp: keeps_def triple_def op_defs)

lemma follows_cr:
  assumes "follows L g m qs" and "cr s = g" and "m s = (r, t)"
  shows "cr t = g"
proof -
  from assms(1) have e: "emits g m (\<lambda>r c' n. c' = g \<and> script L qs r n)" by (simp add: follows_def)
  from emits_run [OF e assms(2,3)] show ?thesis by blast
qed

text \<open>The objects of \<open>nn\<close> that its finalizer deletes.\<close>

definition finalized :: "namespaced_name \<Rightarrow> object_key \<Rightarrow> bool" where
  "finalized nn k \<longleftrightarrow> k = (KDeployment, nn) \<or> k = (KService, nn) \<or> k = (KConfigMap, with_suffix nn ''config'')
     \<or> (\<exists>i. k = (KPVC, with_suffix nn (''-db-'' @ fmt_nat i)))"

context api_server
begin

lemma keeps_at_delete:
  assumes "\<And>O' v. I O' \<Longrightarrow> O' (obj_key x) \<noteq> None \<Longrightarrow> I (O'(obj_key x := v))"
  shows "keeps_at objs I g (delete_if_found L cl x)"
proof -
  have "keeps objs I (delete_if_found L cl x)"
    unfolding delete_if_found_def by (intro keeps_rules keeps_client_Delete assms)
  then show ?thesis
    using follows_cr [OF follows_delete_if_found [OF refl]]
    by (fastforce simp: keeps_def keeps_at_def triple_def split: prod.splits sum.splits)
qed

lemma keeps_at_HandleFinalizer:
  assumes "\<And>O' k v. I O' \<Longrightarrow> O' k \<noteq> None \<Longrightarrow> finalized (obj_name (OSingle g)) k \<or> fst k = KSingle \<Longrightarrow> I (O'(k := v))"
  shows "triple (\<lambda>s. cr s = g \<and> I (objs (world s))) (HandleFinalizer L cl)
    (\<lambda>_ s. I (objs (world s))) (\<lambda>_ s. I (objs (world s)))"
proof -
  have single: "keeps objs I (andThen (set_cr f) (\<lambda>_. update_single cl))" for f
    by (intro keeps_rules keeps_single assms) auto
  have cleanup: "keeps_at objs I g (finalizePersistentVolumeClaims L cl)"
    "keeps_at objs I g (finalizeDeployment L cl)" "keeps_at objs I g (finalizeService L cl)"
    "keeps_at objs I g (finalizeConfigMap L cl)"
    unfolding finalizePersistentVolumeClaims_def finalizeDeployment_def finalizeService_def finalizeConfigMap_def
    by (intro keeps_at_gets keeps_at_for_each keeps_at_delete assms;
        auto simp: obj_key_def obj_name_def finalized_def with_suffix_def)+
  let ?first = "andThen (finalizePersistentVolumeClaims L cl) (\<lambda>_.
     andThen (finalizeDeployment L cl) (\<lambda>_.
     andThen (finalizeService L cl) (\<lambda>_. finalizeConfigMap L cl)))"
  have "triple (\<lambda>s. cr s = g \<and> I (objs (world s)))
      (andThen ?first (\<lambda>_. andThen (set_cr (without_finalizer L)) (\<lambda>_. update_single cl)))
      (\<lambda>_ s. I (objs (world s))) (\<lambda>_ s. I (objs (world s)))"
    by (intro keeps_at_then keeps_at_andThen cleanup single)
  then show ?thesis
    unfolding HandleFinalizer_parts by (intro triple_gets_at) (auto intro: triple_ret)
qed

end

context api_server
begin

text \<open>After fetching: the custom resource is the stored one, or the zero value.\<close>

definition fetched :: "namespaced_name \<Rightarrow> single_instance \<Rightarrow> bool" where
  "fetched req c \<longleftrightarrow> obj_name (OSingle c) = req \<or> c = zero_single_instance"

lemma get_single_run:
  assumes "cr s = zero_single_instance"
  shows "case objs (world s) (KSingle, req) of
      Some y \<Rightarrow> \<exists>c. y = OSingle c \<and> get_single cl req s
        = (Inr None, s\<lparr>cr := c, trace := trace s @ [(ReqGet KSingle req, None)]\<rparr>)
    | None \<Rightarrow> \<exists>m. get_single cl req s
        = (Inr (Some (ApiError NotFound m)), s\<lparr>trace := trace s @ [(ReqGet KSingle req, Some (ApiError NotFound m))]\<rparr>)"
proof (cases "objs (world s) (KSingle, req)")
  case None
  then obtain m where "api_Get cl req (OSingle (cr s)) (world s) = ((Some (ApiError NotFound m), OSingle (cr s)), world s)"
    using get_missing [of "world s" "OSingle (cr s)" req] by auto
  with None assms show ?thesis
    by (auto simp: get_single_def client_Get_def api_call_def set_cr_def op_defs)
next
  case (Some y)
  then obtain c where y: "y = OSingle c" using objs_kind [OF Some] by (cases y) (auto simp: obj_key_def)
  have "api_Get cl req (OSingle (cr s)) (world s) = ((None, y), world s)"
    using get_found [of "world s" "OSingle (cr s)" req y] Some by simp
  with Some y show ?thesis
    by (auto simp: get_single_def client_Get_def api_call_def set_cr_def op_defs)
qed

lemma getSingleInstance_run:
  assumes "k8s_library L" and "cr s = zero_single_instance"
  shows "\<exists>t. Single_getSingleInstance L cl req s = (Inr (), t) \<and> world t = world s \<and> events t = events s
    \<and> (\<exists>out. trace t = trace s @ [(ReqGet KSingle req, out)])
    \<and> cr t = (case objs (world s) (KSingle, req) of Some (OSingle c) \<Rightarrow> c | _ \<Rightarrow> zero_single_instance)
    \<and> fetched req (cr t)"
proof (cases "objs (world s) (KSingle, req)")
  case None
  then show ?thesis
    using get_single_run [OF assms(2), of req] assms k8s_library.not_found_simps(1) [OF assms(1)]
    by (auto simp: Single_getSingleInstance_def op_defs fetched_def)
next
  case (Some y)
  then show ?thesis
    using get_single_run [OF assms(2), of req] objs_kind [OF Some]
    by (auto simp: Single_getSingleInstance_def op_defs fetched_def obj_key_def)
qed

lemma keeps_AddFinalizer:
  assumes "\<And>O' nn v. I O' \<Longrightarrow> O' (KSingle, nn) \<noteq> None \<Longrightarrow> I (O'((KSingle, nn) := v))"
  shows "keeps objs I (GreatSqlFinalizer_AddFinalizer L cl)"
    "keeps objs I (GreatSqlFinalizer_RemoveFinalizer L cl)"
    "keeps objs I (Single_validateAndAddFinalizer L cl)"
  unfolding GreatSqlFinalizer_AddFinalizer_def GreatSqlFinalizer_RemoveFinalizer_def
    Single_validateAndAddFinalizer_def
  by (intro keeps_rules keeps_single keeps_validateSpec assms; assumption)+

lemma handleFinalizer_keeps:
  assumes "\<And>O' k v. I O' \<Longrightarrow> O' k \<noteq> None \<Longrightarrow> finalized req k \<or> fst k = KSingle \<Longrightarrow> I (O'(k := v))"
    and "fetched req g"
  shows "triple (\<lambda>s. cr s = g \<and> I (objs (world s))) (Single_handleFinalizer L cl)
    (\<lambda>_ s. I (objs (world s))) (\<lambda>_ s. I (objs (world s)))"
proof (cases "DeletionTimestamp (si_Meta g) = None")
  case True
  then show ?thesis
    unfolding Single_handleFinalizer_def by (intro triple_gets_at) (auto intro: triple_ret)
next
  case False
  then have "obj_name (OSingle g) = req"
    using assms(2) by (auto simp: fetched_def zero_single_instance_def zero_meta_def)
  then have handler: "triple (\<lambda>s. cr s = g \<and> I (objs (world s))) (HandleFinalizer L cl)
      (\<lambda>_ s. I (objs (world s))) (\<lambda>_ s. I (objs (world s)))"
    by (intro keeps_at_HandleFinalizer assms(1)) auto
  have "keeps objs I (andThen (GreatSqlFinalizer_RemoveFinalizer L cl) (\<lambda>_. update_single cl))"
    by (intro keeps_rules keeps_AddFinalizer keeps_single assms(1)) auto
  then show ?thesis
    unfolding Single_handleFinalizer_def using False
    by (intro triple_gets_at) (auto simp: keeps_def intro: triple_andThen [OF handler])
qed

end

context api_server
begin

lemma stuck_Reconcile:
  assumes "k8s_library L"
    and closed: "\<And>O' k v. I O' \<Longrightarrow> O' k \<noteq> None \<Longrightarrow> finalized req k \<or> fst k = KSingle \<Longrightarrow> I (O'(k := v))"
    and create: "stuck objs I (Single_createResources L cl req)"
  shows "stuck objs I (Single_Reconcile L cl req)"
proof -
  let ?rest = "andThen (Single_validateAndAddFinalizer L cl) (\<lambda>_.
     andThen (Single_createResources L cl req) (\<lambda>_. Single_watchResource L cl req))"
  have rest: "stuck objs I ?rest"
    by (intro stuck_later keeps_AddFinalizer stuck_first create closed) auto
  have run: "triple (\<lambda>s. cr s = g \<and> I (objs (world s)))
      (andThen (Single_handleFinalizer L cl) (\<lambda>_. ?rest)) (\<lambda>_ _. False) (\<lambda>_ s. I (objs (world s)))"
    if "fetched req g" for g
  proof (rule triple_andThen)
    show "triple (\<lambda>s. cr s = g \<and> I (objs (world s))) (Single_handleFinalizer L cl)
        (\<lambda>_ s. I (objs (world s))) (\<lambda>_ s. I (objs (world s)))"
      by (rule handleFinalizer_keeps [OF _ that]) (rule closed)
  qed (use rest in \<open>simp add: stuck_def\<close>)
  show ?thesis
    unfolding stuck_def triple_def
  proof (intro allI impI)
    fix s :: "('w, single_instance) rstate"
    assume I: "I (objs (world s))"
    let ?s = "s\<lparr>cr := zero_single_instance\<rparr>"
    obtain t where t: "Single_getSingleInstance L cl req ?s = (Inr (), t)" "world t = world s"
        "fetched req (cr t)"
      using getSingleInstance_run [OF assms(1), of ?s req] by auto
    have "Single_Reconcile L cl req s = andThen (Single_handleFinalizer L cl) (\<lambda>_. ?rest) t"
      using t(1) by (simp add: Single_Reconcile_def set_cr_def op_defs)
    with run [OF t(3)] I t(2)
    show "case Single_Reconcile L cl req s of
        (Inl e, t) \<Rightarrow> I (objs (world t)) | (Inr x, t) \<Rightarrow> False"
      by (auto simp: triple_def)
  qed
qed

lemma create_existing:
  assumes "\<And>O'. I O' \<Longrightarrow> O' (obj_key x) \<noteq> None"
  shows "stuck objs I (client_Create cl x)"
  using assms unfolding stuck_def client_Create_def
  by (fastforce simp: triple_def op_defs api_call_def check_err_def elim!: create_cases split: prod.splits)

lemma stuck_Reconcile_partial:
  assumes "k8s_library L"
  shows "stuck objs (\<lambda>O'. O' (KDeployment, req) = None \<and> O' (KConfigMap, with_suffix req ''-config'') \<noteq> None)
    (Single_Reconcile L cl req)" (is "stuck objs ?I _")
proof (rule stuck_Reconcile [OF assms])
  have "stuck objs ?I (Single_createConfigMap cl req)"
    unfolding Single_createConfigMap_def
    by (intro stuck_pure stuck_first create_existing)
      (simp add: obj_key_def obj_name_def NewConfigMap_def with_suffix_def)
  then show "stuck objs ?I (Single_createResources L cl req)"
    unfolding Single_createResources_def by (intro stuck_after_Get) (auto intro: stuck_first)
qed (auto simp: finalized_def with_suffix_def)

end

text \<open>
  A creation that failed half-way is never completed: once the ConfigMap \<open>name-config\<close> exists
  without the Deployment, every reconcile, whatever the rest of the cluster looks like, fails
  (with AlreadyExists at the latest), creates no Deployment and leaves the ConfigMap in place, so
  that this remains so for any number of reconciles, even through a deletion of the instance.
\<close>

lemma partial_creation_is_stuck:
  assumes "api_server cl adm objs" and "k8s_library L"
    and "objs (world s) (KConfigMap, with_suffix req ''-config'') \<noteq> None"
    and "objs (world s) (KDeployment, req) = None"
  shows "objs (world (reconciles L cl req n s)) (KDeployment, req) = None
    \<and> objs (world (reconciles L cl req n s)) (KConfigMap, with_suffix req ''-config'') \<noteq> None
    \<and> isl (fst (Single_Reconcile L cl req (reconciles L cl req n s)))"
  using stuck_forever [OF api_server.stuck_Reconcile_partial [OF assms(1,2)],
      where s = s and n = n] assms(3,4) by blast

definition half_created_server :: mem where
  "half_created_server =
     mem_write (OConfigMap (NewConfigMap ''greatsql-config'' ''greatsql'' ''my.cnf'' [])) sample_server"

end
