(* ===== verification/Single_Lifecycle.thy ===== *)
theory Single_Lifecycle
  imports Single_Server
begin

text \<open>
  Single reconciles of a SingleInstance against an API server, start to end: of a name that does
  not exist, of an invalid spec, of a deleted instance; and the creation and the update of its
  objects.
\<close>

section \<open>Validation\<close>

definition spec_verdict :: "single_instance_spec \<Rightarrow> (failure \<times> string list) option" where
  "spec_verdict spec =
     (if Size spec = None \<or> Size spec = Some 0
      then Some (Returned (ApiError BadRequest ''size is required''), [''size is required''])
      else case PersistentVolumeClaimTemplate (sis_PodSpec spec) of
        None \<Rightarrow> Some (Panicked NilDereference, [])
      | Some claim \<Rightarrow>
          if pvc_StorageClassName claim = None
          then Some (Returned (ApiError BadRequest ''storageClassName is required''),
            [''storageClassName cannot be empty''])
          else None)"

lemma validateSpec_run:
  assumes "k8s_library L"
  shows "Single_validateSpec L spec s = (case spec_verdict spec of
      None \<Rightarrow> (Inr (), s)
    | Some (f, msgs) \<Rightarrow> (Inl f, s\<lparr>events := events s @ map invalid_spec msgs\<rparr>))"
  by (auto simp: Single_validateSpec_def spec_verdict_def op_defs record_event_def
      k8s_library.new_bad_request [OF assms] split: option.splits)

text \<open>A spec with a size other than 0 and a claim template that names a storage class.\<close>

definition valid_spec :: "single_instance_spec \<Rightarrow> bool" where
  "valid_spec spec \<longleftrightarrow> Size spec \<noteq> None \<and> Size spec \<noteq> Some 0 \<and>
     (case PersistentVolumeClaimTemplate (sis_PodSpec spec) of
        None \<Rightarrow> False | Some claim \<Rightarrow> pvc_StorageClassName claim \<noteq> None)"

lemma spec_verdict_valid: "(spec_verdict spec = None) = valid_spec spec"
  by (auto simp: spec_verdict_def valid_spec_def split: option.splits)

lemma spec_verdict_Some:
  assumes "spec_verdict spec = Some (f, msgs)"
  shows "(f = Panicked NilDereference) = (PersistentVolumeClaimTemplate (sis_PodSpec spec) = None
      \<and> Size spec \<noteq> None \<and> Size spec \<noteq> Some 0)"
    and "length msgs = (if f = Panicked NilDereference then 0 else 1)"
  using assms by (auto simp: spec_verdict_def split: option.splits if_splits)

definition stored_single :: "k8s_object option \<Rightarrow> single_instance" where
  "stored_single x = (case x of Some (OSingle c) \<Rightarrow> c | _ \<Rightarrow> zero_single_instance)"

context api_server
begin

lemma Reconcile_invalid:
  assumes "k8s_library L"
    and "c = stored_single (objs (world s) (KSingle, req))"
    and "DeletionTimestamp (si_Meta c) = None"
    and "spec_verdict (Spec c) = Some (f, msgs)"
  shows "\<exists>t out. Single_Reconcile L cl req s = (Inl f, t) \<and> world t = world s
    \<and> events t = events s @ map invalid_spec msgs \<and> trace t = trace s @ [(ReqGet KSingle req, out)]"
proof -
  obtain t out where "Single_getSingleInstance L cl req (s\<lparr>cr := zero_single_instance\<rparr>) = (Inr (), t)"
      "world t = world s" "events t = events s" "trace t = trace s @ [(ReqGet KSingle req, out)]" "cr t = c"
    using getSingleInstance_run [OF assms(1), of "s\<lparr>cr := zero_single_instance\<rparr>" req] assms(2)
    by (auto simp: stored_single_def)
  with assms(3,4) show ?thesis
    by (simp add: Single_Reconcile_def set_cr_def op_defs Single_handleFinalizer_def
        Single_validateAndAddFinalizer_def validateSpec_run [OF assms(1)])
qed

end

text \<open>
  C25. Reconciling a name for which no SingleInstance exists ends in the error \<open>size is required\<close>
  and a warning event, instead of being ignored as its log message says: the missing object is
  treated as an empty one. Nothing is written.
\<close>

theorem missing_instance_is_an_error:
  assumes "api_server cl adm objs" and "k8s_library L"
    and "objs (world s) (KSingle, req) = None"
  shows "\<exists>t out. Single_Reconcile L cl req s
      = (Inl (Returned (ApiError BadRequest ''size is required'')), t)
    \<and> world t = world s \<and> events t = events s @ [invalid_spec ''size is required'']
    \<and> trace t = trace s @ [(ReqGet KSingle req, out)]"
  using api_server.Reconcile_invalid [OF assms(1,2) refl, where s = s and req = req] assms(3)
  by (simp add: stored_single_def zero_single_instance_def zero_meta_def spec_verdict_def
      zero_single_instance_spec_def)

theorem missing_instance_is_an_error_witness:
  "\<exists>t. Single_Reconcile doc_lib (mem_client (\<lambda>_. None)) sample_name (start empty_server)
    = (Inl (Returned (ApiError BadRequest ''size is required'')), t) \<and> world t = empty_server"
  using missing_instance_is_an_error [OF mem.api_server_axioms [of "\<lambda>_. None"] doc.k8s_library_axioms,
      where s = "start empty_server" and req = sample_name]
  by (auto simp: start_def empty_server_def mem_objs_def)


definition spec_without_template :: single_instance_spec where
  "spec_without_template = (Spec sample_single)\<lparr>sis_PodSpec :=
     sample_pod_spec\<lparr>PersistentVolumeClaimTemplate := None\<rparr>\<rparr>"

definition server_without_template :: mem where
  "server_without_template = mem_write (OSingle (sample_single\<lparr>Spec := spec_without_template\<rparr>)) empty_server"

lemma server_without_template_objs:
  "mem_objs server_without_template (KSingle, sample_name)
     = Some (OSingle (sample_single\<lparr>si_Meta := sample_meta\<lparr>ResourceVersion := fmt_nat 1\<rparr>,
         Spec := spec_without_template\<rparr>))"
  by (simp add: server_without_template_def empty_server_def obj_key_def obj_name_def sample_name_def with_rv_def)


section \<open>Deletion\<close>

definition cleared :: "object_key set \<Rightarrow> (object_key \<Rightarrow> 'o option) \<Rightarrow> object_key \<Rightarrow> 'o option" where
  "cleared K O' = (\<lambda>k. if k \<in> K then None else O' k)"

definition unguarded :: "object_key set \<Rightarrow> (object_key \<Rightarrow> k8s_object option) \<Rightarrow> bool" where
  "unguarded K O' \<longleftrightarrow> (\<forall>k \<in> K. \<forall>y. O' k = Some y \<longrightarrow> Finalizers (obj_meta y) = [])"

text \<open>The keys of the objects that the finalizer of \<open>c\<close> deletes.\<close>

definition cleanup_keys :: "single_instance \<Rightarrow> object_key set" where
  "cleanup_keys c =
     (\<lambda>i. (KPVC, named c (''-db-'' @ fmt_nat i))) ` {..<nat (sint (GetSize (Spec c)))}
     \<union> {(KDeployment, named c []), (KService, named c []), (KConfigMap, named c ''config'')}"

lemma cleared_simps [simp]:
  "cleared K (cleared J O') = cleared (J \<union> K) O'"
  "k \<in> K \<Longrightarrow> cleared K O' k = None" "k \<notin> K \<Longrightarrow> cleared K O' k = O' k"
  "cleared {} O' = O'"
  by (auto simp: cleared_def fun_eq_iff)

lemma unguarded_cleared [simp]: "unguarded K O' \<Longrightarrow> unguarded K (cleared J O')"
  by (auto simp: unguarded_def cleared_def)

lemma unguarded_Un [simp]: "unguarded (J \<union> K) O' \<longleftrightarrow> unguarded J O' \<and> unguarded K O'"
  by (auto simp: unguarded_def)

lemma cleared_upd: "O'(k := None) = cleared {k} O'"
  by (auto simp: cleared_def fun_eq_iff)

text \<open>\<open>clears objs K m\<close>: run where nothing in \<open>K\<close> has a finalizer, \<open>m\<close> succeeds and removes exactly \<open>K\<close>.\<close>

definition clears ::
  "('w \<Rightarrow> object_key \<Rightarrow> k8s_object option) \<Rightarrow> 'c \<Rightarrow> object_key set \<Rightarrow> (('w, 'c) rstate, unit) op \<Rightarrow> bool" where
  "clears objs g K m \<longleftrightarrow> (\<forall>s. cr s = g \<longrightarrow> unguarded K (objs (world s)) \<longrightarrow>
     (\<exists>t. m s = (Inr (), t) \<and> cr t = g \<and> objs (world t) = cleared K (objs (world s))))"

lemma clears_andThen:
  assumes "clears objs g J m" and "clears objs g K f"
  shows "clears objs g (J \<union> K) (andThen m (\<lambda>_. f))"
  unfolding clears_def
proof (intro allI impI)
  fix s :: "('a, 'b) rstate"
  assume "cr s = g" and u: "unguarded (J \<union> K) (objs (world s))"
  with assms(1) obtain t where t: "m s = (Inr (), t)" "cr t = g" "objs (world t) = cleared J (objs (world s))"
    by (auto simp: clears_def)
  with assms(2) u obtain t' where "f t = (Inr (), t')" "cr t' = g" "objs (world t') = cleared K (objs (world t))"
    by (auto simp: clears_def)
  with t show "\<exists>t. andThen m (\<lambda>_. f) s = (Inr (), t) \<and> cr t = g
      \<and> objs (world t) = cleared (J \<union> K) (objs (world s))"
    by (simp add: op_defs)
qed

lemma clears_gets: "clears objs g K (f g) \<Longrightarrow> clears objs g K (andThen (gets cr) f)"
  by (simp add: clears_def op_defs)

lemma clears_for_each:
  "(\<And>x. x \<in> set xs \<Longrightarrow> clears objs g {K x} (f x)) \<Longrightarrow> clears objs g (K ` set xs) (for_each f xs)"
proof (induction xs)
  case Nil
  then show ?case by (simp add: clears_def op_defs)
next
  case (Cons x xs)
  have "clears objs g ({K x} \<union> K ` set xs) (andThen (f x) (\<lambda>_. for_each f xs))"
    using Cons by (intro clears_andThen) auto
  then show ?case by simp
qed

context api_server
begin

lemma clears_delete:
  assumes "k8s_library L"
  shows "clears objs g {obj_key x} (delete_if_found L cl x)"
  unfolding clears_def
proof (intro allI impI)
  fix s :: "('w, 'a) rstate"
  assume "cr s = g" and u: "unguarded {obj_key x} (objs (world s))"
  obtain e w' where d: "api_Delete cl x (world s) = (e, w')" by (cases "api_Delete cl x (world s)")
  then show "\<exists>t. delete_if_found L cl x s = (Inr (), t) \<and> cr t = g
      \<and> objs (world t) = cleared {obj_key x} (objs (world s))"
  proof (cases rule: delete_cases)
    case (missing m)
    then have "objs w' = cleared {obj_key x} (objs (world s))"
      by (auto simp: cleared_def fun_eq_iff)
    with missing d \<open>cr s = g\<close> k8s_library.not_found_simps(1) [OF assms] show ?thesis
      by (simp add: delete_if_found_def client_Delete_def api_call_def op_defs)
  next
    case (removed y)
    with d \<open>cr s = g\<close> show ?thesis
      by (simp add: delete_if_found_def client_Delete_def api_call_def op_defs cleared_upd)
  next
    case (marked y z)
    with u show ?thesis by (simp add: unguarded_def)
  qed
qed

lemma clears_cleanup:
  assumes "k8s_library L"
  shows "clears objs g (cleanup_keys g) (andThen (finalizePersistentVolumeClaims L cl) (\<lambda>_.
     andThen (finalizeDeployment L cl) (\<lambda>_.
     andThen (finalizeService L cl) (\<lambda>_. finalizeConfigMap L cl))))"
proof -
  have delete: "k = obj_key x \<Longrightarrow> clears objs g {k} (delete_if_found L cl x)" for k x
    using clears_delete [OF assms] by simp
  have "clears objs g ((\<lambda>i. (KPVC, named g (''-db-'' @ fmt_nat i))) ` set [0..<nat (sint (GetSize (Spec g)))])
      (finalizePersistentVolumeClaims L cl)"
    unfolding finalizePersistentVolumeClaims_def
    by (intro clears_gets clears_for_each delete) (simp add: obj_key_def obj_name_def named_def)
  moreover have "clears objs g {(KDeployment, named g [])} (finalizeDeployment L cl)"
    "clears objs g {(KService, named g [])} (finalizeService L cl)"
    "clears objs g {(KConfigMap, named g ''config'')} (finalizeConfigMap L cl)"
    unfolding finalizeDeployment_def finalizeService_def finalizeConfigMap_def
    by (intro clears_gets delete; simp add: obj_key_def obj_name_def named_def)+
  ultimately have "clears objs g (((\<lambda>i. (KPVC, named g (''-db-'' @ fmt_nat i))) ` set [0..<nat (sint (GetSize (Spec g)))])
      \<union> ({(KDeployment, named g [])} \<union> ({(KService, named g [])} \<union> {(KConfigMap, named g ''config'')})))
    (andThen (finalizePersistentVolumeClaims L cl) (\<lambda>_.
     andThen (finalizeDeployment L cl) (\<lambda>_.
     andThen (finalizeService L cl) (\<lambda>_. finalizeConfigMap L cl))))"
    by (intro clears_andThen)
  then show ?thesis by (simp add: cleanup_keys_def atLeast0LessThan insert_commute)
qed

lemma update_single_release:
  assumes "cr s = c" and "objs (world s) (KSingle, obj_name (OSingle c)) = Some (OSingle y)"
    and "ResourceVersion (si_Meta y) = ResourceVersion (si_Meta c)"
    and "DeletionTimestamp (si_Meta y) \<noteq> None" and "Finalizers (si_Meta c) = []"
    and "adm (OSingle c) = None"
  shows "\<exists>t. update_single cl s = (Inr (), t)
    \<and> objs (world t) = cleared {(KSingle, obj_name (OSingle c))} (objs (world s))
    \<and> obj_name (OSingle (cr t)) = obj_name (OSingle c) \<and> Finalizers (si_Meta (cr t)) = []"
proof -
  have key: "obj_key (OSingle c) = (KSingle, obj_name (OSingle c))" by (simp add: obj_key_def)
  have "writable (OSingle c) (OSingle y)" "vanishes (OSingle c) (OSingle y)"
    using assms(3-5) by (simp_all add: writable_def vanishes_def)
  with assms(2,6) key obtain z w' where
    w': "api_Update cl (OSingle c) (world s) = ((None, z), w')" "stored_as (OSingle c) (OSingle y) z"
      "objs w' = (objs (world s))((KSingle, obj_name (OSingle c)) := None)"
    using update_ok [of "world s" "OSingle c" "OSingle y"] by auto
  from w'(2) obtain z' where z: "z = OSingle z'" by (auto simp: stored_as_def same_spec_def)
  have "si_Meta z' = (si_Meta c)\<lparr>UID := UID (si_Meta y), CreationTimestamp := CreationTimestamp (si_Meta y),
       DeletionTimestamp := DeletionTimestamp (si_Meta y), ResourceVersion := ResourceVersion (si_Meta z')\<rparr>"
    using w'(2) z by (simp add: stored_as_def)
  then have "Name (si_Meta z') = Name (si_Meta c)" "Namespace (si_Meta z') = Namespace (si_Meta c)"
    "Finalizers (si_Meta z') = []"
    using assms(5) by (metis object_meta.select_convs(1,2,10) object_meta.surjective object_meta.update_convs(3,4,5,6))+
  with w' z assms(1) show ?thesis
    by (simp add: update_single_def api_call_def store_single_def set_cr_def op_defs cleared_upd obj_name_def)
qed

lemma update_single_missing:
  assumes "objs (world s) (KSingle, obj_name (OSingle (cr s))) = None"
  shows "\<exists>m t. update_single cl s = (Inl (Returned (ApiError NotFound m)), t) \<and> world t = world s"
  using update_missing [of "world s" "OSingle (cr s)"] assms
  by (auto simp: update_single_def api_call_def store_single_def set_cr_def op_defs obj_key_def)

end

context api_server
begin

lemma Reconcile_deleted:
  assumes "k8s_library L"
    and stored: "objs (world s) (KSingle, req) = Some (OSingle c)"
    and deleted: "\<not> IsZero_time (DeletionTimestamp (si_Meta c))"
    and fin: "Finalizers (si_Meta c) = [GreatSqlFinalizer_const]"
    and ok: "adm (OSingle (without_finalizer L c)) = None"
    and free: "unguarded (cleanup_keys c) (objs (world s))"
  shows "\<exists>m t. Single_Reconcile L cl req s = (Inl (Returned (ApiError NotFound m)), t)
    \<and> objs (world t) = cleared (insert (KSingle, req) (cleanup_keys c)) (objs (world s))"
proof -
  have req: "obj_name (OSingle c) = req" using objs_kind [OF stored] by (simp add: obj_key_def)
  have has: "has_finalizer L c"
    using fin by (simp add: has_finalizer_def k8s_library.contains_finalizer [OF assms(1)])
  let ?c = "without_finalizer L c"
  have c': "obj_name (OSingle ?c) = req" "Finalizers (si_Meta ?c) = []"
    "ResourceVersion (si_Meta ?c) = ResourceVersion (si_Meta c)"
    using fin req by (simp_all add: without_finalizer_def k8s_library.remove_finalizer [OF assms(1)] obj_name_def)
  obtain s0 where s0: "Single_getSingleInstance L cl req (s\<lparr>cr := zero_single_instance\<rparr>) = (Inr (), s0)"
      "world s0 = world s" "cr s0 = c"
    using getSingleInstance_run [OF assms(1), of "s\<lparr>cr := zero_single_instance\<rparr>" req] stored by auto
  have "unguarded (cleanup_keys c) (objs (world s0))" using free s0(2) by simp
  with clears_cleanup [OF assms(1), of c] s0(3) obtain s1 where
    s1: "andThen (finalizePersistentVolumeClaims L cl) (\<lambda>_. andThen (finalizeDeployment L cl) (\<lambda>_.
        andThen (finalizeService L cl) (\<lambda>_. finalizeConfigMap L cl))) s0 = (Inr (), s1)"
      "cr s1 = c" "objs (world s1) = cleared (cleanup_keys c) (objs (world s))"
    using s0(2) unfolding clears_def by (metis (no_types, lifting))
  have "(KSingle, req) \<notin> cleanup_keys c" by (auto simp: cleanup_keys_def)
  then obtain s2 where s2: "update_single cl (s1\<lparr>cr := ?c\<rparr>) = (Inr (), s2)"
      "objs (world s2) = cleared (insert (KSingle, req) (cleanup_keys c)) (objs (world s))"
      "obj_name (OSingle (cr s2)) = req" "Finalizers (si_Meta (cr s2)) = []"
    using update_single_release [of "s1\<lparr>cr := ?c\<rparr>" ?c c] c' stored s1 deleted ok
    by (auto simp: IsZero_time_def)
  have handle: "HandleFinalizer L cl s0 = (Inr (), s2)"
    unfolding HandleFinalizer_parts using deleted has s0(3) s1(1,2) s2(1)
    by (simp add: run_gets run_andThen run_modify set_cr_def)
  have released: "\<not> has_finalizer L (cr s2)"
    using s2(4) by (simp add: has_finalizer_def k8s_library.contains_finalizer [OF assms(1)])
  have "objs (world s2) (KSingle, obj_name (OSingle (cr s2))) = None" using s2 by simp
  then obtain m t where t: "update_single cl s2 = (Inl (Returned (ApiError NotFound m)), t)" "world t = world s2"
    using update_single_missing by blast
  have "Single_handleFinalizer L cl s0 = (Inl (Returned (ApiError NotFound m)), t)"
    using handle released t(1) deleted s0(3)
    by (auto simp: Single_handleFinalizer_def GreatSqlFinalizer_RemoveFinalizer_def op_defs IsZero_time_def)
  then have "Single_Reconcile L cl req s = (Inl (Returned (ApiError NotFound m)), t)"
    using s0(1) by (simp add: Single_Reconcile_def set_cr_def op_defs)
  with t(2) s2(2) show ?thesis by auto
qed

end

text \<open>
  C13. Reconciling a deleted SingleInstance whose only finalizer is the operator's removes exactly
  the keys its finalizer names and the instance itself, and then reports an error: the handler
  updates the object once more after the removal of its last finalizer has made it disappear.
  The PersistentVolumeClaim \<open>namedb\<close> and the ConfigMap \<open>name-config\<close>, under the names they are
  created with, are left behind.
\<close>

theorem deletion_leaks_and_fails:
  assumes "api_server cl adm objs" and "k8s_library L"
    and "objs (world s) (KSingle, req) = Some (OSingle c)"
    and "\<not> IsZero_time (DeletionTimestamp (si_Meta c))"
    and "Finalizers (si_Meta c) = [GreatSqlFinalizer_const]"
    and "adm (OSingle (without_finalizer L c)) = None"
    and "unguarded (cleanup_keys c) (objs (world s))"
  shows "\<exists>m t. Single_Reconcile L cl req s = (Inl (Returned (ApiError NotFound m)), t)
    \<and> objs (world t) = cleared (insert (KSingle, req) (cleanup_keys c)) (objs (world s))
    \<and> objs (world t) (KPVC, with_suffix req ''db'') = objs (world s) (KPVC, with_suffix req ''db'')
    \<and> objs (world t) (KConfigMap, with_suffix req ''-config'') = objs (world s) (KConfigMap, with_suffix req ''-config'')"
proof -
  have "obj_name (OSingle c) = req"
    using api_server.objs_kind [OF assms(1,3)] by (simp add: obj_key_def)
  then have "(KPVC, with_suffix req ''db'') \<notin> insert (KSingle, req) (cleanup_keys c)"
    "(KConfigMap, with_suffix req ''-config'') \<notin> insert (KSingle, req) (cleanup_keys c)"
    by (auto simp: cleanup_keys_def named_def with_suffix_def obj_name_def)
  then show ?thesis
    using api_server.Reconcile_deleted [OF assms] by (metis cleared_simps(3))
qed

definition deleted_sample :: single_instance where
  "deleted_sample = sample_single\<lparr>si_Meta := sample_meta\<lparr>DeletionTimestamp := Some (AtTime ''now''),
     Finalizers := [GreatSqlFinalizer_const], ResourceVersion := fmt_nat 1\<rparr>\<rparr>"

definition deleting_server :: mem where
  "deleting_server = mem_write (OConfigMap (NewConfigMap ''greatsql-config'' ''greatsql'' ''my.cnf'' []))
     (mem_write (OSingle deleted_sample) empty_server)"

lemma deleting_server_objs:
  "mem_objs deleting_server =
     [(KSingle, sample_name) \<mapsto> OSingle deleted_sample,
      (KConfigMap, with_suffix sample_name ''-config'') \<mapsto>
        with_rv (fmt_nat 1) (OConfigMap (NewConfigMap ''greatsql-config'' ''greatsql'' ''my.cnf'' []))]"
  by (auto simp: deleting_server_def empty_server_def mem_objs_def obj_key_def obj_name_def sample_name_def
      with_suffix_def NewConfigMap_def zero_meta_def with_rv_absorb deleted_sample_def mem_write_def fun_eq_iff)

theorem deletion_leaks_and_fails_witness:
  "\<exists>m t. Single_Reconcile doc_lib (mem_client (\<lambda>_. None)) sample_name (start deleting_server)
      = (Inl (Returned (ApiError NotFound m)), t)
    \<and> mem_objs (world t) (KSingle, sample_name) = None
    \<and> mem_objs (world t) (KConfigMap, with_suffix sample_name ''-config'') \<noteq> None"
proof -
  have "unguarded (cleanup_keys deleted_sample) (mem_objs deleting_server)"
    by (auto simp: unguarded_def cleanup_keys_def deleting_server_objs named_def with_suffix_def
        deleted_sample_def sample_name_def split: if_splits)
  then obtain m t where
    "Single_Reconcile doc_lib (mem_client (\<lambda>_. None)) sample_name (start deleting_server)
      = (Inl (Returned (ApiError NotFound m)), t)"
    "mem_objs (world t) = cleared (insert (KSingle, sample_name) (cleanup_keys deleted_sample)) (mem_objs deleting_server)"
    "mem_objs (world t) (KConfigMap, with_suffix sample_name ''-config'')
      = mem_objs deleting_server (KConfigMap, with_suffix sample_name ''-config'')"
    using deletion_leaks_and_fails [OF mem.api_server_axioms [of "\<lambda>_. None"] doc.k8s_library_axioms,
        where s = "start deleting_server" and req = sample_name and c = deleted_sample]
    by (auto simp: start_def deleting_server_objs deleted_sample_def IsZero_time_def)
  then show ?thesis by (simp add: deleting_server_objs)
qed

section \<open>Creation and update\<close>

lemma GetServiceAccessPoint_Inr: "svc_Ports svc \<noteq> [] \<Longrightarrow> \<exists>ap. GetServiceAccessPoint svc = Inr ap"
  by (cases "svc_Ports svc"; cases "svc_Ingress svc") (simp_all add: GetServiceAccessPoint_def)

context api_server
begin

lemma create_run:
  assumes "objs (world s) (obj_key x) = None" and "adm x = None"
  shows "\<exists>z t. client_Create cl x s = (Inr z, t) \<and> cr t = cr s
    \<and> objs (world t) = (objs (world s))(obj_key x \<mapsto> z) \<and> created_as x z"
  using create_ok [OF assms]
  by (auto simp: client_Create_def api_call_def check_err_def op_defs)

lemma update_status_run:
  assumes "cr s = c" and "objs (world s) (obj_key (OSingle c)) = Some y"
    and "obj_rv y = ResourceVersion (si_Meta c)"
  shows "\<exists>z t. update_single_status cl s = (Inr (), t)
    \<and> objs (world t) = (objs (world s))(obj_key (OSingle c) \<mapsto> z) \<and> stored_as y y z"
  using status_ok [OF assms(2)] assms(1,3)
  by (auto simp: writable_def update_single_status_def store_single_def api_call_def set_cr_def op_defs)

lemma updateStatus_run:
  assumes "cr s = c" and "objs (world s) (obj_key (OSingle c)) = Some y"
    and "obj_rv y = ResourceVersion (si_Meta c)" and "Size (Spec c) = Some sz" and "svc_Ports svc \<noteq> []"
  shows "\<exists>z t. Single_updateStatus cl svc s = (Inr (), t)
    \<and> objs (world t) = (objs (world s))(obj_key (OSingle c) \<mapsto> z) \<and> stored_as y y z"
proof -
  obtain ap where ap: "GetServiceAccessPoint svc = Inr ap" using GetServiceAccessPoint_Inr assms(5) by blast
  let ?c = "with_status c ap sz (time_String (CreationTimestamp (svc_Meta svc)))"
  have "obj_key (OSingle ?c) = obj_key (OSingle c)" "si_Meta ?c = si_Meta c"
    by (simp_all add: obj_key_def obj_name_def with_status_def)
  then obtain z t where "update_single_status cl (s\<lparr>cr := ?c\<rparr>) = (Inr (), t)"
      "objs (world t) = (objs (world s))(obj_key (OSingle c) \<mapsto> z)" "stored_as y y z"
    using update_status_run [of "s\<lparr>cr := ?c\<rparr>" ?c y] assms(2,3) by auto
  then show ?thesis
    using ap assms(1,4)
    by (intro exI [of _ z] exI [of _ t])
      (simp add: Single_updateStatus_def Let_def DeepEqual_value_pointer_def set_cr_def op_defs with_status_def)
qed

text \<open>The four objects are absent and the instance is stored as it is in memory.\<close>

lemma createResources_fresh:
  assumes c: "cr s = c" "obj_name (OSingle c) = req"
    and stored: "objs (world s) (KSingle, req) = Some y" "obj_rv y = ResourceVersion (si_Meta c)"
    and absent: "objs (world s) (KDeployment, req) = None" "objs (world s) (KService, req) = None"
      "objs (world s) (KConfigMap, with_suffix req ''-config'') = None"
      "objs (world s) (KPVC, with_suffix req ''db'') = None"
    and accept: "\<And>x. adm x = None"
    and built: "NewPersistentVolumeClaim L (nn_Name req) (nn_Namespace req) (Some (sis_PodSpec (Spec c))) = Inr p"
      "deployment_of L req c = Inr d" "sis_Ports (Spec c) \<noteq> []"
  shows "\<exists>t cm' p' d' svc' y'. Single_createResources L cl req s = (Inr (), t)
    \<and> objs (world t) = (objs (world s))
        ((KConfigMap, with_suffix req ''-config'') \<mapsto> cm', (KPVC, with_suffix req ''db'') \<mapsto> p',
         (KDeployment, req) \<mapsto> d', (KService, req) \<mapsto> svc', (KSingle, req) \<mapsto> y')
    \<and> created_as (OConfigMap (NewConfigMap (nn_Name req @ ''-config'') (nn_Namespace req) ''my.cnf''
          (text_lines (my_cnf_lines single_cnf)))) cm'
    \<and> created_as (OPVC p) p' \<and> created_as (ODeployment d) d'
    \<and> created_as (OService (service_of L req c)) svc' \<and> stored_as y y y'"
proof -
  let ?cm = "OConfigMap (NewConfigMap (nn_Name req @ ''-config'') (nn_Namespace req) ''my.cnf''
    (text_lines (my_cnf_lines single_cnf)))"
  obtain sz where sz: "Size (Spec c) = Some sz" and d: "NewDeployment L (nn_Name req @ Config_const) c (scast sz) = Inr d"
    using built(2) by (auto simp: deployment_of_def res_bind_Inr_iff)
  have keys: "obj_key ?cm = (KConfigMap, with_suffix req ''-config'')"
    "obj_key (OPVC p) = (KPVC, with_suffix req ''db'')" "obj_key (ODeployment d) = (KDeployment, req)"
    "obj_key (OService (service_of L req c)) = (KService, req)" "obj_key (OSingle c) = (KSingle, req)"
    using built(1) d c(2)
    by (auto simp: obj_key_def obj_name_def NewConfigMap_def with_suffix_def service_of_def NewService_def
        NewPersistentVolumeClaim_def res_bind_Inr_iff DB_const_def elim!: NewDeployment_Inr)
  obtain m where get: "api_Get cl req (ODeployment zero_deployment) (world s)
      = ((Some (ApiError NotFound m), ODeployment zero_deployment), world s)"
    using get_missing [of "world s" "ODeployment zero_deployment" req] absent(1) by auto
  let ?s0 = "s\<lparr>trace := trace s @ [(ReqGet KDeployment req, Some (ApiError NotFound m))]\<rparr>"
  obtain cm' s1 where s1: "client_Create cl ?cm ?s0 = (Inr cm', s1)" "cr s1 = c"
      "objs (world s1) = (objs (world s))((KConfigMap, with_suffix req ''-config'') \<mapsto> cm')" "created_as ?cm cm'"
    using create_run [of ?s0 ?cm] keys absent(3) accept c(1) by auto
  obtain p' s2 where s2: "client_Create cl (OPVC p) s1 = (Inr p', s2)" "cr s2 = c"
      "objs (world s2) = (objs (world s1))((KPVC, with_suffix req ''db'') \<mapsto> p')" "created_as (OPVC p) p'"
    using create_run [of s1 "OPVC p"] keys absent(4) accept s1 by auto
  obtain d' s3 where s3: "client_Create cl (ODeployment d) s2 = (Inr d', s3)" "cr s3 = c"
      "objs (world s3) = (objs (world s2))((KDeployment, req) \<mapsto> d')" "created_as (ODeployment d) d'"
    using create_run [of s2 "ODeployment d"] keys absent(1) accept s1 s2 by auto
  obtain svc' s4 where s4: "client_Create cl (OService (service_of L req c)) s3 = (Inr svc', s4)" "cr s4 = c"
      "objs (world s4) = (objs (world s3))((KService, req) \<mapsto> svc')"
      "created_as (OService (service_of L req c)) svc'"
    using create_run [of s3 "OService (service_of L req c)"] keys absent(2) accept s1 s2 s3 by auto
  have objs4: "objs (world s4) (obj_key (OSingle c)) = Some y"
    using s1(3) s2(3) s3(3) s4(3) stored(1) keys(5) by simp
  have ports: "svc_Ports (as_service svc' (service_of L req c)) \<noteq> []"
    using s4(4) built(3) by (auto simp: created_as_def same_spec_def service_of_def NewService_def)
  obtain y' t where t: "Single_updateStatus cl (as_service svc' (service_of L req c)) s4 = (Inr (), t)"
      "objs (world t) = (objs (world s4))((KSingle, req) \<mapsto> y')" "stored_as y y y'"
    using updateStatus_run [OF s4(2) objs4 stored(2) sz ports] keys(5) by auto
  have "Single_createResources L cl req s = (Inr (), t)"
    using get s1(1,2) s2(1,2) s3(1,2) s4(1,2) t(1) built(1,2) c(1)
    by (simp add: Single_createResources_def client_Get_def api_call_def Single_createConfigMap_def
        Single_createPersistentVolumeClaim_def Single_createDeployment_def Single_createService_def
        MySQLConfig_String_lines Let_def run_andThen run_gets run_ret)
  with s1 s2 s3 s4 t show ?thesis
    by (intro exI [of _ t] exI [of _ cm'] exI [of _ p'] exI [of _ d'] exI [of _ svc'] exI [of _ y']) simp
qed

lemma updateResource_conflict:
  assumes "objs (world s) (obj_key obj) = Some y" and "\<not> obj_deleted y"
    and upd: "api_Update cl (with_rv (obj_rv y) obj) (world s) = ((None, z), w1)" and "z \<noteq> y"
  shows "\<exists>m t. Single_updateResource L cl (obj_name obj) obj s = (Inl (Returned (ApiError Conflict m)), t)
    \<and> world t = w1 \<and> objs w1 = (objs (world s))(obj_key obj \<mapsto> z)"
proof -
  have key: "obj_key obj = (kind_of obj, obj_name obj)" by (simp add: obj_key_def)
  have w1: "objs w1 = (objs (world s))(obj_key obj \<mapsto> z)" "obj_rv z \<noteq> obj_rv y"
    using upd assms(1,2,4) update_ok [of "world s" "with_rv (obj_rv y) obj" y]
      update_rejected [of "world s" "with_rv (obj_rv y) obj" y]
    by (cases "adm (with_rv (obj_rv y) obj)"; auto simp: writable_def vanishes_def)+
  let ?e = "copy_metadata obj y"
  have e: "obj_key ?e = obj_key obj" "obj_rv ?e = obj_rv y"
    using objs_kind [OF assms(1)] by (auto simp: copy_metadata_def obj_key_def obj_name_def)
  have "\<not> writable ?e z"
    using e(2) w1(2) objs_rv [OF assms(1)] by (auto simp: writable_def)
  then obtain m where m: "api_Update cl ?e w1 = ((Some (ApiError Conflict m), ?e), w1)"
    using update_stale [of w1 ?e z] w1(1) e(1) by auto
  have "api_Get cl (obj_name obj) obj (world s) = ((None, y), world s)"
    using get_found assms(1) key by simp
  with upd m e(2) w1(1) show ?thesis
    by (simp add: Single_updateResource_def client_Get_def client_Update_def api_call_def check_err_def
        errorf_check_def Let_def op_defs)
qed

end


definition fetched_sample :: "(mem, single_instance) rstate" where
  "fetched_sample = (start sample_server)\<lparr>cr :=
     sample_single\<lparr>si_Meta := sample_meta\<lparr>ResourceVersion := fmt_nat 1\<rparr>\<rparr>\<rparr>"

lemma fetched_sample_simps [simp]:
  "world fetched_sample = sample_server"
  "cr fetched_sample = sample_single\<lparr>si_Meta := sample_meta\<lparr>ResourceVersion := fmt_nat 1\<rparr>\<rparr>"
  by (simp_all add: fetched_sample_def start_def)

lemma sample_built:
  obtains p d where
    "NewPersistentVolumeClaim doc_lib ''greatsql'' ''greatsql'' (Some sample_pod_spec) = Inr p"
    "deployment_of doc_lib sample_name (cr fetched_sample) = Inr d"
proof -
  obtain p where p: "NewPersistentVolumeClaim doc_lib ''greatsql'' ''greatsql'' (Some sample_pod_spec) = Inr p"
    using NewPersistentVolumeClaim_run [OF doc.k8s_library_axioms sample_pod_spec_simps(2) refl] by blast
  obtain d where "deployment_of doc_lib sample_name (cr fetched_sample) = Inr d"
    using NewDeployment_Inr_iff [of doc_lib _ "cr fetched_sample" "scast (1 :: int32)"]
    by (auto simp: deployment_of_def)
  with p that show thesis by blast
qed


text \<open>
  C24. \<open>updateResource\<close> conflicts with itself: it updates the object and then writes the copy it
  had read before. Whenever the first update changes the stored object, the second one is of an
  outdated version, so the operation fails with a conflict although the object is up to date.
\<close>

theorem updateResource_conflicts_with_itself:
  assumes "api_server cl adm objs"
    and "objs (world s) (obj_key obj) = Some y" and "\<not> obj_deleted y"
    and "api_Update cl (with_rv (obj_rv y) obj) (world s) = ((None, z), w1)" and "z \<noteq> y"
  shows "\<exists>m t. Single_updateResource L cl (obj_name obj) obj s = (Inl (Returned (ApiError Conflict m)), t)
    \<and> world t = w1 \<and> objs w1 = (objs (world s))(obj_key obj \<mapsto> z)"
  by (rule api_server.updateResource_conflict [OF assms])

lemma mem_update_changes:
  assumes "mem_objs w (obj_key x) = Some y" and "\<not> obj_deleted y"
    and "mem_merge (with_rv (obj_rv y) x) y \<noteq> y"
  shows "\<exists>z w1. api_Update (mem_client (\<lambda>_. None)) (with_rv (obj_rv y) x) w = ((None, z), w1) \<and> z \<noteq> y"
proof -
  have "obj_rv (with_rv (fmt_nat (Suc (revs w (obj_key x)))) m) \<noteq> obj_rv y" for m
    using fresh_rv [OF assms(1)] by simp
  then have "with_rv (fmt_nat (Suc (revs w (obj_key x)))) m \<noteq> y" for m by metis
  with assms show ?thesis
    by (simp add: mem_client_def mem_Update_def writable_def vanishes_def mem_put_simps)
qed

theorem updateResource_conflicts_with_itself_witness:
  "\<exists>m t. Single_updateResource doc_lib (mem_client (\<lambda>_. None))
      (obj_name (OConfigMap (NewConfigMap ''greatsql-config'' ''greatsql'' ''my.cnf'' ''new'')))
      (OConfigMap (NewConfigMap ''greatsql-config'' ''greatsql'' ''my.cnf'' ''new'')) (start half_created_server)
    = (Inl (Returned (ApiError Conflict m)), t)"
proof -
  let ?new = "OConfigMap (NewConfigMap ''greatsql-config'' ''greatsql'' ''my.cnf'' ''new'')"
  let ?old = "with_rv (fmt_nat 1) (OConfigMap (NewConfigMap ''greatsql-config'' ''greatsql'' ''my.cnf'' []))"
  have old: "mem_objs half_created_server (obj_key ?new) = Some ?old"
    by (simp add: half_created_server_def sample_server_def empty_server_def obj_key_def obj_name_def
        NewConfigMap_def mem_write_def mem_objs_def zero_meta_def)
  have new: "mem_merge (with_rv (obj_rv ?old) ?new) ?old \<noteq> ?old"
    by (simp add: mem_merge_def with_rv_def NewConfigMap_def) (simp add: fun_eq_iff)
  obtain z w1 where "api_Update (mem_client (\<lambda>_. None)) (with_rv (obj_rv ?old) ?new) half_created_server
      = ((None, z), w1)" "z \<noteq> ?old"
    using mem_update_changes [OF old _ new] by (auto simp: NewConfigMap_def zero_meta_def)
  then show ?thesis
    using updateResource_conflicts_with_itself [OF mem.api_server_axioms [of "\<lambda>_. None"],
        where s = "start half_created_server" and obj = ?new and y = ?old and L = doc_lib] old
    by (fastforce simp: start_def NewConfigMap_def zero_meta_def)
qed

end
