(* ===== verification/Single_Liveness.thy ===== *)
theory Single_Liveness
  imports Single_Lifecycle
begin

text \<open>
  The life of a SingleInstance that is valid and not deleted, on an API server that accepts its
  objects: the first reconcile creates all of them, and no later one loses any.
\<close>

section \<open>Objects that stay\<close>

text \<open>All objects of \<open>K\<close> exist and none is marked for deletion.\<close>

definition alive :: "object_key set \<Rightarrow> (object_key \<Rightarrow> k8s_object option) \<Rightarrow> bool" where
  "alive K O' \<longleftrightarrow> (\<forall>k \<in> K. \<exists>y. O' k = Some y \<and> \<not> obj_deleted y)"

lemma alive_upd: "alive K O' \<Longrightarrow> k \<in> K \<Longrightarrow> \<not> obj_deleted z \<Longrightarrow> alive K (O'(k \<mapsto> z))"
  by (auto simp: alive_def)

lemma alive_upd_other: "alive K O' \<Longrightarrow> k \<notin> K \<Longrightarrow> alive K (O'(k := v))"
  by (auto simp: alive_def)

lemma alive_insert [simp]:
  "alive (insert k K) O' \<longleftrightarrow> (\<exists>y. O' k = Some y \<and> \<not> obj_deleted y) \<and> alive K O'"
  by (auto simp: alive_def)

lemma alive_empty [simp]: "alive {} O'"
  by (simp add: alive_def)

lemma stored_deleted: "stored_as x y z \<Longrightarrow> obj_deleted z = obj_deleted y"
  unfolding stored_as_def by (metis object_meta.select_convs(6) object_meta.surjective object_meta.update_convs(4,6))

lemma stored_meta:
  assumes "stored_as x y z"
  obtains rv where "obj_meta z = (obj_meta x)\<lparr>UID := UID (obj_meta y),
     CreationTimestamp := CreationTimestamp (obj_meta y),
     DeletionTimestamp := DeletionTimestamp (obj_meta y), ResourceVersion := rv\<rparr>"
  using assms unfolding stored_as_def by blast

lemma created_deleted: "created_as x z \<Longrightarrow> \<not> obj_deleted z"
  unfolding created_as_def by (metis object_meta.select_convs(6) object_meta.surjective object_meta.update_convs(4,6))

named_theorems alive_rules "operations that lose no object"

context api_server
begin

lemma alive_write:
  assumes "alive K O'" "O' k = Some y" "stored_as x y z"
  shows "alive K (O'(k := if vanishes u y then None else Some z))"
  using assms stored_deleted [OF assms(3)] by (auto simp: alive_def vanishes_def)

lemma alive_rewrite:
  assumes "alive K O'" "O' k = Some y" "stored_as x y z"
  shows "alive K (O'(k \<mapsto> z))"
  using assms stored_deleted [OF assms(3)] by (auto simp: alive_def)

lemma alive_writes:
  "api_Create cl x w = ((e, z), w') \<Longrightarrow> alive K (objs w) \<Longrightarrow> alive K (objs w')"
  "api_Update cl x w = ((e, z), w') \<Longrightarrow> alive K (objs w) \<Longrightarrow> alive K (objs w')"
  "api_StatusUpdate cl x w = ((e, z), w') \<Longrightarrow> alive K (objs w) \<Longrightarrow> alive K (objs w')"
proof -
  show "alive K (objs w')" if "api_Create cl x w = ((e, z), w')" "alive K (objs w)"
    using that by (cases rule: create_cases) (auto simp: alive_upd alive_upd_other created_deleted alive_def)
  show "alive K (objs w')" if "api_Update cl x w = ((e, z), w')" "alive K (objs w)"
    using that by (cases rule: update_cases) (simp_all add: alive_write del: fun_upd_apply)
  show "alive K (objs w')" if "api_StatusUpdate cl x w = ((e, z), w')" "alive K (objs w)"
    using that by (cases rule: status_cases) (simp_all add: alive_rewrite del: fun_upd_apply)
qed

lemma alive_api_calls:
  "keeps objs (alive K) (api_call (api_Create cl x) q err)"
  "keeps objs (alive K) (api_call (api_Update cl x) q err)"
  "keeps objs (alive K) (api_call (api_StatusUpdate cl x) q err)"
  by (rule keeps_api_call, metis alive_writes surj_pair)+

lemma alive_calls [alive_rules]:
  "keeps objs (alive K) (client_Create cl x)"
  "keeps objs (alive K) (client_Update cl x)"
  "keeps objs (alive K) (update_single cl)"
  "keeps objs (alive K) (update_single_status cl)"
  unfolding client_Create_def client_Update_def update_single_def update_single_status_def store_single_def
  by (intro keeps_rules alive_api_calls)+

lemma alive_creations [alive_rules]:
  "keeps objs (alive K) (Single_createConfigMap cl req)"
  "keeps objs (alive K) (Single_createPersistentVolumeClaim L cl req)"
  "keeps objs (alive K) (Single_createDeployment L cl req)"
  "keeps objs (alive K) (Single_createService L cl req)"
  unfolding Single_createConfigMap_def Single_createPersistentVolumeClaim_def Single_createDeployment_def
    Single_createService_def Single_updateStatus_def Let_def
  by (intro keeps_rules alive_rules)+

lemma alive_phases [alive_rules]:
  "keeps objs (alive K) (Single_createResources L cl req)"
  "keeps objs (alive K) (Single_validateAndAddFinalizer L cl)"
  "keeps objs (alive K) (Single_updateResource L cl nn x)"
  unfolding Single_createResources_def Single_validateAndAddFinalizer_def GreatSqlFinalizer_AddFinalizer_def
    Single_updateResource_def errorf_check_def Let_def
  by (intro keeps_rules alive_rules keeps_validateSpec alive_api_calls)+

lemma alive_watchResource [alive_rules]: "keeps objs (alive K) (Single_watchResource L cl req)"
  unfolding Single_watchResource_def Single_updateSpecAnnotation_def Single_updateDeployment_def
    Single_updateService_def Single_updateConfigMap_def
  by (intro keeps_rules alive_rules)

text \<open>The start of a reconcile of an instance that is not deleted.\<close>

lemma Reconcile_start:
  assumes "k8s_library L" and "objs (world s) (KSingle, req) = Some y" and "\<not> obj_deleted y"
  obtains c t where "y = OSingle c" "cr t = c" "world t = world s" "obj_name (OSingle c) = req"
    "Single_Reconcile L cl req s = andThen (Single_validateAndAddFinalizer L cl) (\<lambda>_.
       andThen (Single_createResources L cl req) (\<lambda>_. Single_watchResource L cl req)) t"
proof -
  let ?s = "s\<lparr>cr := zero_single_instance\<rparr>"
  obtain c where c: "y = OSingle c" using objs_kind [OF assms(2)] by (cases y) (auto simp: obj_key_def)
  obtain t where t: "Single_getSingleInstance L cl req ?s = (Inr (), t)" "world t = world s" "cr t = c"
    using getSingleInstance_run [OF assms(1), of ?s req] assms(2) c by auto
  have "DeletionTimestamp (si_Meta c) = None" using assms(3) c by simp
  with t have "Single_Reconcile L cl req s = andThen (Single_validateAndAddFinalizer L cl) (\<lambda>_.
       andThen (Single_createResources L cl req) (\<lambda>_. Single_watchResource L cl req)) t"
    by (simp add: Single_Reconcile_def Single_handleFinalizer_def set_cr_def op_defs)
  with that [OF c t(3,2)] objs_kind [OF assms(2)] c show thesis by (simp add: obj_key_def)
qed

lemma alive_Reconcile:
  assumes "k8s_library L" and "alive K (objs (world s))" and "(KSingle, req) \<in> K"
  shows "alive K (objs (world (snd (Single_Reconcile L cl req s))))"
proof -
  obtain y where y: "objs (world s) (KSingle, req) = Some y" "\<not> obj_deleted y"
    using assms(2,3) by (auto simp: alive_def)
  obtain t where t: "world t = world s"
    "Single_Reconcile L cl req s = andThen (Single_validateAndAddFinalizer L cl) (\<lambda>_.
       andThen (Single_createResources L cl req) (\<lambda>_. Single_watchResource L cl req)) t"
    using Reconcile_start [OF assms(1) y] by metis
  have "keeps objs (alive K) (andThen (Single_validateAndAddFinalizer L cl) (\<lambda>_.
       andThen (Single_createResources L cl req) (\<lambda>_. Single_watchResource L cl req)))"
    by (intro keeps_rules alive_rules)
  from keepsD [OF this, of t] t assms(2) show ?thesis by simp
qed

lemma alive_reconciles:
  assumes "k8s_library L" and "alive K (objs (world s))" and "(KSingle, req) \<in> K"
  shows "alive K (objs (world (reconciles L cl req n s)))"
  by (induction n) (simp_all add: assms alive_Reconcile)

end

section \<open>The first reconcile\<close>

text \<open>
  An instance that can be built: a valid spec that lists a container and a port.
\<close>

definition buildable :: "single_instance_spec \<Rightarrow> bool" where
  "buildable spec \<longleftrightarrow> valid_spec spec \<and> Containers (sis_PodSpec spec) \<noteq> [] \<and> sis_Ports spec \<noteq> []"

lemma buildable_objects:
  assumes "k8s_library L" and "buildable (Spec c)"
  obtains p d where
    "NewPersistentVolumeClaim L name ns (Some (sis_PodSpec (Spec c))) = Inr p" "deployment_of L req c = Inr d"
proof -
  from assms(2) obtain size claim where s: "Size (Spec c) = Some size"
    and claim: "PersistentVolumeClaimTemplate (sis_PodSpec (Spec c)) = Some claim"
    and ct: "Containers (sis_PodSpec (Spec c)) \<noteq> []"
    by (auto simp: buildable_def valid_spec_def split: option.splits)
  obtain p where p: "NewPersistentVolumeClaim L name ns (Some (sis_PodSpec (Spec c))) = Inr p"
    using NewPersistentVolumeClaim_run [OF assms(1) claim refl] by blast
  obtain d where "deployment_of L req c = Inr d"
    using NewDeployment_Inr_iff [of L "nn_Name req @ Config_const" c "scast size"] ct s
    by (auto simp: deployment_of_def)
  with p that show thesis by blast
qed

definition children :: "namespaced_name \<Rightarrow> object_key set" where
  "children req = {(KConfigMap, with_suffix req ''-config''), (KPVC, with_suffix req ''db''),
     (KDeployment, req), (KService, req)}"

context api_server
begin

text \<open>Validation and the finalizer: the instance stays as it is in memory, up to its finalizers.\<close>

lemma validateAndAddFinalizer_run:
  assumes lib: "k8s_library L" and c: "cr s = c" "obj_name (OSingle c) = req" "valid_spec (Spec c)"
    and stored: "objs (world s) (KSingle, req) = Some (OSingle c)" and live: "DeletionTimestamp (si_Meta c) = None"
    and accept: "\<And>x. adm x = None"
  shows "\<exists>t c' z. Single_validateAndAddFinalizer L cl s = (Inr (), t) \<and> cr t = c' \<and> Spec c' = Spec c
    \<and> obj_name (OSingle c') = req \<and> objs (world t) = (objs (world s))((KSingle, req) \<mapsto> z)
    \<and> z = OSingle c' \<and> DeletionTimestamp (si_Meta c') = None
    \<and> GreatSqlFinalizer_const \<in> set (Finalizers (si_Meta c'))"
proof -
  have verdict: "Single_validateSpec L (Spec c) s = (Inr (), s)"
    using validateSpec_run [OF lib, of "Spec c" s] c(3) spec_verdict_valid [of "Spec c"] by simp
  show ?thesis
  proof (cases "has_finalizer L c")
    case True
    with verdict c stored live show ?thesis
      by (intro exI [of _ s] exI [of _ c])
        (auto simp: Single_validateAndAddFinalizer_def GreatSqlFinalizer_AddFinalizer_def op_defs
          has_finalizer_def k8s_library.contains_finalizer [OF lib])
  next
    case False
    let ?c = "with_finalizer L c"
    have m: "si_Meta ?c = (si_Meta c)\<lparr>Finalizers := Finalizers (si_Meta c) @ [GreatSqlFinalizer_const]\<rparr>"
      and sp: "Spec ?c = Spec c"
      using False by (simp_all add: with_finalizer_def has_finalizer_def k8s_library.contains_finalizer [OF lib]
          k8s_library.add_finalizer [OF lib])
    have key: "obj_key (OSingle ?c) = (KSingle, req)"
      using c(2) m by (simp add: obj_key_def obj_name_def)
    have w: "writable (OSingle ?c) (OSingle c)" "\<not> vanishes (OSingle ?c) (OSingle c)"
      using live by (simp_all add: writable_def vanishes_def m)
    obtain z w' where z: "api_Update cl (OSingle ?c) (world s) = ((None, z), w')" "stored_as (OSingle ?c) (OSingle c) z"
        "objs w' = (objs (world s))((KSingle, req) \<mapsto> z)"
      using update_ok [of "world s" "OSingle ?c" "OSingle c"] stored key w accept by auto
    from z(2) obtain c' where c': "z = OSingle c'" "Spec c' = Spec c"
      by (cases z) (auto simp: stored_as_def same_spec_def sp)
    obtain rv where "si_Meta c' = (si_Meta ?c)\<lparr>UID := UID (si_Meta c),
        CreationTimestamp := CreationTimestamp (si_Meta c),
        DeletionTimestamp := DeletionTimestamp (si_Meta c), ResourceVersion := rv\<rparr>"
      using stored_meta [OF z(2)] c'(1) by auto
    then have meta: "Name (si_Meta c') = Name (si_Meta c)" "Namespace (si_Meta c') = Namespace (si_Meta c)"
      "DeletionTimestamp (si_Meta c') = None" "GreatSqlFinalizer_const \<in> set (Finalizers (si_Meta c'))"
      using live by (simp_all add: m)
    have "Single_validateAndAddFinalizer L cl s = (Inr (),
        s\<lparr>cr := c', world := w', trace := trace s @ [(ReqUpdate (OSingle ?c), None)]\<rparr>)"
      using verdict c(1) False z(1) c'
      by (simp add: Single_validateAndAddFinalizer_def GreatSqlFinalizer_AddFinalizer_def op_defs set_cr_def
          update_single_def api_call_def store_single_def)
    with z(3) c' meta c(2) show ?thesis by (auto simp: obj_name_def)
  qed
qed

end

lemma alive_children [simp]:
  "alive (children req) O' \<longleftrightarrow> (\<forall>k \<in> children req. \<exists>y. O' k = Some y \<and> \<not> obj_deleted y)"
  by (simp add: alive_def)

lemma reconciles_first: "reconciles L cl req (Suc n) s = reconciles L cl req n (snd (Single_Reconcile L cl req s))"
  by (induction n) simp_all

context api_server
begin

lemma first_Reconcile:
  assumes lib: "k8s_library L" and stored: "objs (world s) (KSingle, req) = Some (OSingle c)"
    and live: "DeletionTimestamp (si_Meta c) = None" and spec: "buildable (Spec c)"
    and absent: "\<And>k. k \<in> children req \<Longrightarrow> objs (world s) k = None"
    and accept: "\<And>x. adm x = None"
  shows "alive (insert (KSingle, req) (children req)) (objs (world (snd (Single_Reconcile L cl req s))))"
proof -
  obtain t where t: "cr t = c" "world t = world s" and name: "obj_name (OSingle c) = req"
    and run: "Single_Reconcile L cl req s = andThen (Single_validateAndAddFinalizer L cl) (\<lambda>_.
       andThen (Single_createResources L cl req) (\<lambda>_. Single_watchResource L cl req)) t"
    using Reconcile_start [OF lib stored] live by auto
  have "valid_spec (Spec c)" using spec by (simp add: buildable_def)
  then obtain u c' where u: "Single_validateAndAddFinalizer L cl t = (Inr (), u)" "cr u = c'" "Spec c' = Spec c"
      "obj_name (OSingle c') = req" "objs (world u) = (objs (world s))((KSingle, req) \<mapsto> OSingle c')"
      "DeletionTimestamp (si_Meta c') = None"
    using validateAndAddFinalizer_run [OF lib t(1) name] stored live accept t(2) by auto
  obtain p d where built: "NewPersistentVolumeClaim L (nn_Name req) (nn_Namespace req) (Some (sis_PodSpec (Spec c'))) = Inr p"
      "deployment_of L req c' = Inr d"
    using buildable_objects [OF lib, of c'] spec u(3) by metis
  have none: "objs (world u) k = None" if "k \<in> children req" for k
    using absent [OF that] that u(5) by (auto simp: children_def)
  have stored_u: "objs (world u) (KSingle, req) = Some (OSingle c')" "obj_rv (OSingle c') = ResourceVersion (si_Meta c')"
    by (simp_all add: u(5))
  have ports: "sis_Ports (Spec c') \<noteq> []" using spec u(3) by (simp add: buildable_def)
  obtain v cm' p' d' svc' y' where v: "Single_createResources L cl req u = (Inr (), v)"
    and after: "objs (world v) = (objs (world u))
        ((KConfigMap, with_suffix req ''-config'') \<mapsto> cm', (KPVC, with_suffix req ''db'') \<mapsto> p',
         (KDeployment, req) \<mapsto> d', (KService, req) \<mapsto> svc', (KSingle, req) \<mapsto> y')"
    and made: "created_as (OConfigMap (NewConfigMap (nn_Name req @ ''-config'') (nn_Namespace req) ''my.cnf''
          (text_lines (my_cnf_lines single_cnf)))) cm'" "created_as (OPVC p) p'" "created_as (ODeployment d) d'"
        "created_as (OService (service_of L req c')) svc'" "stored_as (OSingle c') (OSingle c') y'"
    using createResources_fresh [OF u(2,4) stored_u none none none none accept built ports]
    by (auto simp: children_def)
  have "\<not> obj_deleted cm'" "\<not> obj_deleted p'" "\<not> obj_deleted d'" "\<not> obj_deleted svc'" "\<not> obj_deleted y'"
    using made u(6) by (simp_all only: created_deleted stored_deleted obj_meta.simps not_not not_False_eq_True)
  then have "alive (insert (KSingle, req) (children req)) (objs (world v))"
    by (simp add: after children_def with_suffix_def)
  then have "alive (insert (KSingle, req) (children req)) (objs (world (snd (Single_watchResource L cl req v))))"
    by (rule keepsD [OF alive_watchResource])
  then show ?thesis using run u(1) v by (simp add: run_andThen)
qed

lemma converges:
  assumes "k8s_library L" and "objs (world s) (KSingle, req) = Some (OSingle c)"
    and "DeletionTimestamp (si_Meta c) = None" and "buildable (Spec c)"
    and "\<And>k. k \<in> children req \<Longrightarrow> objs (world s) k = None" and "\<And>x. adm x = None"
  shows "alive (insert (KSingle, req) (children req)) (objs (world (reconciles L cl req (Suc n) s)))"
  unfolding reconciles_first
  by (rule alive_reconciles [OF assms(1) first_Reconcile [OF assms] insertI1])

end

text \<open>
  Liveness: on a server that accepts its objects, the first reconcile of a valid SingleInstance
  of which only the custom resource exists creates the ConfigMap, the claim, the Deployment and
  the Service, whatever that reconcile returns, and as long as nobody deletes them no later
  reconcile loses any of them or the instance.
\<close>

theorem instance_converges:
  assumes "api_server cl adm objs" and "k8s_library L"
    and "objs (world s) (KSingle, req) = Some (OSingle c)" and "DeletionTimestamp (si_Meta c) = None"
    and "buildable (Spec c)" and "\<And>k. k \<in> children req \<Longrightarrow> objs (world s) k = None"
    and "\<And>x. adm x = None"
  shows "alive (insert (KSingle, req) (children req)) (objs (world (reconciles L cl req (Suc n) s)))"
  by (rule api_server.converges [OF assms])

lemma sample_buildable:
  "buildable (Spec (sample_single\<lparr>si_Meta := (si_Meta sample_single)\<lparr>ResourceVersion := fmt_nat 1\<rparr>\<rparr>))"
  by (simp add: buildable_def valid_spec_def sample_single_def sample_pod_spec_def sample_claim_def
      zero_single_instance_spec_def zero_v1_pod_spec_def)

theorem instance_converges_witness:
  "alive (insert (KSingle, sample_name) (children sample_name))
     (mem_objs (world (reconciles doc_lib (mem_client (\<lambda>_. None)) sample_name (Suc 4) (start sample_server))))"
proof (rule instance_converges [OF mem.api_server_axioms doc.k8s_library_axioms])
  let ?c = "sample_single\<lparr>si_Meta := (si_Meta sample_single)\<lparr>ResourceVersion := fmt_nat 1\<rparr>\<rparr>"
  show "mem_objs (world (start sample_server)) (KSingle, sample_name) = Some (OSingle ?c)"
    by (simp add: start_def with_rv_def)
  show "buildable (Spec ?c)" by (rule sample_buildable)
qed (auto simp: start_def children_def sample_single_def sample_meta_def zero_meta_def)

end
