(* ===== verification/Cluster_Controller.thy ===== *)
theory Cluster_Controller
  imports Finalizer Utils Mysql_Cnf Mysql
begin

text \<open>
  \<open>internal/controller/groupreplicationcluster_controller.go\<close>: the reconcile loop of a
  GroupReplicationCluster. The in-memory cluster is \<open>cr\<close> of the state; UUIDs are drawn from the
  world by the parameter \<open>uuid_New\<close>.
\<close>

section \<open>The objects of a cluster\<close>

definition pod_spec_of :: "group_replication_cluster \<Rightarrow> v1_pod_spec res" where
  "pod_spec_of mgr = res_bind (deref (ClusterSpec (grc_Spec mgr))) (\<lambda>cs. deref (PodSpec cs))"

definition first_container :: "group_replication_cluster \<Rightarrow> container_spec res" where
  "first_container mgr = res_bind (pod_spec_of mgr) (\<lambda>ps. index0 (Containers ps))"

definition cluster_secret :: "k8s_lib \<Rightarrow> namespaced_name \<Rightarrow> group_replication_cluster \<Rightarrow> secret res" where
  "cluster_secret L req mgr = res_bind (first_container mgr) (\<lambda>c.
     Inr (NewSecretEnv L (nn_Name req @ ''-secret'') (nn_Namespace req) (Envs c)))"

definition member_host :: "namespaced_name \<Rightarrow> nat \<Rightarrow> string" where
  "member_host req ordinal = nn_Name req @ ''-'' @ fmt_nat ordinal @ ''.'' @ nn_Name req
     @ ''-headless.'' @ nn_Namespace req @ ''.svc.cluster.local''"

definition cluster_cnf ::
  "k8s_lib \<Rightarrow> namespaced_name \<Rightarrow> container_spec \<Rightarrow> nat \<Rightarrow> string \<Rightarrow> MySQLConfig" where
  "cluster_cnf L req c ordinal uuid =
     (let groupSeeds = [member_host req ordinal @ '':'' @ Itoa MgrCommunicatePort];
          memoryReq = Quantity_Value L (ResourceList_Memory L (Requests (Resources c)))
      in zero_MySQLConfig\<lparr>ServerID := fmt_nat ordinal, EnableCluster := True,
           GroupReplicationGroupName := uuid,
           GroupReplicationGroupSeeds := strings_Join groupSeeds '','',
           ReportHost := member_host req ordinal, ReportPort := 3306,
           InnodbBufferPoolSize := CalculateInnodbBufferPoolSize memoryReq\<rparr>)"

definition config_name :: "namespaced_name \<Rightarrow> nat \<Rightarrow> string" where
  "config_name req ordinal = nn_Name req @ ''-config-'' @ fmt_nat ordinal"

definition cluster_pvc :: "k8s_lib \<Rightarrow> namespaced_name \<Rightarrow> group_replication_cluster \<Rightarrow> nat \<Rightarrow> pvc res" where
  "cluster_pvc L req mgr ordinal =
     res_bind (deref (ClusterSpec (grc_Spec mgr))) (\<lambda>cs.
     res_bind (NewPersistentVolumeClaim L (nn_Name req) (nn_Namespace req) (PodSpec cs)) (\<lambda>p.
       Inr (p\<lparr>pvc_Meta := (pvc_Meta p)\<lparr>Name := nn_Name req @ ''-'' @ DB_const @ ''-'' @ fmt_nat ordinal\<rparr>\<rparr>)))"

definition mgr_ports :: "container_port list" where
  "mgr_ports =
     [\<lparr>cp_Name = MgrCommunicaName, cp_ContainerPort = MgrCommunicatePort, cp_Protocol = ''TCP''\<rparr>,
      \<lparr>cp_Name = MgrAdminName, cp_ContainerPort = MgrAdminPort, cp_Protocol = ''TCP''\<rparr>,
      \<lparr>cp_Name = MysqlPortName, cp_ContainerPort = MysqlPort, cp_Protocol = ''TCP''\<rparr>]"

definition add_ports :: "container_port list \<Rightarrow> statefulset \<Rightarrow> statefulset res" where
  "add_ports ports sts =
     (case pod_Containers (pt_Spec (sts_Template sts)) of
        [] \<Rightarrow> Inl (Panicked IndexOutOfRange)
      | c # cs \<Rightarrow> Inr (sts\<lparr>sts_Template := (sts_Template sts)\<lparr>pt_Spec := (pt_Spec (sts_Template sts))
          \<lparr>pod_Containers := c\<lparr>ct_Ports := ct_Ports c @ ports\<rparr> # cs\<rparr>\<rparr>\<rparr>))"

definition cluster_statefulset ::
  "k8s_lib \<Rightarrow> namespaced_name \<Rightarrow> group_replication_cluster \<Rightarrow> nat \<Rightarrow> statefulset res" where
  "cluster_statefulset L req mgr ordinal =
     res_bind (NewStatefulSet L (config_name req ordinal) (nn_Name req @ ''-headless'') mgr (word_of_nat ordinal))
       (add_ports mgr_ports)"

definition cluster_service :: "k8s_lib \<Rightarrow> namespaced_name \<Rightarrow> group_replication_cluster \<Rightarrow> service res" where
  "cluster_service L req mgr =
     res_bind (deref (ClusterSpec (grc_Spec mgr))) (\<lambda>cs.
       let service = NewService L (nn_Name req) (nn_Namespace req) GroupReplicationCluster_kind
             (grc_Meta mgr) (Ports cs) (Type cs)
       in Inr (service\<lparr>svc_Meta := (svc_Meta service)\<lparr>Name := nn_Name req @ ''-headless''\<rparr>,
            svc_ClusterIP := ''None''\<rparr>))"

section \<open>The handlers\<close>

definition create :: "'w client \<Rightarrow> k8s_object \<Rightarrow> (('w, 'c) rstate, unit) op" where
  "create cl x = andThen (client_Create cl x) (\<lambda>_. ret ())"

definition Cluster_createSecret ::
  "k8s_lib \<Rightarrow> 'w client \<Rightarrow> namespaced_name \<Rightarrow> (('w, group_replication_cluster) rstate, unit) op" where
  "Cluster_createSecret L cl req =
     andThen (gets cr) (\<lambda>mgr.
     andThen (pure (cluster_secret L req mgr)) (\<lambda>secret. create cl (OSecret secret)))"

definition draw_uuid :: "('w \<Rightarrow> string \<times> 'w) \<Rightarrow> (('w, 'c) rstate, string) op" where
  "draw_uuid uuid_New = (\<lambda>s. case GetUUID uuid_New (world s) of (u, w) \<Rightarrow> (Inr u, s\<lparr>world := w\<rparr>))"

definition Cluster_createConfigMap ::
  "k8s_lib \<Rightarrow> ('w \<Rightarrow> string \<times> 'w) \<Rightarrow> 'w client \<Rightarrow> namespaced_name \<Rightarrow> nat \<Rightarrow>
   (('w, group_replication_cluster) rstate, unit) op" where
  "Cluster_createConfigMap L uuid_New cl req ordinal =
     (let configMapName = config_name req ordinal in
      andThen (client_Get cl \<lparr>nn_Namespace = nn_Namespace req, nn_Name = configMapName\<rparr>
          (OConfigMap zero_configmap)) (\<lambda>(err, _). case err of
        None \<Rightarrow> ret ()
      | Some e \<Rightarrow>
          if \<not> IsNotFound L e then throw (Returned e)
          else
            andThen (gets cr) (\<lambda>mgr.
            andThen (pure (first_container mgr)) (\<lambda>c.
            andThen (draw_uuid uuid_New) (\<lambda>uuid.
              let cnf = cluster_cnf L req c ordinal uuid in
              andThen (pure (fst (MySQLConfig_String cnf cnf))) (\<lambda>data.
                create cl (OConfigMap (NewConfigMap configMapName (nn_Namespace req) ''my.cnf'' data))))))))"

definition Cluster_createPersistentVolumeClaim ::
  "k8s_lib \<Rightarrow> 'w client \<Rightarrow> namespaced_name \<Rightarrow> nat \<Rightarrow> (('w, group_replication_cluster) rstate, unit) op" where
  "Cluster_createPersistentVolumeClaim L cl req ordinal =
     andThen (gets cr) (\<lambda>mgr.
     andThen (pure (cluster_pvc L req mgr ordinal)) (\<lambda>pvc. create cl (OPVC pvc)))"

definition Cluster_createStatefulSet ::
  "k8s_lib \<Rightarrow> 'w client \<Rightarrow> namespaced_name \<Rightarrow> nat \<Rightarrow> (('w, group_replication_cluster) rstate, unit) op" where
  "Cluster_createStatefulSet L cl req ordinal =
     andThen (gets cr) (\<lambda>mgr.
     andThen (pure (cluster_statefulset L req mgr ordinal)) (\<lambda>sts. create cl (OStatefulSet sts)))"

definition Cluster_createService ::
  "k8s_lib \<Rightarrow> 'w client \<Rightarrow> namespaced_name \<Rightarrow> (('w, group_replication_cluster) rstate, unit) op" where
  "Cluster_createService L cl req =
     andThen (gets cr) (\<lambda>mgr.
     andThen (pure (cluster_service L req mgr)) (\<lambda>service. create cl (OService service)))"

definition Cluster_createResources ::
  "k8s_lib \<Rightarrow> ('w \<Rightarrow> string \<times> 'w) \<Rightarrow> 'w client \<Rightarrow> namespaced_name \<Rightarrow>
   (('w, group_replication_cluster) rstate, unit) op" where
  "Cluster_createResources L uuid_New cl req =
     andThen (Cluster_createSecret L cl req) (\<lambda>_.
     andThen (gets cr) (\<lambda>mgr.
     andThen (pure (index0 (Member (grc_Spec mgr)))) (\<lambda>m0.
     andThen (for_each (\<lambda>ordinal.
         andThen (Cluster_createConfigMap L uuid_New cl req ordinal) (\<lambda>_.
         andThen (Cluster_createPersistentVolumeClaim L cl req ordinal) (\<lambda>_.
           Cluster_createStatefulSet L cl req ordinal)))
       [1..<Suc (nat (sint (Member_GetSize m0)))]) (\<lambda>_.
       Cluster_createService L cl req))))"

definition get_cluster ::
  "'w client \<Rightarrow> namespaced_name \<Rightarrow> (('w, group_replication_cluster) rstate, go_error option) op" where
  "get_cluster cl nn =
     andThen (gets cr) (\<lambda>c.
     andThen (client_Get cl nn (OCluster c)) (\<lambda>(e, x).
     andThen (set_cr (as_cluster x)) (\<lambda>_. ret e)))"

definition Cluster_Reconcile ::
  "k8s_lib \<Rightarrow> ('w \<Rightarrow> string \<times> 'w) \<Rightarrow> 'w client \<Rightarrow> namespaced_name \<Rightarrow>
   (('w, group_replication_cluster) rstate, unit) op" where
  "Cluster_Reconcile L uuid_New cl req =
     andThen (set_cr (\<lambda>_. zero_group_replication_cluster)) (\<lambda>_.
     andThen (get_cluster cl req) (\<lambda>err. case err of
       Some e \<Rightarrow> if IsNotFound L e then ret () else return_err (IgnoreNotFound L e)
     | None \<Rightarrow>
         andThen (client_Get cl req (OStatefulSet zero_statefulset)) (\<lambda>(err, _).
           if err \<noteq> None then Cluster_createResources L uuid_New cl req else ret ())))"

section \<open>Initialising the cluster\<close>

definition cluster_mysql :: "group_replication_cluster \<Rightarrow> MySQL" where
  "cluster_mysql mgr = \<lparr>my_UserName = RootUser, my_Password = MySQLRootPassWord,
     my_Host = Name (grc_Meta mgr) @ ''.'' @ Namespace (grc_Meta mgr) @ ''-headless.''
       @ Namespace (grc_Meta mgr) @ ''.svc.cluster.local'',
     my_Port = MysqlPort, my_DB = MySQLDB\<rparr>"

definition Cluster_initializeCluster ::
  "'d driver \<Rightarrow> group_replication_cluster \<Rightarrow> ('d dbstate, unit) op" where
  "Cluster_initializeCluster drv mgr =
     andThen (CreateUser drv (cluster_mysql mgr) ReplicationChannelUser ReplicationChannelPassword) (\<lambda>_.
     andThen (GrantPrivileges drv (cluster_mysql mgr) ReplicationChannelUser) (\<lambda>_.
       SetBootstrapMember drv (cluster_mysql mgr)))"

end
