(* ===== verification/Cluster_Proofs.thy ===== *)
theory Cluster_Proofs
  imports Cluster_Controller "HOL-Library.Sublist"
begin

text \<open>
  What the reconcile loop of a GroupReplicationCluster requests and builds, for every client and
  every source of UUIDs, and what it can achieve against an API server.
\<close>

section \<open>Stopping at the first failed write\<close>

lemma fail_fast_cluster_basic [ff_rules]:
  "fail_fast L (create cl x)" "fail_fast L (get_cluster cl req)"
  unfolding create_def get_cluster_def by (intro ff_rules)+

lemma fail_fast_draw_uuid [ff_rules]: "fail_fast L (draw_uuid u)"
  by (auto simp: fail_fast_def emits_def draw_uuid_def GetUUID_def split: prod.split)

lemma fail_fast_Cluster_Reconcile: "fail_fast L (Cluster_Reconcile L uuid_New cl req)"
  unfolding Cluster_Reconcile_def Cluster_createResources_def Cluster_createSecret_def
    Cluster_createConfigMap_def Cluster_createPersistentVolumeClaim_def Cluster_createStatefulSet_def
    Cluster_createService_def Let_def
  by (intro ff_rules)

section \<open>The requests of a creation\<close>

text \<open>A request by its verb, the kind and the name it is about.\<close>

datatype verb = Get_verb | Create_verb | Update_verb | Status_verb | Delete_verb

fun request_shape :: "api_request \<Rightarrow> verb \<times> kind \<times> namespaced_name" where
  "request_shape (ReqGet k nn) = (Get_verb, k, nn)"
| "request_shape (ReqCreate x) = (Create_verb, kind_of x, obj_name x)"
| "request_shape (ReqUpdate x) = (Update_verb, kind_of x, obj_name x)"
| "request_shape (ReqStatusUpdate x) = (Status_verb, kind_of x, obj_name x)"
| "request_shape (ReqDelete k nn) = (Delete_verb, k, nn)"

definition shapes :: "api_call list \<Rightarrow> (verb \<times> kind \<times> namespaced_name) list" where
  "shapes new = map (\<lambda>c. request_shape (fst c)) new"

lemma shapes_simps [simp]:
  "shapes [] = []" "shapes (c # cs) = request_shape (fst c) # shapes cs"
  "shapes (cs @ ds) = shapes cs @ shapes ds"
  by (simp_all add: shapes_def)

text \<open>The creations for a member: its configuration (unless it is found), its claim, its set.\<close>

definition member_shapes :: "namespaced_name \<Rightarrow> namespaced_name \<Rightarrow> bool \<Rightarrow> (verb \<times> kind \<times> namespaced_name) list" where
  "member_shapes req owner found =
     (Get_verb, KConfigMap, with_suffix req ''-config-1'')
     # (if found then [] else [(Create_verb, KConfigMap, with_suffix req ''-config-1'')])
     @ [(Create_verb, KPVC, with_suffix req ''-db-1''), (Create_verb, KStatefulSet, owner)]"

lemma fmt_nat_1: "fmt_nat 1 = ''1''" "fmt_nat (Suc 0) = ''1''"
  by (simp_all add: fmt_nat.simps digit_char_def)

lemma NewStatefulSet_name:
  "NewStatefulSet L cm svc mgr n = Inr sts \<Longrightarrow>
   Name (sts_Meta sts) = Name (grc_Meta mgr) \<and> Namespace (sts_Meta sts) = Namespace (grc_Meta mgr)
   \<and> sts_Selector sts = instance_labels (Name (grc_Meta mgr))
   \<and> Labels (pt_Meta (sts_Template sts)) = Some [AppKubernetesName \<mapsto> Name (grc_Meta mgr)]"
  by (erule NewStatefulSet_Inr) simp

lemma cluster_statefulset_Inr:
  assumes "cluster_statefulset L req mgr n = Inr sts"
  obtains base c where "NewStatefulSet L (config_name req n) (nn_Name req @ ''-headless'') mgr (word_of_nat n) = Inr base"
    "pod_Containers (pt_Spec (sts_Template base)) = [c]"
    "pod_Containers (pt_Spec (sts_Template sts)) = [c\<lparr>ct_Ports := ct_Ports c @ mgr_ports\<rparr>]"
    "ct_Ports c = [\<lparr>cp_Name = MysqlPortName, cp_ContainerPort = MysqlPort, cp_Protocol = ''TCP''\<rparr>]"
    "sts_Meta sts = sts_Meta base" "sts_Selector sts = sts_Selector base"
    "pt_Meta (sts_Template sts) = pt_Meta (sts_Template base)"
proof -
  obtain base where base: "NewStatefulSet L (config_name req n) (nn_Name req @ ''-headless'') mgr (word_of_nat n) = Inr base"
    and sts: "add_ports mgr_ports base = Inr sts"
    using assms by (auto simp: cluster_statefulset_def res_bind_Inr_iff)
  obtain cs where "NewContainers (Name (grc_Meta mgr)) cs (word_of_nat n) True = Inr (pod_Containers (pt_Spec (sts_Template base)))"
    using base by (auto elim!: NewStatefulSet_Inr)
  then obtain c where "pod_Containers (pt_Spec (sts_Template base)) = [c]"
    "ct_Ports c = [\<lparr>cp_Name = MysqlPortName, cp_ContainerPort = MysqlPort, cp_Protocol = ''TCP''\<rparr>]"
    by (auto elim!: NewContainers_single)
  with base sts that show thesis by (auto simp: add_ports_def)
qed

lemma cluster_statefulset_key:
  "cluster_statefulset L req mgr n = Inr sts \<Longrightarrow> obj_name (OStatefulSet sts) = obj_name (OCluster mgr)"
  by (erule cluster_statefulset_Inr) (auto dest!: NewStatefulSet_name simp: obj_name_def)

text \<open>
  \<open>follows_shapes c m QS\<close>: the custom resource stays, and for one of the lists of \<open>QS\<close> a prefix is
  requested, all of it on success.
\<close>

definition follows_shapes ::
  "'c \<Rightarrow> (('w, 'c) rstate, 'a) op \<Rightarrow> (verb \<times> kind \<times> namespaced_name) list set \<Rightarrow> bool" where
  "follows_shapes c m QS \<longleftrightarrow> emits c m (\<lambda>r c' n. c' = c \<and>
     (\<exists>qs \<in> QS. prefix (shapes n) qs \<and> (\<not> isl r \<longrightarrow> shapes n = qs)))"

definition conc :: "'q list set \<Rightarrow> 'q list set \<Rightarrow> 'q list set" where
  "conc QS QS' = {qs @ qs' |qs qs'. qs \<in> QS \<and> qs' \<in> QS'}"

lemma conc_simps [simp]:
  "conc {qs} {qs'} = {qs @ qs'}" "conc {} QS = {}"
  "conc (insert qs QS) {qs'} = insert (qs @ qs') (conc QS {qs'})"
  "conc {qs} (insert qs' QS) = insert (qs @ qs') (conc {qs} QS)"
  by (auto simp: conc_def)

lemma conc_nonempty: "QS \<noteq> {} \<Longrightarrow> QS' \<noteq> {} \<Longrightarrow> conc QS QS' \<noteq> {}"
  by (auto simp: conc_def)

lemma follows_shapes_nonempty: "follows_shapes c m QS \<Longrightarrow> QS \<noteq> {}"
proof
  assume "follows_shapes c m QS" and "QS = {}"
  then have "emits c m (\<lambda>_ _ _. False)" by (simp add: follows_shapes_def)
  then show False
    by (auto simp: emits_def dest: spec [of _ "\<lparr>world = undefined, cr = c, events = [], trace = []\<rparr>"])
qed

lemma follows_shapes_andThen:
  fixes m :: "(('w, 'c) rstate, 'a) op" and f :: "'a \<Rightarrow> (('w, 'c) rstate, 'b) op"
  assumes "follows_shapes c m QS" and "\<And>x. follows_shapes c (f x) QS'"
  shows "follows_shapes c (andThen m f) (conc QS QS')"
proof -
  have f: "emits c (f x) (\<lambda>r c' n. c' = c \<and> (\<exists>qs \<in> QS'. prefix (shapes n) qs \<and> (\<not> isl r \<longrightarrow> shapes n = qs)))" for x
    using assms(2) by (simp add: follows_shapes_def)
  obtain q where q: "q \<in> QS'" using follows_shapes_nonempty [OF assms(2)] by blast
  show ?thesis
    using assms(1) unfolding follows_shapes_def
  proof (intro emits_andThen, elim emits_weaken)
    fix r :: "'a res" and c' n
    assume m: "c' = c \<and> (\<exists>qs\<in>QS. prefix (shapes n) qs \<and> (\<not> isl r \<longrightarrow> shapes n = qs))"
    show "case r of
        Inl e \<Rightarrow> c' = c \<and> (\<exists>qs\<in>conc QS QS'. prefix (shapes n) qs \<and> (\<not> isl (Inl e :: 'b res) \<longrightarrow> shapes n = qs))
      | Inr x \<Rightarrow> emits c' (f x) (\<lambda>r' c'' n'. c'' = c \<and>
          (\<exists>qs\<in>conc QS QS'. prefix (shapes (n @ n')) qs \<and> (\<not> isl r' \<longrightarrow> shapes (n @ n') = qs)))"
    proof (cases r)
      case (Inl e)
      with m obtain qs where "qs \<in> QS" "prefix (shapes n) qs" by blast
      with q have "qs @ q \<in> conc QS QS'" "prefix (shapes n) (qs @ q)" by (auto simp: conc_def)
      with Inl m show ?thesis by auto
    next
      case (Inr x)
      with m obtain qs where qs: "c' = c" "qs \<in> QS" "shapes n = qs" by auto
      have "emits c (f x) (\<lambda>r' c'' n'. c'' = c \<and>
          (\<exists>qs\<in>conc QS QS'. prefix (shapes (n @ n')) qs \<and> (\<not> isl r' \<longrightarrow> shapes (n @ n') = qs)))"
      proof (rule emits_weaken [OF f])
        fix r' :: "'b res" and c'' n'
        assume h: "c'' = c \<and> (\<exists>qs\<in>QS'. prefix (shapes n') qs \<and> (\<not> isl r' \<longrightarrow> shapes n' = qs))"
        then obtain q' where "q' \<in> QS'" "prefix (shapes n') q'" "\<not> isl r' \<longrightarrow> shapes n' = q'" by blast
        moreover from this qs have "qs @ q' \<in> conc QS QS'" by (auto simp: conc_def)
        ultimately show "c'' = c \<and>
            (\<exists>qs\<in>conc QS QS'. prefix (shapes (n @ n')) qs \<and> (\<not> isl r' \<longrightarrow> shapes (n @ n') = qs))"
          using h qs(3) by (intro conjI bexI [of _ "qs @ q'"]) auto
      qed
      with Inr qs(1) show ?thesis by simp
    qed
  qed
qed

lemma follows_shapes_gets: "follows_shapes c (f c) QS \<Longrightarrow> follows_shapes c (andThen (gets cr) f) QS"
  by (auto simp: follows_shapes_def intro!: emits_andThen emits_gets_cr)

lemma follows_shapes_pure:
  assumes "\<And>x. r = Inr x \<Longrightarrow> follows_shapes c (f x) QS" and "QS \<noteq> {}"
  shows "follows_shapes c (andThen (pure r) f) QS"
  using assms by (cases r) (auto simp: follows_shapes_def intro!: emits_throw)

lemma follows_shapes_create:
  "qs = [(Create_verb, kind_of x, obj_name x)] \<Longrightarrow> follows_shapes c (create cl x) {qs}"
  unfolding follows_shapes_def create_def by (auto intro!: emits_rules)

lemma follows_createSecret:
  "follows_shapes c (Cluster_createSecret L cl req) {[(Create_verb, KSecret, with_suffix req ''-secret'')]}"
  unfolding Cluster_createSecret_def
  by (intro follows_shapes_gets follows_shapes_pure follows_shapes_create)
    (auto simp: cluster_secret_def res_bind_Inr_iff NewSecretEnv_def obj_name_def with_suffix_def)

lemma emits_draw_uuid: "(\<And>u. Q (Inr u) c []) \<Longrightarrow> emits c (draw_uuid uuid_New) Q"
  by (auto simp: emits_def draw_uuid_def split: prod.split)

lemma follows_draw_uuid: "follows_shapes c (draw_uuid uuid_New) {[]}"
  by (auto simp: follows_shapes_def intro!: emits_draw_uuid)

lemma follows_createConfigMap:
  fixes n :: nat and req :: namespaced_name
  defines "key \<equiv> with_suffix req (''-config-'' @ fmt_nat n)"
  shows "follows_shapes c (Cluster_createConfigMap L uuid_New cl req n)
    {[(Get_verb, KConfigMap, key)], [(Get_verb, KConfigMap, key), (Create_verb, KConfigMap, key)]}"
proof -
  let ?create = "andThen (gets cr) (\<lambda>mgr. andThen (pure (first_container mgr)) (\<lambda>ct.
      andThen (draw_uuid uuid_New) (\<lambda>uuid. andThen (pure (fst (MySQLConfig_String
        (cluster_cnf L req ct n uuid) (cluster_cnf L req ct n uuid)))) (\<lambda>data.
        create cl (OConfigMap (NewConfigMap (config_name req n) (nn_Namespace req) ''my.cnf'' data))))))"
  have "follows_shapes c ?create (conc {[]} {[(Create_verb, KConfigMap, key)]})"
    by (intro follows_shapes_gets follows_shapes_pure follows_shapes_andThen follows_draw_uuid
        follows_shapes_create) (auto simp: NewConfigMap_def obj_name_def key_def with_suffix_def config_name_def)
  then have "emits c ?create (\<lambda>r c' k. c' = c \<and> prefix (shapes k) [(Create_verb, KConfigMap, key)]
      \<and> (\<not> isl r \<longrightarrow> shapes k = [(Create_verb, KConfigMap, key)]))"
    by (simp add: follows_shapes_def)
  note create = emits_weaken [OF this]
  show ?thesis
    unfolding follows_shapes_def Cluster_createConfigMap_def Let_def
    by (auto simp: key_def with_suffix_def config_name_def intro!: emits_andThen emits_client_Get
        emits_case_prod emits_case_option emits_if emits_throw emits_ret create)
qed

lemma follows_createPVC:
  "follows_shapes c (Cluster_createPersistentVolumeClaim L cl req n)
    {[(Create_verb, KPVC, with_suffix req (''-db-'' @ fmt_nat n))]}"
  unfolding Cluster_createPersistentVolumeClaim_def
  by (intro follows_shapes_gets follows_shapes_pure follows_shapes_create)
    (auto simp: cluster_pvc_def res_bind_Inr_iff NewPersistentVolumeClaim_def obj_name_def with_suffix_def DB_const_def)

lemma follows_createStatefulSet:
  "follows_shapes c (Cluster_createStatefulSet L cl req n) {[(Create_verb, KStatefulSet, obj_name (OCluster c))]}"
  unfolding Cluster_createStatefulSet_def
  by (intro follows_shapes_gets follows_shapes_pure follows_shapes_create)
    (auto dest: cluster_statefulset_key)

lemma follows_createService:
  "follows_shapes c (Cluster_createService L cl req) {[(Create_verb, KService, with_suffix req ''-headless'')]}"
  unfolding Cluster_createService_def
  by (intro follows_shapes_gets follows_shapes_pure follows_shapes_create)
    (auto simp: cluster_service_def Let_def res_bind_Inr_iff NewService_def obj_name_def with_suffix_def)

lemma follows_member:
  "follows_shapes c (andThen (Cluster_createConfigMap L uuid_New cl req 1) (\<lambda>_.
      andThen (Cluster_createPersistentVolumeClaim L cl req 1) (\<lambda>_. Cluster_createStatefulSet L cl req 1)))
    {member_shapes req (obj_name (OCluster c)) True, member_shapes req (obj_name (OCluster c)) False}"
proof -
  have "follows_shapes c (andThen (Cluster_createConfigMap L uuid_New cl req 1) (\<lambda>_.
      andThen (Cluster_createPersistentVolumeClaim L cl req 1) (\<lambda>_. Cluster_createStatefulSet L cl req 1)))
    (conc {[(Get_verb, KConfigMap, with_suffix req (''-config-'' @ fmt_nat 1))],
        [(Get_verb, KConfigMap, with_suffix req (''-config-'' @ fmt_nat 1)),
         (Create_verb, KConfigMap, with_suffix req (''-config-'' @ fmt_nat 1))]}
      (conc {[(Create_verb, KPVC, with_suffix req (''-db-'' @ fmt_nat 1))]}
        {[(Create_verb, KStatefulSet, obj_name (OCluster c))]}))"
    by (intro follows_shapes_andThen follows_createConfigMap follows_createPVC follows_createStatefulSet)
  then show ?thesis by (simp add: member_shapes_def fmt_nat_1)
qed

definition cluster_shapes :: "namespaced_name \<Rightarrow> group_replication_cluster \<Rightarrow> member \<Rightarrow> bool \<Rightarrow> (verb \<times> kind \<times> namespaced_name) list" where
  "cluster_shapes req c m0 found =
     [(Create_verb, KSecret, with_suffix req ''-secret'')]
     @ (if m_Size m0 = None then [] else member_shapes req (obj_name (OCluster c)) found)
     @ [(Create_verb, KService, with_suffix req ''-headless'')]"

lemma andThen_ret_unit: "andThen m (\<lambda>_. ret ()) = m" for m :: "('s, unit) op"
  by (auto simp: op_defs fun_eq_iff split: prod.splits sum.splits)

lemma follows_ret_shapes: "follows_shapes c (ret x) {[]}"
  by (auto simp: follows_shapes_def intro!: emits_ret)

lemma follows_createResources:
  assumes "Member (grc_Spec c) = m0 # ms"
  shows "follows_shapes c (Cluster_createResources L uuid_New cl req)
    {cluster_shapes req c m0 True, cluster_shapes req c m0 False}"
proof -
  let ?members = "if m_Size m0 = None then {[]}
    else {member_shapes req (obj_name (OCluster c)) True, member_shapes req (obj_name (OCluster c)) False}"
  let ?loop = "for_each (\<lambda>ordinal.
         andThen (Cluster_createConfigMap L uuid_New cl req ordinal) (\<lambda>_.
         andThen (Cluster_createPersistentVolumeClaim L cl req ordinal) (\<lambda>_.
           Cluster_createStatefulSet L cl req ordinal)))
       [1..<Suc (nat (sint (Member_GetSize m0)))]"
  have loop: "follows_shapes c ?loop ?members"
    using follows_member [of c L uuid_New cl req]
    by (auto simp: Member_GetSize_cases andThen_ret_unit follows_ret_shapes)
  have "follows_shapes c (andThen (gets cr) (\<lambda>mgr. andThen (pure (index0 (Member (grc_Spec mgr)))) (\<lambda>m0.
      andThen (for_each (\<lambda>ordinal.
         andThen (Cluster_createConfigMap L uuid_New cl req ordinal) (\<lambda>_.
         andThen (Cluster_createPersistentVolumeClaim L cl req ordinal) (\<lambda>_.
           Cluster_createStatefulSet L cl req ordinal)))
       [1..<Suc (nat (sint (Member_GetSize m0)))]) (\<lambda>_. Cluster_createService L cl req))))
      (conc ?members {[(Create_verb, KService, with_suffix req ''-headless'')]})"
    by (rule follows_shapes_gets)
      (simp only: assms index0_simps pure_simps andThen_ret follows_shapes_andThen [OF loop follows_createService])
  from follows_shapes_andThen [OF follows_createSecret this]
  show ?thesis
    unfolding Cluster_createResources_def cluster_shapes_def by (auto split: if_splits)
qed

section \<open>Properties\<close>

text \<open>
  C20. For every client and every answer it gives, the cluster's \<open>Reconcile\<close> issues no request after
  a write the server rejected, and then returns an error.
\<close>

theorem Cluster_Reconcile_stops_at_failure:
  "\<exists>new. trace (snd (Cluster_Reconcile L uuid_New cl req s)) = trace s @ new
    \<and> (settled L new \<or> settled L (butlast new) \<and> isl (fst (Cluster_Reconcile L uuid_New cl req s)))"
  using emits_state [of s "Cluster_Reconcile L uuid_New cl req"] fail_fast_Cluster_Reconcile [of L uuid_New cl req]
  by (fastforce simp: fail_fast_def stops_at_failure_def)


definition cluster_state :: "(mem, group_replication_cluster) rstate" where
  "cluster_state = \<lparr>world = \<lparr>store = (\<lambda>_. None), revs = (\<lambda>_. 0)\<rparr>, cr = sample_cluster, events = [], trace = []\<rparr>"

definition sample_uuid :: "mem \<Rightarrow> string \<times> mem" where
  "sample_uuid w = (''01234567-89ab-cdef-0123-456789abcdef'', w)"


text \<open>
  The StatefulSet of a member exposes the MySQL port twice, under the same name (once from
  \<open>NewContainers\<close>, once appended with the group replication ports), so its port names are not
  distinct; its selector does not select its template.
\<close>

theorem cluster_statefulset_ports:
  assumes "cluster_statefulset L req mgr n = Inr sts"
  shows "map (map (\<lambda>p. (cp_Name p, cp_ContainerPort p)) \<circ> ct_Ports) (pod_Containers (pt_Spec (sts_Template sts)))
      = [[(''mysql'', 3306), (''mgr-node-comm'', 33061), (''mgr-admin'', 33060), (''mysql'', 3306)]]
    \<and> (\<forall>c \<in> set (pod_Containers (pt_Spec (sts_Template sts))). \<not> distinct (map cp_Name (ct_Ports c)))
    \<and> \<not> selects (sts_Selector sts) (Labels (pt_Meta (sts_Template sts)))"
  using assms
  by (auto elim!: cluster_statefulset_Inr dest!: NewStatefulSet_name
      simp: mgr_ports_def MysqlPortName_def MysqlPort_def MgrCommunicaName_def MgrCommunicatePort_def
        MgrAdminName_def MgrAdminPort_def selects_def instance_labels_def)

lemma sample_cluster_statefulset:
  obtains sts where "cluster_statefulset doc_lib req sample_cluster n = Inr sts"
proof -
  obtain base where base: "NewStatefulSet doc_lib (config_name req n) (nn_Name req @ ''-headless'')
      sample_cluster (word_of_nat n) = Inr base"
    by (rule sample_statefulset)
  then obtain cs ps where "NewContainers (Name (grc_Meta sample_cluster)) cs (word_of_nat n) True = Inr ps"
    "pod_Containers (pt_Spec (sts_Template base)) = ps"
    by (auto elim!: NewStatefulSet_Inr)
  with base that show thesis
    by (auto simp: cluster_statefulset_def add_ports_def elim!: NewContainers_single)
qed

theorem cluster_statefulset_ports_witness:
  "\<exists>sts. cluster_statefulset doc_lib \<lparr>nn_Namespace = ''greatsql'', nn_Name = ''greatsql-mgr''\<rparr> sample_cluster 1 = Inr sts
    \<and> \<not> selects (sts_Selector sts) (Labels (pt_Meta (sts_Template sts)))"
proof -
  obtain sts where sts: "cluster_statefulset doc_lib \<lparr>nn_Namespace = ''greatsql'', nn_Name = ''greatsql-mgr''\<rparr> sample_cluster 1 = Inr sts"
    by (rule sample_cluster_statefulset)
  show ?thesis using cluster_statefulset_ports [OF sts] sts by blast
qed

text \<open>
  C32. The configuration rendered for a member has the member's ordinal as its server id, the drawn
  UUID as the group's name, the member's own address as the only seed and 75 percent of the
  requested memory as the buffer pool, but an empty group replication address: the controller
  never sets \<open>GroupReplicationLocalAddress\<close>.
\<close>

theorem member_configuration:
  assumes "one_line (nn_Name req)" and "one_line (nn_Namespace req)" and "one_line uuid"
    and "m = Quantity_Value L (ResourceList_Memory L (Requests (Resources c)))"
    and "0 \<le> sint m" and "sint m * 75 < 2 ^ 63"
    and "MySQLConfig_String (cluster_cnf L req c n uuid) (cluster_cnf L req c n uuid) = (Inr s, cnf)"
  shows "settings ''server_id'' (file_lines s) = [fmt_nat n]
    \<and> settings ''innodb_buffer_pool_size'' (file_lines s)
        = [fmt_nat (nat (sint m * 75 div (100 * 2 ^ 20))) @ ''M'']
    \<and> map (\<lambda>k. settings k (file_lines s))
        [''loose-group_replication_group_name'', ''loose-group_replication_local_address'',
         ''loose-group_replication_group_seeds'', ''report_host'', ''report_port'']
      = [[uuid], [[]], [member_host req n @ '':33061''], [member_host req n], [''3306'']]"
proof -
  have port: "Itoa MgrCommunicatePort = ''33061''" "Itoa (3306 :: int64) = ''3306''"
    by (simp_all add: MgrCommunicatePort_def Itoa_def fmt_int_def fmt_nat.simps digit_char_def)
  have pool: "CalculateInnodbBufferPoolSize m = fmt_nat (nat (sint m * 75 div (100 * 2 ^ 20))) @ ''M''"
    by (rule buffer_pool_value [OF assms(5,6)])
  have "one_line (member_host req n)"
    using assms(1,2) by (simp add: member_host_def newline_def)
  then show ?thesis
    using String_readback [of "cluster_cnf L req c n uuid" "cluster_cnf L req c n uuid"] assms(3,7) pool
    by (simp add: cluster_cnf_def Let_def zero_MySQLConfig_def port newline_def assms(4) [symmetric])
qed

theorem member_configuration_witness:
  "\<exists>s. fst (MySQLConfig_String
       (cluster_cnf doc_lib \<lparr>nn_Namespace = ''greatsql'', nn_Name = ''greatsql-mgr''\<rparr> sample_container 1 ''u-1'')
       (cluster_cnf doc_lib \<lparr>nn_Namespace = ''greatsql'', nn_Name = ''greatsql-mgr''\<rparr> sample_container 1 ''u-1'')) = Inr s
     \<and> settings ''server_id'' (file_lines s) = [fmt_nat 1]"
proof -
  let ?cnf = "cluster_cnf doc_lib \<lparr>nn_Namespace = ''greatsql'', nn_Name = ''greatsql-mgr''\<rparr> sample_container 1 ''u-1''"
  let ?m = "Quantity_Value doc_lib (ResourceList_Memory doc_lib (Requests (Resources sample_container)))"
  have m: "?m = 0x80000000"
    by (simp add: doc_lib_def doc_resource_def sample_container_def doc_value_def ParseInt64_def
        parse_digits_def is_digit_def digits_val_def digit_val_def)
  obtain s where s: "MySQLConfig_String ?cnf ?cnf = (Inr s, ?cnf)"
    using MySQLConfig_String_lines by blast
  show ?thesis
    using member_configuration [OF _ _ _ refl _ _ s] s m by (simp add: newline_def)
qed

section \<open>Initialising the cluster\<close>

text \<open>
  C33. \<open>initializeCluster\<close> runs three statements, each in a session of its own that is closed before
  the next: create the replication user, grant its privileges, set the bootstrap member; a
  failing one is the last. It connects as root with the text \<open>MYSQL_ROOT_PASSWORD\<close>, the name of
  the environment variable, as the password, to a host of the service \<open>namespace-headless\<close>
  (the service is created as \<open>name-headless\<close>).
\<close>

theorem initializeCluster_sessions:
  "\<exists>a b c ok1 ok2. calls (snd (Cluster_initializeCluster drv mgr s)) = calls s @ a @ b @ c
    \<and> session (dsn_of (cluster_mysql mgr)) (\<lambda>k. CallExec k (''CREATE USER ?'' @ at_any_host @ '' IDENTIFIED BY ?;'')
        [''repl'', ''R3JlYXRTUUxAMjAyNA=='']) ok1 a
    \<and> (if ok1 then session (dsn_of (cluster_mysql mgr)) (\<lambda>k. CallExec k
          (''GRANT BACKUP_ADMIN, REPLICATION SLAVE ON *.* TO ?'' @ at_any_host @ '';'') [''repl'']) ok2 b
        else b = [] \<and> \<not> ok2)
    \<and> (if ok2 then session (dsn_of (cluster_mysql mgr)) (\<lambda>k. CallExec k
          ''SET GLOBAL group_replication_bootstrap_group=ON;'' [])
          (\<not> isl (fst (Cluster_initializeCluster drv mgr s))) c
        else c = [] \<and> isl (fst (Cluster_initializeCluster drv mgr s)))
    \<and> dsn_of (cluster_mysql mgr) = ''root:MYSQL_ROOT_PASSWORD@tcp('' @ Name (grc_Meta mgr) @ ''.''
        @ Namespace (grc_Meta mgr) @ ''-headless.'' @ Namespace (grc_Meta mgr)
        @ ''.svc.cluster.local:3306)/mysql?charset=utf8mb4&parseTime=True&loc=Local''"
proof -
  let ?create = "CreateUser drv (cluster_mysql mgr) ReplicationChannelUser ReplicationChannelPassword"
  let ?grant = "GrantPrivileges drv (cluster_mysql mgr) ReplicationChannelUser"
  let ?boot = "SetBootstrapMember drv (cluster_mysql mgr)"
  obtain r1 s1 where s1: "?create s = (r1, s1)" by (cases "?create s")
  obtain r2 s2 where s2: "?grant s1 = (r2, s2)" by (cases "?grant s1")
  obtain r3 s3 where s3: "?boot s2 = (r3, s3)" by (cases "?boot s2")
  obtain a where a: "calls s1 = calls s @ a" "session (dsn_of (cluster_mysql mgr)) (\<lambda>k. CallExec k
      (''CREATE USER ?'' @ at_any_host @ '' IDENTIFIED BY ?;'') [''repl'', ''R3JlYXRTUUxAMjAyNA=='']) (\<not> isl r1) a"
    using executeQuery_session [of drv "cluster_mysql mgr" "''CREATE USER ?'' @ at_any_host @ '' IDENTIFIED BY ?;''"
        "[''repl'', ''R3JlYXRTUUxAMjAyNA=='']" s] s1
    by (auto simp: CreateUser_def ReplicationChannelUser_def ReplicationChannelPassword_def)
  obtain b where b: "calls s2 = calls s1 @ b" "session (dsn_of (cluster_mysql mgr)) (\<lambda>k. CallExec k
      (''GRANT BACKUP_ADMIN, REPLICATION SLAVE ON *.* TO ?'' @ at_any_host @ '';'') [''repl'']) (\<not> isl r2) b"
    using executeQuery_session [of drv "cluster_mysql mgr"
        "''GRANT BACKUP_ADMIN, REPLICATION SLAVE ON *.* TO ?'' @ at_any_host @ '';''" "[''repl'']" s1] s2
    by (auto simp: GrantPrivileges_def ReplicationChannelUser_def)
  obtain c where c: "calls s3 = calls s2 @ c" "session (dsn_of (cluster_mysql mgr)) (\<lambda>k. CallExec k
      ''SET GLOBAL group_replication_bootstrap_group=ON;'' []) (\<not> isl r3) c"
    using executeQuery_session [of drv "cluster_mysql mgr" "''SET GLOBAL group_replication_bootstrap_group=ON;''" "[]" s2] s3
    by (auto simp: SetBootstrapMember_def)
  have dsn: "dsn_of (cluster_mysql mgr) = ''root:MYSQL_ROOT_PASSWORD@tcp('' @ Name (grc_Meta mgr) @ ''.''
        @ Namespace (grc_Meta mgr) @ ''-headless.'' @ Namespace (grc_Meta mgr)
        @ ''.svc.cluster.local:3306)/mysql?charset=utf8mb4&parseTime=True&loc=Local''"
    by (simp add: dsn_of_def cluster_mysql_def RootUser_def MySQLRootPassWord_def MysqlPort_def MySQLDB_def
        Itoa_def fmt_int_def fmt_nat.simps digit_char_def)
  have run: "Cluster_initializeCluster drv mgr s =
      (if isl r1 then (r1, s1) else if isl r2 then (r2, s2) else (r3, s3))"
    using s1 s2 s3 by (cases r1; cases r2) (simp_all add: Cluster_initializeCluster_def run_andThen)
  show ?thesis
  proof (cases "isl r1")
    case True
    with a run dsn show ?thesis
      by (intro exI [of _ a] exI [of _ "[]"] exI [of _ False]) simp
  next
    case False
    show ?thesis
    proof (cases "isl r2")
      case True
      with False a b run dsn show ?thesis
        by (intro exI [of _ a] exI [of _ b] exI [of _ "[]"] exI [of _ True] exI [of _ False]) simp
    next
      case r2: False
      with False a b c run dsn show ?thesis
        by (intro exI [of _ a] exI [of _ b] exI [of _ c] exI [of _ True]) simp
    qed
  qed
qed

end
