(* ===== verification/Cluster_Server.thy ===== *)
theory Cluster_Server
  imports Cluster_Proofs Single_Server
begin

text \<open>
  The StatefulSets of a GroupReplicationCluster and an API server that checks them; what preserves
  a property of the server's objects when a cluster is reconciled.
\<close>

lemma statefulset_mismatch:
  "cluster_statefulset L req mgr n = Inr sts \<Longrightarrow> \<not> selects (sts_Selector sts) (Labels (pt_Meta (sts_Template sts)))"
  by (auto elim!: cluster_statefulset_Inr dest!: NewStatefulSet_name simp: selects_def instance_labels_def)

lemma keeps_draw_uuid:
  assumes "\<And>w. objs (snd (uuid_New w)) = objs w"
  shows "keeps objs I (draw_uuid uuid_New)"
  using assms by (auto simp: keeps_def triple_def draw_uuid_def GetUUID_def split: prod.splits) (metis snd_conv)

context api_server
begin

lemma keeps_pure_then:
  "(\<And>x. r = Inr x \<Longrightarrow> keeps objs I (f x)) \<Longrightarrow> keeps objs I (andThen (pure r) f)"
  by (cases r) (auto intro: keeps_rules)

end

text \<open>The check of Kubernetes that a StatefulSet selects its own pods.\<close>

definition selector_admission :: "k8s_object \<Rightarrow> go_error option" where
  "selector_admission x = (case x of
     OStatefulSet sts \<Rightarrow>
       if selects (sts_Selector sts) (Labels (pt_Meta (sts_Template sts))) then None else Some (ApiError (OtherReason ''Invalid'') ''selector does not match template labels'')
   | _ \<Rightarrow> None)"

end
