(* ===== verification/Frames.thy ===== *)
theory Frames
  imports Single_Liveness Cluster_Server
begin

text \<open>
  Which requests the reconciles can issue, and for which objects. The locale \<open>request_frame\<close>
  states that the calls of a client that carry the requests \<open>ok\<close> preserve a property \<open>J\<close> of the
  world and the trace; its lemmas lift that to both reconciles. It is used with properties of a
  server's objects (no object outside a set changes), with properties of the trace (only such
  requests are issued), and for clients that replay recorded answers.
\<close>

section \<open>Frames\<close>

fun request_key :: "api_request \<Rightarrow> object_key" where
  "request_key (ReqGet k nn) = (k, nn)"
| "request_key (ReqCreate x) = obj_key x"
| "request_key (ReqUpdate x) = obj_key x"
| "request_key (ReqStatusUpdate x) = obj_key x"
| "request_key (ReqDelete k nn) = (k, nn)"

text \<open>
  \<open>owns J name req m\<close>: started with an in-memory custom resource called \<open>req\<close> (\<open>name\<close> reads its
  name, or another property of it), \<open>m\<close> preserves \<open>J\<close> and, unless it fails, that name.
\<close>

definition owns ::
  "('w \<Rightarrow> api_call list \<Rightarrow> bool) \<Rightarrow> ('c \<Rightarrow> 'n) \<Rightarrow> 'n \<Rightarrow> (('w, 'c) rstate, 'a) op \<Rightarrow> bool" where
  "owns J name req m \<longleftrightarrow>
     triple (\<lambda>s. name (cr s) = req \<and> J (world s) (trace s)) m
       (\<lambda>_ s. name (cr s) = req \<and> J (world s) (trace s)) (\<lambda>_ s. J (world s) (trace s))"

named_theorems owns_rules "operations that issue only the requests of their custom resource"

lemma owns_andThen:
  "owns J name req m \<Longrightarrow> (\<And>x. owns J name req (f x)) \<Longrightarrow> owns J name req (andThen m f)"
  unfolding owns_def by (rule triple_andThen)

lemma owns_gets [owns_rules]:
  "(\<And>c. name c = req \<Longrightarrow> owns J name req (f c)) \<Longrightarrow> owns J name req (andThen (gets cr) f)"
  by (auto simp: owns_def triple_def op_defs)

lemma owns_pure [owns_rules]:
  "(\<And>x. r = Inr x \<Longrightarrow> owns J name req (f x)) \<Longrightarrow> owns J name req (andThen (pure r) f)"
  by (cases r) (auto simp: owns_def triple_def op_defs)

lemma owns_basic [owns_rules]:
  "owns J name req (ret x)" "owns J name req (throw e)" "owns J name req (record_event ev)"
  by (auto simp: owns_def record_event_def intro!: triple)

lemma owns_set_cr [owns_rules]:
  "(\<And>c. name c = req \<Longrightarrow> name (f c) = req) \<Longrightarrow> owns J name req (set_cr f)"
  by (auto simp: owns_def set_cr_def intro!: triple)

lemma owns_if [owns_rules]:
  "(b \<Longrightarrow> owns J name req m) \<Longrightarrow> (\<not> b \<Longrightarrow> owns J name req n) \<Longrightarrow> owns J name req (if b then m else n)"
  by simp

lemma owns_case_option [owns_rules]:
  "(r = None \<Longrightarrow> owns J name req m) \<Longrightarrow> (\<And>x. r = Some x \<Longrightarrow> owns J name req (g x)) \<Longrightarrow>
   owns J name req (case r of None \<Rightarrow> m | Some x \<Rightarrow> g x)"
  by (cases r) auto

lemma owns_case_sum [owns_rules]:
  "(\<And>e. r = Inl e \<Longrightarrow> owns J name req (f e)) \<Longrightarrow> (\<And>x. r = Inr x \<Longrightarrow> owns J name req (g x)) \<Longrightarrow>
   owns J name req (case r of Inl e \<Rightarrow> f e | Inr x \<Rightarrow> g x)"
  by (cases r) auto

lemma owns_case_prod [owns_rules]:
  "(\<And>a b. r = (a, b) \<Longrightarrow> owns J name req (f a b)) \<Longrightarrow> owns J name req (case r of (a, b) \<Rightarrow> f a b)"
  by (cases r) auto

lemma owns_for_each [owns_rules]:
  "(\<And>x. owns J name req (f x)) \<Longrightarrow> owns J name req (for_each f xs)"
  by (induction xs) (simp_all add: owns_basic owns_andThen)

lemma ownsD:
  assumes "owns J name req m" and "name (cr s) = req" and "J (world s) (trace s)"
  shows "J (world (snd (m s))) (trace (snd (m s)))"
  using assms by (cases "fst (m s)"; cases "m s") (auto simp: owns_def triple_def)

text \<open>A call followed by what the code does with the answer, of which \<open>P\<close> is known.\<close>

lemma owned_call:
  assumes "\<And>w tr r w'. J w tr \<Longrightarrow> f w = (r, w') \<Longrightarrow> J w' (tr @ [(q, err r)]) \<and> P r"
  shows "triple (\<lambda>s. name (cr s) = req \<and> J (world s) (trace s)) (api_call f q err)
      (\<lambda>r s. P r \<and> name (cr s) = req \<and> J (world s) (trace s)) (\<lambda>_ s. J (world s) (trace s))"
  using assms by (auto simp: triple_def api_call_def split: prod.splits)

lemma owns_call:
  assumes "\<And>w tr r w'. J w tr \<Longrightarrow> f w = (r, w') \<Longrightarrow> J w' (tr @ [(q, err r)]) \<and> P r"
    and "\<And>r. P r \<Longrightarrow> owns J name req (g r)"
  shows "owns J name req (andThen (api_call f q err) g)"
  unfolding owns_def
  by (rule triple_andThen [OF owned_call [where P = P]])
    (use assms in \<open>fastforce simp: owns_def triple_def split: prod.splits sum.splits\<close>)+

locale request_frame =
  fixes cl :: "'w client" and J :: "'w \<Rightarrow> api_call list \<Rightarrow> bool" and ok :: "api_request \<Rightarrow> bool"
  assumes frame_Get: "ok (ReqGet (kind_of x) nn) \<Longrightarrow> J w tr \<Longrightarrow> api_Get cl nn x w = ((e, y), w') \<Longrightarrow>
      J w' (tr @ [(ReqGet (kind_of x) nn, e)]) \<and> (if e = None then obj_key y = (kind_of x, nn) else y = x)"
    and frame_Create: "ok (ReqCreate x) \<Longrightarrow> J w tr \<Longrightarrow> api_Create cl x w = ((e, y), w') \<Longrightarrow>
      J w' (tr @ [(ReqCreate x, e)]) \<and> obj_key y = obj_key x"
    and frame_Update: "ok (ReqUpdate x) \<Longrightarrow> J w tr \<Longrightarrow> api_Update cl x w = ((e, y), w') \<Longrightarrow>
      J w' (tr @ [(ReqUpdate x, e)]) \<and> obj_key y = obj_key x"
    and frame_StatusUpdate: "ok (ReqStatusUpdate x) \<Longrightarrow> J w tr \<Longrightarrow> api_StatusUpdate cl x w = ((e, y), w') \<Longrightarrow>
      J w' (tr @ [(ReqStatusUpdate x, e)]) \<and> obj_key y = obj_key x"
    and frame_Delete: "ok (ReqDelete (kind_of x) (obj_name x)) \<Longrightarrow> J w tr \<Longrightarrow> api_Delete cl x w = (e, w') \<Longrightarrow>
      J w' (tr @ [(ReqDelete (kind_of x) (obj_name x), e)])"
begin

lemma owns_Get:
  assumes "ok (ReqGet (kind_of x) nn)"
    and "\<And>e y. (if e = None then obj_key y = (kind_of x, nn) else y = x) \<Longrightarrow> owns J name req (f (e, y))"
  shows "owns J name req (andThen (client_Get cl nn x) f)"
  unfolding client_Get_def
  by (rule owns_call [where P = "\<lambda>(e, y). if e = None then obj_key y = (kind_of x, nn) else y = x"])
    (use frame_Get [OF assms(1)] assms(2) in \<open>auto split: prod.splits\<close>)

lemma owns_answer:
  assumes "ok q" and "\<And>w tr e y w'. J w tr \<Longrightarrow> f w = ((e, y), w') \<Longrightarrow> J w' (tr @ [(q, e)]) \<and> obj_key y = obj_key x"
    and "\<And>e y. obj_key y = obj_key x \<Longrightarrow> owns J name req (g (e, y))"
  shows "owns J name req (andThen (api_call f q fst) g)"
  by (rule owns_call [where P = "\<lambda>(e, y). obj_key y = obj_key x"]) (use assms(2,3) in \<open>auto split: prod.splits\<close>)

lemmas owns_api_Create = owns_answer [OF _ frame_Create]
lemmas owns_api_Update = owns_answer [OF _ frame_Update]
lemmas owns_api_StatusUpdate = owns_answer [OF _ frame_StatusUpdate]

lemma owns_Create: "ok (ReqCreate x) \<Longrightarrow> owns J name req (client_Create cl x)"
  unfolding client_Create_def check_err_def by (intro owns_api_Create owns_rules)

lemma owns_Update: "ok (ReqUpdate x) \<Longrightarrow> owns J name req (client_Update cl x)"
  unfolding client_Update_def check_err_def by (intro owns_api_Update owns_rules)

lemma owns_create: "ok (ReqCreate x) \<Longrightarrow> owns J name req (create cl x)"
  unfolding create_def by (intro owns_andThen owns_Create owns_rules)

lemma owns_delete: "ok (ReqDelete (kind_of x) (obj_name x)) \<Longrightarrow> owns J name req (delete_if_found L cl x)"
  unfolding delete_if_found_def client_Delete_def
  by (rule owns_call [where P = "\<lambda>_. True"]) (auto intro: frame_Delete owns_rules)

end

section \<open>A SingleInstance\<close>

text \<open>The objects a reconcile of \<open>req\<close> can read, write or delete.\<close>

definition touched :: "namespaced_name \<Rightarrow> object_key set" where
  "touched req = insert (KSingle, req) (children req) \<union> {k. finalized req k}"

abbreviation single_name :: "single_instance \<Rightarrow> namespaced_name" where
  "single_name c \<equiv> obj_name (OSingle c)"

text \<open>The names of the objects a reconcile builds.\<close>

lemma built_keys:
  "obj_name (OSingle c) = req \<Longrightarrow> deployment_of L req c = Inr d \<Longrightarrow> obj_key (ODeployment d) = (KDeployment, req)"
  "obj_key (OService (service_of L req c)) = (KService, req)"
  "NewPersistentVolumeClaim L (nn_Name req) (nn_Namespace req) p = Inr pvc \<Longrightarrow>
     obj_key (OPVC pvc) = (KPVC, with_suffix req ''db'')"
  "obj_key (OConfigMap (NewConfigMap (nn_Name req @ ''-config'') (nn_Namespace req) file data))
     = (KConfigMap, with_suffix req ''-config'')"
  by (auto simp: obj_key_def obj_name_def service_of_def NewService_def NewConfigMap_def with_suffix_def
      deployment_of_def NewPersistentVolumeClaim_def res_bind_Inr_iff DB_const_def elim!: NewDeployment_Inr)

lemma touched_keys [simp, intro]:
  "(KSingle, req) \<in> touched req" "(KDeployment, req) \<in> touched req" "(KService, req) \<in> touched req"
  "(KConfigMap, with_suffix req ''-config'') \<in> touched req" "(KPVC, with_suffix req ''db'') \<in> touched req"
  "finalized req k \<Longrightarrow> k \<in> touched req"
  by (simp_all add: touched_def children_def)

lemma children_keys [simp, intro]:
  "(KDeployment, req) \<in> children req" "(KService, req) \<in> children req"
  "(KConfigMap, with_suffix req ''-config'') \<in> children req" "(KPVC, with_suffix req ''db'') \<in> children req"
  by (simp_all add: children_def)

lemma copy_metadata_key: "obj_key (copy_metadata x y) = obj_key y"
  by (simp add: copy_metadata_def obj_key_def obj_name_def)

lemma annotate_name [simp]:
  "obj_name (OSingle (annotate_spec data c)) = obj_name (OSingle c)"
  "obj_name (OSingle (c\<lparr>Status := st\<rparr>)) = obj_name (OSingle c)"
  by (simp_all add: annotate_spec_def obj_name_def)

lemma finalizer_name:
  assumes "k8s_library L"
  shows "obj_name (OSingle (with_finalizer L c)) = obj_name (OSingle c)"
    "obj_name (OSingle (without_finalizer L c)) = obj_name (OSingle c)"
  by (simp_all add: with_finalizer_def without_finalizer_def obj_name_def k8s_library.add_finalizer [OF assms]
      k8s_library.remove_finalizer [OF assms])

text \<open>
  The requests a reconcile of \<open>req\<close> can issue: it creates only children, the Deployments among them
  built by the operator, and deletes only what the finalizer names.
\<close>

definition single_asks :: "k8s_lib \<Rightarrow> namespaced_name \<Rightarrow> api_request \<Rightarrow> bool" where
  "single_asks L req q \<longleftrightarrow> request_key q \<in> touched req \<and>
     (\<forall>x. q = ReqCreate x \<longrightarrow> obj_key x \<in> children req) \<and>
     (\<forall>k nn. q = ReqDelete k nn \<longrightarrow> finalized req (k, nn)) \<and>
     (\<forall>d. q = ReqCreate (ODeployment d) \<longrightarrow> (\<exists>c. deployment_of L req c = Inr d))"

fun is_delete :: "api_request \<Rightarrow> bool" where
  "is_delete (ReqDelete k nn) \<longleftrightarrow> True"
| "is_delete _ \<longleftrightarrow> False"

text \<open>The requests about the instance itself, and the deletions.\<close>

definition upkeep :: "namespaced_name \<Rightarrow> api_request \<Rightarrow> bool" where
  "upkeep req q \<longleftrightarrow> is_delete q \<or> request_key q = (KSingle, req) \<and> (\<forall>x. q \<noteq> ReqCreate x)"

lemma as_single_name: "obj_key z = (KSingle, req) \<Longrightarrow> single_name (as_single z c) = req"
  by (cases z) (auto simp: obj_key_def)

context request_frame
begin

lemma owns_update_single:
  assumes "\<And>c. single_name c = req \<Longrightarrow> ok (ReqUpdate (OSingle c))"
  shows "owns J single_name req (update_single cl)"
  unfolding update_single_def store_single_def
  by (intro owns_gets owns_api_Update owns_rules owns_andThen assms)
    (auto simp: obj_key_def intro: as_single_name)

lemma owns_update_single_status:
  assumes "\<And>c. single_name c = req \<Longrightarrow> ok (ReqStatusUpdate (OSingle c))"
  shows "owns J single_name req (update_single_status cl)"
  unfolding update_single_status_def store_single_def
  by (intro owns_gets owns_api_StatusUpdate owns_rules owns_andThen assms)
    (auto simp: obj_key_def intro: as_single_name)

lemma owns_updateResource:
  assumes "ok (ReqGet (kind_of x) nn)" and "ok (ReqCreate x)"
    and "\<And>y. obj_key y = (kind_of x, nn) \<Longrightarrow> ok (ReqUpdate y)" and "obj_key x = (kind_of x, nn)"
  shows "owns J name r (Single_updateResource L cl nn x)"
  unfolding Single_updateResource_def errorf_check_def Let_def
  by (intro owns_Get assms(1) owns_rules owns_andThen owns_api_Create assms(2) owns_api_Update owns_Update assms(3))
    (use assms(4) in \<open>auto simp: copy_metadata_key split: if_splits\<close>)

end

text \<open>Frames for the requests of a SingleInstance.\<close>

context request_frame
begin

lemma owns_creations:
  assumes ok: "\<And>q. single_asks L req q \<Longrightarrow> \<not> is_delete q \<Longrightarrow> ok q"
  shows "owns J single_name req (Single_createConfigMap cl req)"
    "owns J single_name req (Single_createPersistentVolumeClaim L cl req)"
    "owns J single_name req (Single_createDeployment L cl req)"
    "owns J single_name req (Single_createService L cl req)"
  unfolding Single_createConfigMap_def Single_createPersistentVolumeClaim_def Single_createDeployment_def
    Single_createService_def Single_updateStatus_def Let_def
  by (intro owns_rules owns_andThen owns_Create owns_update_single_status ok;
      use built_keys in \<open>auto simp: single_asks_def obj_key_def\<close>)+

lemma owns_createResources:
  assumes "\<And>q. single_asks L req q \<Longrightarrow> \<not> is_delete q \<Longrightarrow> ok q"
  shows "owns J single_name req (Single_createResources L cl req)"
  unfolding Single_createResources_def
  by (intro owns_Get owns_rules owns_andThen owns_creations assms) (simp_all add: single_asks_def)

lemma owns_watchResource:
  assumes ok: "\<And>q. single_asks L req q \<Longrightarrow> \<not> is_delete q \<Longrightarrow> ok q"
  shows "owns J single_name req (Single_watchResource L cl req)"
  unfolding Single_watchResource_def Single_updateSpecAnnotation_def Single_updateDeployment_def
    Single_updateService_def Single_updateConfigMap_def
  by (intro owns_rules owns_andThen owns_updateResource owns_update_single ok;
      use built_keys in \<open>auto simp: single_asks_def obj_key_def\<close>)

lemma owns_update:
  assumes ok: "\<And>q. single_asks L req q \<Longrightarrow> upkeep req q \<Longrightarrow> \<not> is_delete q \<Longrightarrow> ok q"
  shows "owns J single_name req (update_single cl)"
  by (intro owns_update_single ok) (auto simp: single_asks_def upkeep_def obj_key_def)

lemma owns_AddFinalizer:
  assumes "k8s_library L" and "\<And>q. single_asks L req q \<Longrightarrow> upkeep req q \<Longrightarrow> \<not> is_delete q \<Longrightarrow> ok q"
  shows "owns J single_name req (GreatSqlFinalizer_AddFinalizer L cl)"
  unfolding GreatSqlFinalizer_AddFinalizer_def
  by (intro owns_rules owns_andThen owns_update assms(2); simp add: finalizer_name [OF assms(1)])

lemma owns_HandleFinalizer:
  assumes "k8s_library L" and ok: "\<And>q. single_asks L req q \<Longrightarrow> upkeep req q \<Longrightarrow> ok q"
  shows "owns J single_name req (GreatSqlFinalizer_RemoveFinalizer L cl)"
    "owns J single_name req (HandleFinalizer L cl)"
proof -
  have update: "owns J single_name req (update_single cl)" by (rule owns_update [of L]) (rule ok)
  then show "owns J single_name req (GreatSqlFinalizer_RemoveFinalizer L cl)"
    unfolding GreatSqlFinalizer_RemoveFinalizer_def
    by (intro owns_rules owns_andThen; simp add: finalizer_name [OF assms(1)])+
  have "owns J single_name req (finalizePersistentVolumeClaims L cl)" "owns J single_name req (finalizeDeployment L cl)"
    "owns J single_name req (finalizeService L cl)" "owns J single_name req (finalizeConfigMap L cl)"
    unfolding finalizePersistentVolumeClaims_def finalizeDeployment_def finalizeService_def finalizeConfigMap_def
    by (intro owns_rules owns_andThen owns_delete ok;
        auto simp: single_asks_def upkeep_def obj_name_def finalized_def with_suffix_def intro!: touched_keys(6))+
  with update show "owns J single_name req (HandleFinalizer L cl)"
    unfolding HandleFinalizer_parts
    by (intro owns_rules owns_andThen) (auto simp: finalizer_name [OF assms(1)])
qed

text \<open>An instance that is not deleted: none of its objects is deleted either.\<close>

lemma owns_live_phases:
  assumes "k8s_library L" and ok: "\<And>q. single_asks L req q \<Longrightarrow> \<not> is_delete q \<Longrightarrow> ok q"
  shows "owns J single_name req (andThen (Single_validateAndAddFinalizer L cl) (\<lambda>_.
     andThen (Single_createResources L cl req) (\<lambda>_. Single_watchResource L cl req)))"
  unfolding Single_validateAndAddFinalizer_def Single_validateSpec_def
  by (intro owns_rules owns_andThen owns_AddFinalizer owns_createResources owns_watchResource assms)

text \<open>What precedes the creation of the objects only maintains the instance.\<close>

lemma owns_maintenance:
  assumes "k8s_library L" and ok: "\<And>q. single_asks L req q \<Longrightarrow> upkeep req q \<Longrightarrow> ok q"
    and rest: "owns J single_name req rest"
  shows "owns J single_name req (andThen (Single_handleFinalizer L cl) (\<lambda>_.
     andThen (Single_validateAndAddFinalizer L cl) (\<lambda>_. rest)))"
proof -
  have "owns J single_name req (update_single cl)" by (rule owns_update [of L]) (rule ok)
  then show ?thesis
    unfolding Single_handleFinalizer_def Single_validateAndAddFinalizer_def Single_validateSpec_def
    by (intro owns_rules owns_andThen owns_HandleFinalizer owns_AddFinalizer rest assms(1) ok; simp)
qed

lemma owns_phases:
  assumes "k8s_library L" and ok: "\<And>q. single_asks L req q \<Longrightarrow> ok q"
  shows "owns J single_name req (andThen (Single_handleFinalizer L cl) (\<lambda>_.
     andThen (Single_validateAndAddFinalizer L cl) (\<lambda>_.
     andThen (Single_createResources L cl req) (\<lambda>_. Single_watchResource L cl req))))"
  by (intro owns_maintenance owns_andThen owns_createResources owns_watchResource assms)

end

text \<open>Without an instance nothing is asked after the first request.\<close>

lemma phases_of_nothing:
  assumes "k8s_library L" and "cr s = zero_single_instance"
  obtains f t where "andThen (Single_handleFinalizer L cl) (\<lambda>_. andThen (Single_validateAndAddFinalizer L cl) (\<lambda>_.
     andThen (Single_createResources L cl req) (\<lambda>_. Single_watchResource L cl req))) s = (Inl f, t)"
    "world t = world s" "trace t = trace s"
  using assms(2) validateSpec_run [OF assms(1), of "Spec zero_single_instance" s]
  by (auto simp: Single_handleFinalizer_def Single_validateAndAddFinalizer_def zero_single_instance_def zero_meta_def
      zero_single_instance_spec_def spec_verdict_def runs)

text \<open>What \<open>Reconcile\<close> does after its first request.\<close>

lemma reconcile_from_get:
  assumes "k8s_library L" and "api_Get cl req (OSingle zero_single_instance) (world s) = ((e, y), w)"
  shows "let t = s\<lparr>cr := as_single y zero_single_instance, world := w, trace := trace s @ [(ReqGet KSingle req, e)]\<rparr> in
    (e = None \<longrightarrow> snd (Single_Reconcile L cl req s) = snd (andThen (Single_handleFinalizer L cl) (\<lambda>_.
       andThen (Single_validateAndAddFinalizer L cl) (\<lambda>_.
       andThen (Single_createResources L cl req) (\<lambda>_. Single_watchResource L cl req))) t)) \<and>
    (e \<noteq> None \<longrightarrow> y = OSingle zero_single_instance \<longrightarrow>
       world (snd (Single_Reconcile L cl req s)) = world t \<and> trace (snd (Single_Reconcile L cl req s)) = trace t)"
proof -
  let ?s = "s\<lparr>cr := zero_single_instance\<rparr>"
  let ?t = "?s\<lparr>cr := as_single y zero_single_instance, world := w, trace := trace s @ [(ReqGet KSingle req, e)]\<rparr>"
  have run: "get_single cl req ?s = (Inr e, ?t)"
    using assms(2) by (simp add: get_single_def client_Get_def api_call_def set_cr_def op_defs)
  have "world (snd (Single_Reconcile L cl req s)) = world ?t \<and> trace (snd (Single_Reconcile L cl req s)) = trace ?t"
    if "e = Some err" "y = OSingle zero_single_instance" for err
  proof -
    have "cr ?t = zero_single_instance" using that by simp
    then obtain f u where "andThen (Single_handleFinalizer L cl) (\<lambda>_. andThen (Single_validateAndAddFinalizer L cl) (\<lambda>_.
        andThen (Single_createResources L cl req) (\<lambda>_. Single_watchResource L cl req))) ?t = (Inl f, u)"
      "world u = world ?t" "trace u = trace ?t"
      using phases_of_nothing [OF assms(1), of ?t] by metis
    with run that show ?thesis
      by (auto simp: Single_Reconcile_def Single_getSingleInstance_def set_cr_def runs
          k8s_library.ignore_not_found [OF assms(1)] return_err_def)
  qed
  then show ?thesis
    using run by (auto simp: Let_def Single_Reconcile_def Single_getSingleInstance_def set_cr_def runs)
qed

context request_frame
begin

lemma keeps_read_Reconcile:
  assumes lib: "k8s_library L" and get: "ok (ReqGet KSingle req)" and J: "J (world s) (trace s)"
    and phases: "owns J single_name req (andThen (Single_handleFinalizer L cl) (\<lambda>_.
     andThen (Single_validateAndAddFinalizer L cl) (\<lambda>_.
     andThen (Single_createResources L cl req) (\<lambda>_. Single_watchResource L cl req))))"
  shows "J (world (snd (Single_Reconcile L cl req s))) (trace (snd (Single_Reconcile L cl req s)))"
proof -
  obtain e y w where g: "api_Get cl req (OSingle zero_single_instance) (world s) = ((e, y), w)" by (metis surj_pair)
  let ?t = "s\<lparr>cr := as_single y zero_single_instance, world := w, trace := trace s @ [(ReqGet KSingle req, e)]\<rparr>"
  from get frame_Get [of "OSingle zero_single_instance" req "world s" "trace s" e y w] J g
  have J': "J (world ?t) (trace ?t)" and y: "if e = None then obj_key y = (KSingle, req) else y = OSingle zero_single_instance"
    by simp_all
  show ?thesis
  proof (cases e)
    case None
    with y have "single_name (cr ?t) = req" by (cases y) (auto simp: obj_key_def)
    from ownsD [OF phases this J'] reconcile_from_get [OF lib g] None show ?thesis
      by (simp add: Let_def)
  next
    case (Some err)
    with y J' reconcile_from_get [OF lib g] show ?thesis by (simp add: Let_def)
  qed
qed

lemma keeps_Single_Reconcile:
  assumes "k8s_library L" and ok: "\<And>q. single_asks L req q \<Longrightarrow> ok q" and "J (world s) (trace s)"
  shows "J (world (snd (Single_Reconcile L cl req s))) (trace (snd (Single_Reconcile L cl req s)))"
  by (intro keeps_read_Reconcile owns_phases ok assms) (simp add: single_asks_def)

text \<open>The same of an instance that is read and not deleted.\<close>

lemma keeps_live_Reconcile:
  assumes lib: "k8s_library L" and ok: "\<And>q. single_asks L req q \<Longrightarrow> \<not> is_delete q \<Longrightarrow> ok q"
    and J: "J (world s) (trace s)"
    and live: "\<And>c w. api_Get cl req (OSingle zero_single_instance) (world s) = ((None, OSingle c), w) \<Longrightarrow>
      DeletionTimestamp (si_Meta c) = None"
  shows "J (world (snd (Single_Reconcile L cl req s))) (trace (snd (Single_Reconcile L cl req s)))"
proof -
  obtain e y w where g: "api_Get cl req (OSingle zero_single_instance) (world s) = ((e, y), w)" by (metis surj_pair)
  let ?t = "s\<lparr>cr := as_single y zero_single_instance, world := w, trace := trace s @ [(ReqGet KSingle req, e)]\<rparr>"
  have "ok (ReqGet KSingle req)" by (rule ok) (simp_all add: single_asks_def)
  with frame_Get [of "OSingle zero_single_instance" req "world s" "trace s" e y w] J g
  have J': "J (world ?t) (trace ?t)" and y: "if e = None then obj_key y = (KSingle, req) else y = OSingle zero_single_instance"
    by simp_all
  show ?thesis
  proof (cases e)
    case None
    with y obtain c where c: "y = OSingle c" "single_name (cr ?t) = req" by (cases y) (auto simp: obj_key_def)
    with live [of c w] g None have "DeletionTimestamp (si_Meta (cr ?t)) = None" by simp
    then have "Single_handleFinalizer L cl ?t = (Inr (), ?t)"
      by (simp add: Single_handleFinalizer_def runs)
    with ownsD [OF owns_live_phases [OF lib ok] c(2) J'] reconcile_from_get [OF lib g] None show ?thesis
      by (simp add: Let_def run_andThen)
  next
    case (Some err)
    with y J' reconcile_from_get [OF lib g] show ?thesis by (simp add: Let_def)
  qed
qed

end

section \<open>A GroupReplicationCluster\<close>

definition cluster_touched :: "namespaced_name \<Rightarrow> object_key set" where
  "cluster_touched req =
     {(KSecret, with_suffix req ''-secret''), (KStatefulSet, req), (KService, with_suffix req ''-headless'')}
     \<union> {(KConfigMap, with_suffix req (''-config-'' @ fmt_nat i)) | i. True}
     \<union> {(KPVC, with_suffix req (''-db-'' @ fmt_nat i)) | i. True}"

abbreviation cluster_name :: "group_replication_cluster \<Rightarrow> namespaced_name" where
  "cluster_name c \<equiv> obj_name (OCluster c)"

lemma cluster_keys:
  "cluster_secret L req mgr = Inr sec \<Longrightarrow> obj_key (OSecret sec) \<in> cluster_touched req"
  "cluster_service L req mgr = Inr svc \<Longrightarrow> obj_key (OService svc) \<in> cluster_touched req"
  "cluster_pvc L req mgr i = Inr pvc \<Longrightarrow> obj_key (OPVC pvc) \<in> cluster_touched req"
  "cluster_name mgr = req \<Longrightarrow> cluster_statefulset L req mgr i = Inr sts \<Longrightarrow> obj_key (OStatefulSet sts) \<in> cluster_touched req"
  "obj_key (OConfigMap (NewConfigMap (config_name req i) (nn_Namespace req) file data)) \<in> cluster_touched req"
  by (auto simp: cluster_touched_def obj_key_def obj_name_def with_suffix_def cluster_secret_def NewSecretEnv_def
      cluster_service_def NewService_def cluster_pvc_def NewPersistentVolumeClaim_def DB_const_def NewConfigMap_def
      config_name_def Let_def res_bind_Inr_iff elim!: cluster_statefulset_Inr dest!: NewStatefulSet_name)

text \<open>The requests a reconcile of the cluster \<open>req\<close> can issue: reads, and creations of its own objects.\<close>

definition cluster_asks :: "k8s_lib \<Rightarrow> namespaced_name \<Rightarrow> api_request \<Rightarrow> bool" where
  "cluster_asks L req q \<longleftrightarrow> (\<exists>k nn. q = ReqGet k nn) \<or>
     (\<exists>x. q = ReqCreate x \<and> kind_of x \<noteq> KDeployment \<and> obj_key x \<in> cluster_touched req \<and>
        (\<forall>sts. x = OStatefulSet sts \<longrightarrow> (\<exists>mgr n. cluster_statefulset L req mgr n = Inr sts)))"

context request_frame
begin

lemma owns_draw_uuid:
  assumes "\<And>w tr. J w tr \<Longrightarrow> J (snd (uuid_New w)) tr"
  shows "owns J name req (draw_uuid uuid_New)"
  using assms by (auto simp: owns_def triple_def draw_uuid_def GetUUID_def split: prod.splits) (metis snd_conv)

lemma owns_Cluster_createResources:
  assumes ok: "\<And>q. cluster_asks L req q \<Longrightarrow> ok q" and "\<And>w tr. J w tr \<Longrightarrow> J (snd (uuid_New w)) tr"
  shows "owns J cluster_name req (Cluster_createResources L uuid_New cl req)"
  unfolding Cluster_createResources_def Cluster_createSecret_def Cluster_createConfigMap_def
    Cluster_createPersistentVolumeClaim_def Cluster_createStatefulSet_def Cluster_createService_def Let_def
  by (intro owns_Get owns_rules owns_andThen owns_create owns_draw_uuid assms;
      use cluster_keys in \<open>auto simp: cluster_asks_def\<close>)

lemma keeps_read_Cluster_Reconcile:
  assumes ok: "ok (ReqGet KCluster req)" "ok (ReqGet KStatefulSet req)" and J: "J (world s) (trace s)"
    and creations: "owns J cluster_name req (Cluster_createResources L uuid_New cl req)"
  shows "J (world (snd (Cluster_Reconcile L uuid_New cl req s))) (trace (snd (Cluster_Reconcile L uuid_New cl req s)))"
proof -
  let ?s = "s\<lparr>cr := zero_group_replication_cluster\<rparr>"
  obtain e y w where g: "api_Get cl req (OCluster (cr ?s)) (world s) = ((e, y), w)" by (metis surj_pair)
  obtain t where run: "get_cluster cl req ?s = (Inr e, t)" and t: "world t = w" "cr t = as_cluster y (cr ?s)"
      "trace t = trace s @ [(ReqGet KCluster req, e)]"
    using g by (simp add: get_cluster_def client_Get_def api_call_def set_cr_def op_defs)
  from ok(1) frame_Get [of "OCluster (cr ?s)" req "world s" "trace s" e y w] J g t
  have J': "J (world t) (trace t)" and y: "e = None \<Longrightarrow> obj_key y = (KCluster, req)"
    by (simp_all split: if_splits)
  show ?thesis
  proof (cases e)
    case None
    then have name: "cluster_name (cr t) = req" using t(2) y by (cases y) (auto simp: obj_key_def)
    let ?rest = "andThen (client_Get cl req (OStatefulSet zero_statefulset)) (\<lambda>(err, _).
        if err \<noteq> None then Cluster_createResources L uuid_New cl req else ret ())"
    have "owns J cluster_name req ?rest"
      by (intro owns_Get owns_rules creations) (simp_all add: ok(2))
    from ownsD [OF this name J'] run None show ?thesis
      by (simp add: Cluster_Reconcile_def set_cr_def op_defs)
  next
    case (Some err)
    with run J' show ?thesis
      by (auto simp: Cluster_Reconcile_def set_cr_def return_err_def runs split: option.split)
  qed
qed

lemma keeps_Cluster_Reconcile:
  assumes ok: "\<And>q. cluster_asks L req q \<Longrightarrow> ok q" and "\<And>w tr. J w tr \<Longrightarrow> J (snd (uuid_New w)) tr"
    and "J (world s) (trace s)"
  shows "J (world (snd (Cluster_Reconcile L uuid_New cl req s))) (trace (snd (Cluster_Reconcile L uuid_New cl req s)))"
  by (intro keeps_read_Cluster_Reconcile owns_Cluster_createResources assms) (simp_all add: cluster_asks_def)

end

section \<open>Frames of an API server\<close>

text \<open>
  \<open>permits adm I q\<close>: the request \<open>q\<close>, if a server with the admission \<open>adm\<close> carries it out, preserves
  the property \<open>I\<close> of its objects, whatever it stores.
\<close>

definition permits ::
  "(k8s_object \<Rightarrow> go_error option) \<Rightarrow> ((object_key \<Rightarrow> k8s_object option) \<Rightarrow> bool) \<Rightarrow> api_request \<Rightarrow> bool" where
  "permits adm I q \<longleftrightarrow> (case q of
     ReqGet k nn \<Rightarrow> True
   | ReqCreate x \<Rightarrow> (\<forall>O' v. I O' \<longrightarrow> O' (obj_key x) = None \<longrightarrow> adm x = None \<longrightarrow> I (O'(obj_key x := v)))
   | _ \<Rightarrow> (\<forall>O' v. I O' \<longrightarrow> O' (request_key q) \<noteq> None \<longrightarrow> I (O'(request_key q := v))))"

context api_server
begin

text \<open>Every call keeps the name of the object it is given.\<close>

lemma stored_key: "stored_as x y z \<Longrightarrow> obj_key z = obj_key x"
  by (auto simp: obj_key_def obj_name_def stored_as_def same_spec_def)
    (metis object_meta.select_convs(1,2) object_meta.surjective object_meta.update_convs(3-6))+

lemma created_key: "created_as x z \<Longrightarrow> obj_key z = obj_key x"
  by (auto simp: obj_key_def obj_name_def created_as_def same_spec_def)
    (metis object_meta.select_convs(1,2) object_meta.surjective object_meta.update_convs(3-6))+

lemma answer_key:
  "api_Create cl x w = ((e, z), w') \<Longrightarrow> obj_key z = obj_key x"
  "api_Update cl x w = ((e, z), w') \<Longrightarrow> obj_key z = obj_key x"
  "api_StatusUpdate cl x w = ((e, z), w') \<Longrightarrow> obj_key z = obj_key x"
proof -
  show "obj_key z = obj_key x" if "api_Create cl x w = ((e, z), w')"
    using that create_exists [of w x] create_rejected [of w x] create_ok [of w x]
    by (cases "objs w (obj_key x)"; cases "adm x") (auto dest: created_key)
  show "obj_key z = obj_key x" if "api_Update cl x w = ((e, z), w')"
  proof (cases "objs w (obj_key x)")
    case (Some y)
    with that update_stale [OF Some] update_rejected [OF Some] update_ok [OF Some] show ?thesis
      by (cases "writable x y"; cases "adm x") (auto dest: stored_key)
  qed (use that update_missing [of w x] in auto)
  show "obj_key z = obj_key x" if "api_StatusUpdate cl x w = ((e, z), w')"
  proof (cases "objs w (obj_key x)")
    case (Some y)
    with that status_stale [OF Some] status_ok [OF Some] objs_kind [OF Some] show ?thesis
      by (cases "writable x y") (auto dest: stored_key)
  qed (use that status_missing [of w x] in auto)
qed

lemma get_answer:
  "api_Get cl nn x w = ((e, y), w') \<Longrightarrow> if e = None then obj_key y = (kind_of x, nn) else y = x"
  using get_cases [of nn x w e y w'] objs_kind by (auto split: option.splits)

lemma server_frame: "request_frame cl (\<lambda>w tr. I (objs w)) (permits adm I)"
proof
  fix x nn w e y w' and tr :: "api_call list"
  show "I (objs w') \<and> (if e = None then obj_key y = (kind_of x, nn) else y = x)"
    if "I (objs w)" "api_Get cl nn x w = ((e, y), w')"
    using that(1) get_cases [OF that(2)] get_answer [OF that(2)] by simp
  show "I (objs w') \<and> obj_key y = obj_key x"
    if "permits adm I (ReqCreate x)" "I (objs w)" "api_Create cl x w = ((e, y), w')"
    using that(3,1,2) answer_key(1) [OF that(3)] by (cases rule: create_cases) (auto simp: permits_def)
  show "I (objs w') \<and> obj_key y = obj_key x"
    if "permits adm I (ReqUpdate x)" "I (objs w)" "api_Update cl x w = ((e, y), w')"
    using that(3,1,2) answer_key(2) [OF that(3)]
    by (cases rule: update_cases) (auto simp: permits_def simp del: fun_upd_apply)
  show "I (objs w') \<and> obj_key y = obj_key x"
    if "permits adm I (ReqStatusUpdate x)" "I (objs w)" "api_StatusUpdate cl x w = ((e, y), w')"
    using that(3,1,2) answer_key(3) [OF that(3)]
    by (cases rule: status_cases) (auto simp: permits_def simp del: fun_upd_apply)
next
  fix x w e w'
  show "I (objs w')"
    if "permits adm I (ReqDelete (kind_of x) (obj_name x))" "I (objs w)" "api_Delete cl x w = (e, w')"
    using that(3,1,2) by (cases rule: delete_cases) (auto simp: permits_def obj_key_def simp del: fun_upd_apply)
qed

end

text \<open>A server answers every request about the object it was asked about.\<close>

sublocale api_server \<subseteq> unframed: request_frame cl "\<lambda>_ _. True" "\<lambda>_. True"
  by unfold_locales (simp_all add: get_answer answer_key)

end
