(* ===== verification/Replay.thy ===== *)
theory Replay
  imports Frames
begin

text \<open>
  A reconcile as a process that issues one request at a time. Its state is the list of answers it
  has received: run on a client that replays them, the reconcile issues the requests it has issued
  so far and then the next one. \<open>mirror\<close> shows that this is the reconcile: run alone, the process
  of an operation issues the requests of the operation, gets its answers and leaves its world.
\<close>

section \<open>Single requests\<close>

datatype answer = Failed go_error | Done k8s_object

fun blank :: "kind \<Rightarrow> k8s_object" where
  "blank KDeployment = ODeployment zero_deployment"
| "blank KStatefulSet = OStatefulSet zero_statefulset"
| "blank KService = OService zero_service"
| "blank KConfigMap = OConfigMap zero_configmap"
| "blank KPVC = OPVC zero_pvc"
| "blank KSecret = OSecret (NewSecret [] [] [])"
| "blank KSingle = OSingle zero_single_instance"
| "blank KCluster = OCluster zero_group_replication_cluster"

definition named_blank :: "kind \<Rightarrow> namespaced_name \<Rightarrow> k8s_object" where
  "named_blank k nn = set_obj_meta (zero_meta\<lparr>Name := nn_Name nn, Namespace := nn_Namespace nn\<rparr>) (blank k)"

fun answer_of :: "go_error option \<times> k8s_object \<Rightarrow> answer" where
  "answer_of (None, y) = Done y"
| "answer_of (Some e, y) = Failed e"

text \<open>A request carried out by a server. Reading and deleting go by kind and name.\<close>

fun perform :: "'w client \<Rightarrow> api_request \<Rightarrow> 'w \<Rightarrow> answer \<times> 'w" where
  "perform cl (ReqGet k nn) w = apfst answer_of (api_Get cl nn (blank k) w)"
| "perform cl (ReqCreate x) w = apfst answer_of (api_Create cl x w)"
| "perform cl (ReqUpdate x) w = apfst answer_of (api_Update cl x w)"
| "perform cl (ReqStatusUpdate x) w = apfst answer_of (api_StatusUpdate cl x w)"
| "perform cl (ReqDelete k nn) w =
     apfst (\<lambda>e. answer_of (e, named_blank k nn)) (api_Delete cl (named_blank k nn) w)"

fun serve :: "'w client \<Rightarrow> api_request list \<Rightarrow> 'w \<Rightarrow> answer list \<times> 'w" where
  "serve cl [] w = ([], w)"
| "serve cl (q # qs) w = (case perform cl q w of (a, w1) \<Rightarrow> apfst (Cons a) (serve cl qs w1))"

lemma blank_simps [simp]:
  "kind_of (blank k) = k" "kind_of (named_blank k nn) = k" "obj_name (named_blank k nn) = nn"
  "obj_key (named_blank k nn) = (k, nn)"
  by (cases k; simp add: named_blank_def obj_key_def obj_name_def)+

lemma serve_append:
  "serve cl (qs @ rs) w = (case serve cl qs w of (as, w1) \<Rightarrow> apfst (append as) (serve cl rs w1))"
  by (induction qs arbitrary: w) (auto split: prod.splits simp: apfst_def map_prod_def)

lemma serve_length: "serve cl qs w = (as, w') \<Longrightarrow> length as = length qs"
  by (induction qs arbitrary: w as) (auto split: prod.splits simp: apfst_def map_prod_def)

section \<open>Replaying answers\<close>

text \<open>
  The answers not yet replayed, and the UUIDs to be drawn. When no answer is left, or one that
  cannot be an answer to the request, the call fails.
\<close>

record replay =
  answers :: "answer list"
  uuids :: "string list"

fun given :: "answer list \<Rightarrow> object_key \<Rightarrow> k8s_object \<Rightarrow> go_error option \<times> k8s_object" where
  "given [] k x = (Some (PlainError ''no answer''), x)"
| "given (Failed e # as) k x = (Some e, x)"
| "given (Done y # as) k x = (if obj_key y = k then (None, y) else (Some (PlainError ''no answer''), x))"

definition replay_call :: "object_key \<Rightarrow> k8s_object \<Rightarrow> replay \<Rightarrow> (go_error option \<times> k8s_object) \<times> replay" where
  "replay_call k x w = (given (answers w) k x, w\<lparr>answers := tl (answers w)\<rparr>)"

definition replay_client :: "replay client" where
  "replay_client = \<lparr>api_Get = (\<lambda>nn x. replay_call (kind_of x, nn) x),
     api_Create = (\<lambda>x. replay_call (obj_key x) x), api_Update = (\<lambda>x. replay_call (obj_key x) x),
     api_StatusUpdate = (\<lambda>x. replay_call (obj_key x) x),
     api_Delete = (\<lambda>x w. apfst fst (replay_call (obj_key x) x w))\<rparr>"

definition replay_uuid :: "replay \<Rightarrow> string \<times> replay" where
  "replay_uuid w = (case uuids w of [] \<Rightarrow> ([], w) | u # us \<Rightarrow> (u, w\<lparr>uuids := us\<rparr>))"

text \<open>A server together with the UUIDs to be drawn.\<close>

fun next_uuid :: "'w \<times> string list \<Rightarrow> string \<times> ('w \<times> string list)" where
  "next_uuid (w, []) = ([], (w, []))"
| "next_uuid (w, u # us) = (u, (w, us))"

fun beside :: "('w \<Rightarrow> 'r \<times> 'w) \<Rightarrow> 'w \<times> 'u \<Rightarrow> 'r \<times> ('w \<times> 'u)" where
  "beside f (w, us) = (case f w of (r, w') \<Rightarrow> (r, (w', us)))"

definition with_uuids :: "'w client \<Rightarrow> ('w \<times> string list) client" where
  "with_uuids cl = \<lparr>api_Get = (\<lambda>nn x. beside (api_Get cl nn x)), api_Create = (\<lambda>x. beside (api_Create cl x)),
     api_Update = (\<lambda>x. beside (api_Update cl x)), api_StatusUpdate = (\<lambda>x. beside (api_StatusUpdate cl x)),
     api_Delete = (\<lambda>x. beside (api_Delete cl x))\<rparr>"

lemma given_key:
  "given as k x = (e, y) \<Longrightarrow> if e = None then obj_key y = k else y = x"
  "given as (obj_key x) x = (e, y) \<Longrightarrow> obj_key y = obj_key x"
  by (induction as k x rule: given.induct) (auto split: if_splits)

text \<open>All requests that are issued to the replaying client satisfy \<open>P\<close>.\<close>

definition all_asked :: "(api_request \<Rightarrow> bool) \<Rightarrow> replay \<Rightarrow> api_call list \<Rightarrow> bool" where
  "all_asked P w tr \<longleftrightarrow> (\<forall>q \<in> fst ` set tr. P q)"

interpretation replay: request_frame replay_client "all_asked P" P
  by unfold_locales
    (auto simp: replay_client_def replay_call_def all_asked_def dest: given_key split: if_splits)

section \<open>An operation and its process\<close>

text \<open>A view of a world: the server in it, and the UUIDs to be drawn.\<close>

type_synonym ('x, 'w) view = "'x \<Rightarrow> 'w \<times> string list"

definition onto :: "('x, 'w) view \<Rightarrow> answer list \<Rightarrow> ('x, 'c) rstate \<Rightarrow> (replay, 'c) rstate" where
  "onto p as s = \<lparr>world = \<lparr>answers = as, uuids = snd (p (world s))\<rparr>, cr = cr s, events = events s, trace = trace s\<rparr>"

definition extends :: "api_call list \<Rightarrow> api_call list \<Rightarrow> bool" where
  "extends tr tr' \<longleftrightarrow> prefix (map fst tr) (map fst tr')"

text \<open>
  \<open>mirror cl p m m'\<close>, for an operation \<open>m\<close> on worlds that contain the server of \<open>cl\<close> and the same
  operation \<open>m'\<close> on the
  replaying client: \<open>m\<close> does to the world what serving its requests one by one does; given all
  answers, \<open>m'\<close> ends as \<open>m\<close> does; given only the first \<open>k\<close>, it has issued \<open>k + 1\<close> of the requests.
\<close>

definition mirror :: "'w client \<Rightarrow> ('x, 'w) view \<Rightarrow> (('x, 'c) rstate, 'a) op \<Rightarrow> ((replay, 'c) rstate, 'a) op \<Rightarrow> bool" where
  "mirror cl p m m' \<longleftrightarrow> (\<forall>s. extends (trace s) (trace (snd (m' s)))) \<and>
     (\<forall>s r t. m s = (r, t) \<longrightarrow> (\<exists>new as. trace t = trace s @ new
        \<and> serve cl (map fst new) (fst (p (world s))) = (as, fst (p (world t)))
        \<and> (\<forall>rest. m' (onto p (as @ rest) s) = (r, onto p rest t))
        \<and> (\<forall>k < length as. extends (trace s @ take (Suc k) new) (trace (snd (m' (onto p (take k as) s)))))))"

lemma onto_simps [simp]:
  "cr (onto p as s) = cr s" "trace (onto p as s) = trace s" "answers (world (onto p as s)) = as"
  "(onto p as s)\<lparr>cr := c\<rparr> = onto p as (s\<lparr>cr := c\<rparr>)"
  "events (onto p as s) = events s" "(onto p as s)\<lparr>events := ev\<rparr> = onto p as (s\<lparr>events := ev\<rparr>)"
  by (simp_all add: onto_def)

lemma extends_refl [simp, intro]: "extends tr tr"
  by (simp add: extends_def)

lemma extends_trans: "extends a b \<Longrightarrow> extends b c \<Longrightarrow> extends a c"
  by (auto simp: extends_def)

named_theorems mirror_rules "operations and their processes"

lemma mirror_local:
  assumes "\<And>s. m s = (g s, f s)" and "\<And>s. m' s = (g' s, f' s)"
    and "\<And>s. trace (f s) = trace s" "\<And>s. world (f s) = world s" "\<And>s. trace (f' s) = trace s"
    and "\<And>as s. g' (onto p as s) = g s" "\<And>as s. f' (onto p as s) = onto p as (f s)"
  shows "mirror cl p m m'"
  unfolding mirror_def using assms by auto

lemma mirror_basic [mirror_rules]:
  "mirror cl p (ret x) (ret x)" "mirror cl p (throw e) (throw e)" "mirror cl p (pure r) (pure r)"
  "mirror cl p (set_cr f) (set_cr f)" "mirror cl p (record_event ev) (record_event ev)"
  by (rule mirror_local, (simp add: runs set_cr_def record_event_def)+)+

lemma mirror_if [mirror_rules]:
  "(b \<Longrightarrow> mirror cl p m m') \<Longrightarrow> (\<not> b \<Longrightarrow> mirror cl p n n') \<Longrightarrow> mirror cl p (if b then m else n) (if b then m' else n')"
  by simp

lemma mirror_case_option [mirror_rules]:
  "(r = None \<Longrightarrow> mirror cl p m m') \<Longrightarrow> (\<And>x. r = Some x \<Longrightarrow> mirror cl p (g x) (g' x)) \<Longrightarrow>
   mirror cl p (case r of None \<Rightarrow> m | Some x \<Rightarrow> g x) (case r of None \<Rightarrow> m' | Some x \<Rightarrow> g' x)"
  by (cases r) auto

lemma mirror_case_sum [mirror_rules]:
  "(\<And>e. r = Inl e \<Longrightarrow> mirror cl p (f e) (f' e)) \<Longrightarrow> (\<And>x. r = Inr x \<Longrightarrow> mirror cl p (g x) (g' x)) \<Longrightarrow>
   mirror cl p (case r of Inl e \<Rightarrow> f e | Inr x \<Rightarrow> g x) (case r of Inl e \<Rightarrow> f' e | Inr x \<Rightarrow> g' x)"
  by (cases r) auto

lemma mirror_case_prod [mirror_rules]:
  "(\<And>a b. r = (a, b) \<Longrightarrow> mirror cl p (f a b) (f' a b)) \<Longrightarrow>
   mirror cl p (case r of (a, b) \<Rightarrow> f a b) (case r of (a, b) \<Rightarrow> f' a b)"
  by (cases r) auto

lemma mirror_andThen:
  assumes m: "mirror cl p m m'" and f: "\<And>x. mirror cl p (f x) (f' x)"
  shows "mirror cl p (andThen m f) (andThen m' f')"
  unfolding mirror_def
proof (intro conjI allI impI)
  have grow: "extends (trace (snd (m' u))) (trace (snd (andThen m' f' u)))" for u
    using f by (auto simp: mirror_def runs split: prod.splits sum.splits)
  have "extends (trace u) (trace (snd (m' u)))" for u
    using m by (simp add: mirror_def)
  then show "extends (trace s) (trace (snd (andThen m' f' s)))" for s
    using grow extends_trans by blast
  fix s r t
  assume run: "andThen m f s = (r, t)"
  obtain r1 t1 where m1: "m s = (r1, t1)" by (cases "m s")
  with m obtain n1 a1 where t1: "trace t1 = trace s @ n1" and s1: "serve cl (map fst n1) (fst (p (world s))) = (a1, fst (p (world t1)))"
      and full: "\<And>rest. m' (onto p (a1 @ rest) s) = (r1, onto p rest t1)"
      and part: "\<And>k. k < length a1 \<Longrightarrow> extends (trace s @ take (Suc k) n1) (trace (snd (m' (onto p (take k a1) s))))"
    unfolding mirror_def by metis
  have len: "length n1 = length a1" using serve_length [OF s1] by simp
  have part': "extends (trace s @ take (Suc k) n1) (trace (snd (andThen m' f' (onto p (take k a1) s))))"
    if "k < length a1" for k
    using part [OF that] grow extends_trans by blast
  show "\<exists>new as. trace t = trace s @ new \<and> serve cl (map fst new) (fst (p (world s))) = (as, fst (p (world t)))
      \<and> (\<forall>rest. andThen m' f' (onto p (as @ rest) s) = (r, onto p rest t))
      \<and> (\<forall>k < length as. extends (trace s @ take (Suc k) new) (trace (snd (andThen m' f' (onto p (take k as) s)))))"
  proof (cases r1)
    case (Inl e)
    with run m1 have "r = Inl e" "t = t1" by (simp_all add: runs)
    with Inl t1 s1 full part' show ?thesis
      by (intro exI [of _ n1] exI [of _ a1]) (simp add: runs)
  next
    case (Inr x)
    with run m1 have f1: "f x t1 = (r, t)" by (simp add: runs)
    with f [of x] obtain n2 a2 where t2: "trace t = trace t1 @ n2"
        and s2: "serve cl (map fst n2) (fst (p (world t1))) = (a2, fst (p (world t)))"
        and full2: "\<And>rest. f' x (onto p (a2 @ rest) t1) = (r, onto p rest t)"
        and part2: "\<And>k. k < length a2 \<Longrightarrow>
          extends (trace t1 @ take (Suc k) n2) (trace (snd (f' x (onto p (take k a2) t1))))"
      unfolding mirror_def by metis
    have "extends (trace s @ take (Suc k) (n1 @ n2)) (trace (snd (andThen m' f' (onto p (take k (a1 @ a2)) s))))"
      if "k < length (a1 @ a2)" for k
    proof (cases "k < length a1")
      case True
      with part' [OF True] len show ?thesis by simp
    next
      case False
      with that part2 [of "k - length a1"] full [of "take (k - length a1) a2"] Inr t1 len show ?thesis
        by (simp add: runs Suc_diff_le)
    qed
    moreover have "andThen m' f' (onto p ((a1 @ a2) @ rest) s) = (r, onto p rest t)" for rest
      using full [of "a2 @ rest"] full2 Inr by (simp add: runs)
    ultimately show ?thesis
      using t1 t2 s1 s2 by (intro exI [of _ "n1 @ n2"] exI [of _ "a1 @ a2"]) (simp add: serve_append)
  qed
qed

lemma mirror_gets [mirror_rules]:
  assumes "\<And>c. mirror cl p (f c) (f' c)"
  shows "mirror cl p (andThen (gets cr) f) (andThen (gets cr) f')"
  unfolding mirror_def
proof (intro conjI allI impI)
  show "extends (trace s) (trace (snd (andThen (gets cr) f' s)))" for s
    using assms [of "cr s"] by (simp add: mirror_def runs)
next
  fix s r t
  assume "andThen (gets cr) f s = (r, t)"
  then have "f (cr s) s = (r, t)" by (simp add: runs)
  with assms [of "cr s"] show "\<exists>new as. trace t = trace s @ new \<and> serve cl (map fst new) (fst (p (world s))) = (as, fst (p (world t)))
      \<and> (\<forall>rest. andThen (gets cr) f' (onto p (as @ rest) s) = (r, onto p rest t))
      \<and> (\<forall>k < length as. extends (trace s @ take (Suc k) new) (trace (snd (andThen (gets cr) f' (onto p (take k as) s)))))"
    unfolding mirror_def by (simp add: runs)
qed

lemma mirror_for_each [mirror_rules]:
  "(\<And>x. mirror cl p (f x) (f' x)) \<Longrightarrow> mirror cl p (for_each f xs) (for_each f' xs)"
  by (induction xs) (simp_all add: mirror_basic mirror_andThen)

lemma mirror_call:
  assumes "\<And>w r w'. f w = (r, w') \<Longrightarrow> perform cl q (fst (p w)) = (ans r, fst (p w'))"
    and "\<And>w r w'. f w = (r, w') \<Longrightarrow> snd (p w') = snd (p w)"
    and "\<And>w r w' as us. f w = (r, w') \<Longrightarrow> f' \<lparr>answers = ans r # as, uuids = us\<rparr> = (r, \<lparr>answers = as, uuids = us\<rparr>)"
  shows "mirror cl p (api_call f q err) (api_call f' q err)"
  unfolding mirror_def
proof (intro conjI allI impI)
  show "extends (trace s) (trace (snd (api_call f' q err s)))" for s
    by (simp add: api_call_def extends_def split: prod.split)
next
  fix s r t
  assume run: "api_call f q err s = (r, t)"
  obtain x w' where f: "f (world s) = (x, w')" by (cases "f (world s)")
  with run have r: "r = Inr x" "t = s\<lparr>world := w', trace := trace s @ [(q, err x)]\<rparr>"
    by (simp_all add: api_call_def)
  have "api_call f' q err (onto p (ans x # rest) s) = (Inr x, onto p rest t)" for rest
    using assms(2,3) [OF f] r by (simp add: api_call_def onto_def)
  moreover have "extends (trace s @ [(q, err x)]) (trace (snd (api_call f' q err (onto p [] s))))"
    by (simp add: api_call_def extends_def split: prod.split)
  ultimately show "\<exists>new as. trace t = trace s @ new \<and> serve cl (map fst new) (fst (p (world s))) = (as, fst (p (world t)))
      \<and> (\<forall>rest. api_call f' q err (onto p (as @ rest) s) = (r, onto p rest t))
      \<and> (\<forall>k < length as. extends (trace s @ take (Suc k) new) (trace (snd (api_call f' q err (onto p (take k as) s)))))"
    using assms(1) [OF f] r by (intro exI [of _ "[(q, err x)]"] exI [of _ "[ans x]"]) simp
qed

text \<open>
  A server whose answers to a read depend on the object it is to fill only by its kind, and whose
  deletions go by kind and name, as the API's URLs do.
\<close>

locale keyed_server = api_server +
  assumes get_by_kind: "kind_of x = kind_of y \<Longrightarrow>
      answer_of (fst (api_Get cl nn x w)) = answer_of (fst (api_Get cl nn y w))"
    and delete_by_name: "obj_key x = obj_key y \<Longrightarrow> api_Delete cl x w = api_Delete cl y w"
begin

lemma failed_same:
  "api_Create cl x w = ((Some e, z), w') \<Longrightarrow> z = x"
  "api_Update cl x w = ((Some e, z), w') \<Longrightarrow> z = x"
  "api_StatusUpdate cl x w = ((Some e, z), w') \<Longrightarrow> z = x"
proof -
  show "z = x" if "api_Create cl x w = ((Some e, z), w')"
    using that create_exists [of w x] create_rejected [of w x] create_ok [of w x]
    by (cases "objs w (obj_key x)"; cases "adm x") auto
  show "z = x" if "api_Update cl x w = ((Some e, z), w')"
  proof (cases "objs w (obj_key x)")
    case (Some y)
    with that update_stale [OF Some] update_rejected [OF Some] update_ok [OF Some] show ?thesis
      by (cases "writable x y"; cases "adm x") auto
  qed (use that update_missing [of w x] in auto)
  show "z = x" if "api_StatusUpdate cl x w = ((Some e, z), w')"
  proof (cases "objs w (obj_key x)")
    case (Some y)
    with that status_stale [OF Some] status_ok [OF Some] show ?thesis
      by (cases "writable x y") auto
  qed (use that status_missing [of w x] in auto)
qed

end

text \<open>A client whose calls are those of a keyed server in the world.\<close>

locale viewed_server = keyed_server +
  fixes clx :: "'x client" and p :: "('x, 'a) view"
  assumes view_Get: "api_Get clx nn x w = (r, w') \<Longrightarrow>
      api_Get cl nn x (fst (p w)) = (r, fst (p w')) \<and> snd (p w') = snd (p w)"
    and view_Create: "api_Create clx x w = (r, w') \<Longrightarrow>
      api_Create cl x (fst (p w)) = (r, fst (p w')) \<and> snd (p w') = snd (p w)"
    and view_Update: "api_Update clx x w = (r, w') \<Longrightarrow>
      api_Update cl x (fst (p w)) = (r, fst (p w')) \<and> snd (p w') = snd (p w)"
    and view_StatusUpdate: "api_StatusUpdate clx x w = (r, w') \<Longrightarrow>
      api_StatusUpdate cl x (fst (p w)) = (r, fst (p w')) \<and> snd (p w') = snd (p w)"
    and view_Delete: "api_Delete clx x w = (e, w') \<Longrightarrow>
      api_Delete cl x (fst (p w)) = (e, fst (p w')) \<and> snd (p w') = snd (p w)"
begin

lemma mirror_Get [mirror_rules]: "mirror cl p (client_Get clx nn x) (client_Get replay_client nn x)"
  unfolding client_Get_def
proof (rule mirror_call)
  fix w r w'
  assume "api_Get clx nn x w = (r, w')"
  note g = view_Get [OF this]
  then show "snd (p w') = snd (p w)" by blast
  obtain e y where r: "r = (e, y)" by (cases r)
  obtain r2 w2 where b: "api_Get cl nn (blank (kind_of x)) (fst (p w)) = (r2, w2)" by (metis surj_pair)
  obtain e2 y2 where r2: "r2 = (e2, y2)" by (cases r2)
  have "w2 = fst (p w)" "fst (p w') = fst (p w)" using get_cases g b r r2 by blast+
  with g b get_by_kind [of x "blank (kind_of x)" nn "fst (p w)"]
  show "perform cl (ReqGet (kind_of x) nn) (fst (p w)) = (answer_of r, fst (p w'))" by simp
  show "api_Get replay_client nn x \<lparr>answers = answer_of r # as, uuids = us\<rparr> = (r, \<lparr>answers = as, uuids = us\<rparr>)" for as us
    using get_answer [of nn x "fst (p w)" e y "fst (p w')"] g r
    by (cases e) (auto simp: replay_client_def replay_call_def)
qed

lemma mirror_answer:
  assumes "\<And>w. perform cl q w = apfst answer_of (f w)" and "\<And>w. f' w = replay_call (obj_key x) x w"
    and "\<And>w r w'. fx w = (r, w') \<Longrightarrow> f (fst (p w)) = (r, fst (p w')) \<and> snd (p w') = snd (p w)"
    and "\<And>w e z w'. f w = ((e, z), w') \<Longrightarrow> obj_key z = obj_key x"
    and "\<And>w e z w'. f w = ((Some e, z), w') \<Longrightarrow> z = x"
  shows "mirror cl p (api_call fx q fst) (api_call f' q fst)"
proof (rule mirror_call)
  fix w r w'
  assume "fx w = (r, w')"
  note f = assms(3) [OF this]
  then show "snd (p w') = snd (p w)" by blast
  obtain e z where r: "r = (e, z)" by (cases r)
  have "obj_key z = obj_key x" "e \<noteq> None \<Longrightarrow> z = x"
    using assms(4,5) f r by (blast, cases e) (simp, blast)
  then show "f' \<lparr>answers = answer_of r # as, uuids = us\<rparr> = (r, \<lparr>answers = as, uuids = us\<rparr>)" for as us
    using r by (cases e) (simp_all add: assms(2) replay_call_def)
  show "perform cl q (fst (p w)) = (answer_of r, fst (p w'))" using assms(1) f by simp
qed

lemma mirror_writes [mirror_rules]:
  "mirror cl p (api_call (api_Create clx x) (ReqCreate x) fst) (api_call (api_Create replay_client x) (ReqCreate x) fst)"
  "mirror cl p (api_call (api_Update clx x) (ReqUpdate x) fst) (api_call (api_Update replay_client x) (ReqUpdate x) fst)"
  "mirror cl p (api_call (api_StatusUpdate clx x) (ReqStatusUpdate x) fst)
     (api_call (api_StatusUpdate replay_client x) (ReqStatusUpdate x) fst)"
proof -
  show "mirror cl p (api_call (api_Create clx x) (ReqCreate x) fst) (api_call (api_Create replay_client x) (ReqCreate x) fst)"
    by (rule mirror_answer [of _ "api_Create cl x" _ x]; (erule answer_key(1) failed_same(1) view_Create)?) (simp_all add: replay_client_def)
  show "mirror cl p (api_call (api_Update clx x) (ReqUpdate x) fst) (api_call (api_Update replay_client x) (ReqUpdate x) fst)"
    by (rule mirror_answer [of _ "api_Update cl x" _ x]; (erule answer_key(2) failed_same(2) view_Update)?) (simp_all add: replay_client_def)
  show "mirror cl p (api_call (api_StatusUpdate clx x) (ReqStatusUpdate x) fst)
      (api_call (api_StatusUpdate replay_client x) (ReqStatusUpdate x) fst)"
    by (rule mirror_answer [of _ "api_StatusUpdate cl x" _ x]; (erule answer_key(3) failed_same(3) view_StatusUpdate)?)
      (simp_all add: replay_client_def)
qed

lemma mirror_Delete [mirror_rules]: "mirror cl p (client_Delete clx x) (client_Delete replay_client x)"
  unfolding client_Delete_def
proof (rule mirror_call)
  fix w r w'
  assume "api_Delete clx x w = (r, w')"
  note d = view_Delete [OF this]
  then show "snd (p w') = snd (p w)" by blast
  let ?ans = "\<lambda>r. answer_of (r, named_blank (kind_of x) (obj_name x))"
  have key: "obj_key (named_blank (kind_of x) (obj_name x)) = obj_key x" by (simp add: obj_key_def)
  with d delete_by_name [of "named_blank (kind_of x) (obj_name x)" x "fst (p w)"]
  show "perform cl (ReqDelete (kind_of x) (obj_name x)) (fst (p w)) = (?ans r, fst (p w'))" by simp
  show "api_Delete replay_client x \<lparr>answers = ?ans r # as, uuids = us\<rparr> = (r, \<lparr>answers = as, uuids = us\<rparr>)" for as us
    by (cases r) (simp_all add: replay_client_def replay_call_def obj_key_def)
qed

lemma mirror_finalizer [mirror_rules]:
  "mirror cl p (HandleFinalizer L clx) (HandleFinalizer L replay_client)"
  "mirror cl p (GreatSqlFinalizer_AddFinalizer L clx) (GreatSqlFinalizer_AddFinalizer L replay_client)"
  "mirror cl p (GreatSqlFinalizer_RemoveFinalizer L clx) (GreatSqlFinalizer_RemoveFinalizer L replay_client)"
  unfolding HandleFinalizer_def finalizePersistentVolumeClaims_def finalizeDeployment_def finalizeService_def
    finalizeConfigMap_def delete_if_found_def GreatSqlFinalizer_RemoveFinalizer_def GreatSqlFinalizer_AddFinalizer_def
    update_single_def store_single_def Let_def
  by (intro mirror_rules mirror_andThen)+

lemma mirror_creations [mirror_rules]:
  "mirror cl p (Single_createConfigMap clx req) (Single_createConfigMap replay_client req)"
  "mirror cl p (Single_createPersistentVolumeClaim L clx req) (Single_createPersistentVolumeClaim L replay_client req)"
  "mirror cl p (Single_createDeployment L clx req) (Single_createDeployment L replay_client req)"
  "mirror cl p (Single_createService L clx req) (Single_createService L replay_client req)"
  unfolding Single_createConfigMap_def Single_createPersistentVolumeClaim_def Single_createDeployment_def
    Single_createService_def Single_updateStatus_def update_single_status_def store_single_def
    client_Create_def check_err_def Let_def
  by (intro mirror_rules mirror_andThen)+

lemma mirror_updateResource [mirror_rules]:
  "mirror cl p (Single_updateResource L clx nn x) (Single_updateResource L replay_client nn x)"
  unfolding Single_updateResource_def client_Update_def check_err_def errorf_check_def Let_def
  by (intro mirror_rules mirror_andThen)

lemma mirror_Reconcile:
  "mirror cl p (Single_Reconcile L clx req) (Single_Reconcile L replay_client req)"
  unfolding Single_Reconcile_def Single_getSingleInstance_def get_single_def Single_handleFinalizer_def
    Single_validateAndAddFinalizer_def Single_validateSpec_def Single_createResources_def Single_watchResource_def
    Single_updateSpecAnnotation_def Single_updateDeployment_def Single_updateService_def Single_updateConfigMap_def
    update_single_def store_single_def return_err_def Let_def
  by (intro mirror_rules mirror_andThen)

end

interpretation mem_keyed: keyed_server "mem_client adm" adm mem_objs for adm
  by unfold_locales (auto simp: mem_client_def mem_Get_def mem_Delete_def obj_key_def obj_name_def split: option.splits)

text \<open>A server by itself, and a server with UUIDs beside it.\<close>

sublocale keyed_server \<subseteq> alone: viewed_server cl adm objs cl "\<lambda>w. (w, [])"
  by unfold_locales auto

sublocale keyed_server \<subseteq> drawing: viewed_server cl adm objs "with_uuids cl" "\<lambda>w. w"
  by unfold_locales (auto simp: with_uuids_def split: prod.splits)

lemma mirror_draw_uuid [mirror_rules]: "mirror cl (\<lambda>w. w) (draw_uuid next_uuid) (draw_uuid replay_uuid)"
proof -
  have "draw_uuid replay_uuid (onto (\<lambda>w. w) as s) = (r, onto (\<lambda>w. w) as t) \<and> trace t = trace s \<and> fst (world t) = fst (world s)"
    if "draw_uuid next_uuid s = (r, t)" for s t :: "('a \<times> string list, 'b) rstate" and r as
    using that by (cases "world s" rule: next_uuid.cases)
      (auto simp: draw_uuid_def GetUUID_def replay_uuid_def onto_def)
  moreover have "trace (snd (draw_uuid replay_uuid s)) = trace s" for s :: "(replay, 'b) rstate"
    by (simp add: draw_uuid_def split: prod.split)
  ultimately show ?thesis unfolding mirror_def by fastforce
qed

context keyed_server
begin

lemmas mirror_Single_Reconcile = alone.mirror_Reconcile

lemma mirror_cluster_creations [mirror_rules]:
  "mirror cl (\<lambda>w. w) (Cluster_createSecret L (with_uuids cl) req) (Cluster_createSecret L replay_client req)"
  "mirror cl (\<lambda>w. w) (Cluster_createConfigMap L next_uuid (with_uuids cl) req n)
     (Cluster_createConfigMap L replay_uuid replay_client req n)"
  "mirror cl (\<lambda>w. w) (Cluster_createPersistentVolumeClaim L (with_uuids cl) req n)
     (Cluster_createPersistentVolumeClaim L replay_client req n)"
  "mirror cl (\<lambda>w. w) (Cluster_createStatefulSet L (with_uuids cl) req n) (Cluster_createStatefulSet L replay_client req n)"
  "mirror cl (\<lambda>w. w) (Cluster_createService L (with_uuids cl) req) (Cluster_createService L replay_client req)"
  unfolding Cluster_createSecret_def Cluster_createConfigMap_def Cluster_createPersistentVolumeClaim_def
    Cluster_createStatefulSet_def Cluster_createService_def create_def client_Create_def check_err_def Let_def
  by (intro mirror_rules mirror_andThen)+

lemma mirror_Cluster_Reconcile:
  "mirror cl (\<lambda>w. w) (Cluster_Reconcile L next_uuid (with_uuids cl) req) (Cluster_Reconcile L replay_uuid replay_client req)"
  unfolding Cluster_Reconcile_def Cluster_createResources_def get_cluster_def return_err_def
  by (intro mirror_rules mirror_andThen)

end

end
