(* ===== verification/Runs.thy ===== *)
theory Runs
  imports Replay
begin

text \<open>
  The operator at work: reconciles of both controllers and the users of the cluster act on one API
  server, request by request, in any order. A reconcile that is under way is a process: what it
  does next depends on the answers it has received. A read is answered by the server or by the
  operator's cache, which may hold anything under the name asked for, old objects included. The
  properties hold for every run; a reconcile that is not interrupted, and reads the server, does
  what \<open>Single_Reconcile\<close> does.
\<close>

section \<open>Processes\<close>

text \<open>A cluster's reconcile draws its UUIDs in order; a job carries those it will draw.\<close>

datatype job =
    SingleJob namespaced_name
  | ClusterJob namespaced_name "string list"

definition replay_start :: "answer list \<Rightarrow> string list \<Rightarrow> 'c \<Rightarrow> (replay, 'c) rstate" where
  "replay_start as us c = \<lparr>world = \<lparr>answers = as, uuids = us\<rparr>, cr = c, events = [], trace = []\<rparr>"

definition cluster_start :: "'w \<Rightarrow> ('w, group_replication_cluster) rstate" where
  "cluster_start w = \<lparr>world = w, cr = zero_group_replication_cluster, events = [], trace = []\<rparr>"

text \<open>A job as one operation: its result, the requests it issues and the server it leaves.\<close>

fun reconcile_job :: "k8s_lib \<Rightarrow> 'w client \<Rightarrow> job \<Rightarrow> 'w \<Rightarrow> unit res \<times> api_request list \<times> 'w" where
  "reconcile_job L cl (SingleJob req) w =
     (case Single_Reconcile L cl req (start w) of (r, t) \<Rightarrow> (r, map fst (trace t), world t))"
| "reconcile_job L cl (ClusterJob req us) w =
     (case Cluster_Reconcile L next_uuid (with_uuids cl) req (cluster_start (w, us)) of (r, t) \<Rightarrow>
       (r, map fst (trace t), fst (world t)))"

text \<open>
  A job whose first requests are answered by \<open>as\<close>, and of which the others fail: its result, and the
  requests it issues.
\<close>

fun replay_job :: "k8s_lib \<Rightarrow> job \<Rightarrow> answer list \<Rightarrow> unit res \<times> api_request list" where
  "replay_job L (SingleJob req) as =
     (case Single_Reconcile L replay_client req (replay_start as [] zero_single_instance) of (r, t) \<Rightarrow>
       (r, map fst (trace t)))"
| "replay_job L (ClusterJob req us) as =
     (case Cluster_Reconcile L replay_uuid replay_client req (replay_start as us zero_group_replication_cluster) of (r, t) \<Rightarrow>
       (r, map fst (trace t)))"

definition requests_of :: "k8s_lib \<Rightarrow> job \<Rightarrow> answer list \<Rightarrow> api_request list" where
  "requests_of L j as = snd (replay_job L j as)"

lemma requests_of_simps [simp]:
  "requests_of L (SingleJob req) as =
     map fst (trace (snd (Single_Reconcile L replay_client req (replay_start as [] zero_single_instance))))"
  "requests_of L (ClusterJob req us) as =
     map fst (trace (snd (Cluster_Reconcile L replay_uuid replay_client req
       (replay_start as us zero_group_replication_cluster))))"
  by (simp_all add: requests_of_def split: prod.split)

text \<open>What a job that has received the answers \<open>as\<close> asks next; nothing when it has returned.\<close>

definition next_request :: "k8s_lib \<Rightarrow> job \<Rightarrow> answer list \<Rightarrow> api_request option" where
  "next_request L j as = (let qs = requests_of L j as in
     if length as < length qs then Some (qs ! length as) else None)"

text \<open>What a job can ask at all, whatever it is answered.\<close>

fun asks :: "k8s_lib \<Rightarrow> job \<Rightarrow> api_request \<Rightarrow> bool" where
  "asks L (SingleJob req) = single_asks L req"
| "asks L (ClusterJob req us) = cluster_asks L req"

lemma requests_asked:
  assumes "k8s_library L"
  shows "q \<in> set (requests_of L j as) \<Longrightarrow> asks L j q"
proof (cases j)
  case (SingleJob req)
  assume "q \<in> set (requests_of L j as)"
  with SingleJob replay.keeps_Single_Reconcile [where P = "single_asks L req", OF assms, of req "replay_start as [] zero_single_instance"]
  show ?thesis by (auto simp: all_asked_def replay_start_def)
next
  case (ClusterJob req us)
  assume "q \<in> set (requests_of L j as)"
  with ClusterJob replay.keeps_Cluster_Reconcile [where P = "cluster_asks L req", of L req replay_uuid
      "replay_start as us zero_group_replication_cluster"]
  show ?thesis by (auto simp: all_asked_def replay_start_def)
qed

lemma next_asked: "k8s_library L \<Longrightarrow> next_request L j as = Some q \<Longrightarrow> asks L j q"
  by (auto simp: next_request_def Let_def split: if_splits intro: requests_asked [OF _ nth_mem])

text \<open>
  A SingleInstance's reconcile asks for a deletion only when it has read an instance that is
  deleted, in its very first request.
\<close>

fun read_deleted :: "answer list \<Rightarrow> bool" where
  "read_deleted (Done y # as) \<longleftrightarrow> obj_deleted y"
| "read_deleted as \<longleftrightarrow> False"

lemma deletes_after_deleted:
  assumes "k8s_library L" and "next_request L (SingleJob req) as = Some q" and "is_delete q"
  shows "read_deleted as"
proof (rule ccontr)
  assume no: "\<not> read_deleted as"
  let ?s = "replay_start as [] zero_single_instance"
  have "all_asked (\<lambda>q. \<not> is_delete q) (world (snd (Single_Reconcile L replay_client req ?s)))
      (trace (snd (Single_Reconcile L replay_client req ?s)))"
  proof (rule request_frame.keeps_live_Reconcile [OF replay.request_frame_axioms assms(1)])
    fix c w
    assume "api_Get replay_client req (OSingle zero_single_instance) (world ?s) = ((None, OSingle c), w)"
    then have "as = Done (OSingle c) # tl as"
      by (cases as rule: read_deleted.cases)
        (auto simp: replay_client_def replay_call_def replay_start_def split: if_splits)
    with no show "DeletionTimestamp (si_Meta c) = None" by (metis obj_meta.simps(7) read_deleted.simps(1))
  qed (simp_all add: all_asked_def replay_start_def)
  moreover have "q \<in> set (requests_of L (SingleJob req) as)"
    using assms(2) by (auto simp: next_request_def Let_def split: if_splits)
  ultimately show False using assms(3) by (auto simp: all_asked_def)
qed

section \<open>Runs\<close>

record 'w system =
  server :: 'w
  procs :: "(job \<times> answer list) list"

datatype action =
    Spawn job
  | Act nat
  | Cached nat answer
  | User api_request

fun fits :: "api_request \<Rightarrow> answer \<Rightarrow> bool" where
  "fits (ReqGet k nn) (Done y) \<longleftrightarrow> obj_key y = (k, nn)"
| "fits (ReqGet k nn) (Failed e) \<longleftrightarrow> True"
| "fits _ _ \<longleftrightarrow> False"

text \<open>
  \<open>Spawn\<close> starts a reconcile, \<open>Act i\<close> is the next request of process \<open>i\<close>, \<open>Cached i a\<close> is its next
  request, a read, answered by the cache, and \<open>User q\<close> is a request of a user or of another program.
\<close>

inductive step :: "k8s_lib \<Rightarrow> 'w client \<Rightarrow> 'w system \<Rightarrow> action \<Rightarrow> 'w system \<Rightarrow> bool"
  for L :: k8s_lib and cl :: "'w client" where
  spawn: "step L cl s (Spawn j) (s\<lparr>procs := procs s @ [(j, [])]\<rparr>)"
| act: "i < length (procs s) \<Longrightarrow> procs s ! i = (j, as) \<Longrightarrow> next_request L j as = Some q \<Longrightarrow>
    perform cl q (server s) = (a, w') \<Longrightarrow>
    step L cl s (Act i) (s\<lparr>server := w', procs := (procs s)[i := (j, as @ [a])]\<rparr>)"
| cached: "i < length (procs s) \<Longrightarrow> procs s ! i = (j, as) \<Longrightarrow> next_request L j as = Some q \<Longrightarrow> fits q a \<Longrightarrow>
    step L cl s (Cached i a) (s\<lparr>procs := (procs s)[i := (j, as @ [a])]\<rparr>)"
| user: "perform cl q (server s) = (a, w') \<Longrightarrow> step L cl s (User q) (s\<lparr>server := w'\<rparr>)"

inductive_simps step_simps:
  "step L cl s (Spawn j) t" "step L cl s (Act i) t" "step L cl s (Cached i a) t" "step L cl s (User q) t"

inductive run_of :: "k8s_lib \<Rightarrow> 'w client \<Rightarrow> 'w system \<Rightarrow> action list \<Rightarrow> 'w system \<Rightarrow> bool"
  for L :: k8s_lib and cl :: "'w client" where
  stay: "run_of L cl s [] s"
| move: "step L cl s a t \<Longrightarrow> run_of L cl t as u \<Longrightarrow> run_of L cl s (a # as) u"

inductive_simps run_of_simps [simp]: "run_of L cl s [] t" "run_of L cl s (a # as) t"

text \<open>The jobs of a run.\<close>

definition jobs :: "'w system \<Rightarrow> action list \<Rightarrow> job set" where
  "jobs s as = fst ` set (procs s) \<union> {j. Spawn j \<in> set as}"

lemma jobs_step: "step L cl s a t \<Longrightarrow> jobs t as \<subseteq> jobs s (a # as)"
  by (cases rule: step.cases, assumption)
    (auto simp: jobs_def dest!: set_update_subset_insert [THEN subsetD] intro: rev_image_eqI nth_mem)

context api_server
begin

text \<open>A property of the objects that every request preserves is an invariant of the run.\<close>

lemma perform_keeps:
  assumes "permits adm I q" and "I (objs w)" and "perform cl q w = (a, w')"
  shows "I (objs w')"
proof (cases q)
  case (ReqGet k nn)
  with assms(2,3) show ?thesis
    using get_cases [of nn "blank k" w] by (auto simp: apfst_def map_prod_def split: prod.splits)
next
  case (ReqCreate x)
  with assms request_frame.frame_Create [OF server_frame [of I], of x w] show ?thesis
    by (auto simp: apfst_def map_prod_def split: prod.splits)
next
  case (ReqUpdate x)
  with assms request_frame.frame_Update [OF server_frame [of I], of x w] show ?thesis
    by (auto simp: apfst_def map_prod_def split: prod.splits)
next
  case (ReqStatusUpdate x)
  with assms request_frame.frame_StatusUpdate [OF server_frame [of I], of x w] show ?thesis
    by (auto simp: apfst_def map_prod_def split: prod.splits)
next
  case (ReqDelete k nn)
  with assms request_frame.frame_Delete [OF server_frame [of I], of "named_blank k nn" w] show ?thesis
    by (auto simp: apfst_def map_prod_def split: prod.splits)
qed

lemma run_keeps:
  assumes "run_of L cl s as t" and "k8s_library L" and "I (objs (server s))"
    and "\<And>j q. j \<in> jobs s as \<Longrightarrow> asks L j q \<Longrightarrow> permits adm I q"
    and "\<And>q. User q \<in> set as \<Longrightarrow> permits adm I q"
  shows "I (objs (server t))"
  using assms(1,3-5)
proof induction
  case (move s a t as u)
  from move(1) have "I (objs (server t))"
  proof cases
    case (act i j bs q b w')
    then have "j \<in> jobs s (a # as)" using nth_mem [OF act(3)] by (auto simp: jobs_def intro: rev_image_eqI)
    with act move(4,5) show ?thesis using perform_keeps [of I, OF _ _ act(6)] next_asked [OF assms(2) act(5)] by auto
  next
    case (user q b w')
    with move(4,6) show ?thesis using perform_keeps [of I, OF _ _ user(3)] by simp
  qed (use move(4) in simp_all)
  moreover have "jobs t as \<subseteq> jobs s (a # as)" using move(1) by (rule jobs_step)
  ultimately show ?case using move(3,5,6) by auto
qed simp

end

section \<open>Runs around a live instance\<close>

text \<open>A process starts by reading its instance.\<close>

lemma first_request:
  assumes "k8s_library L" and "next_request L (SingleJob req) [] = Some q"
  shows "q = ReqGet KSingle req"
proof -
  let ?s = "replay_start [] [] zero_single_instance"
  have "api_Get replay_client req (OSingle zero_single_instance) (world ?s)
      = ((Some (PlainError ''no answer''), OSingle zero_single_instance), world ?s)"
    by (simp add: replay_client_def replay_call_def replay_start_def)
  from reconcile_from_get [OF assms(1) this]
  have "requests_of L (SingleJob req) [] = [ReqGet KSingle req]"
    by (simp add: Let_def replay_start_def)
  with assms(2) show ?thesis by (simp add: next_request_def Let_def del: requests_of_simps)
qed

lemma read_deleted_append: "as \<noteq> [] \<Longrightarrow> read_deleted (as @ bs) = read_deleted as"
  by (cases as rule: read_deleted.cases) auto

text \<open>No process of the instance has seen it deleted.\<close>

definition calm :: "namespaced_name \<Rightarrow> 'w system \<Rightarrow> bool" where
  "calm req s \<longleftrightarrow> (\<forall>(j, as) \<in> set (procs s). j = SingleJob req \<longrightarrow> \<not> read_deleted as)"

lemma calm_answer:
  assumes "calm req s" and "i < length (procs s)" and "procs s ! i = (j, as)"
    and "j = SingleJob req \<Longrightarrow> as = [] \<Longrightarrow> \<not> read_deleted [a]"
  shows "calm req (s\<lparr>server := w', procs := (procs s)[i := (j, as @ [a])]\<rparr>)"
    and "calm req (s\<lparr>procs := (procs s)[i := (j, as @ [a])]\<rparr>)"
proof -
  have "\<not> read_deleted (as @ [a])" if "j = SingleJob req"
    using assms nth_mem [OF assms(2)] that read_deleted_append [of as "[a]"]
    by (cases "as = []") (auto simp: calm_def)
  with assms(1) show "calm req (s\<lparr>server := w', procs := (procs s)[i := (j, as @ [a])]\<rparr>)"
    "calm req (s\<lparr>procs := (procs s)[i := (j, as @ [a])]\<rparr>)"
    by (auto simp: calm_def dest!: set_update_subset_insert [THEN subsetD])
qed

context api_server
begin

lemma perform_alive:
  assumes "alive K (objs w)" and "perform cl q w = (a, w')" and "is_delete q \<Longrightarrow> request_key q \<notin> K"
  shows "alive K (objs w')"
proof (cases q)
  case (ReqGet k nn)
  with assms(1,2) show ?thesis
    using get_cases [of nn "blank k" w] by (auto simp: apfst_def map_prod_def split: prod.splits)
next
  case (ReqDelete k nn)
  with assms(3) have K: "(k, nn) \<notin> K" by simp
  obtain e where "api_Delete cl (named_blank k nn) w = (e, w')"
    using assms(2) ReqDelete by (auto simp: apfst_def map_prod_def split: prod.splits)
  then show ?thesis
    using assms(1) K by (cases rule: delete_cases) (auto simp: alive_upd_other simp del: fun_upd_apply)
qed (use assms(1,2) in \<open>auto simp: apfst_def map_prod_def split: prod.splits dest: alive_writes\<close>)

lemma get_answers: "perform cl (ReqGet k nn) w = (Done y, w') \<Longrightarrow> objs w (k, nn) = Some y"
  using get_cases [of nn "blank k" w] by (auto simp: apfst_def map_prod_def split: prod.splits option.splits)

text \<open>One step: the objects \<open>K\<close> of the instance stay, and no process learns of a deletion.\<close>

lemma step_alive:
  assumes "step L cl s x t" and lib: "k8s_library L" and "alive K (objs (server s))" and "calm req s"
    and self: "(KSingle, req) \<in> K"
    and other: "\<And>j q. j \<in> jobs s [x] \<Longrightarrow> j \<noteq> SingleJob req \<Longrightarrow> asks L j q \<Longrightarrow> is_delete q \<Longrightarrow> request_key q \<notin> K"
    and cache: "\<And>i y. x = Cached i (Done y) \<Longrightarrow> obj_key y = (KSingle, req) \<Longrightarrow> \<not> obj_deleted y"
    and users: "\<And>q. x = User q \<Longrightarrow> is_delete q \<Longrightarrow> request_key q \<notin> K"
  shows "alive K (objs (server t)) \<and> calm req t"
  using assms(1)
proof cases
  case (spawn j)
  with assms(3,4) show ?thesis by (auto simp: calm_def)
next
  case (act i j as q a w')
  have j: "j \<in> jobs s [x]" using nth_mem [OF act(3)] act(4) by (auto simp: jobs_def intro: rev_image_eqI)
  have "is_delete q \<Longrightarrow> request_key q \<notin> K"
  proof (cases "j = SingleJob req")
    case True
    assume "is_delete q"
    with True act(5) have "read_deleted as" using deletes_after_deleted [OF lib] by blast
    with True assms(4) act(4) nth_mem [OF act(3)] show ?thesis by (auto simp: calm_def)
  qed (use other [OF j] next_asked [OF lib act(5)] in blast)
  with perform_alive [OF assms(3) act(6)] have "alive K (objs w')" by blast
  moreover have "\<not> read_deleted [a]" if "j = SingleJob req" "as = []"
  proof (cases a)
    case (Done y)
    have "q = ReqGet KSingle req" using first_request [OF lib] act(5) that by blast
    with get_answers act(6) Done have "objs (server s) (KSingle, req) = Some y" by blast
    with assms(3) self Done show ?thesis by (auto simp: alive_def)
  qed simp
  ultimately show ?thesis using calm_answer(1) [OF assms(4) act(3,4)] act(2) by simp
next
  case (cached i j as q a)
  have "\<not> read_deleted [a]" if "j = SingleJob req" "as = []"
  proof (cases a)
    case (Done y)
    have "q = ReqGet KSingle req" using first_request [OF lib] cached(5) that by blast
    with cache [of i y] cached(1,6) Done show ?thesis by simp
  qed simp
  with calm_answer(2) [OF assms(4) cached(3,4)] cached(2) assms(3) show ?thesis by simp
next
  case (user q a w')
  with perform_alive [OF assms(3) user(3)] users assms(4) show ?thesis by (simp add: calm_def)
qed

lemma run_alive:
  assumes "run_of L cl s xs t" and lib: "k8s_library L" and "alive K (objs (server s))" and "calm req s"
    and self: "(KSingle, req) \<in> K"
    and "\<And>j q. j \<in> jobs s xs \<Longrightarrow> j \<noteq> SingleJob req \<Longrightarrow> asks L j q \<Longrightarrow> is_delete q \<Longrightarrow> request_key q \<notin> K"
    and "\<And>i y. Cached i (Done y) \<in> set xs \<Longrightarrow> obj_key y = (KSingle, req) \<Longrightarrow> \<not> obj_deleted y"
    and "\<And>q. User q \<in> set xs \<Longrightarrow> is_delete q \<Longrightarrow> request_key q \<notin> K"
  shows "alive K (objs (server t)) \<and> calm req t"
  using assms(1,3,4,6-)
proof induction
  case (move s x t xs u)
  have "jobs s [x] \<subseteq> jobs s (x # xs)" by (auto simp: jobs_def)
  then have "alive K (objs (server t)) \<and> calm req t"
  proof (intro step_alive [OF move(1) lib move(4,5) self])
    show "\<not> obj_deleted y" if "x = Cached i (Done y)" "obj_key y = (KSingle, req)" for i y
      using move(7) [of i y] that by simp
  qed (use move(6,8) in auto)
  moreover have sub: "jobs t xs \<subseteq> jobs s (x # xs)" using move(1) by (rule jobs_step)
  ultimately show ?case
  proof (intro move(3))
    show "\<not> obj_deleted y" if "Cached i (Done y) \<in> set xs" "obj_key y = (KSingle, req)" for i y
      using move(7) [of i y] that by simp
  qed (use sub move(6,8) in auto)
qed simp

end

section \<open>Uninterrupted reconciles\<close>

lemma run_append: "run_of L cl s (as @ bs) u \<longleftrightarrow> (\<exists>t. run_of L cl s as t \<and> run_of L cl t bs u)"
  by (induction as arbitrary: s) auto

text \<open>The requests of a process determine the run.\<close>

lemma acts_determined:
  "run_of L cl s (replicate n (Act i)) t \<Longrightarrow> run_of L cl s (replicate n (Act i)) u \<Longrightarrow> t = u"
proof (induction n arbitrary: s)
  case (Suc n)
  have "step L cl s (Act i) v \<Longrightarrow> step L cl s (Act i) w \<Longrightarrow> v = w" for v w
    by (auto simp: step_simps)
  with Suc show ?case by (auto dest: Suc.IH)
qed simp

text \<open>A process whose next requests are \<open>qs\<close>, served without interruption.\<close>

lemma run_serve:
  assumes "serve cl qs (server s) = (as, w')" and "i < length (procs s)" and "procs s ! i = (j, pre)"
    and "\<And>k. k < length qs \<Longrightarrow> next_request L j (pre @ take k as) = Some (qs ! k)"
  shows "run_of L cl s (replicate (length qs) (Act i)) (s\<lparr>server := w', procs := (procs s)[i := (j, pre @ as)]\<rparr>)"
  using assms
proof (induction qs arbitrary: s as pre)
  case Nil
  then have "(procs s)[i := (j, pre)] = procs s" by (metis list_update_id)
  with Nil show ?case by simp
next
  case (Cons q qs)
  obtain a w1 where p: "perform cl q (server s) = (a, w1)" by fastforce
  with Cons.prems(1) obtain bs where as: "as = a # bs" and s1: "serve cl qs w1 = (bs, w')"
    by (auto simp: apfst_def map_prod_def split: prod.splits)
  let ?s = "s\<lparr>server := w1, procs := (procs s)[i := (j, pre @ [a])]\<rparr>"
  have "step L cl s (Act i) ?s"
    using Cons.prems(4) [of 0] p Cons.prems(2,3) by (auto intro: step.act)
  moreover have "run_of L cl ?s (replicate (length qs) (Act i))
      (?s\<lparr>server := w', procs := (procs ?s)[i := (j, (pre @ [a]) @ bs)]\<rparr>)"
  proof (rule Cons.IH)
    show "next_request L j ((pre @ [a]) @ take k bs) = Some (qs ! k)" if "k < length qs" for k
      using Cons.prems(4) [of "Suc k"] that as by simp
  qed (use s1 Cons.prems(2) in auto)
  ultimately show ?case using as by auto
qed

lemma extends_nth:
  assumes "extends tr tr'" and "k < length tr"
  shows "k < length tr'" and "fst (tr' ! k) = fst (tr ! k)"
  using assms by (auto simp: extends_def prefix_def) (metis length_append length_map nth_append nth_map trans_less_add1)+

lemma mirror_run:
  assumes mirror: "mirror cl p m m'" and m: "m u = (r, t)" "trace u = []" "fst (p (world u)) = server s"
    and i: "i < length (procs s)" "procs s ! i = (j, [])"
    and j: "\<And>as. replay_job L j as = (case m' (onto p as u) of (r, t) \<Rightarrow> (r, map fst (trace t)))"
  shows "\<exists>as. run_of L cl s (replicate (length (trace t)) (Act i))
      (s\<lparr>server := fst (p (world t)), procs := (procs s)[i := (j, as)]\<rparr>)
    \<and> next_request L j as = None \<and> fst (replay_job L j as) = r"
proof -
  obtain as where sv: "serve cl (map fst (trace t)) (server s) = (as, fst (p (world t)))"
    and full: "\<And>rest. m' (onto p (as @ rest) u) = (r, onto p rest t)"
    and part: "\<And>k. k < length as \<Longrightarrow> extends (take (Suc k) (trace t)) (trace (snd (m' (onto p (take k as) u))))"
    using mirror m unfolding mirror_def by (metis append_Nil)
  have len: "length as = length (trace t)" using serve_length [OF sv] by simp
  have requests: "requests_of L j as' = map fst (trace (snd (m' (onto p as' u))))" for as'
    by (simp add: requests_of_def j split: prod.split)
  have ask: "next_request L j (take k as) = Some (map fst (trace t) ! k)" if "k < length (trace t)" for k
    using part [of k] extends_nth [of "take (Suc k) (trace t)" _ k] that len
    by (simp add: next_request_def Let_def requests)
  have "run_of L cl s (replicate (length (trace t)) (Act i)) (s\<lparr>server := fst (p (world t)), procs := (procs s)[i := (j, as)]\<rparr>)"
    using run_serve [OF sv i] ask by simp
  moreover have "next_request L j as = None" "fst (replay_job L j as) = r"
    using full [of "[]"] len by (simp_all add: next_request_def Let_def requests j)
  ultimately show ?thesis by blast
qed

lemma solo_reconcile:
  assumes "keyed_server cl adm objs" and job: "reconcile_job L cl j (server s) = (r, qs, w')"
    and i: "i < length (procs s)" "procs s ! i = (j, [])"
  shows "\<exists>as. run_of L cl s (replicate (length qs) (Act i)) (s\<lparr>server := w', procs := (procs s)[i := (j, as)]\<rparr>)
    \<and> next_request L j as = None \<and> fst (replay_job L j as) = r"
proof (cases j)
  case (SingleJob req)
  obtain r' t where t: "Single_Reconcile L cl req (start (server s)) = (r', t)" by fastforce
  have "onto (\<lambda>w. (w, [])) as (start (server s)) = replay_start as [] zero_single_instance" for as
    by (simp add: onto_def start_def replay_start_def)
  with mirror_run [OF keyed_server.mirror_Single_Reconcile [OF assms(1), of L req] t _ _ i] job SingleJob t show ?thesis
    by (fastforce simp: start_def)
next
  case (ClusterJob req us)
  obtain r' t where t: "Cluster_Reconcile L next_uuid (with_uuids cl) req (cluster_start (server s, us)) = (r', t)"
    by fastforce
  have "onto (\<lambda>w. w) as (cluster_start (server s, us)) = replay_start as us zero_group_replication_cluster" for as
    by (simp add: onto_def cluster_start_def replay_start_def)
  with mirror_run [OF keyed_server.mirror_Cluster_Reconcile [OF assms(1), of L req] t _ _ i] job ClusterJob t show ?thesis
    by (fastforce simp: cluster_start_def)
qed

text \<open>
  An instance whose objects one uninterrupted reconcile creates: from then on they stay, whatever
  the processes and the users do that satisfies the conditions of \<open>run_alive\<close>.
\<close>

lemma created_then_alive:
  assumes srv: "keyed_server cl adm objs" and lib: "k8s_library L"
    and run: "run_of L cl s (replicate (length qs) (Act i) @ xs) t"
    and job: "reconcile_job L cl (SingleJob req) (server s) = (r, qs, w')"
    and i: "i < length (procs s)" "procs s ! i = (SingleJob req, [])"
    and before: "alive {(KSingle, req)} (objs (server s))" "calm req s"
    and created: "alive K (objs w')" and self: "(KSingle, req) \<in> K"
    and "\<And>j q. j \<in> jobs s xs \<Longrightarrow> j \<noteq> SingleJob req \<Longrightarrow> asks L j q \<Longrightarrow> is_delete q \<Longrightarrow> request_key q \<notin> K"
    and "\<And>i y. Cached i (Done y) \<in> set xs \<Longrightarrow> obj_key y = (KSingle, req) \<Longrightarrow> \<not> obj_deleted y"
    and "\<And>q. User q \<in> set xs \<Longrightarrow> is_delete q \<Longrightarrow> request_key q \<notin> K"
  shows "alive K (objs (server t))"
proof -
  have api: "api_server cl adm objs" using srv by (simp add: keyed_server_def)
  obtain u where u: "run_of L cl s (replicate (length qs) (Act i)) u" "run_of L cl u xs t"
    using run unfolding run_append by blast
  obtain as where solo: "run_of L cl s (replicate (length qs) (Act i)) (s\<lparr>server := w', procs := (procs s)[i := (SingleJob req, as)]\<rparr>)"
    using solo_reconcile [OF srv job i] by blast
  have u': "u = s\<lparr>server := w', procs := (procs s)[i := (SingleJob req, as)]\<rparr>"
    by (rule acts_determined [OF u(1) solo])
  have others: "request_key q \<noteq> (KSingle, req)" if "j \<in> jobs s []" "j \<noteq> SingleJob req" "asks L j q" "is_delete q" for j q
    using assms(11) [of j q] that self by (auto simp: jobs_def)
  have "calm req u"
    using api_server.run_alive [OF api u(1) lib before(1,2)] others by (auto simp: jobs_def)
  moreover have "jobs u xs \<subseteq> jobs s xs"
    using i by (auto simp: jobs_def u' dest!: set_update_subset_insert [THEN subsetD] intro: rev_image_eqI nth_mem)
  ultimately show ?thesis
    using api_server.run_alive [OF api u(2) lib, of K req] created self assms(11-13) u' by auto
qed

end
