(* ===== verification/Versions.thy ===== *)
theory Versions
  imports Runs
begin

text \<open>
  Optimistic concurrency: a write of an object that was read in an old version is refused. The
  operator relies on it to never overwrite what users change in the meantime. The locale
  \<open>versioned_server\<close> states what Kubernetes documents about resource versions; the section on
  processes shows that every update of an instance carries a version that was read, with its spec.
\<close>

section \<open>Versions\<close>

text \<open>
  \<open>known cl objs w y\<close>: \<open>y\<close> is a version of an object that a server in the world \<open>w\<close> has, had, or
  will never have: whenever it holds an object with that name and that resource version, its spec
  is that of \<open>y\<close>.
\<close>

definition known :: "'w client \<Rightarrow> ('w \<Rightarrow> object_key \<Rightarrow> k8s_object option) \<Rightarrow> 'w \<Rightarrow> k8s_object \<Rightarrow> bool" where
  "known cl objs w y \<longleftrightarrow> obj_rv y \<noteq> [] \<and>
     (\<forall>qs as w' v. serve cl qs w = (as, w') \<longrightarrow> objs w' (obj_key y) = Some v \<longrightarrow> obj_rv v = obj_rv y \<longrightarrow> same_spec y v)"

lemma known_later: "known cl objs w y \<Longrightarrow> perform cl q w = (a, w') \<Longrightarrow> known cl objs w' y"
  unfolding known_def by (metis (no_types, lifting) apfst_conv case_prod_conv serve.simps(2))

lemma known_now: "known cl objs w y \<Longrightarrow> objs w (obj_key y) = Some v \<Longrightarrow> obj_rv v = obj_rv y \<Longrightarrow> same_spec y v"
  unfolding known_def by (metis serve.simps(1))

lemma known_single:
  assumes "single_name c = single_name c'" "ResourceVersion (si_Meta c) = ResourceVersion (si_Meta c')" "Spec c = Spec c'"
  shows "known cl objs w (OSingle c) = known cl objs w (OSingle c')"
  using assms by (simp add: known_def obj_key_def same_spec_def)

locale versioned_server = keyed_server +
  assumes answered: "perform cl q w = (Done y, w') \<Longrightarrow> \<not> is_delete q \<Longrightarrow> known cl objs w' y"

section \<open>Resource versions of the server in memory\<close>

text \<open>\<open>y\<close> is the \<open>n\<close>-th version of its object, or a later one is stored.\<close>

definition mem_version :: "nat \<Rightarrow> k8s_object \<Rightarrow> mem \<Rightarrow> bool" where
  "mem_version n y w \<longleftrightarrow> n \<le> revs w (obj_key y) \<and>
     (n = revs w (obj_key y) \<longrightarrow> (\<forall>v. mem_objs w (obj_key y) = Some v \<longrightarrow> same_spec y v))"

lemma mem_version_write: "mem_version n y w \<Longrightarrow> mem_version n y (mem_write x w)"
  by (auto simp: mem_version_def mem_write_def mem_objs_def split: option.splits if_splits)

lemma mem_version_remove: "mem_version n y w \<Longrightarrow> mem_version n y (mem_remove k w)"
  by (auto simp: mem_version_def mem_remove_def mem_objs_def split: option.splits if_splits)

lemma mem_version_perform:
  assumes "mem_version n y w" and "perform (mem_client adm) q w = (a, w')"
  shows "mem_version n y w'"
  using assms
  by (cases q)
    (auto simp: mem_client_def mem_Get_def mem_Create_def mem_Update_def mem_StatusUpdate_def mem_Delete_def mem_put_def
      Let_def mem_version_write mem_version_remove split: option.splits if_splits)

lemma mem_version_serve: "serve (mem_client adm) qs w = (as, w') \<Longrightarrow> mem_version n y w \<Longrightarrow> mem_version n y w'"
proof (induction qs arbitrary: w as)
  case (Cons q qs)
  obtain a w1 where p: "perform (mem_client adm) q w = (a, w1)" by fastforce
  with Cons.prems(1) obtain bs where "serve (mem_client adm) qs w1 = (bs, w')"
    by (auto simp: apfst_def map_prod_def split: prod.splits)
  with Cons.IH mem_version_perform [OF Cons.prems(2) p] show ?case by blast
qed simp

lemma mem_version_known:
  assumes "mem_version n y w" and "obj_rv y = fmt_nat n"
  shows "known (mem_client adm) mem_objs w y"
  unfolding known_def
proof (intro conjI allI impI)
  show "obj_rv y \<noteq> []" using assms(2) by simp
  fix qs as w' v
  assume "serve (mem_client adm) qs w = (as, w')" and v: "mem_objs w' (obj_key y) = Some v" "obj_rv v = obj_rv y"
  then have "mem_version n y w'" using assms(1) by (blast intro: mem_version_serve)
  moreover have "n = revs w' (obj_key y)"
    using mem_objs_key [OF v(1)] v(2) assms(2) by (simp add: fmt_nat_inj)
  ultimately show "same_spec y v" using v(1) by (simp add: mem_version_def)
qed

text \<open>An object that is stored, one that was just written, and one that has just vanished.\<close>

definition mem_current :: "k8s_object \<Rightarrow> mem \<Rightarrow> bool" where
  "mem_current y w \<longleftrightarrow> mem_version (revs w (obj_key y)) y w \<and> obj_rv y = fmt_nat (revs w (obj_key y))"

lemma mem_current_stored: "mem_objs w k = Some y \<Longrightarrow> mem_current y w"
  by (frule mem_objs_key) (auto simp: mem_current_def mem_version_def)

lemma mem_current_put: "mem_put x w = ((None, y), w') \<Longrightarrow> mem_current y w'"
  by (rule mem_current_stored [of _ "obj_key x"]) (auto simp: mem_put_simps)

lemma mem_current_vanished:
  assumes "mem_objs w (obj_key x) = Some y"
  shows "mem_current (mem_merge x y) (mem_remove (obj_key x) w)"
  using mem_objs_key [OF assms] by (simp add: mem_current_def mem_version_def) (simp add: mem_remove_def)

lemma mem_current_status: "merge_status y x = y \<Longrightarrow> mem_objs w k = Some y \<Longrightarrow> mem_current (merge_status y x) w"
  by (simp add: mem_current_stored)

lemma mem_answer_current:
  "mem_Get nn x w = ((None, y), w') \<Longrightarrow> mem_current y w'"
  "mem_Create adm x w = ((None, y), w') \<Longrightarrow> mem_current y w'"
  "mem_Update adm x w = ((None, y), w') \<Longrightarrow> mem_current y w'"
  "mem_StatusUpdate x w = ((None, y), w') \<Longrightarrow> mem_current y w'"
  by (auto simp: mem_Get_def mem_Create_def mem_Update_def mem_StatusUpdate_def mem_current_put mem_current_stored
      mem_current_vanished split: option.splits if_splits)

lemma answer_of_Done: "(answer_of r = Done y) = (r = (None, y))"
  by (cases r rule: answer_of.cases) auto

lemma mem_answer_version:
  assumes "perform (mem_client adm) q w = (Done y, w')" and "\<not> is_delete q"
  shows "mem_current y w'"
  using assms
  by (cases q) (auto simp: mem_client_def apfst_def map_prod_def answer_of_Done split: prod.splits
      dest: mem_answer_current)

interpretation mem_versioned: versioned_server "mem_client adm" adm mem_objs for adm
  by unfold_locales (metis mem_answer_version mem_current_def mem_version_known)

section \<open>What a process writes\<close>

text \<open>A request that updates an instance, or its status, does so with an instance that satisfies \<open>G\<close>.\<close>

fun updates :: "(single_instance \<Rightarrow> bool) \<Rightarrow> api_request \<Rightarrow> bool" where
  "updates G (ReqUpdate (OSingle c)) = G c"
| "updates G (ReqStatusUpdate (OSingle c)) = G c"
| "updates G q = True"

lemma updates_other [simp]:
  "kind_of x \<noteq> KSingle \<Longrightarrow> updates G (ReqUpdate x)" "kind_of x \<noteq> KSingle \<Longrightarrow> updates G (ReqStatusUpdate x)"
  by (cases x; simp)+

text \<open>All answers about the instance \<open>req\<close> satisfy \<open>G\<close>, and all its updates so far.\<close>

definition read_good :: "namespaced_name \<Rightarrow> (single_instance \<Rightarrow> bool) \<Rightarrow> answer list \<Rightarrow> bool" where
  "read_good req G as \<longleftrightarrow> (\<forall>y. Done (OSingle y) \<in> set as \<longrightarrow> single_name y = req \<longrightarrow> G y)"

definition good_so_far :: "namespaced_name \<Rightarrow> (single_instance \<Rightarrow> bool) \<Rightarrow> replay \<Rightarrow> api_call list \<Rightarrow> bool" where
  "good_so_far req G w tr \<longleftrightarrow> read_good req G (answers w) \<and> all_asked (updates G) w tr"

lemma read_good_tl: "read_good req G as \<Longrightarrow> read_good req G (tl as)"
  by (cases as) (auto simp: read_good_def)

lemma read_good_given:
  "read_good req G as \<Longrightarrow> given as k x = (e, OSingle y) \<Longrightarrow> single_name y = req \<Longrightarrow> x = OSingle y \<or> G y"
  by (induction as k x rule: given.induct) (auto simp: read_good_def split: if_splits)

lemma good_call:
  assumes "good_so_far req G w tr" and "updates G q" and "replay_call k x w = (r, w')"
  shows "good_so_far req G w' (tr @ [(q, err)])"
  using assms by (auto simp: good_so_far_def all_asked_def replay_call_def read_good_tl)

lemma good_frame: "request_frame replay_client (good_so_far req G) (updates G)"
proof
  fix x nn w tr e y w'
  show "good_so_far req G w' (tr @ [(ReqGet (kind_of x) nn, e)]) \<and> (if e = None then obj_key y = (kind_of x, nn) else y = x)"
    if "good_so_far req G w tr" "api_Get replay_client nn x w = ((e, y), w')"
    using that good_call [OF that(1), of "ReqGet (kind_of x) nn"]
    by (auto simp: replay_client_def replay_call_def dest: given_key split: if_splits)
  show "good_so_far req G w' (tr @ [(ReqCreate x, e)]) \<and> obj_key y = obj_key x"
    if "good_so_far req G w tr" "api_Create replay_client x w = ((e, y), w')"
    using that good_call [OF that(1), of "ReqCreate x"]
    by (auto simp: replay_client_def replay_call_def dest: given_key(2))
  show "good_so_far req G w' (tr @ [(ReqUpdate x, e)]) \<and> obj_key y = obj_key x"
    if "updates G (ReqUpdate x)" "good_so_far req G w tr" "api_Update replay_client x w = ((e, y), w')"
    using that good_call [OF that(2), of "ReqUpdate x"]
    by (auto simp: replay_client_def replay_call_def dest: given_key(2))
  show "good_so_far req G w' (tr @ [(ReqStatusUpdate x, e)]) \<and> obj_key y = obj_key x"
    if "updates G (ReqStatusUpdate x)" "good_so_far req G w tr" "api_StatusUpdate replay_client x w = ((e, y), w')"
    using that good_call [OF that(2), of "ReqStatusUpdate x"]
    by (auto simp: replay_client_def replay_call_def dest: given_key(2))
next
  fix x w tr e w'
  show "good_so_far req G w' (tr @ [(ReqDelete (kind_of x) (obj_name x), e)])"
    if "good_so_far req G w tr" "api_Delete replay_client x w = (e, w')"
    using that good_call [OF that(1), of "ReqDelete (kind_of x) (obj_name x)"]
    by (auto simp: replay_client_def replay_call_def apfst_def map_prod_def split: prod.splits)
qed

text \<open>\<open>G\<close>, for the instance \<open>req\<close>, as a property of the in-memory custom resource.\<close>

abbreviation good :: "namespaced_name \<Rightarrow> (single_instance \<Rightarrow> bool) \<Rightarrow> single_instance \<Rightarrow> bool" where
  "good req G c \<equiv> G c \<and> single_name c = req"

lemma good_store:
  assumes "good_so_far req G w tr" and "good req G c"
    and "replay_call (obj_key (OSingle c)) (OSingle c) w = ((e, z), w')"
  shows "\<exists>y. z = OSingle y \<and> good req G y"
proof -
  have given: "given (answers w) (KSingle, req) (OSingle c) = (e, z)"
    using assms(2,3) by (simp add: replay_call_def obj_key_def)
  then have "obj_key z = (KSingle, req)"
    using given_key(1) assms(2) by (fastforce simp: obj_key_def split: if_splits)
  then obtain y where "z = OSingle y" "single_name y = req" by (cases z) (auto simp: obj_key_def)
  with assms(1,2) given read_good_given [of req G "answers w" "(KSingle, req)" "OSingle c" e y]
  show ?thesis by (auto simp: good_so_far_def)
qed

lemma good_store_op:
  assumes "\<And>c. G c \<Longrightarrow> updates G (Q c)" and "\<And>c. f c = replay_call (obj_key (OSingle c)) (OSingle c)"
  shows "owns (good_so_far req G) (good req G) True (andThen (gets cr) (\<lambda>c. andThen (api_call (f c) (Q c) fst) store_single))"
proof (rule owns_gets)
  fix c
  assume c: "good req G c = True"
  show "owns (good_so_far req G) (good req G) True (andThen (api_call (f c) (Q c) fst) store_single)"
  proof (rule owns_call [where P = "\<lambda>(e, z). \<exists>y. z = OSingle y \<and> good req G y"])
    fix w tr r w'
    assume "good_so_far req G w tr" "f c w = (r, w')"
    then show "good_so_far req G w' (tr @ [(Q c, fst r)]) \<and> (case r of (e, z) \<Rightarrow> \<exists>y. z = OSingle y \<and> good req G y)"
      using c assms good_call [of req G w tr "Q c"] good_store [of req G w tr c] by (cases r) auto
  next
    fix r :: "go_error option \<times> k8s_object"
    assume "case r of (e, z) \<Rightarrow> \<exists>y. z = OSingle y \<and> good req G y"
    then obtain e y where r: "r = (e, OSingle y)" "good req G y" by (cases r) auto
    then have "owns (good_so_far req G) (good req G) True (set_cr (as_single (OSingle y)))"
      by (intro owns_set_cr) simp
    with r(1) show "owns (good_so_far req G) (good req G) True (store_single r)"
      by (auto simp: store_single_def intro!: owns_rules owns_andThen)
  qed
qed

lemma good_updates:
  "owns (good_so_far req G) (good req G) True (update_single replay_client)"
  "owns (good_so_far req G) (good req G) True (update_single_status replay_client)"
  unfolding update_single_def update_single_status_def
  by (rule good_store_op; simp add: replay_client_def)+

text \<open>\<open>G\<close> looks only at the name, the resource version and the spec.\<close>

definition spec_only :: "(single_instance \<Rightarrow> bool) \<Rightarrow> bool" where
  "spec_only G \<longleftrightarrow> (\<forall>c c'. single_name c = single_name c' \<longrightarrow>
     ResourceVersion (si_Meta c) = ResourceVersion (si_Meta c') \<longrightarrow> Spec c = Spec c' \<longrightarrow> G c = G c')"

lemma spec_onlyD:
  "spec_only G \<Longrightarrow> G c \<Longrightarrow> single_name c = single_name c' \<Longrightarrow>
   ResourceVersion (si_Meta c) = ResourceVersion (si_Meta c') \<Longrightarrow> Spec c = Spec c' \<Longrightarrow> G c'"
  unfolding spec_only_def by blast

lemma good_set_cr:
  assumes "spec_only G" and "\<And>c. single_name (f c) = single_name c"
    and "\<And>c. ResourceVersion (si_Meta (f c)) = ResourceVersion (si_Meta c)" and "\<And>c. Spec (f c) = Spec c"
  shows "owns J (good req G) True (set_cr f)"
proof (rule owns_set_cr)
  fix c assume "good req G c = True"
  then show "good req G (f c) = True"
    using assms(2) [of c] spec_onlyD [OF assms(1), of c "f c"] assms(3,4) by simp
qed

lemma good_sets:
  assumes "spec_only G" and "k8s_library L"
  shows "owns J (good req G) True (set_cr (with_finalizer L))" "owns J (good req G) True (set_cr (without_finalizer L))"
    "owns J (good req G) True (set_cr (annotate_spec data))" "owns J (good req G) True (set_cr (\<lambda>c. c\<lparr>Status := st\<rparr>))"
  by (rule good_set_cr [OF assms(1)];
      simp add: with_finalizer_def without_finalizer_def annotate_spec_def k8s_library.add_finalizer [OF assms(2)]
        k8s_library.remove_finalizer [OF assms(2)] obj_name_def)+

lemmas good_rules = good_updates owns_gets owns_pure owns_basic owns_if owns_case_option owns_case_sum
  owns_case_prod owns_for_each request_frame.owns_Get [OF good_frame] request_frame.owns_Create [OF good_frame]
  request_frame.owns_delete [OF good_frame]

lemma updates_key: "obj_key y = (k, nn) \<Longrightarrow> k \<noteq> KSingle \<Longrightarrow> updates G (ReqUpdate y)"
  by (rule updates_other) (auto simp: obj_key_def)

lemma good_finalizer:
  assumes "spec_only G" and "k8s_library L"
  shows "owns (good_so_far req G) (good req G) True (GreatSqlFinalizer_AddFinalizer L replay_client)"
    "owns (good_so_far req G) (good req G) True (GreatSqlFinalizer_RemoveFinalizer L replay_client)"
    "owns (good_so_far req G) (good req G) True (HandleFinalizer L replay_client)"
  unfolding GreatSqlFinalizer_RemoveFinalizer_def GreatSqlFinalizer_AddFinalizer_def HandleFinalizer_parts
    finalizePersistentVolumeClaims_def finalizeDeployment_def finalizeService_def finalizeConfigMap_def
  by (intro good_rules good_sets [OF assms] owns_andThen; simp)+

lemma good_creations:
  assumes "spec_only G" and "k8s_library L"
  shows "owns (good_so_far req G) (good req G) True (Single_createResources L replay_client req)"
  unfolding Single_createResources_def Single_createConfigMap_def Single_createPersistentVolumeClaim_def
    Single_createDeployment_def Single_createService_def Single_updateStatus_def Let_def
  by (intro good_rules good_sets [OF assms] owns_andThen; simp)

lemma good_watch:
  assumes "spec_only G" and "k8s_library L"
  shows "owns (good_so_far req G) (good req G) True (Single_watchResource L replay_client req)"
  unfolding Single_watchResource_def Single_updateSpecAnnotation_def Single_updateDeployment_def
    Single_updateService_def Single_updateConfigMap_def
  by (intro good_rules good_sets [OF assms] request_frame.owns_updateResource [OF good_frame] owns_andThen;
      use built_keys updates_key in auto)

lemma good_phases:
  assumes "spec_only G" and "k8s_library L"
  shows "owns (good_so_far req G) (good req G) True (andThen (Single_handleFinalizer L replay_client) (\<lambda>_.
     andThen (Single_validateAndAddFinalizer L replay_client) (\<lambda>_.
     andThen (Single_createResources L replay_client req) (\<lambda>_. Single_watchResource L replay_client req))))"
  unfolding Single_handleFinalizer_def Single_validateAndAddFinalizer_def Single_validateSpec_def
  by (intro good_rules good_finalizer [OF assms] good_creations [OF assms] good_watch [OF assms] owns_andThen)

text \<open>A process updates its instance only with a resource version and a spec that it has been answered.\<close>

lemma updates_good:
  assumes spec: "spec_only G" and lib: "k8s_library L" and as: "read_good req G as"
    and q: "next_request L (SingleJob req) as = Some q"
  shows "updates G q"
proof -
  let ?s = "replay_start as [] zero_single_instance"
  obtain e y w where g: "api_Get replay_client req (OSingle zero_single_instance) (world ?s) = ((e, y), w)" by (metis surj_pair)
  then have call: "replay_call (KSingle, req) (OSingle zero_single_instance) (world ?s) = ((e, y), w)"
    by (simp add: replay_client_def)
  let ?t = "?s\<lparr>cr := as_single y zero_single_instance, world := w, trace := trace ?s @ [(ReqGet KSingle req, e)]\<rparr>"
  have "good_so_far req G (world ?s) (trace ?s)" using as by (simp add: good_so_far_def replay_start_def all_asked_def)
  then have J: "good_so_far req G (world ?t) (trace ?t)"
    using good_call [OF _ _ call, of req G "trace ?s" "ReqGet KSingle req" e] by simp
  have "good_so_far req G (world (snd (Single_Reconcile L replay_client req ?s))) (trace (snd (Single_Reconcile L replay_client req ?s)))"
  proof (cases e)
    case None
    with call obtain as' where "as = Done y # as'" "obj_key y = (KSingle, req)"
      by (cases as rule: read_deleted.cases) (auto simp: replay_call_def replay_start_def split: if_splits)
    with as have "good req G (cr ?t) = True" by (cases y) (auto simp: read_good_def obj_key_def)
    from ownsD [OF good_phases [OF spec lib] this J] reconcile_from_get [OF lib g] None show ?thesis
      by (simp add: Let_def)
  next
    case (Some err)
    with call have "y = OSingle zero_single_instance"
      by (cases as rule: read_deleted.cases) (auto simp: replay_call_def replay_start_def split: if_splits)
    with Some J reconcile_from_get [OF lib g] show ?thesis by (simp add: Let_def)
  qed
  moreover have "q \<in> set (requests_of L (SingleJob req) as)"
    using q by (auto simp: next_request_def Let_def split: if_splits)
  ultimately show ?thesis by (auto simp: good_so_far_def all_asked_def)
qed

section \<open>Runs\<close>

text \<open>Runs of which every step satisfies \<open>P\<close>.\<close>

inductive run_where :: "k8s_lib \<Rightarrow> 'w client \<Rightarrow> ('w system \<Rightarrow> action \<Rightarrow> bool) \<Rightarrow> 'w system \<Rightarrow> action list \<Rightarrow> 'w system \<Rightarrow> bool"
  for L :: k8s_lib and cl :: "'w client" and P :: "'w system \<Rightarrow> action \<Rightarrow> bool" where
  stay: "run_where L cl P s [] s"
| move: "P s a \<Longrightarrow> step L cl s a t \<Longrightarrow> run_where L cl P t as u \<Longrightarrow> run_where L cl P s (a # as) u"

lemma run_where_run: "run_where L cl P s as t \<Longrightarrow> run_of L cl s as t"
  by (induction rule: run_where.induct) auto

lemma run_where_all: "run_of L cl s as t \<Longrightarrow> (\<And>s a. a \<in> set as \<Longrightarrow> P s a) \<Longrightarrow> run_where L cl P s as t"
  by (induction rule: run_of.induct) (auto intro: run_where.intros)

text \<open>What the cache answers is a version of the object that the server has, or has had.\<close>

definition cache_known :: "'w client \<Rightarrow> ('w \<Rightarrow> object_key \<Rightarrow> k8s_object option) \<Rightarrow> 'w system \<Rightarrow> action \<Rightarrow> bool" where
  "cache_known cl objs s a \<longleftrightarrow> (\<forall>i y. a = Cached i (Done y) \<longrightarrow> known cl objs (server s) y)"

text \<open>All that the processes of the instance \<open>req\<close> have been answered about it is known to the server.\<close>

definition seen :: "namespaced_name \<Rightarrow> 'w client \<Rightarrow> ('w \<Rightarrow> object_key \<Rightarrow> k8s_object option) \<Rightarrow> 'w system \<Rightarrow> bool" where
  "seen req cl objs s \<longleftrightarrow> (\<forall>as. (SingleJob req, as) \<in> set (procs s) \<longrightarrow>
     read_good req (\<lambda>c. known cl objs (server s) (OSingle c)) as)"

lemma known_spec_only: "spec_only (\<lambda>c. known cl objs w (OSingle c))"
  unfolding spec_only_def by (intro allI impI) (rule known_single)

lemma read_good_mono: "read_good req G as \<Longrightarrow> (\<And>c. G c \<Longrightarrow> H c) \<Longrightarrow> read_good req H as"
  by (auto simp: read_good_def)

lemma read_good_snoc:
  "read_good req G (as @ [a]) \<longleftrightarrow> read_good req G as \<and> (\<forall>y. a = Done (OSingle y) \<longrightarrow> single_name y = req \<longrightarrow> G y)"
  by (auto simp: read_good_def)

lemma seen_server:
  assumes "seen req cl objs s" and "perform cl q (server s) = (a, w')"
  shows "seen req cl objs (s\<lparr>server := w'\<rparr>)"
  using assms(1) unfolding seen_def by (auto intro: read_good_mono [OF _ known_later [OF _ assms(2)]])

lemma seen_answer:
  assumes "seen req cl objs s" and "i < length (procs s)" and "procs s ! i = (j, as)"
    and "\<And>y. j = SingleJob req \<Longrightarrow> a = Done (OSingle y) \<Longrightarrow> known cl objs (server s) (OSingle y)"
  shows "seen req cl objs (s\<lparr>procs := (procs s)[i := (j, as @ [a])]\<rparr>)"
  using assms nth_mem [OF assms(2)] unfolding seen_def
  by (auto simp: read_good_snoc dest!: set_update_subset_insert [THEN subsetD])

lemma seen_act:
  assumes "seen req cl objs s" and "i < length (procs s)" and "procs s ! i = (j, as)"
    and "perform cl q (server s) = (a, w')"
    and "\<And>y. j = SingleJob req \<Longrightarrow> a = Done (OSingle y) \<Longrightarrow> known cl objs w' (OSingle y)"
  shows "seen req cl objs (s\<lparr>server := w', procs := (procs s)[i := (j, as @ [a])]\<rparr>)"
  using seen_answer [of req cl objs "s\<lparr>server := w'\<rparr>" i j as a] seen_server [OF assms(1,4)] assms(2,3,5) by simp

context versioned_server
begin

lemma step_seen:
  assumes "step L cl s x t" and lib: "k8s_library L" and "cache_known cl objs s x" and "seen req cl objs s"
  shows "seen req cl objs t"
  using assms(1)
proof cases
  case (spawn j)
  with assms(4) show ?thesis by (auto simp: seen_def read_good_def)
next
  case (act i j as q a w')
  have "known cl objs w' (OSingle y)" if "j = SingleJob req" "a = Done (OSingle y)" for y
  proof (cases "is_delete q")
    case True
    then obtain k nn where q: "q = ReqDelete k nn" by (cases q) auto
    have "single_asks L req q" using next_asked [OF lib act(5)] that(1) by simp
    then have "k \<noteq> KSingle" using q by (auto simp: single_asks_def finalized_def)
    moreover have "named_blank k nn = OSingle y"
      using act(6) q that(2) by (auto simp: apfst_def map_prod_def answer_of_Done split: prod.splits)
    then have "k = KSingle" by (metis blank_simps(2) kind_of.simps(7))
    ultimately show ?thesis by simp
  qed (use answered act(6) that(2) in blast)
  with seen_act [OF assms(4) act(3,4,6)] act(2) show ?thesis by simp
next
  case (cached i j as q a)
  with seen_answer [OF assms(4) cached(3,4), of a] assms(3) show ?thesis by (simp add: cache_known_def)
next
  case (user q a w')
  with seen_server [OF assms(4)] show ?thesis by simp
qed

lemma run_seen:
  assumes "run_where L cl (cache_known cl objs) s as t" and "k8s_library L" and "seen req cl objs s"
  shows "seen req cl objs t"
  using assms(1,3) by induction (auto intro: step_seen [OF _ assms(2)])

lemma perform_elsewhere:
  assumes "perform cl q w = (a, w')" and "(\<exists>k nn. q = ReqGet k nn) \<or> request_key q \<noteq> k"
  shows "objs w' k = objs w k"
  using assms(2) by (intro perform_keeps [where I = "\<lambda>O'. O' k = objs w k", OF _ _ assms(1)])
    (cases q; auto simp: permits_def)+

text \<open>An update with a known version is refused or does not change the spec.\<close>

lemma known_update:
  assumes "known cl objs w (OSingle c1)" and "obj_key (OSingle c1) = k"
    and "perform cl q w = (a, w')" and "q = ReqUpdate (OSingle c1) \<or> q = ReqStatusUpdate (OSingle c1)"
    and "objs w' k = Some (OSingle c')"
  shows "\<exists>c. objs w k = Some (OSingle c) \<and> Spec c = Spec c'"
proof -
  have rv: "ResourceVersion (si_Meta c1) \<noteq> []" using assms(1) by (simp add: known_def)
  have stored: "\<exists>c. y = OSingle c \<and> Spec c = Spec c1" if "objs w k = Some y" "writable (OSingle c1) y" for y
  proof -
    have "same_spec (OSingle c1) y"
      using known_now [OF assms(1), of y] that assms(2) rv by (auto simp: writable_def)
    then show ?thesis by (auto simp: same_spec_def)
  qed
  from assms(4) show ?thesis
  proof
    assume "q = ReqUpdate (OSingle c1)"
    then obtain e z where u: "api_Update cl (OSingle c1) w = ((e, z), w')"
      using assms(3) by (auto simp: apfst_def map_prod_def split: prod.splits)
    from u show ?thesis
    proof (cases rule: update_cases)
      case (ok y)
      then obtain c where "y = OSingle c" "Spec c = Spec c1" using stored assms(2) by blast
      with ok assms(2,5) show ?thesis
        by (auto simp: stored_as_def same_spec_def split: if_splits)
    qed (use assms(5) in auto)
  next
    assume "q = ReqStatusUpdate (OSingle c1)"
    then obtain e z where u: "api_StatusUpdate cl (OSingle c1) w = ((e, z), w')"
      using assms(3) by (auto simp: apfst_def map_prod_def split: prod.splits)
    from u show ?thesis
    proof (cases rule: status_cases)
      case (ok y)
      then obtain c where "y = OSingle c" "Spec c = Spec c1" using stored assms(2) by blast
      with ok assms(2,5) show ?thesis
        by (auto simp: stored_as_def same_spec_def)
    qed (use assms(5) in auto)
  qed
qed

text \<open>What the operator can ask about an instance: reads, and updates by its own processes.\<close>

lemma asks_instance:
  assumes "asks L j q" and "request_key q = (KSingle, req)"
  shows "(\<exists>k nn. q = ReqGet k nn) \<or> j = SingleJob req \<and>
    (\<exists>c. single_name c = req \<and> (q = ReqUpdate (OSingle c) \<or> q = ReqStatusUpdate (OSingle c)))"
proof (cases j)
  case (SingleJob other)
  with assms have "other = req" by (auto simp: single_asks_def touched_def children_def finalized_def)
  moreover have "\<exists>c. x = OSingle c \<and> single_name c = req" if "obj_key x = (KSingle, req)" for x
    using that by (cases x) (auto simp: obj_key_def)
  ultimately show ?thesis
    using assms SingleJob by (cases q) (auto simp: single_asks_def children_def finalized_def)
next
  case (ClusterJob other us)
  with assms show ?thesis by (auto simp: cluster_asks_def cluster_touched_def)
qed

lemma step_spec:
  assumes "step L cl s x t" and lib: "k8s_library L" and "seen req cl objs s"
    and users: "\<And>q. x = User q \<Longrightarrow> request_key q \<noteq> (KSingle, req)"
    and t: "objs (server t) (KSingle, req) = Some (OSingle c')"
  shows "\<exists>c. objs (server s) (KSingle, req) = Some (OSingle c) \<and> Spec c = Spec c'"
  using assms(1)
proof cases
  case (act i j as q a w')
  show ?thesis
  proof (cases "(\<exists>k nn. q = ReqGet k nn) \<or> request_key q \<noteq> (KSingle, req)")
    case True
    with perform_elsewhere [OF act(6)] t act(2) show ?thesis by auto
  next
    case False
    with asks_instance [OF next_asked [OF lib act(5)]] obtain c1 where j: "j = SingleJob req"
      and c1: "single_name c1 = req" "q = ReqUpdate (OSingle c1) \<or> q = ReqStatusUpdate (OSingle c1)"
      by blast
    have "(SingleJob req, as) \<in> set (procs s)" using nth_mem [OF act(3)] act(4) j by simp
    with assms(3) have "read_good req (\<lambda>c. known cl objs (server s) (OSingle c)) as" by (simp add: seen_def)
    from updates_good [OF known_spec_only lib this] act(5) j c1(2)
    have "known cl objs (server s) (OSingle c1)" by auto
    moreover have "obj_key (OSingle c1) = (KSingle, req)" using c1(1) by (simp add: obj_key_def)
    ultimately show ?thesis using known_update act(6) c1(2) t act(2) by simp
  qed
next
  case (user q a w')
  with perform_elsewhere [OF user(3)] users t show ?thesis by auto
qed (use t in auto)

end

end
