(* ===== verification/System.thy ===== *)
theory System
  imports Versions
begin

text \<open>
  Properties of the operator at work: what holds in every run of both controllers and the users of
  the cluster, whatever the interleaving of their requests and whatever the cache answers, and how
  instances and clusters of the same name meet.
\<close>

section \<open>Workloads\<close>

definition workload :: "k8s_object \<Rightarrow> bool" where
  "workload x \<longleftrightarrow> kind_of x = KDeployment \<or> kind_of x = KStatefulSet"

definition no_workload :: "(object_key \<Rightarrow> k8s_object option) \<Rightarrow> bool" where
  "no_workload O' \<longleftrightarrow> (\<forall>nn. O' (KDeployment, nn) = None \<and> O' (KStatefulSet, nn) = None)"

lemma no_workload_existing: "no_workload O' \<Longrightarrow> O' k \<noteq> None \<Longrightarrow> no_workload (O'(k := v))"
  by (auto simp: no_workload_def)

lemma no_workload_other: "no_workload O' \<Longrightarrow> \<not> workload x \<Longrightarrow> no_workload (O'(obj_key x := v))"
  by (auto simp: no_workload_def workload_def obj_key_def)

text \<open>The checks of Kubernetes that the operator's Deployments and StatefulSets do not pass.\<close>

definition checks_workloads :: "(k8s_object \<Rightarrow> go_error option) \<Rightarrow> bool" where
  "checks_workloads adm \<longleftrightarrow>
     (\<forall>d. adm (ODeployment d) = None \<longrightarrow>
        mount_names (pod_Containers (pt_Spec (dep_Template d))) \<subseteq> volume_names (pt_Spec (dep_Template d))) \<and>
     (\<forall>x. adm (OStatefulSet x) = None \<longrightarrow> selects (sts_Selector x) (Labels (pt_Meta (sts_Template x))))"

lemma rejected_deployment:
  assumes "checks_workloads adm" and "deployment_of L req c = Inr d"
  shows "adm (ODeployment d) \<noteq> None"
  using assms NewDeployment_dangling [of L "nn_Name req @ Config_const" c _ d]
  by (fastforce simp: checks_workloads_def deployment_of_def res_bind_Inr_iff)

lemma rejected_statefulset:
  "checks_workloads adm \<Longrightarrow> cluster_statefulset L req mgr n = Inr sts \<Longrightarrow> adm (OStatefulSet sts) \<noteq> None"
  by (auto dest: statefulset_mismatch simp: checks_workloads_def)

lemma asks_no_workload:
  assumes "checks_workloads adm" and "asks L j q"
  shows "permits adm no_workload q"
proof (cases "\<exists>x. q = ReqCreate x")
  case True
  then obtain x where q: "q = ReqCreate x" by blast
  have "\<not> workload x \<or> adm x \<noteq> None"
  proof (cases j)
    case (SingleJob req)
    with assms(2) q have "obj_key x \<in> touched req" "\<And>d. x = ODeployment d \<Longrightarrow> \<exists>c. deployment_of L req c = Inr d"
      by (auto simp: single_asks_def)
    then show ?thesis
      using rejected_deployment [OF assms(1)]
      by (cases x) (auto simp: workload_def touched_def children_def finalized_def obj_key_def)
  next
    case (ClusterJob req us)
    with assms(2) q show ?thesis
      using rejected_statefulset [OF assms(1)] by (cases x) (auto simp: workload_def cluster_asks_def)
  qed
  with q show ?thesis by (auto simp: permits_def no_workload_other simp del: fun_upd_apply)
qed (auto simp: permits_def no_workload_existing simp del: fun_upd_apply split: api_request.split)

section \<open>Names\<close>

text \<open>A name of a Kubernetes object ends in a letter or a digit.\<close>

definition dns_name :: "namespaced_name \<Rightarrow> bool" where
  "dns_name nn \<longleftrightarrow> nn_Name nn \<noteq> [] \<and> last (nn_Name nn) \<noteq> CHR ''-''"

lemma with_suffix_eq:
  "with_suffix a x = with_suffix b y \<longleftrightarrow> nn_Namespace a = nn_Namespace b \<and> nn_Name a @ x = nn_Name b @ y"
  by (simp add: with_suffix_def)

lemma namespaced_name_eqI: "nn_Namespace a = nn_Namespace b \<Longrightarrow> nn_Name a = nn_Name b \<Longrightarrow> a = b"
  for a b :: namespaced_name
  by simp

lemma dash_digits:
  assumes "xs @ CHR ''-'' # d = ys @ CHR ''-'' # e" and "list_all is_digit d" and "list_all is_digit e"
  shows "xs = ys \<and> d = e"
proof -
  have dash: "CHR ''-'' \<notin> set d" "CHR ''-'' \<notin> set e"
    using assms(2,3) by (auto simp: list_all_iff is_digit_def)
  with assms(1) show ?thesis
    by (auto simp: append_eq_append_conv2 Cons_eq_append_conv append_eq_Cons_conv)
qed

lemma config_names: "dns_name b \<Longrightarrow> nn_Name a @ ''-config'' \<noteq> nn_Name b @ ''config''"
proof
  assume b: "dns_name b" and "nn_Name a @ ''-config'' = nn_Name b @ ''config''"
  then have "(nn_Name a @ ''-'') @ ''config'' = nn_Name b @ ''config''" by simp
  then have "nn_Name b = nn_Name a @ ''-''" by (metis append_same_eq)
  with b show False by (simp add: dns_name_def)
qed

lemma claim_names: "x @ ''db'' \<noteq> y @ ''-db-'' @ fmt_nat i"
proof
  assume "x @ ''db'' = y @ ''-db-'' @ fmt_nat i"
  then have "last (x @ ''db'') = last (y @ ''-db-'' @ fmt_nat i)" by (rule arg_cong)
  then have "last (fmt_nat i) = CHR ''b''" by simp
  then have "is_digit CHR ''b''"
    using fmt_nat_digits [of i] by (metis fmt_nat_nonempty last_in_set list_all_iff)
  then show False by (simp add: is_digit_def)
qed

lemma indexed_claim_names: "x @ ''-db-'' @ fmt_nat i = y @ ''-db-'' @ fmt_nat j \<Longrightarrow> x = y"
  using dash_digits [of "x @ ''-db''" "fmt_nat i" "y @ ''-db''" "fmt_nat j"] fmt_nat_digits by simp

lemma touched_disjoint:
  assumes "dns_name a" and "dns_name b" and "a \<noteq> b"
  shows "touched a \<inter> touched b = {}"
proof -
  have indexed: "nn_Name a @ ''-db-'' @ fmt_nat i \<noteq> nn_Name b @ ''-db-'' @ fmt_nat j"
    if "nn_Namespace a = nn_Namespace b" for i j
    using that assms(3) indexed_claim_names namespaced_name_eqI by blast
  have False if "k \<in> touched a" "k \<in> touched b" for k
    using that assms indexed config_names [OF assms(1), of b] config_names [OF assms(2), of a]
      claim_names [of "nn_Name a" "nn_Name b"] claim_names [of "nn_Name b" "nn_Name a"]
    by (auto simp: touched_def children_def finalized_def with_suffix_eq dest: namespaced_name_eqI)
  then show ?thesis by blast
qed

section \<open>Properties of runs\<close>

text \<open>
  C2. On a server that checks pod volumes and selectors, as Kubernetes does, the operator never
  gets a workload running: however the requests of any number of reconciles of both controllers
  and of users who create no workloads themselves interleave, and whatever the operator's cache
  answers, a Deployment or a StatefulSet never exists.
\<close>

theorem no_workload_ever:
  assumes "run_of L cl s as t" and "api_server cl adm objs" and "k8s_library L" and "checks_workloads adm"
    and "\<And>x. User (ReqCreate x) \<in> set as \<Longrightarrow> \<not> workload x" and "no_workload (objs (server s))"
  shows "no_workload (objs (server t))"
proof (rule api_server.run_keeps [OF assms(2,1,3), of no_workload, OF assms(6)])
  show "permits adm no_workload q" if "asks L j q" for j q
    using that asks_no_workload [OF assms(4)] by blast
  show "permits adm no_workload q" if "User q \<in> set as" for q
    using that assms(5) by (cases q) (auto simp: permits_def no_workload_existing no_workload_other simp del: fun_upd_apply)
qed

definition workload_admission :: "k8s_object \<Rightarrow> go_error option" where
  "workload_admission x = (case pod_admission x of Some e \<Rightarrow> Some e | None \<Rightarrow> selector_admission x)"

lemma workload_admission_checks: "checks_workloads workload_admission"
  using pod_admission_ok
  by (auto simp: checks_workloads_def workload_admission_def selector_admission_def pod_admission_def
      split: option.splits if_splits)

lemma sample_uuid_objs: "mem_objs (snd (sample_uuid w)) = mem_objs w"
  by (simp add: sample_uuid_def)

text \<open>The process of a reconcile that reads and writes the server without interruption.\<close>

lemma spawned_run:
  assumes "keyed_server cl adm objs" and "length (procs s) = i"
  shows "\<exists>n t. run_of L cl s (Spawn j # replicate n (Act i)) t \<and> length (procs t) = Suc i"
proof -
  let ?s = "s\<lparr>procs := procs s @ [(j, [])]\<rparr>"
  obtain r qs w' where job: "reconcile_job L cl j (server ?s) = (r, qs, w')" by (metis surj_pair)
  have "i < length (procs ?s)" "procs ?s ! i = (j, [])" using assms(2) by auto
  from solo_reconcile [OF assms(1) job this] obtain as where
    "run_of L cl ?s (replicate (length qs) (Act i)) (?s\<lparr>server := w', procs := (procs ?s)[i := (j, as)]\<rparr>)"
    by blast
  moreover have "step L cl s (Spawn j) ?s" by (rule step.spawn)
  ultimately have "run_of L cl s (Spawn j # replicate (length qs) (Act i)) (?s\<lparr>server := w', procs := (procs ?s)[i := (j, as)]\<rparr>)"
    by (rule run_of.move [rotated])
  moreover have "length (procs (?s\<lparr>server := w', procs := (procs ?s)[i := (j, as)]\<rparr>)) = Suc i"
    using assms(2) by simp
  ultimately show ?thesis by blast
qed

lemma user_runs: obtains t where "step L cl s (User q) t"
  using step.user by (metis surj_pair)

definition fresh_system :: "'w \<Rightarrow> 'w system" where
  "fresh_system w = \<lparr>server = w, procs = []\<rparr>"

lemma fresh_system_empty: "length (procs (fresh_system w)) = 0"
  by (simp add: fresh_system_def)

lemmas first_run = spawned_run [OF mem_keyed.keyed_server_axioms fresh_system_empty]

theorem no_workload_ever_witness:
  "\<exists>n t. run_of doc_lib (mem_client workload_admission) (fresh_system sample_server)
      ((Spawn (SingleJob sample_name) # replicate n (Act 0)) @ [User (ReqCreate (OCluster sample_cluster))]) t
    \<and> no_workload (mem_objs (server t))"
proof -
  let ?run = "run_of doc_lib (mem_client workload_admission)"
  obtain n u where r: "?run (fresh_system sample_server) (Spawn (SingleJob sample_name) # replicate n (Act 0)) u"
    using first_run by blast
  obtain t where "step doc_lib (mem_client workload_admission) u (User (ReqCreate (OCluster sample_cluster))) t"
    by (rule user_runs)
  with r have r': "?run (fresh_system sample_server)
      ((Spawn (SingleJob sample_name) # replicate n (Act 0)) @ [User (ReqCreate (OCluster sample_cluster))]) t"
    unfolding run_append by (auto intro: run_of.intros)
  have "no_workload (mem_objs (server t))"
    by (rule no_workload_ever [OF r' mem.api_server_axioms doc.k8s_library_axioms workload_admission_checks])
      (auto simp: workload_def no_workload_def fresh_system_def)
  with r' show ?thesis by blast
qed

text \<open>Actions that are about other objects than those of the instance \<open>req\<close>.\<close>

fun elsewhere_job :: "namespaced_name \<Rightarrow> job \<Rightarrow> bool" where
  "elsewhere_job req (SingleJob other) \<longleftrightarrow> dns_name other \<and> other \<noteq> req"
| "elsewhere_job req (ClusterJob other us) \<longleftrightarrow> nn_Namespace other \<noteq> nn_Namespace req"

lemma touched_namespace:
  "k \<in> touched req \<Longrightarrow> nn_Namespace (snd k) = nn_Namespace req"
  "k \<in> cluster_touched req \<Longrightarrow> nn_Namespace (snd k) = nn_Namespace req"
  by (auto simp: touched_def children_def finalized_def with_suffix_def cluster_touched_def)

lemma elsewhere_disjoint:
  assumes "dns_name req" and "elsewhere_job req j" and "asks L j q" and "k \<in> touched req"
  shows "(\<exists>k nn. q = ReqGet k nn) \<or> request_key q \<noteq> k"
proof (cases j)
  case (SingleJob other)
  with assms touched_disjoint [of req other] show ?thesis by (auto simp: single_asks_def)
next
  case (ClusterJob other us)
  with assms touched_namespace [of k] show ?thesis by (force simp: cluster_asks_def)
qed

text \<open>
  C3. Instances are isolated from each other: however the requests of reconciles of other
  instances, of clusters of other namespaces and of users about other objects interleave, however
  their deletions go and whatever the cache answers, none of the objects of an instance is
  created, changed or deleted.
\<close>

theorem instances_isolated:
  assumes "run_of L cl s as t" and "api_server cl adm objs" and "k8s_library L" and "dns_name req"
    and "\<And>j. j \<in> jobs s as \<Longrightarrow> elsewhere_job req j" and "\<And>q. User q \<in> set as \<Longrightarrow> request_key q \<notin> touched req"
    and "k \<in> touched req"
  shows "objs (server t) k = objs (server s) k"
proof (rule api_server.run_keeps [OF assms(2,1,3), where I = "\<lambda>O'. O' k = objs (server s) k"])
  have other: "permits adm (\<lambda>O'. O' k = objs (server s) k) q"
    if "(\<exists>k nn. q = ReqGet k nn) \<or> request_key q \<noteq> k" for q
    using that by (cases q) (auto simp: permits_def)
  show "permits adm (\<lambda>O'. O' k = objs (server s) k) q" if "j \<in> jobs s as" "asks L j q" for j q
    using elsewhere_disjoint [OF assms(4) assms(5) [OF that(1)] that(2) assms(7)] other by blast
  show "permits adm (\<lambda>O'. O' k = objs (server s) k) q" if "User q \<in> set as" for q
    using assms(6) [OF that] assms(7) other by metis
qed simp

theorem instances_isolated_witness:
  "\<exists>n t. run_of doc_lib (mem_client (\<lambda>_. None)) (fresh_system sample_server)
      (Spawn (SingleJob \<lparr>nn_Namespace = ''greatsql'', nn_Name = ''greatsql-2''\<rparr>) # replicate n (Act 0)) t
    \<and> mem_objs (server t) (KSingle, sample_name) = mem_objs sample_server (KSingle, sample_name)"
proof -
  let ?other = "\<lparr>nn_Namespace = ''greatsql'', nn_Name = ''greatsql-2''\<rparr>"
  obtain n t where r: "run_of doc_lib (mem_client (\<lambda>_. None)) (fresh_system sample_server)
      (Spawn (SingleJob ?other) # replicate n (Act 0)) t"
    using first_run by blast
  have "mem_objs (server t) (KSingle, sample_name) = mem_objs (server (fresh_system sample_server)) (KSingle, sample_name)"
    by (rule instances_isolated [OF r mem.api_server_axioms doc.k8s_library_axioms, where req = sample_name])
      (auto simp: dns_name_def sample_name_def jobs_def fresh_system_def)
  with r show ?thesis by (auto simp: fresh_system_def)
qed

lemma elsewhere_deletes:
  assumes "dns_name req" and "elsewhere_job req j" and "asks L j q" and "is_delete q"
  shows "request_key q \<notin> touched req"
  using elsewhere_disjoint [OF assms(1-3)] assms(4) by (cases q) auto



text \<open>
  C5. No update is lost: the spec of a SingleInstance is only ever changed by its users. In every
  interleaving of any number of reconciles of the instance and of everything else with the
  users' requests, also when reads are answered by a cache with outdated versions of the instance,
  no step of the operator creates the instance or changes its spec: a write that is based on a
  version the users have replaced is refused by the server.
\<close>

theorem spec_changes_by_users_only:
  assumes "versioned_server cl adm objs" and "k8s_library L" and "procs s = []"
    and "run_where L cl (cache_known cl objs) s as t" and "step L cl t a u"
    and "\<And>q. a = User q \<Longrightarrow> request_key q \<noteq> (KSingle, req)"
    and "objs (server u) (KSingle, req) = Some (OSingle c')"
  shows "\<exists>c. objs (server t) (KSingle, req) = Some (OSingle c) \<and> Spec c = Spec c'"
proof -
  have "seen req cl objs s" using assms(3) by (simp add: seen_def)
  then have "seen req cl objs t" by (rule versioned_server.run_seen [OF assms(1,4,2)])
  with versioned_server.step_spec [OF assms(1,5,2)] assms(6,7) show ?thesis by blast
qed

theorem spec_changes_by_users_only_witness:
  "\<exists>n t u c'. run_where doc_lib (mem_client (\<lambda>_. None)) (cache_known (mem_client (\<lambda>_. None)) mem_objs) (fresh_system sample_server)
      (Spawn (SingleJob sample_name) # replicate n (Act 0)) t
    \<and> step doc_lib (mem_client (\<lambda>_. None)) t (User (ReqCreate (OCluster sample_cluster))) u
    \<and> mem_objs (server u) (KSingle, sample_name) = Some (OSingle c')
    \<and> (\<exists>c. mem_objs (server t) (KSingle, sample_name) = Some (OSingle c) \<and> Spec c = Spec c')"
proof -
  let ?cl = "mem_client (\<lambda>_. None)"
  let ?q = "ReqCreate (OCluster sample_cluster)"
  obtain n t where r: "run_of doc_lib ?cl (fresh_system sample_server) (Spawn (SingleJob sample_name) # replicate n (Act 0)) t"
    using first_run by blast
  then have w: "run_where doc_lib ?cl (cache_known ?cl mem_objs) (fresh_system sample_server)
      (Spawn (SingleJob sample_name) # replicate n (Act 0)) t"
    by (rule run_where_all) (auto simp: cache_known_def)
  obtain u where u: "step doc_lib ?cl t (User ?q) u" by (rule user_runs)
  with r have ru: "run_of doc_lib ?cl (fresh_system sample_server) ((Spawn (SingleJob sample_name) # replicate n (Act 0)) @ [User ?q]) u"
    unfolding run_append by (auto intro: run_of.intros)
  have "alive {(KSingle, sample_name)} (mem_objs (server u))"
    by (rule api_server.run_alive [OF mem.api_server_axioms ru doc.k8s_library_axioms, of _ sample_name, THEN conjunct1])
      (auto simp: jobs_def fresh_system_def calm_def)
  then obtain y where y: "mem_objs (server u) (KSingle, sample_name) = Some y" by (auto simp: alive_def)
  then obtain c' where c': "mem_objs (server u) (KSingle, sample_name) = Some (OSingle c')"
    using mem_objs_key [OF y] by (cases y) (auto simp: obj_key_def)
  have "\<exists>c. mem_objs (server t) (KSingle, sample_name) = Some (OSingle c) \<and> Spec c = Spec c'"
    by (rule spec_changes_by_users_only [OF mem_versioned.versioned_server_axioms doc.k8s_library_axioms _ w u _ c'])
      (auto simp: fresh_system_def obj_key_def)
  with w u c' show ?thesis by blast
qed





text \<open>
  C19. Reconciles of clusters only ever add objects of their own: however their requests interleave
  with each other and with requests about other objects, and whatever the cache answers, no object
  that exists is changed or deleted, and nothing appears under a key that is not one of the
  Secrets, headless Services, StatefulSets, numbered ConfigMaps and numbered claims of the clusters
  that are reconciled.
\<close>

theorem clusters_only_add:
  assumes "run_of L cl s as t" and "api_server cl adm objs" and "k8s_library L"
    and "\<And>req us. ClusterJob req us \<in> jobs s as \<Longrightarrow> objs (server s) k \<noteq> None \<or> k \<notin> cluster_touched req"
    and "\<And>req. SingleJob req \<in> jobs s as \<Longrightarrow> k \<notin> touched req" and "\<And>q. User q \<in> set as \<Longrightarrow> request_key q \<noteq> k"
  shows "objs (server t) k = objs (server s) k"
proof (rule api_server.run_keeps [OF assms(2,1,3), where I = "\<lambda>O'. O' k = objs (server s) k"])
  let ?I = "\<lambda>O'. O' k = objs (server s) k"
  show "permits adm ?I q" if "j \<in> jobs s as" "asks L j q" for j q
  proof (cases j)
    case (SingleJob req)
    with that assms(5) show ?thesis by (cases q) (auto simp: permits_def single_asks_def)
  next
    case (ClusterJob req us)
    with that assms(4) [of req us] show ?thesis by (auto simp: cluster_asks_def permits_def)
  qed
  show "permits adm ?I q" if "User q \<in> set as" for q
    using assms(6) [OF that] by (cases q) (auto simp: permits_def)
qed simp

theorem clusters_only_add_witness:
  "\<exists>n t. run_of doc_lib (mem_client (\<lambda>_. None)) (fresh_system sample_server)
      (Spawn (ClusterJob sample_name [''u'']) # replicate n (Act 0)) t
    \<and> mem_objs (server t) (KSingle, sample_name) = mem_objs sample_server (KSingle, sample_name)"
proof -
  obtain n t where r: "run_of doc_lib (mem_client (\<lambda>_. None)) (fresh_system sample_server)
      (Spawn (ClusterJob sample_name [''u'']) # replicate n (Act 0)) t"
    using first_run by blast
  have "mem_objs (server t) (KSingle, sample_name) = mem_objs (server (fresh_system sample_server)) (KSingle, sample_name)"
    by (rule clusters_only_add [OF r mem.api_server_axioms doc.k8s_library_axioms])
      (auto simp: jobs_def fresh_system_def)
  with r show ?thesis by (auto simp: fresh_system_def)
qed


definition deleted_pair :: single_instance where
  "deleted_pair = deleted_sample\<lparr>Spec := (Spec sample_single)\<lparr>Size := Some 2\<rparr>\<rparr>"

definition claim_server :: mem where
  "claim_server = mem_write (OPVC (zero_pvc\<lparr>pvc_Meta := zero_meta\<lparr>Name := ''greatsql-db-1'',
     Namespace := ''greatsql''\<rparr>\<rparr>)) (mem_write (OSingle deleted_pair) empty_server)"

lemma claim_server_objs:
  "mem_objs claim_server =
     [(KSingle, sample_name) \<mapsto> OSingle deleted_pair,
      (KPVC, with_suffix sample_name ''-db-1'') \<mapsto> with_rv (fmt_nat 1) (OPVC (zero_pvc\<lparr>pvc_Meta := zero_meta\<lparr>
        Name := ''greatsql-db-1'', Namespace := ''greatsql''\<rparr>\<rparr>))]"
  by (auto simp: claim_server_def empty_server_def mem_objs_def obj_key_def obj_name_def sample_name_def
      with_suffix_def zero_meta_def with_rv_absorb deleted_sample_def deleted_pair_def mem_write_def fun_eq_iff)


end
