(* ===== verification/Steady.thy ===== *)
theory Steady
  imports Runs
begin

text \<open>
  A process keeps what it has asked: more answers, whatever they are, do not change the requests
  that an operation on the replaying client issues before it needs them. So the requests of a
  process, one after the other, are those of one execution of its reconcile.
\<close>

definition more_answers :: "answer list \<Rightarrow> (replay, 'c) rstate \<Rightarrow> (replay, 'c) rstate" where
  "more_answers bs s = s\<lparr>world := (world s)\<lparr>answers := answers (world s) @ bs\<rparr>\<rparr>"

text \<open>
  \<open>steady m\<close>: an operation that issues no more requests than it has answers does the same with more
  of them; otherwise the requests up to the first unanswered one are the same.
\<close>

definition steady_from :: "((replay, 'c) rstate, 'a) op \<Rightarrow> (replay, 'c) rstate \<Rightarrow> bool" where
  "steady_from m s \<longleftrightarrow> (let n = length (answers (world s)) in \<exists>new. trace (snd (m s)) = trace s @ new \<and>
     (if length new \<le> n then
        answers (world (snd (m s))) = drop (length new) (answers (world s)) \<and>
        (\<forall>bs. m (more_answers bs s) = (fst (m s), more_answers bs (snd (m s))))
      else \<forall>bs. \<exists>new'. trace (snd (m (more_answers bs s))) = trace s @ new' \<and>
        take (Suc n) (map fst new') = take (Suc n) (map fst new)))"

definition steady :: "((replay, 'c) rstate, 'a) op \<Rightarrow> bool" where
  "steady m \<longleftrightarrow> (\<forall>s. steady_from m s)"

lemma steadyI: "(\<And>s. steady_from m s) \<Longrightarrow> steady m"
  by (simp add: steady_def)

lemma steady_enough:
  assumes "trace (snd (m s)) = trace s @ new" and "length new \<le> length (answers (world s))"
    and "answers (world (snd (m s))) = drop (length new) (answers (world s))"
    and "\<And>bs. m (more_answers bs s) = (fst (m s), more_answers bs (snd (m s)))"
  shows "steady_from m s"
  unfolding steady_from_def Let_def using assms by (intro exI [of _ new]) simp

lemma steady_short:
  assumes "trace (snd (m s)) = trace s @ new" and "length (answers (world s)) < length new"
    and "\<And>bs. \<exists>new'. trace (snd (m (more_answers bs s))) = trace s @ new' \<and>
      take (Suc (length (answers (world s)))) (map fst new') = take (Suc (length (answers (world s)))) (map fst new)"
  shows "steady_from m s"
  unfolding steady_from_def Let_def using assms by (intro exI [of _ new]) simp

lemma steady_cases:
  assumes "steady m"
  obtains (enough) new where "trace (snd (m s)) = trace s @ new" "length new \<le> length (answers (world s))"
      "answers (world (snd (m s))) = drop (length new) (answers (world s))"
      "\<And>bs. m (more_answers bs s) = (fst (m s), more_answers bs (snd (m s)))"
  | (short) new where "trace (snd (m s)) = trace s @ new" "length (answers (world s)) < length new"
      "\<And>bs. \<exists>new'. trace (snd (m (more_answers bs s))) = trace s @ new' \<and>
        take (Suc (length (answers (world s)))) (map fst new') = take (Suc (length (answers (world s)))) (map fst new)"
proof -
  from assms have "steady_from m s" by (simp add: steady_def)
  then obtain new where new: "trace (snd (m s)) = trace s @ new"
    and split: "if length new \<le> length (answers (world s)) then
        answers (world (snd (m s))) = drop (length new) (answers (world s)) \<and>
        (\<forall>bs. m (more_answers bs s) = (fst (m s), more_answers bs (snd (m s))))
      else \<forall>bs. \<exists>new'. trace (snd (m (more_answers bs s))) = trace s @ new' \<and>
        take (Suc (length (answers (world s)))) (map fst new') = take (Suc (length (answers (world s)))) (map fst new)"
    unfolding steady_from_def Let_def by blast
  show thesis
  proof (cases "length new \<le> length (answers (world s))")
    case True
    with new split enough show thesis by simp
  next
    case False
    with new split short show thesis by simp
  qed
qed

lemma steady_grows:
  assumes "steady m"
  shows "\<exists>new. trace (snd (m s)) = trace s @ new"
  using assms by (cases rule: steady_cases [of m s]) blast+

named_theorems steady_rules "operations that keep what they have asked"

lemma more_answers_simps [simp]:
  "cr (more_answers bs s) = cr s" "trace (more_answers bs s) = trace s" "events (more_answers bs s) = events s"
  "answers (world (more_answers bs s)) = answers (world s) @ bs" "uuids (world (more_answers bs s)) = uuids (world s)"
  "(more_answers bs s)\<lparr>cr := c\<rparr> = more_answers bs (s\<lparr>cr := c\<rparr>)"
  "(more_answers bs s)\<lparr>events := ev\<rparr> = more_answers bs (s\<lparr>events := ev\<rparr>)"
  by (simp_all add: more_answers_def)

lemma steady_local:
  assumes "\<And>s. m s = (g s, f s)" and "\<And>s. trace (f s) = trace s" "\<And>s. answers (world (f s)) = answers (world s)"
    and "\<And>bs s. g (more_answers bs s) = g s" "\<And>bs s. f (more_answers bs s) = more_answers bs (f s)"
  shows "steady m"
  by (intro steadyI steady_enough [of _ _ "[]"]) (simp_all add: assms)

lemma steady_basic [steady_rules]:
  "steady (ret x)" "steady (throw e)" "steady (pure r)" "steady (set_cr f)" "steady (record_event ev)"
  by (rule steady_local, (simp add: runs set_cr_def record_event_def)+)+

lemma steady_if [steady_rules]: "(b \<Longrightarrow> steady m) \<Longrightarrow> (\<not> b \<Longrightarrow> steady n) \<Longrightarrow> steady (if b then m else n)"
  by simp

lemma steady_case_option [steady_rules]:
  "(r = None \<Longrightarrow> steady m) \<Longrightarrow> (\<And>x. r = Some x \<Longrightarrow> steady (g x)) \<Longrightarrow>
   steady (case r of None \<Rightarrow> m | Some x \<Rightarrow> g x)"
  by (cases r) auto

lemma steady_case_sum [steady_rules]:
  "(\<And>e. r = Inl e \<Longrightarrow> steady (f e)) \<Longrightarrow> (\<And>x. r = Inr x \<Longrightarrow> steady (g x)) \<Longrightarrow>
   steady (case r of Inl e \<Rightarrow> f e | Inr x \<Rightarrow> g x)"
  by (cases r) auto

lemma steady_case_prod [steady_rules]:
  "(\<And>a b. r = (a, b) \<Longrightarrow> steady (f a b)) \<Longrightarrow> steady (case r of (a, b) \<Rightarrow> f a b)"
  by (cases r) auto

lemma steady_gets [steady_rules]:
  fixes f :: "'c \<Rightarrow> ((replay, 'c) rstate, 'a) op"
  assumes "\<And>c. steady (f c)"
  shows "steady (andThen (gets cr) f)"
proof (rule steadyI)
  fix s :: "(replay, 'c) rstate"
  have same: "andThen (gets cr) f s = f (cr s) s" "andThen (gets cr) f (more_answers bs s) = f (cr s) (more_answers bs s)" for bs
    by (simp_all add: runs)
  show "steady_from (andThen (gets cr) f) s"
    using assms [of "cr s"]
  proof (cases rule: steady_cases [of "f (cr s)" s])
    case (enough new)
    then show ?thesis by (intro steady_enough [of _ _ new]) (simp_all only: same)
  next
    case (short new)
    then show ?thesis by (intro steady_short [of _ _ new]) (simp_all only: same)
  qed
qed

lemma steady_call:
  assumes "\<And>w r w'. f w = (r, w') \<Longrightarrow> answers w' = tl (answers w)"
    and "\<And>w r w' bs. answers w \<noteq> [] \<Longrightarrow> f w = (r, w') \<Longrightarrow>
      f (w\<lparr>answers := answers w @ bs\<rparr>) = (r, w'\<lparr>answers := answers w' @ bs\<rparr>)"
  shows "steady (api_call f q err)"
proof (rule steadyI)
  fix s :: "(replay, 'b) rstate"
  obtain x w' where f: "f (world s) = (x, w')" by fastforce
  then have run: "api_call f q err s = (Inr x, s\<lparr>world := w', trace := trace s @ [(q, err x)]\<rparr>)"
    by (simp add: api_call_def)
  show "steady_from (api_call f q err) s"
  proof (cases "answers (world s) = []")
    case True
    have "trace (snd (api_call f q err u)) = trace u @ [(q, err (fst (f (world u))))]" for u :: "(replay, 'b) rstate"
      by (simp add: api_call_def split: prod.split)
    then have "trace (snd (api_call f q err (more_answers bs s))) = trace s @ [(q, err (fst (f (world (more_answers bs s)))))]" for bs
      by (metis more_answers_simps(2))
    then have "\<exists>new'. trace (snd (api_call f q err (more_answers bs s))) = trace s @ new'
        \<and> take (Suc (length (answers (world s)))) (map fst new') = take (Suc (length (answers (world s)))) (map fst [(q, err x)])" for bs
      by (intro exI [of _ "[(q, err (fst (f (world (more_answers bs s)))))]"]) simp
    with True run show ?thesis by (intro steady_short [of _ _ "[(q, err x)]"]) simp_all
  next
    case False
    with assms(2) [OF False f] have "api_call f q err (more_answers bs s)
        = (Inr x, more_answers bs (s\<lparr>world := w', trace := trace s @ [(q, err x)]\<rparr>))" for bs
      by (simp add: api_call_def more_answers_def)
    with False run assms(1) [OF f] show ?thesis
      by (intro steady_enough [of _ _ "[(q, err x)]"]) (simp_all add: drop_Suc Suc_le_eq)
  qed
qed

lemma steady_andThen:
  fixes m :: "((replay, 'c) rstate, 'a) op" and f :: "'a \<Rightarrow> ((replay, 'c) rstate, 'b) op"
  assumes m: "steady m" and f: "\<And>x. steady (f x)"
  shows "steady (andThen m f)"
proof (rule steadyI)
  fix s :: "(replay, 'c) rstate"
  let ?n = "length (answers (world s))"
  obtain r t where run: "m s = (r, t)" by fastforce
  have grow: "\<exists>more. trace (snd (andThen m f u)) = trace (snd (m u)) @ more" for u
    using steady_grows [OF f] by (cases "m u"; cases "fst (m u)") (auto simp: runs)
  show "steady_from (andThen m f) s"
    using m
  proof (cases rule: steady_cases [of m s])
    case (short new)
    obtain more where "trace (snd (andThen m f s)) = trace s @ new @ more"
      using grow [of s] short(1) by auto
    then show ?thesis
    proof (rule steady_short)
      fix bs
      obtain new' where "trace (snd (m (more_answers bs s))) = trace s @ new'"
        and eq: "take (Suc ?n) (map fst new') = take (Suc ?n) (map fst new)"
        using short(3) by blast
      moreover have "Suc ?n \<le> length new'"
        using arg_cong [OF eq, of length] short(2) by simp
      moreover obtain more' where "trace (snd (andThen m f (more_answers bs s))) = trace (snd (m (more_answers bs s))) @ more'"
        using grow by blast
      ultimately show "\<exists>new'. trace (snd (andThen m f (more_answers bs s))) = trace s @ new' \<and>
          take (Suc ?n) (map fst new') = take (Suc ?n) (map fst (new @ more))"
        using short(2) by (intro exI [of _ "new' @ more'"]) simp
    qed (use short(2) in simp)
  next
    case (enough new)
    show ?thesis
    proof (cases r)
      case (Inl e)
      with enough run show ?thesis by (intro steady_enough [of _ _ new]) (simp_all add: runs)
    next
      case (Inr x)
      have after: "andThen m f s = f x t" "andThen m f (more_answers bs s) = f x (more_answers bs t)" for bs
        using run Inr enough(4) by (simp_all add: runs)
      have t: "trace t = trace s @ new" "answers (world t) = drop (length new) (answers (world s))"
        using enough run by simp_all
      show ?thesis
        using f
      proof (cases rule: steady_cases [of "f x" t])
        case (enough new2)
        with t after \<open>length new \<le> ?n\<close> show ?thesis
          by (intro steady_enough [of _ _ "new @ new2"]) (simp_all add: add.commute)
      next
        case (short new2)
        show ?thesis
        proof (rule steady_short [of _ _ "new @ new2"])
          fix bs
          obtain new' where "trace (snd (f x (more_answers bs t))) = trace t @ new'"
            "take (Suc (?n - length new)) (map fst new') = take (Suc (?n - length new)) (map fst new2)"
            using short(3) [of bs] t by auto
          then show "\<exists>new'. trace (snd (andThen m f (more_answers bs s))) = trace s @ new' \<and>
              take (Suc ?n) (map fst new') = take (Suc ?n) (map fst (new @ new2))"
            using t after \<open>length new \<le> ?n\<close> by (intro exI [of _ "new @ new'"]) (simp add: Suc_diff_le)
        qed (use short t after \<open>length new \<le> ?n\<close> in simp_all)
      qed
    qed
  qed
qed

lemma steady_for_each [steady_rules]: "(\<And>x. steady (f x)) \<Longrightarrow> steady (for_each f xs)"
  by (induction xs) (simp_all add: steady_basic steady_andThen)

lemma given_append: "as \<noteq> [] \<Longrightarrow> given (as @ bs) k x = given as k x"
  by (cases "(as, k, x)" rule: given.cases) auto

lemma steady_replay_call: "steady (api_call (replay_call k x) q err)"
  by (intro steady_call) (auto simp: replay_call_def given_append)

lemma steady_replay_delete: "steady (api_call (\<lambda>w. apfst fst (replay_call k x w)) q err)"
  by (intro steady_call) (auto simp: replay_call_def given_append)

lemma steady_client [steady_rules]:
  "steady (client_Get replay_client nn x)"
  "steady (api_call (api_Create replay_client x) q err)"
  "steady (api_call (api_Update replay_client x) q err)"
  "steady (api_call (api_StatusUpdate replay_client x) q err)"
  "steady (client_Delete replay_client x)"
  by (simp_all add: client_Get_def client_Delete_def replay_client_def steady_replay_call steady_replay_delete)

lemma steady_draw_uuid [steady_rules]: "steady (draw_uuid replay_uuid)"
proof (rule steadyI)
  fix s :: "(replay, 'a) rstate"
  show "steady_from (draw_uuid replay_uuid) s"
    by (intro steady_enough [of _ _ "[]"])
      (auto simp: draw_uuid_def GetUUID_def replay_uuid_def more_answers_def split: list.split prod.split)
qed

section \<open>The reconciles\<close>

lemma steady_finalizer [steady_rules]:
  "steady (HandleFinalizer L replay_client)"
  "steady (GreatSqlFinalizer_AddFinalizer L replay_client)"
  "steady (GreatSqlFinalizer_RemoveFinalizer L replay_client)"
  unfolding HandleFinalizer_def finalizePersistentVolumeClaims_def finalizeDeployment_def finalizeService_def
    finalizeConfigMap_def delete_if_found_def GreatSqlFinalizer_RemoveFinalizer_def GreatSqlFinalizer_AddFinalizer_def
    update_single_def store_single_def Let_def
  by (intro steady_rules steady_andThen)+

lemma steady_creations [steady_rules]:
  "steady (Single_createConfigMap replay_client req)"
  "steady (Single_createPersistentVolumeClaim L replay_client req)"
  "steady (Single_createDeployment L replay_client req)"
  "steady (Single_createService L replay_client req)"
  unfolding Single_createConfigMap_def Single_createPersistentVolumeClaim_def Single_createDeployment_def
    Single_createService_def Single_updateStatus_def update_single_status_def store_single_def
    client_Create_def check_err_def Let_def
  by (intro steady_rules steady_andThen)+

lemma steady_updateResource [steady_rules]: "steady (Single_updateResource L replay_client nn x)"
  unfolding Single_updateResource_def client_Update_def check_err_def errorf_check_def Let_def
  by (intro steady_rules steady_andThen)

lemma steady_Single_Reconcile: "steady (Single_Reconcile L replay_client req)"
  unfolding Single_Reconcile_def Single_getSingleInstance_def get_single_def Single_handleFinalizer_def
    Single_validateAndAddFinalizer_def Single_validateSpec_def Single_createResources_def Single_watchResource_def
    Single_updateSpecAnnotation_def Single_updateDeployment_def Single_updateService_def Single_updateConfigMap_def
    update_single_def store_single_def return_err_def Let_def
  by (intro steady_rules steady_andThen)

lemma steady_Cluster_Reconcile: "steady (Cluster_Reconcile L replay_uuid replay_client req)"
  unfolding Cluster_Reconcile_def Cluster_createResources_def get_cluster_def return_err_def Cluster_createSecret_def
    Cluster_createConfigMap_def Cluster_createPersistentVolumeClaim_def Cluster_createStatefulSet_def
    Cluster_createService_def create_def client_Create_def check_err_def Let_def
  by (intro steady_rules steady_andThen)

section \<open>Processes\<close>

lemma steady_requests:
  assumes "steady m" and "trace s = []" and "answers (world s) = as"
  shows "take (Suc (length as)) (map fst (trace (snd (m (more_answers bs s)))))
    = take (Suc (length as)) (map fst (trace (snd (m s))))"
  using assms(1)
proof (cases rule: steady_cases [of m s])
  case (enough new)
  then show ?thesis by simp
next
  case (short new)
  with assms(2,3) show ?thesis by (metis append_Nil)
qed

lemma requests_steady:
  "take (Suc (length as)) (requests_of L j (as @ bs)) = take (Suc (length as)) (requests_of L j as)"
proof -
  have more: "more_answers bs (replay_start as us c) = replay_start (as @ bs) us c" for us and c :: 'c
    by (simp add: more_answers_def replay_start_def)
  have start: "trace (replay_start as us c) = []" "answers (world (replay_start as us c)) = as" for us and c :: 'c
    by (simp_all add: replay_start_def)
  show ?thesis
  proof (cases j)
    case (SingleJob req)
    with steady_requests [OF steady_Single_Reconcile start, where bs = bs] show ?thesis
      by (simp only: requests_of_simps more)
  next
    case (ClusterJob req us)
    with steady_requests [OF steady_Cluster_Reconcile start, where bs = bs] show ?thesis
      by (simp only: requests_of_simps more)
  qed
qed

text \<open>What a process has asked before, it would ask again: its requests are those of one execution.\<close>

lemma next_request_steady:
  assumes "k < length as"
  shows "next_request L j (take k as) = Some q \<longleftrightarrow> k < length (requests_of L j as) \<and> requests_of L j as ! k = q"
proof -
  let ?old = "requests_of L j (take k as)" and ?all = "requests_of L j as"
  have eq: "take (Suc k) ?all = take (Suc k) ?old"
    using requests_steady [of "take k as" L j "drop k as"] assms by (simp del: requests_of_simps)
  have "k < length ?all \<longleftrightarrow> k < length ?old" using arg_cong [OF eq, of length] by (auto simp del: requests_of_simps)
  moreover have "?all ! k = ?old ! k" using arg_cong [OF eq, of "\<lambda>xs. xs ! k"] by (simp del: requests_of_simps)
  ultimately show ?thesis using assms by (auto simp: next_request_def Let_def simp del: requests_of_simps)
qed

end
