(* ===== verification/Requests.thy ===== *)
theory Requests
  imports System Steady
begin

text \<open>
  How many requests a reconcile can issue: the loops of the operator are over lists fixed by the
  object it reads first, so every reconcile ends after a bounded number of requests, also as a
  process that others interrupt and a cache misleads.
\<close>

text \<open>\<open>at_most f m\<close>: started with the custom resource \<open>c\<close>, \<open>m\<close> issues at most \<open>f c\<close> requests.\<close>

definition at_most :: "('c \<Rightarrow> nat) \<Rightarrow> (('w, 'c) rstate, 'a) op \<Rightarrow> bool" where
  "at_most f m \<longleftrightarrow> (\<forall>s. length (trace (snd (m s))) \<le> length (trace s) + f (cr s))"

named_theorems at_most_rules "how many requests an operation issues"

lemma at_mostD: "at_most f m \<Longrightarrow> length (trace (snd (m s))) \<le> length (trace s) + f (cr s)"
  by (simp add: at_most_def)

lemma at_most_weaken: "at_most f m \<Longrightarrow> (\<And>c. f c \<le> g c) \<Longrightarrow> at_most g m"
  unfolding at_most_def by (meson add_le_cancel_left order_trans)

lemma at_most_gets [at_most_rules]:
  "(\<And>c. at_most (h c) (f c)) \<Longrightarrow> at_most (\<lambda>c. h c c) (andThen (gets cr) f)"
  by (simp add: at_most_def op_defs)

lemma at_most_andThen:
  assumes "at_most f m" and "\<And>x. at_most (\<lambda>_. k) (g x)"
  shows "at_most (\<lambda>c. f c + k) (andThen m g)"
  unfolding at_most_def
proof
  fix s
  obtain r t where m: "m s = (r, t)" by fastforce
  with at_mostD [OF assms(1), of s] have le: "length (trace t) \<le> length (trace s) + f (cr s)" by simp
  show "length (trace (snd (andThen m g s))) \<le> length (trace s) + (f (cr s) + k)"
  proof (cases r)
    case (Inr x)
    with m le at_mostD [OF assms(2), of x t] show ?thesis by (simp add: run_andThen)
  qed (use m le in \<open>simp add: run_andThen\<close>)
qed

lemma at_most_basic [at_most_rules]:
  "at_most (\<lambda>_. 0) (ret x)" "at_most (\<lambda>_. 0) (throw e)" "at_most (\<lambda>_. 0) (pure r)"
  "at_most (\<lambda>_. 0) (gets g)" "at_most (\<lambda>_. 0) (set_cr f)" "at_most (\<lambda>_. 0) (record_event ev)"
  by (simp_all add: at_most_def op_defs set_cr_def record_event_def split: sum.split)

lemma at_most_api_call [at_most_rules]: "at_most (\<lambda>_. 1) (api_call f req err)"
  by (auto simp: at_most_def api_call_def split: prod.split)

lemma at_most_if [at_most_rules]:
  "at_most f m \<Longrightarrow> at_most g n \<Longrightarrow> at_most (\<lambda>c. max (f c) (g c)) (if b then m else n)"
  by (auto intro: at_most_weaken)

lemma at_most_case_option [at_most_rules]:
  "at_most f m \<Longrightarrow> (\<And>x. at_most g (n x)) \<Longrightarrow>
   at_most (\<lambda>c. max (f c) (g c)) (case r of None \<Rightarrow> m | Some x \<Rightarrow> n x)"
  by (cases r; simp; rule at_most_weaken, blast, simp)

lemma at_most_case_sum [at_most_rules]:
  "(\<And>e. at_most f (m e)) \<Longrightarrow> (\<And>x. at_most g (n x)) \<Longrightarrow>
   at_most (\<lambda>c. max (f c) (g c)) (case r of Inl e \<Rightarrow> m e | Inr x \<Rightarrow> n x)"
  by (cases r; simp; rule at_most_weaken, blast, simp)

lemma at_most_case_prod [at_most_rules]:
  "(\<And>a b. at_most f (m a b)) \<Longrightarrow> at_most f (case r of (a, b) \<Rightarrow> m a b)"
  by (cases r) simp

lemma at_most_for_each:
  "(\<And>x. at_most (\<lambda>_. k) (f x)) \<Longrightarrow> at_most (\<lambda>_. length xs * k) (for_each f xs)"
proof (induction xs)
  case (Cons x xs)
  then show ?case
    by (auto intro!: at_most_weaken [OF at_most_andThen])
qed (simp add: at_most_basic)

lemma at_most_client [at_most_rules]:
  "at_most (\<lambda>_. 1) (client_Get cl nn x)"
  "at_most (\<lambda>_. 1) (client_Create cl x)"
  "at_most (\<lambda>_. 1) (client_Update cl x)"
  "at_most (\<lambda>_. 1) (update_single cl)"
  "at_most (\<lambda>_. 1) (update_single_status cl)"
  "at_most (\<lambda>_. 1) (delete_if_found L cl x)"
  unfolding client_Get_def client_Create_def client_Update_def update_single_def update_single_status_def
    store_single_def check_err_def delete_if_found_def client_Delete_def
  subgoal by (rule at_most_weaken, (rule at_most_rules at_most_andThen)+, simp)
  by (rule at_most_weaken, (rule at_most_rules at_most_andThen)+, simp)+

lemma at_most_cleanup [at_most_rules]:
  "at_most (\<lambda>c. nat (sint (GetSize (Spec c)))) (finalizePersistentVolumeClaims L cl)"
  "at_most (\<lambda>_. 1) (finalizeDeployment L cl)"
  "at_most (\<lambda>_. 1) (finalizeService L cl)"
  "at_most (\<lambda>_. 1) (finalizeConfigMap L cl)"
  unfolding finalizePersistentVolumeClaims_def finalizeDeployment_def finalizeService_def finalizeConfigMap_def
  by (rule at_most_weaken, (rule at_most_rules at_most_for_each)+, simp)+

lemma at_most_finalizer [at_most_rules]:
  "at_most (\<lambda>c. nat (sint (GetSize (Spec c))) + 4) (HandleFinalizer L cl)"
  "at_most (\<lambda>_. 1) (GreatSqlFinalizer_AddFinalizer L cl)"
  "at_most (\<lambda>_. 1) (GreatSqlFinalizer_RemoveFinalizer L cl)"
  unfolding HandleFinalizer_def GreatSqlFinalizer_AddFinalizer_def GreatSqlFinalizer_RemoveFinalizer_def
  by (rule at_most_weaken, (rule at_most_rules at_most_andThen)+, simp)+

lemma at_most_create [at_most_rules]:
  "at_most (\<lambda>_. 1) (Single_createConfigMap cl req)"
  "at_most (\<lambda>_. 1) (Single_createPersistentVolumeClaim L cl req)"
  "at_most (\<lambda>_. 1) (Single_createDeployment L cl req)"
  "at_most (\<lambda>_. 2) (Single_createService L cl req)"
  unfolding Single_createConfigMap_def Single_createPersistentVolumeClaim_def Single_createDeployment_def
    Single_createService_def Single_updateStatus_def Let_def
  by (rule at_most_weaken, (rule at_most_rules at_most_andThen)+, simp)+

lemma at_most_update [at_most_rules]: "at_most (\<lambda>_. 3) (Single_updateResource L cl nn x)"
  unfolding Single_updateResource_def errorf_check_def Let_def
  by (rule at_most_weaken, (rule at_most_rules at_most_andThen)+, simp)

lemma at_most_validate [at_most_rules]: "at_most (\<lambda>_. 0) (Single_validateSpec L spec)"
  unfolding Single_validateSpec_def
  by (rule at_most_weaken, (rule at_most_rules at_most_andThen)+, simp)

lemma at_most_phases [at_most_rules]:
  "at_most (\<lambda>_. 6) (Single_createResources L cl req)"
  "at_most (\<lambda>_. 10) (Single_watchResource L cl req)"
  "at_most (\<lambda>_. 1) (Single_validateAndAddFinalizer L cl)"
  unfolding Single_createResources_def Single_watchResource_def Single_updateSpecAnnotation_def
    Single_updateDeployment_def Single_updateService_def Single_updateConfigMap_def
    Single_validateAndAddFinalizer_def
  by (rule at_most_weaken, (rule at_most_rules at_most_andThen)+, simp)+

definition finalizer_requests :: "single_instance \<Rightarrow> nat" where
  "finalizer_requests c =
     (if DeletionTimestamp (si_Meta c) = None then 0 else nat (sint (GetSize (Spec c))) + 6)"

lemma at_most_handleFinalizer [at_most_rules]: "at_most finalizer_requests (Single_handleFinalizer L cl)"
proof -
  have "at_most (\<lambda>g. nat (sint (GetSize (Spec g))) + 6) (andThen (HandleFinalizer L cl)
      (\<lambda>_. andThen (GreatSqlFinalizer_RemoveFinalizer L cl) (\<lambda>_. update_single cl)))"
    by (rule at_most_weaken, (rule at_most_rules at_most_andThen)+, simp)
  then show ?thesis
    by (auto simp: at_most_def Single_handleFinalizer_def finalizer_requests_def op_defs)
qed

lemma at_most_rest:
  "at_most (\<lambda>c. finalizer_requests c + 17) (andThen (Single_handleFinalizer L cl) (\<lambda>_.
     andThen (Single_validateAndAddFinalizer L cl) (\<lambda>_.
     andThen (Single_createResources L cl req) (\<lambda>_. Single_watchResource L cl req))))"
  by (rule at_most_weaken, (rule at_most_rules at_most_andThen)+, simp)

section \<open>A cluster\<close>

definition member_count :: "group_replication_cluster \<Rightarrow> nat" where
  "member_count c = (case Member (grc_Spec c) of [] \<Rightarrow> 0 | m0 # _ \<Rightarrow> nat (sint (Member_GetSize m0)))"

lemma at_most_pure: "(\<And>x. r = Inr x \<Longrightarrow> at_most f (g x)) \<Longrightarrow> at_most f (andThen (pure r) g)"
  by (cases r) (auto simp: at_most_def op_defs)

text \<open>An operation that keeps the custom resource, before one whose bound depends on it.\<close>

lemma at_most_keeping:
  assumes "at_most (\<lambda>_. k) m" and "\<And>s. cr (snd (m s)) = cr s" and "\<And>x. at_most f (g x)"
  shows "at_most (\<lambda>c. k + f c) (andThen m g)"
  unfolding at_most_def
proof
  fix s
  obtain r t where m: "m s = (r, t)" by fastforce
  then have le: "length (trace t) \<le> length (trace s) + k" "cr t = cr s"
    using at_mostD [OF assms(1), of s] assms(2) [of s] by simp_all
  show "length (trace (snd (andThen m g s))) \<le> length (trace s) + (k + f (cr s))"
  proof (cases r)
    case (Inr x)
    with m le at_mostD [OF assms(3), of x t] show ?thesis by (simp add: run_andThen)
  qed (use m le in \<open>simp add: run_andThen\<close>)
qed

lemma at_most_create_object [at_most_rules]: "at_most (\<lambda>_. 1) (create cl x)"
  unfolding create_def by (rule at_most_weaken, (rule at_most_rules at_most_andThen)+, simp)

lemma at_most_draw_uuid [at_most_rules]: "at_most (\<lambda>_. 0) (draw_uuid uuid_New)"
  by (simp add: at_most_def draw_uuid_def split: prod.split)

lemma at_most_cluster_create [at_most_rules]:
  "at_most (\<lambda>_. 1) (Cluster_createSecret L cl req)"
  "at_most (\<lambda>_. 1) (Cluster_createPersistentVolumeClaim L cl req n)"
  "at_most (\<lambda>_. 1) (Cluster_createStatefulSet L cl req n)"
  "at_most (\<lambda>_. 1) (Cluster_createService L cl req)"
  unfolding Cluster_createSecret_def Cluster_createPersistentVolumeClaim_def Cluster_createStatefulSet_def
    Cluster_createService_def
  by (rule at_most_weaken, (rule at_most_rules at_most_andThen)+, simp)+

lemma at_most_createConfigMap [at_most_rules]:
  "at_most (\<lambda>_. 2) (Cluster_createConfigMap L uuid_New cl req n)"
  unfolding Cluster_createConfigMap_def Let_def
  by (rule at_most_weaken, (rule at_most_rules at_most_andThen)+, simp)

lemma createSecret_keeps: "cr (snd (Cluster_createSecret L cl req s)) = cr s"
  by (simp add: Cluster_createSecret_def create_def client_Create_def check_err_def api_call_def op_defs
      split: prod.split sum.split option.split)

lemma at_most_Cluster_createResources:
  "at_most (\<lambda>c. member_count c * 4 + 2) (Cluster_createResources L uuid_New cl req)"
proof -
  have member: "at_most (\<lambda>_. 4) (andThen (Cluster_createConfigMap L uuid_New cl req n) (\<lambda>_.
      andThen (Cluster_createPersistentVolumeClaim L cl req n) (\<lambda>_. Cluster_createStatefulSet L cl req n)))" for n
    by (rule at_most_weaken, (rule at_most_rules at_most_andThen)+, simp)
  let ?loop = "\<lambda>m0. for_each (\<lambda>n. andThen (Cluster_createConfigMap L uuid_New cl req n) (\<lambda>_.
      andThen (Cluster_createPersistentVolumeClaim L cl req n) (\<lambda>_. Cluster_createStatefulSet L cl req n)))
      [1..<Suc (nat (sint (Member_GetSize m0)))]"
  have members: "at_most (\<lambda>_. member_count c * 4 + 1) (andThen (pure (index0 (Member (grc_Spec c)))) (\<lambda>m0.
      andThen (?loop m0) (\<lambda>_. Cluster_createService L cl req)))" for c
  proof (rule at_most_pure)
    fix m0
    assume "index0 (Member (grc_Spec c)) = Inr m0"
    then have "member_count c = nat (sint (Member_GetSize m0))" by (auto simp: member_count_def)
    moreover have "at_most (\<lambda>_. length [1..<Suc (nat (sint (Member_GetSize m0)))] * 4 + 1)
        (andThen (?loop m0) (\<lambda>_. Cluster_createService L cl req))"
      by (intro at_most_andThen at_most_for_each member at_most_cluster_create)
    ultimately show "at_most (\<lambda>_. member_count c * 4 + 1) (andThen (?loop m0) (\<lambda>_. Cluster_createService L cl req))"
      by (simp del: upt_Suc)
  qed
  have "at_most (\<lambda>c. 1 + (member_count c * 4 + 1)) (Cluster_createResources L uuid_New cl req)"
    unfolding Cluster_createResources_def
    by (rule at_most_keeping [OF at_most_cluster_create(1) createSecret_keeps
        at_most_gets [where h = "\<lambda>c _. member_count c * 4 + 1", OF members]])
  then show ?thesis by (rule at_most_weaken) simp
qed

section \<open>Processes\<close>

text \<open>How many requests a process can issue, by the object it reads first.\<close>

fun request_bound :: "job \<Rightarrow> answer list \<Rightarrow> nat" where
  "request_bound (SingleJob req) (Done (OSingle c) # as) = 18 + finalizer_requests c"
| "request_bound (ClusterJob req us) (Done (OCluster c) # as) = 4 + 4 * member_count c"
| "request_bound j as = 1"

lemma single_requests_bounded:
  assumes "k8s_library L"
  shows "length (requests_of L (SingleJob req) as) \<le> request_bound (SingleJob req) as"
proof -
  let ?s = "replay_start as [] zero_single_instance"
  obtain e y where g: "given as (KSingle, req) (OSingle zero_single_instance) = (e, y)" by fastforce
  then have get: "api_Get replay_client req (OSingle zero_single_instance) (world ?s)
      = ((e, y), (world ?s)\<lparr>answers := tl as\<rparr>)"
    by (simp add: replay_client_def replay_call_def replay_start_def)
  show ?thesis
  proof (cases e)
    case None
    then obtain c where c: "y = OSingle c" "as = Done (OSingle c) # tl as"
      using g by (cases "(as, (KSingle, req), OSingle zero_single_instance)" rule: given.cases; cases y)
        (auto simp: obj_key_def split: if_splits)
    have "length (requests_of L (SingleJob req) as) \<le> 18 + finalizer_requests c"
      using reconcile_from_get [OF assms get] None c(1) at_mostD [OF at_most_rest [of L replay_client req],
        of "?s\<lparr>cr := c, world := (world ?s)\<lparr>answers := tl as\<rparr>, trace := trace ?s @ [(ReqGet KSingle req, e)]\<rparr>"]
      by (simp add: Let_def replay_start_def)
    then show ?thesis using c(2) by (metis request_bound.simps(1))
  next
    case (Some err)
    with g have "y = OSingle zero_single_instance"
      using given_key(1) by fastforce
    with reconcile_from_get [OF assms get] Some have "length (requests_of L (SingleJob req) as) = 1"
      by (simp add: Let_def replay_start_def)
    then show ?thesis by (cases "(SingleJob req, as)" rule: request_bound.cases) auto
  qed
qed

lemma at_most_after_cluster:
  "at_most (\<lambda>c. 3 + 4 * member_count c) (andThen (client_Get cl req (OStatefulSet zero_statefulset)) (\<lambda>(err, _).
     if err \<noteq> None then Cluster_createResources L uuid_New cl req else ret ()))"
proof -
  have "at_most (\<lambda>c. 1 + (member_count c * 4 + 2)) (andThen (client_Get cl req (OStatefulSet zero_statefulset)) (\<lambda>(err, _).
     if err \<noteq> None then Cluster_createResources L uuid_New cl req else ret ()))"
  proof (rule at_most_keeping [OF at_most_client(1)])
    show "cr (snd (client_Get cl req (OStatefulSet zero_statefulset) s)) = cr s" for s
      by (simp add: client_Get_def api_call_def split: prod.split)
    show "at_most (\<lambda>c. member_count c * 4 + 2) ((\<lambda>(err, _).
        if err \<noteq> None then Cluster_createResources L uuid_New cl req else ret ()) x)" for x
      using at_most_Cluster_createResources [of L uuid_New cl req]
      by (cases x) (auto intro: at_most_weaken [OF at_most_basic(1)])
  qed
  then show ?thesis by (rule at_most_weaken) simp
qed

lemma cluster_requests_bounded:
  "length (requests_of L (ClusterJob req us) as) \<le> request_bound (ClusterJob req us) as"
proof -
  let ?s = "replay_start as us zero_group_replication_cluster"
  obtain e y where g: "given as (KCluster, req) (OCluster zero_group_replication_cluster) = (e, y)" by fastforce
  let ?t = "?s\<lparr>cr := as_cluster y zero_group_replication_cluster, world := (world ?s)\<lparr>answers := tl as\<rparr>,
      trace := [(ReqGet KCluster req, e)]\<rparr>"
  have run: "get_cluster replay_client req (?s\<lparr>cr := zero_group_replication_cluster\<rparr>) = (Inr e, ?t)"
    using g by (simp add: get_cluster_def client_Get_def api_call_def replay_client_def replay_call_def
        replay_start_def set_cr_def op_defs)
  show ?thesis
  proof (cases e)
    case None
    then obtain c where c: "y = OCluster c" "as = Done (OCluster c) # tl as"
      using g by (cases "(as, (KCluster, req), OCluster zero_group_replication_cluster)" rule: given.cases; cases y)
        (auto simp: obj_key_def split: if_splits)
    have "length (requests_of L (ClusterJob req us) as) \<le> 4 + 4 * member_count c"
      using run None c(1) at_mostD [OF at_most_after_cluster [of replay_client req L replay_uuid], of ?t]
      by (simp add: Cluster_Reconcile_def set_cr_def runs)
    then show ?thesis using c(2) by (metis request_bound.simps(2))
  next
    case (Some err)
    with run have "length (requests_of L (ClusterJob req us) as) = 1"
      by (auto simp: Cluster_Reconcile_def set_cr_def return_err_def runs split: option.split)
    then show ?thesis by (cases "(ClusterJob req us, as)" rule: request_bound.cases) auto
  qed
qed

lemma requests_bounded: "k8s_library L \<Longrightarrow> length (requests_of L j as) \<le> request_bound j as"
  using single_requests_bounded cluster_requests_bounded by (cases j) blast+

text \<open>Every answer a process has received was to the request it asked next.\<close>

definition answered :: "k8s_lib \<Rightarrow> 'w system \<Rightarrow> bool" where
  "answered L s \<longleftrightarrow> (\<forall>(j, as) \<in> set (procs s). \<forall>k < length as. next_request L j (take k as) \<noteq> None)"

lemma answered_answer:
  assumes "answered L s" and "i < length (procs s)" and "procs s ! i = (j, as)" and "next_request L j as = Some q"
  shows "answered L (s\<lparr>server := w, procs := (procs s)[i := (j, as @ [a])]\<rparr>)"
    "answered L (s\<lparr>procs := (procs s)[i := (j, as @ [a])]\<rparr>)"
proof -
  have "\<forall>k < length as. next_request L j (take k as) \<noteq> None"
    using assms(1) nth_mem [OF assms(2)] assms(3) by (auto simp: answered_def)
  with assms(4) have "next_request L j (take k (as @ [a])) \<noteq> None" if "k < length (as @ [a])" for k
    using that by (cases "k = length as") auto
  with assms(1) show "answered L (s\<lparr>server := w, procs := (procs s)[i := (j, as @ [a])]\<rparr>)"
    "answered L (s\<lparr>procs := (procs s)[i := (j, as @ [a])]\<rparr>)"
    unfolding answered_def by (auto dest!: set_update_subset_insert [THEN subsetD])
qed

lemma run_answered:
  assumes "run_of L cl s xs t" and "answered L s"
  shows "answered L t"
  using assms
proof induction
  case (move s x t xs u)
  from move(1) have "answered L t"
  proof cases
    case (spawn j)
    with move(4) show ?thesis by (auto simp: answered_def)
  next
    case (act i j as q a w')
    with answered_answer(1) [OF move(4) act(3-5)] show ?thesis by simp
  next
    case (cached i j as q a)
    with answered_answer(2) [OF move(4) cached(3-5)] show ?thesis by simp
  next
    case (user q a w')
    with move(4) show ?thesis by (simp add: answered_def)
  qed
  with move(3) show ?case by blast
qed simp

text \<open>
  C7. In every run, on any server whatever and with any cached reads, every process is one execution
  of its reconcile and returns: the requests it has issued are, one by one, those its reconcile
  issues when it is given all the answers received so far; it can take its next step until it has
  returned; and it issues at most 18 requests as the process of an instance, 24 plus the instance's
  size if it has read the instance as deleted, and at most 4 plus 4 times the size of the cluster as
  the process of a cluster.
\<close>

theorem processes_return:
  assumes "run_of L cl s as t" and "k8s_library L" and "procs s = []"
    and "i < length (procs t)" and "procs t ! i = (j, bs)"
  shows "(\<forall>k < length bs. next_request L j (take k bs) = Some (requests_of L j bs ! k))
    \<and> length bs \<le> length (requests_of L j bs) \<and> length (requests_of L j bs) \<le> request_bound j bs
    \<and> (next_request L j bs = None \<or> (\<exists>u. step L cl t (Act i) u))"
proof -
  have "answered L t" by (rule run_answered [OF assms(1)]) (simp add: answered_def assms(3))
  then have asked: "\<forall>k < length bs. next_request L j (take k bs) \<noteq> None"
    using nth_mem [OF assms(4)] assms(5) by (auto simp: answered_def)
  then have "\<forall>k < length bs. k < length (requests_of L j bs) \<and> next_request L j (take k bs) = Some (requests_of L j bs ! k)"
    using next_request_steady [of _ bs L j] by fastforce
  moreover from this have "length bs \<le> length (requests_of L j bs)" using not_le by blast
  moreover have "\<exists>u. step L cl t (Act i) u" if "next_request L j bs = Some q" for q
    using step.act [OF assms(4,5) that] by (metis surj_pair)
  ultimately show ?thesis
    using requests_bounded [OF assms(2), of j bs] by (cases "next_request L j bs") simp_all
qed

theorem processes_return_witness:
  "\<exists>n t j bs. run_of doc_lib (mem_client (\<lambda>_. None)) (fresh_system sample_server)
      (Spawn (SingleJob sample_name) # replicate n (Act 0)) t
    \<and> procs t ! 0 = (j, bs) \<and> length bs \<le> length (requests_of doc_lib j bs)
    \<and> length (requests_of doc_lib j bs) \<le> request_bound j bs"
proof -
  obtain n t where r: "run_of doc_lib (mem_client (\<lambda>_. None)) (fresh_system sample_server)
      (Spawn (SingleJob sample_name) # replicate n (Act 0)) t" "length (procs t) = Suc 0"
    using first_run by blast
  obtain j bs where p: "procs t ! 0 = (j, bs)" by fastforce
  from processes_return [OF r(1) doc.k8s_library_axioms _ _ p] r p show ?thesis
    by (auto simp: fresh_system_def simp del: requests_of_simps)
qed

end
