(* ===== verification/Memory.thy ===== *)
theory Memory
  imports Prelude "HOL-Library.AList" "HOL-Library.Multiset"
begin

text \<open>
  A memory model of Go values, for the code whose meaning is which memory two objects share:
  the generated deep copies. Memory is a list of cells (allocation appends one, nothing is
  ever freed), a location is a cell and a path into the struct or array it holds, and
  pointers, slices and maps refer to cells. On it stand the statements the generated code is
  made of, and the content and the footprint of a value of a given Go type.
\<close>

section \<open>Values and memory\<close>

datatype sel = Fld string | Idx nat

type_synonym loc = "nat \<times> sel list"

datatype gval =
    GNil
  | GInt int
  | GBool bool
  | GStr string
  | GPtr loc
  | GSlice nat nat nat \<comment> \<open>backing array, offset, length\<close>
  | GMap nat
  | GStruct "(string \<times> gval) list"
  | GArr "gval list" \<comment> \<open>a cell that backs slices\<close>
  | GDict "(string \<times> string) list" \<comment> \<open>a cell that holds the entries of a \<open>map[string]string\<close>\<close>

type_synonym heap = "gval list"

fun get_path :: "sel list \<Rightarrow> gval \<Rightarrow> gval option" where
  "get_path [] v = Some v"
| "get_path (Fld F # p) (GStruct fs) = Option.bind (map_of fs F) (get_path p)"
| "get_path (Idx i # p) (GArr vs) = (if i < length vs then get_path p (vs ! i) else None)"
| "get_path _ _ = None"

fun set_path :: "sel list \<Rightarrow> gval \<Rightarrow> gval \<Rightarrow> gval" where
  "set_path [] w v = w"
| "set_path (Fld F # p) w (GStruct fs) =
     (case map_of fs F of None \<Rightarrow> GStruct fs | Some v \<Rightarrow> GStruct (AList.update F (set_path p w v) fs))"
| "set_path (Idx i # p) w (GArr vs) = GArr (vs[i := set_path p w (vs ! i)])"
| "set_path _ w v = v"

definition load :: "heap \<Rightarrow> loc \<Rightarrow> gval option" where
  "load h l = (if fst l < length h then get_path (snd l) (h ! fst l) else None)"

definition store :: "loc \<Rightarrow> gval \<Rightarrow> heap \<Rightarrow> heap" where
  "store l w h = h[fst l := set_path (snd l) w (h ! fst l)]"

lemma get_path_append: "get_path (p @ q) v = Option.bind (get_path p v) (get_path q)"
proof (induction p v rule: get_path.induct)
  case (2 F p fs)
  then show ?case by (cases "map_of fs F") auto
qed auto

lemma get_set_path [simp]: "get_path p v \<noteq> None \<Longrightarrow> get_path p (set_path p w v) = Some w"
  by (induction p v rule: get_path.induct) (auto simp: update_conv' split: option.splits bind_splits if_splits)

lemma set_set_path [simp]:
  "get_path p v \<noteq> None \<Longrightarrow> set_path p w (set_path p w' v) = set_path p w v"
  by (induction p v rule: get_path.induct) (auto simp: update_conv' split: option.splits bind_splits if_splits)

lemma set_path_append:
  "get_path p v = Some u \<Longrightarrow> set_path (p @ q) w v = set_path p (set_path q w u) v"
  by (induction p v rule: get_path.induct) (auto split: option.splits bind_splits if_splits)

lemma length_store [simp]: "length (store l w h) = length h"
  by (simp add: store_def)

lemma store_other [simp]: "a \<noteq> fst l \<Longrightarrow> store l w h ! a = h ! a"
  by (simp add: store_def)

lemma store_here [simp]:
  "fst l < length h \<Longrightarrow> store l w h ! fst l = set_path (snd l) w (h ! fst l)"
  by (simp add: store_def)

lemma load_SomeD: "load h l = Some v \<Longrightarrow> fst l < length h \<and> get_path (snd l) (h ! fst l) = Some v"
  by (simp add: load_def split: if_splits)

section \<open>The statements of the generated code\<close>

type_synonym copier = "loc \<Rightarrow> loc \<Rightarrow> (heap, unit) op"

definition read_at :: "loc \<Rightarrow> (heap, gval) op" where
  "read_at l = (\<lambda>h. case load h l of
     None \<Rightarrow> (Inl (Panicked NilDereference), h) | Some v \<Rightarrow> (Inr v, h))"

definition write_at :: "loc \<Rightarrow> gval \<Rightarrow> (heap, unit) op" where
  "write_at l w = (\<lambda>h. case load h l of
     None \<Rightarrow> (Inl (Panicked NilDereference), h) | Some v \<Rightarrow> (Inr (), store l w h))"

definition new :: "gval \<Rightarrow> (heap, nat) op" where
  "new v = (\<lambda>h. (Inr (length h), h @ [v]))"

text \<open>\<open>&l.F\<close>, \<open>*l\<close> for a location that holds a pointer, \<open>&l[i]\<close> for one that holds a slice\<close>

definition field_of :: "loc \<Rightarrow> string \<Rightarrow> loc" where
  "field_of l F = (fst l, snd l @ [Fld F])"

definition pointee :: "loc \<Rightarrow> (heap, loc) op" where
  "pointee l = andThen (read_at l) (\<lambda>v. case v of
     GPtr m \<Rightarrow> ret m | _ \<Rightarrow> throw (Panicked NilDereference))"

definition element :: "loc \<Rightarrow> nat \<Rightarrow> (heap, loc) op" where
  "element l i = andThen (read_at l) (\<lambda>v. case v of
     GSlice a off n \<Rightarrow> if i < n then ret (a, [Idx (off + i)]) else throw (Panicked IndexOutOfRange)
   | _ \<Rightarrow> throw (Panicked IndexOutOfRange))"

definition slice_len :: "loc \<Rightarrow> (heap, nat) op" where
  "slice_len l = andThen (read_at l) (\<lambda>v. ret (case v of GSlice a off n \<Rightarrow> n | _ \<Rightarrow> 0))"

text \<open>\<open>*out = *in\<close>\<close>

definition assign :: copier where
  "assign src dst = andThen (read_at src) (write_at dst)"

text \<open>\<open>if *in != nil { ... }\<close>\<close>

definition non_nil :: "copier \<Rightarrow> copier" where
  "non_nil c src dst = andThen (read_at src) (\<lambda>v. if v = GNil then ret () else c src dst)"

text \<open>\<open>*out = new(T); (*in).DeepCopyInto(*out)\<close>, or \<open>**out = **in\<close> with \<open>assign\<close>\<close>

definition new_into :: "gval \<Rightarrow> copier \<Rightarrow> copier" where
  "new_into zero c src dst =
     andThen (new zero) (\<lambda>a.
     andThen (write_at dst (GPtr (a, []))) (\<lambda>_.
     andThen (pointee src) (\<lambda>s.
     andThen (pointee dst) (c s))))"

text \<open>
  \<open>*out = make([]T, len(*in)); for i := range *in { (*in)[i].DeepCopyInto(&(*out)[i]) }\<close>, or
  \<open>copy(*out, *in)\<close>, which assigns element by element, with \<open>assign\<close>
\<close>

definition make_each :: "gval \<Rightarrow> copier \<Rightarrow> copier" where
  "make_each zero c src dst =
     andThen (slice_len src) (\<lambda>n.
     andThen (new (GArr (replicate n zero))) (\<lambda>a.
     andThen (write_at dst (GSlice a 0 n)) (\<lambda>_.
     for_each (\<lambda>i. andThen (element src i) (\<lambda>s. andThen (element dst i) (c s))) [0..<n])))"

text \<open>
  \<open>*out = make(map[string]string); for key, val := range *in { (*out)[key] = val }\<close>: the order
  \<open>rng\<close> in which a map is ranged over is unspecified
\<close>

type_synonym range_order = "(string \<times> string) list \<Rightarrow> (string \<times> string) list"

definition entries :: "loc \<Rightarrow> (heap, (string \<times> string) list) op" where
  "entries l = andThen (read_at l) (\<lambda>v h. case v of
     GMap a \<Rightarrow> (case load h (a, []) of Some (GDict d) \<Rightarrow> (Inr d, h) | _ \<Rightarrow> (Inr [], h))
   | _ \<Rightarrow> (Inr [], h))"

definition put :: "loc \<Rightarrow> string \<Rightarrow> string \<Rightarrow> (heap, unit) op" where
  "put l k x = andThen (read_at l) (\<lambda>v h. case v of
     GMap a \<Rightarrow> (case load h (a, []) of
         Some (GDict d) \<Rightarrow> (Inr (), store (a, []) (GDict (AList.update k x d)) h)
       | _ \<Rightarrow> (Inl (Panicked NilMapWrite), h))
   | _ \<Rightarrow> (Inl (Panicked NilMapWrite), h))"

definition make_map :: "range_order \<Rightarrow> copier" where
  "make_map rng src dst =
     andThen (new (GDict [])) (\<lambda>a.
     andThen (write_at dst (GMap a)) (\<lambda>_.
     andThen (entries src) (\<lambda>kvs.
     for_each (\<lambda>kv. put dst (fst kv) (snd kv)) (rng kvs))))"

text \<open>
  The body of a generated \<open>DeepCopyInto\<close>: \<open>*out = *in\<close>, then one statement for each field that
  needs one, in the order of the source.
\<close>

definition copy_fields :: "(string \<times> copier) list \<Rightarrow> copier" where
  "copy_fields ss src dst =
     andThen (assign src dst) (\<lambda>_.
     for_each (\<lambda>s. snd s (field_of src (fst s)) (field_of dst (fst s))) ss)"

lemma run_read: "load h l = Some v \<Longrightarrow> read_at l h = (Inr v, h)"
  by (simp add: read_at_def)

lemma run_write: "load h l \<noteq> None \<Longrightarrow> write_at l w h = (Inr (), store l w h)"
  by (auto simp: write_at_def)

lemma run_assign:
  "load h src = Some v \<Longrightarrow> load h dst \<noteq> None \<Longrightarrow> assign src dst h = (Inr (), store dst v h)"
  by (simp add: assign_def run_andThen run_read run_write)

lemma run_pointee: "load h l = Some (GPtr m) \<Longrightarrow> pointee l h = (Inr m, h)"
  by (simp add: pointee_def run_andThen run_read run_ret)

lemma run_element:
  "load h l = Some (GSlice a off n) \<Longrightarrow> i < n \<Longrightarrow> element l i h = (Inr (a, [Idx (off + i)]), h)"
  by (simp add: element_def run_andThen run_read run_ret)

section \<open>Go types, content and footprint\<close>

datatype gty =
    TInt | TBool | TStr
  | TPtr gty
  | TSlice gty
  | TStrMap \<comment> \<open>\<open>map[string]string\<close>\<close>
  | TStruct "(string \<times> gty) list"

text \<open>The zero value, which \<open>new(T)\<close> and \<open>make([]T, n)\<close> store.\<close>

fun zero_of :: "gty \<Rightarrow> gval" where
  "zero_of TInt = GInt 0"
| "zero_of TBool = GBool False"
| "zero_of TStr = GStr []"
| "zero_of (TStruct fs) = GStruct (map (\<lambda>x. (fst x, zero_of (snd x))) fs)"
| "zero_of _ = GNil"

definition sel_field :: "string \<Rightarrow> (string \<times> gval) list \<Rightarrow> gval" where
  "sel_field F vs = the (map_of vs F)"

definition window :: "heap \<Rightarrow> nat \<Rightarrow> nat \<Rightarrow> nat \<Rightarrow> gval list" where
  "window h a off n = (case h ! a of GArr vs \<Rightarrow> take n (drop off vs) | _ \<Rightarrow> [])"

definition dict :: "heap \<Rightarrow> nat \<Rightarrow> (string \<times> string) list" where
  "dict h a = (case h ! a of GDict d \<Rightarrow> d | _ \<Rightarrow> [])"

lemma size_field [termination_simp]: "x \<in> set fs \<Longrightarrow> size (snd x) < Suc (size_list (size_prod (\<lambda>_. 0) size) fs)"
  by (induction fs) auto

text \<open>\<open>typed h \<tau> v\<close>: \<open>v\<close> is a value of type \<open>\<tau>\<close> in memory \<open>h\<close>, everything it refers to allocated.\<close>

fun typed :: "heap \<Rightarrow> gty \<Rightarrow> gval \<Rightarrow> bool" where
  "typed h TInt v = (\<exists>i. v = GInt i)"
| "typed h TBool v = (\<exists>b. v = GBool b)"
| "typed h TStr v = (\<exists>s. v = GStr s)"
| "typed h (TPtr \<tau>) v = (case v of
     GNil \<Rightarrow> True
   | GPtr l \<Rightarrow> (case load h l of Some w \<Rightarrow> typed h \<tau> w | None \<Rightarrow> False)
   | _ \<Rightarrow> False)"
| "typed h (TSlice \<tau>) v = (case v of
     GNil \<Rightarrow> True
   | GSlice a off n \<Rightarrow> a < length h \<and> length (window h a off n) = n
       \<and> (\<forall>w \<in> set (window h a off n). typed h \<tau> w)
   | _ \<Rightarrow> False)"
| "typed h TStrMap v = (case v of
     GNil \<Rightarrow> True
   | GMap a \<Rightarrow> a < length h \<and> h ! a = GDict (dict h a) \<and> distinct (map fst (dict h a))
   | _ \<Rightarrow> False)"
| "typed h (TStruct fs) v = (case v of
     GStruct vs \<Rightarrow> map fst vs = map fst fs \<and> (\<forall>x \<in> set fs. typed h (snd x) (sel_field (fst x) vs))
   | _ \<Rightarrow> False)"

text \<open>The content of a value, with all references followed.\<close>

datatype tree =
    CNil
  | CVal gval
  | CPtr tree
  | CSlice "tree list"
  | CMap "string \<rightharpoonup> string"
  | CStruct "(string \<times> tree) list"

fun content :: "heap \<Rightarrow> gty \<Rightarrow> gval \<Rightarrow> tree" where
  "content h (TPtr \<tau>) v = (case v of GPtr l \<Rightarrow> CPtr (content h \<tau> (the (load h l))) | _ \<Rightarrow> CNil)"
| "content h (TSlice \<tau>) v =
     (case v of GSlice a off n \<Rightarrow> CSlice (map (content h \<tau>) (window h a off n)) | _ \<Rightarrow> CNil)"
| "content h TStrMap v = (case v of GMap a \<Rightarrow> CMap (map_of (dict h a)) | _ \<Rightarrow> CNil)"
| "content h (TStruct fs) v =
     (case v of GStruct vs \<Rightarrow> CStruct (map (\<lambda>x. (fst x, content h (snd x) (sel_field (fst x) vs))) fs)
      | _ \<Rightarrow> CNil)"
| "content h \<tau> v = CVal v"

text \<open>The footprint: the cells a value refers to, directly or through others.\<close>

fun foot :: "heap \<Rightarrow> gty \<Rightarrow> gval \<Rightarrow> nat set" where
  "foot h (TPtr \<tau>) v = (case v of GPtr l \<Rightarrow> insert (fst l) (foot h \<tau> (the (load h l))) | _ \<Rightarrow> {})"
| "foot h (TSlice \<tau>) v =
     (case v of GSlice a off n \<Rightarrow> insert a (\<Union>w \<in> set (window h a off n). foot h \<tau> w) | _ \<Rightarrow> {})"
| "foot h TStrMap v = (case v of GMap a \<Rightarrow> {a} | _ \<Rightarrow> {})"
| "foot h (TStruct fs) v =
     (case v of GStruct vs \<Rightarrow> (\<Union>x \<in> set fs. foot h (snd x) (sel_field (fst x) vs)) | _ \<Rightarrow> {})"
| "foot h \<tau> v = {}"

text \<open>Types whose values refer to nothing: a plain assignment copies them deeply.\<close>

fun flat :: "gty \<Rightarrow> bool" where
  "flat (TPtr \<tau>) = False"
| "flat (TSlice \<tau>) = False"
| "flat TStrMap = False"
| "flat (TStruct fs) = (\<forall>x \<in> set fs. flat (snd x))"
| "flat _ = True"

lemma foot_flat: "flat \<tau> \<Longrightarrow> foot h \<tau> v = {}"
  by (induction h \<tau> v rule: foot.induct) (auto split: gval.splits)

lemma window_cong: "h' ! a = h ! a \<Longrightarrow> window h' a off n = window h a off n"
  by (simp add: window_def)

lemma dict_cong: "h' ! a = h ! a \<Longrightarrow> dict h' a = dict h a"
  by (simp add: dict_def)

lemma foot_bound: "typed h \<tau> v \<Longrightarrow> foot h \<tau> v \<subseteq> {..<length h}"
proof (induction h \<tau> v rule: typed.induct)
  case (4 h \<tau> v)
  show ?case
  proof (cases v)
    case (GPtr l)
    with 4 obtain w where w: "load h l = Some w" "typed h \<tau> w" by (auto split: option.splits)
    with 4 GPtr have "foot h \<tau> w \<subseteq> {..<length h}" by blast
    with w GPtr show ?thesis by (auto dest: load_SomeD)
  qed (use 4 in auto)
qed (auto split: gval.splits)

definition same_on :: "nat set \<Rightarrow> heap \<Rightarrow> heap \<Rightarrow> bool" where
  "same_on A h h' \<longleftrightarrow> (\<forall>a \<in> A. a < length h' \<and> h' ! a = h ! a)"

lemma same_onD: "same_on A h h' \<Longrightarrow> a \<in> A \<Longrightarrow> a < length h' \<and> h' ! a = h ! a"
  by (simp add: same_on_def)

lemma same_on_mono: "same_on A h h' \<Longrightarrow> B \<subseteq> A \<Longrightarrow> same_on B h h'"
  by (auto simp: same_on_def)

lemma load_same: "same_on {fst l} h h' \<Longrightarrow> load h l = Some v \<Longrightarrow> load h' l = Some v"
  by (auto simp: same_on_def load_def split: if_splits)

text \<open>What a value is depends on its footprint only.\<close>

lemma frame:
  assumes "typed h \<tau> v" and "same_on (foot h \<tau> v) h h'"
  shows "typed h' \<tau> v \<and> content h' \<tau> v = content h \<tau> v \<and> foot h' \<tau> v = foot h \<tau> v"
  using assms
proof (induction h \<tau> v rule: typed.induct)
  case (4 h \<tau> v)
  show ?case
  proof (cases v)
    case (GPtr l)
    with 4 obtain w where w: "load h l = Some w" "typed h \<tau> w" by (auto split: option.splits)
    from 4 GPtr have "load h' l = Some w"
      by (intro load_same [OF _ w(1)]) (auto intro: same_on_mono)
    moreover have "typed h' \<tau> w \<and> content h' \<tau> w = content h \<tau> w \<and> foot h' \<tau> w = foot h \<tau> w"
      using "4.IH" [OF GPtr w] "4.prems"(2) GPtr w(1) by (auto intro: same_on_mono)
    ultimately show ?thesis using GPtr w by simp
  qed (use "4.prems" in auto)
next
  case (5 h \<tau> v)
  show ?case
  proof (cases v)
    case (GSlice a off n)
    with "5.prems" have a: "window h' a off n = window h a off n" "a < length h'"
      by (auto intro!: window_cong simp: same_on_def)
    have "typed h' \<tau> w \<and> content h' \<tau> w = content h \<tau> w \<and> foot h' \<tau> w = foot h \<tau> w"
      if "w \<in> set (window h a off n)" for w
      using "5.IH" [OF GSlice that] "5.prems" GSlice that by (auto intro: same_on_mono)
    with "5.prems"(1) a GSlice show ?thesis by auto
  qed (use "5.prems" in auto)
next
  case (6 h v)
  show ?case
  proof (cases v)
    case (GMap a)
    with "6.prems" have "h' ! a = h ! a" "a < length h'" by (auto simp: same_on_def)
    moreover from this have "dict h' a = dict h a" by (intro dict_cong)
    ultimately show ?thesis using "6.prems" GMap by simp
  qed (use "6.prems" in auto)
next
  case (7 h fs v)
  show ?case
  proof (cases v)
    case (GStruct vs)
    have "typed h' (snd x) (sel_field (fst x) vs)
        \<and> content h' (snd x) (sel_field (fst x) vs) = content h (snd x) (sel_field (fst x) vs)
        \<and> foot h' (snd x) (sel_field (fst x) vs) = foot h (snd x) (sel_field (fst x) vs)"
      if "x \<in> set fs" for x
      using "7.IH" [OF GStruct that] "7.prems" GStruct that by (auto intro: same_on_mono)
    with "7.prems"(1) GStruct show ?thesis by auto
  qed (use "7.prems" in auto)
qed auto

end
