(* ===== verification/Copiers.thy ===== *)
theory Copiers
  imports Memory
begin

text \<open>
  The contract of a deep copier on the memory of Go values and the rules that establish it
  statement by statement: a copier of a type writes its destination only, adds cells, and
  leaves there a value with the content of the source that refers to new cells only. A copier
  defined by recursion on the type meets the contract for every type; the generated code is
  proved against the same rules.
\<close>

section \<open>The contract of a deep copier\<close>

text \<open>
  \<open>grows h dst w h'\<close>: from \<open>h\<close> to \<open>h'\<close> only \<open>dst\<close> was written, with \<open>w\<close>, and cells were added.
\<close>

definition grows :: "heap \<Rightarrow> loc \<Rightarrow> gval \<Rightarrow> heap \<Rightarrow> bool" where
  "grows h dst w h' \<longleftrightarrow> length h \<le> length h' \<and> take (length h) h' = store dst w h"

text \<open>\<open>w\<close> has in \<open>h'\<close> the content that \<open>v\<close> has in \<open>h\<close>, and refers only to cells new since \<open>h\<close>.\<close>

definition fresh_copy :: "heap \<Rightarrow> gty \<Rightarrow> gval \<Rightarrow> heap \<Rightarrow> gval \<Rightarrow> bool" where
  "fresh_copy h \<tau> v h' w \<longleftrightarrow>
     typed h' \<tau> w \<and> content h' \<tau> w = content h \<tau> v \<and> foot h' \<tau> w \<subseteq> {length h..<length h'}"

text \<open>
  \<open>copies c \<tau>\<close>: applied to any value of type \<open>\<tau>\<close> and any destination outside of it, \<open>c\<close> ends
  without a panic and leaves a fresh copy at the destination. \<open>completes\<close> is the same for a
  destination that holds a shallow copy, as the fields do after \<open>*out = *in\<close>.
\<close>

definition copies :: "copier \<Rightarrow> gty \<Rightarrow> bool" where
  "copies c \<tau> \<longleftrightarrow> (\<forall>h src dst v.
     load h src = Some v \<longrightarrow> typed h \<tau> v \<longrightarrow> load h dst \<noteq> None \<longrightarrow>
     fst src \<noteq> fst dst \<longrightarrow> fst dst \<notin> foot h \<tau> v \<longrightarrow>
     (\<exists>h' w. c src dst h = (Inr (), h') \<and> grows h dst w h' \<and> fresh_copy h \<tau> v h' w))"

definition completes :: "copier \<Rightarrow> gty \<Rightarrow> bool" where
  "completes c \<tau> \<longleftrightarrow> (\<forall>h src dst v.
     load h src = Some v \<longrightarrow> typed h \<tau> v \<longrightarrow> load h dst = Some v \<longrightarrow>
     fst src \<noteq> fst dst \<longrightarrow> fst dst \<notin> foot h \<tau> v \<longrightarrow>
     (\<exists>h' w. c src dst h = (Inr (), h') \<and> grows h dst w h' \<and> fresh_copy h \<tau> v h' w))"

lemma copiesE:
  assumes "copies c \<tau>" "load h src = Some v" "typed h \<tau> v" "load h dst \<noteq> None"
    "fst src \<noteq> fst dst" "fst dst \<notin> foot h \<tau> v"
  obtains h' w where "c src dst h = (Inr (), h')" "grows h dst w h'" "fresh_copy h \<tau> v h' w"
  using assms unfolding copies_def by blast

lemma completesE:
  assumes "completes c \<tau>" "load h src = Some v" "typed h \<tau> v" "load h dst = Some v"
    "fst src \<noteq> fst dst" "fst dst \<notin> foot h \<tau> v"
  obtains h' w where "c src dst h = (Inr (), h')" "grows h dst w h'" "fresh_copy h \<tau> v h' w"
  using assms unfolding completes_def by blast

lemma completesI:
  assumes "\<And>h src dst v. \<lbrakk>load h src = Some v; typed h \<tau> v; load h dst = Some v; fst src \<noteq> fst dst;
      fst dst \<notin> foot h \<tau> v\<rbrakk> \<Longrightarrow>
      \<exists>h' w. c src dst h = (Inr (), h') \<and> grows h dst w h' \<and> fresh_copy h \<tau> v h' w"
  shows "completes c \<tau>"
  using assms unfolding completes_def by blast

lemma copies_completes: "copies c \<tau> \<Longrightarrow> completes c \<tau>"
  unfolding copies_def completes_def by (metis option.distinct(1))

subsection \<open>What growing memory keeps\<close>

lemma grows_length: "grows h dst w h' \<Longrightarrow> length h \<le> length h'"
  by (simp add: grows_def)

lemma grows_nth: "grows h dst w h' \<Longrightarrow> a < length h \<Longrightarrow> h' ! a = store dst w h ! a"
  by (metis grows_def nth_take)

lemma grows_other: "grows h dst w h' \<Longrightarrow> a < length h \<Longrightarrow> a \<noteq> fst dst \<Longrightarrow> h' ! a = h ! a"
  by (simp add: grows_nth)

lemma grows_same: "grows h dst w h' \<Longrightarrow> A \<subseteq> {..<length h} \<Longrightarrow> fst dst \<notin> A \<Longrightarrow> same_on A h h'"
  using grows_length [of h dst w h'] grows_other [of h dst w h'] unfolding same_on_def by fastforce

lemma grows_load:
  assumes "grows h dst w h'" "load h dst \<noteq> None"
  shows "load h' dst = Some w"
proof -
  from assms(2) have "fst dst < length h" "get_path (snd dst) (h ! fst dst) \<noteq> None"
    by (auto dest: load_SomeD)
  with assms(1) show ?thesis
    by (simp add: load_def grows_nth) (meson grows_length order.strict_trans2)
qed

lemma grows_load_other:
  assumes "grows h dst w h'" "load h l = Some v" "fst l \<noteq> fst dst"
  shows "load h' l = Some v"
  using load_same [OF grows_same, of h dst w h' l v] assms load_SomeD by auto

lemma grows_store: "grows h dst w (store dst w h)"
  by (simp add: grows_def)

lemma set_path_same: "get_path p v = Some w \<Longrightarrow> set_path p w v = v"
  by (induction p v rule: get_path.induct)
     (auto simp: update_triv split: option.splits bind_splits if_splits)

lemma grows_nothing: "load h dst = Some w \<Longrightarrow> grows h dst w h"
  by (auto simp: grows_def store_def set_path_same dest!: load_SomeD)

lemma grows_alloc: "fst dst < length h \<Longrightarrow> grows h dst w (store dst w (h @ [z]))"
  by (simp add: grows_def store_def nth_append list_update_append)

lemma grows_frame:
  assumes "grows h dst u h1" "grows h1 l w h2" "length h \<le> fst l"
  shows "grows h dst u h2"
proof -
  have "take (length h) h2 = take (length h) (take (length h1) h2)"
    using assms(1) by (simp add: grows_length min_absorb1)
  also have "\<dots> = take (length h) h1"
    using assms(2,3) by (simp add: grows_def store_def)
  finally show ?thesis using assms by (simp add: grows_def)
qed

lemma grows_trans:
  assumes "grows h dst u h1" "load h dst \<noteq> None" "get_path q u \<noteq> None"
    and "grows h1 (fst dst, snd dst @ q) w h2"
  shows "grows h dst (set_path q w u) h2"
proof -
  from assms(2) have d: "fst dst < length h" "get_path (snd dst) (h ! fst dst) \<noteq> None"
    by (auto dest: load_SomeD)
  have here: "h1 ! fst dst = set_path (snd dst) u (h ! fst dst)"
    using grows_nth [OF assms(1) d(1)] d(1) by simp
  have "take (length h) h2 = take (length h) (take (length h1) h2)"
    using assms(1) by (simp add: grows_length min_absorb1)
  also have "\<dots> = (take (length h) h1)[fst dst := set_path (snd dst @ q) w (h1 ! fst dst)]"
    using assms(4) by (simp add: grows_def store_def take_update_swap)
  also have "take (length h) h1 = store dst u h"
    using assms(1) by (simp add: grows_def)
  also have "set_path (snd dst @ q) w (h1 ! fst dst) = set_path (snd dst) (set_path q w u) (h ! fst dst)"
    using d(2) by (simp add: here set_path_append [of _ _ u])
  finally have "take (length h) h2 = store dst (set_path q w u) h"
    by (simp add: store_def)
  moreover have "length h \<le> length h2"
    using assms(1,4) by (meson grows_length order_trans)
  ultimately show ?thesis by (simp add: grows_def)
qed

lemma fresh_before:
  assumes "fresh_copy h1 \<tau> v h2 w" "grows h dst u h1" "typed h \<tau> v" "fst dst \<notin> foot h \<tau> v"
  shows "fresh_copy h \<tau> v h2 w"
proof -
  have "same_on (foot h \<tau> v) h h1"
    using assms by (intro grows_same) (auto dest: foot_bound)
  from frame [OF assms(3) this] assms(1) grows_length [OF assms(2)] show ?thesis
    by (auto simp: fresh_copy_def)
qed

lemma fresh_after:
  assumes "fresh_copy h \<tau> v h1 w" "grows h1 dst u h2" "fst dst < length h"
  shows "fresh_copy h \<tau> v h2 w"
proof -
  have "same_on (foot h1 \<tau> w) h1 h2"
    using assms by (intro grows_same) (auto simp: fresh_copy_def dest: foot_bound)
  moreover have "typed h1 \<tau> w" using assms(1) by (simp add: fresh_copy_def)
  ultimately show ?thesis using assms(1) grows_length [OF assms(2)] frame [of h1 \<tau> w h2]
    by (auto simp: fresh_copy_def)
qed

lemma typed_after:
  assumes "grows h dst u h1" "typed h \<tau> v" "fst dst \<notin> foot h \<tau> v"
  shows "typed h1 \<tau> v" "foot h1 \<tau> v = foot h \<tau> v" "content h1 \<tau> v = content h \<tau> v"
proof -
  have "same_on (foot h \<tau> v) h h1"
    using assms by (intro grows_same) (auto dest: foot_bound)
  from frame [OF assms(2) this]
  show "typed h1 \<tau> v" "foot h1 \<tau> v = foot h \<tau> v" "content h1 \<tau> v = content h \<tau> v" by simp_all
qed

subsection \<open>Rules for the statements\<close>

lemma copies_assign:
  assumes "flat \<tau>"
  shows "copies assign \<tau>"
  unfolding copies_def
proof (intro allI impI)
  fix h src dst v
  assume "load h src = Some v" and v: "typed h \<tau> v" and dst: "load h dst \<noteq> None"
  then have "assign src dst h = (Inr (), store dst v h)" by (simp add: run_assign)
  moreover have "fresh_copy h \<tau> v (store dst v h) v"
    using typed_after [OF grows_store v, of dst v] foot_flat [OF assms] by (simp add: fresh_copy_def)
  ultimately show "\<exists>h' w. assign src dst h = (Inr (), h') \<and> grows h dst w h' \<and> fresh_copy h \<tau> v h' w"
    using grows_store by blast
qed

lemma completes_non_nil:
  assumes "\<And>h src dst v. \<lbrakk>v \<noteq> GNil; load h src = Some v; typed h \<tau> v; load h dst = Some v;
      fst src \<noteq> fst dst; fst dst \<notin> foot h \<tau> v\<rbrakk> \<Longrightarrow>
      \<exists>h' w. c src dst h = (Inr (), h') \<and> grows h dst w h' \<and> fresh_copy h \<tau> v h' w"
    and "\<And>h. foot h \<tau> GNil = {}"
  shows "completes (non_nil c) \<tau>"
proof (rule completesI)
  fix h src dst v
  assume a: "load h src = Some v" "typed h \<tau> v" "load h dst = Some v" "fst src \<noteq> fst dst"
    "fst dst \<notin> foot h \<tau> v"
  show "\<exists>h' w. non_nil c src dst h = (Inr (), h') \<and> grows h dst w h' \<and> fresh_copy h \<tau> v h' w"
  proof (cases "v = GNil")
    case True
    with a assms(2) have "fresh_copy h \<tau> v h v" by (simp add: fresh_copy_def)
    with True a grows_nothing [OF a(3)] show ?thesis
      by (auto simp: non_nil_def run_andThen run_read run_ret)
  next
    case False
    with a assms(1) show ?thesis by (simp add: non_nil_def run_andThen run_read)
  qed
qed

lemma completes_ptr:
  assumes "copies c \<tau>"
  shows "completes (non_nil (new_into z c)) (TPtr \<tau>)"
proof (rule completes_non_nil)
  fix h src dst v
  assume v: "v \<noteq> GNil" and src: "load h src = Some v" and t: "typed h (TPtr \<tau>) v"
    and dst: "load h dst = Some v" and sep: "fst src \<noteq> fst dst" "fst dst \<notin> foot h (TPtr \<tau>) v"
  from v t obtain l x where l: "v = GPtr l" "load h l = Some x" "typed h \<tau> x"
    by (cases v) (auto split: option.splits)
  let ?a = "length h" and ?h = "store dst (GPtr (length h, [])) (h @ [z])"
  have d: "fst dst < length h" using dst by (auto dest: load_SomeD)
  have g: "grows h dst (GPtr (?a, [])) ?h" by (rule grows_alloc [OF d])
  have "load (h @ [z]) dst \<noteq> None" using dst d by (simp add: load_def nth_append)
  then have w: "write_at dst (GPtr (?a, [])) (h @ [z]) = (Inr (), ?h)" by (rule run_write)
  have s: "pointee src ?h = (Inr l, ?h)"
    using grows_load_other [OF g src] sep l(1) by (simp add: run_pointee)
  have p: "pointee dst ?h = (Inr (?a, []), ?h)"
    using grows_load [OF g] dst by (simp add: run_pointee)
  have x: "load ?h l = Some x" "typed ?h \<tau> x" "foot ?h \<tau> x = foot h \<tau> x"
    using grows_load_other [OF g l(2)] typed_after [OF g l(3)] sep(2) l by auto
  have a: "fst l \<noteq> ?a" "?a \<notin> foot h \<tau> x" "load ?h (?a, []) \<noteq> None"
    using l foot_bound [OF l(3)] d by (auto dest: load_SomeD simp: load_def)
  obtain h' w where c: "c l (?a, []) ?h = (Inr (), h')" "grows ?h (?a, []) w h'" "fresh_copy ?h \<tau> x h' w"
    using copiesE [OF assms x(1,2) a(3)] a x(3) by auto
  have "new_into z c src dst h = (Inr (), h')"
    by (simp add: new_into_def run_andThen new_def w s p c(1))
  moreover have "grows h dst (GPtr (?a, [])) h'"
    by (rule grows_frame [OF g c(2)]) simp
  moreover have "fresh_copy h (TPtr \<tau>) v h' (GPtr (?a, []))"
    using fresh_before [OF c(3) g l(3)] sep(2) l grows_load [OF c(2) a(3)] grows_length [OF c(2)]
    by (auto simp: fresh_copy_def)
  ultimately show "\<exists>h' w. new_into z c src dst h = (Inr (), h') \<and> grows h dst w h'
      \<and> fresh_copy h (TPtr \<tau>) v h' w" by blast
qed simp

text \<open>Filling a new array with copies of the elements of a slice.\<close>

lemma load_element:
  assumes "length (window h b off n) = n" "i < n" "b < length h"
  shows "load h (b, [Idx (off + i)]) = Some (window h b off n ! i)"
  using assms by (auto simp: load_def window_def split: gval.splits)

lemma fill_slice:
  assumes c: "copies c \<tau>"
    and src: "load g src = Some (GSlice b off n)" and dst: "load g dst = Some (GSlice a 0 n)"
    and arr: "load g (a, []) = Some (GArr (replicate n z))"
    and b: "b < length g" "length (window g b off n) = n" "a \<noteq> b"
    and elems: "\<And>w. w \<in> set (window g b off n) \<Longrightarrow> typed g \<tau> w \<and> a \<notin> foot g \<tau> w"
    and sep: "fst src \<noteq> a" "fst dst \<noteq> a"
  shows "i \<le> n \<Longrightarrow> \<exists>h us.
    for_each (\<lambda>i. andThen (element src i) (\<lambda>s. andThen (element dst i) (c s))) [0..<i] g = (Inr (), h)
    \<and> grows g (a, []) (GArr us) h \<and> length us = n
    \<and> (\<forall>j < i. fresh_copy g \<tau> (window g b off n ! j) h (us ! j))"
proof (induction i)
  case 0
  then show ?case using grows_nothing [OF arr] by (fastforce simp: run_ret)
next
  case (Suc i)
  let ?x = "window g b off n ! i"
  from Suc obtain h us where run: "for_each (\<lambda>i. andThen (element src i) (\<lambda>s. andThen (element dst i) (c s)))
        [0..<i] g = (Inr (), h)"
    and g: "grows g (a, []) (GArr us) h" and n: "length us = n" "i < n"
    and old: "\<And>j. j < i \<Longrightarrow> fresh_copy g \<tau> (window g b off n ! j) h (us ! j)" by auto
  have x: "typed g \<tau> ?x" "a \<notin> foot g \<tau> ?x" using elems [of ?x] b(2) n(2) by simp_all
  have s: "element src i h = (Inr (b, [Idx (off + i)]), h)"
    using grows_load_other [OF g src] sep(1) n(2) by (simp add: run_element)
  have d: "element dst i h = (Inr (a, [Idx i]), h)"
    using grows_load_other [OF g dst] sep(2) n(2) by (simp add: run_element)
  have la: "load h (a, []) = Some (GArr us)" using grows_load [OF g] arr by simp
  have li: "load h (a, [Idx i]) \<noteq> None" using la n by (simp add: load_def split: if_splits)
  have lx: "load h (b, [Idx (off + i)]) = Some ?x"
    using grows_load_other [OF g load_element [OF b(2) n(2) b(1)]] b(3) by simp
  have tx: "typed h \<tau> ?x" "foot h \<tau> ?x = foot g \<tau> ?x" using typed_after [OF g x(1)] x(2) by simp_all
  obtain h' w where r: "c (b, [Idx (off + i)]) (a, [Idx i]) h = (Inr (), h')"
    and g': "grows h (a, [Idx i]) w h'" and f: "fresh_copy h \<tau> ?x h' w"
    using copiesE [OF c lx tx(1) li] b(3) x(2) tx(2) by auto
  let ?us = "us[i := w]"
  have "grows g (a, []) (GArr ?us) h'"
    using grows_trans [OF g, of "[Idx i]" w h'] arr g' n by simp
  moreover have "fresh_copy g \<tau> (window g b off n ! j) h' (?us ! j)" if "j < Suc i" for j
  proof (cases "j = i")
    case True
    then show ?thesis using fresh_before [OF f g x(1)] x(2) n by simp
  next
    case False
    with that have "fresh_copy g \<tau> (window g b off n ! j) h (us ! j)" by (intro old) simp
    moreover have "a < length g" using arr by (auto dest: load_SomeD)
    ultimately show ?thesis using fresh_after [OF _ g'] False by simp
  qed
  moreover have "for_each (\<lambda>i. andThen (element src i) (\<lambda>s. andThen (element dst i) (c s))) [0..<Suc i] g
      = (Inr (), h')"
    using run s d r by (simp add: for_each_append run_andThen)
  ultimately show ?case using n(1) by (metis length_list_update)
qed

lemma completes_slice:
  assumes "copies c \<tau>"
  shows "completes (non_nil (make_each z c)) (TSlice \<tau>)"
proof (rule completes_non_nil)
  fix h src dst v
  assume v: "v \<noteq> GNil" and src: "load h src = Some v" and t: "typed h (TSlice \<tau>) v"
    and dst: "load h dst = Some v" and sep: "fst src \<noteq> fst dst" "fst dst \<notin> foot h (TSlice \<tau>) v"
  from v t obtain b off n where v: "v = GSlice b off n" and b: "b < length h" "length (window h b off n) = n"
    and e: "\<And>w. w \<in> set (window h b off n) \<Longrightarrow> typed h \<tau> w" by (cases v) auto
  let ?a = "length h" and ?z = "GArr (replicate n z)"
  let ?h = "store dst (GSlice ?a 0 n) (h @ [?z])"
  have d: "fst dst < length h" "fst src < length h" using dst src by (auto dest: load_SomeD)
  have g: "grows h dst (GSlice ?a 0 n) ?h" by (rule grows_alloc [OF d(1)])
  have len: "slice_len src h = (Inr n, h)" using src v by (simp add: slice_len_def run_andThen run_read run_ret)
  have "load (h @ [?z]) dst \<noteq> None" using dst d by (simp add: load_def nth_append)
  then have w: "write_at dst (GSlice ?a 0 n) (h @ [?z]) = (Inr (), ?h)" by (rule run_write)
  have arr: "load ?h (?a, []) = Some ?z" using d(1) by (simp add: load_def nth_append)
  have "?h ! b = h ! b" using grows_other [OF g b(1)] sep v by auto
  then have win: "window ?h b off n = window h b off n" by (rule window_cong)
  have el: "typed ?h \<tau> w \<and> ?a \<notin> foot ?h \<tau> w \<and> foot ?h \<tau> w = foot h \<tau> w" if "w \<in> set (window h b off n)" for w
    using typed_after [OF g e [OF that]] sep v that foot_bound [OF e [OF that]] by auto
  obtain h' us where run: "for_each (\<lambda>i. andThen (element src i) (\<lambda>s. andThen (element dst i) (c s)))
        [0..<n] ?h = (Inr (), h')"
    and g': "grows ?h (?a, []) (GArr us) h'" and n: "length us = n"
    and f: "\<And>j. j < n \<Longrightarrow> fresh_copy ?h \<tau> (window h b off n ! j) h' (us ! j)"
    using fill_slice [OF assms, of ?h src b off n dst ?a z n] grows_load_other [OF g src sep(1)]
      grows_load [OF g] dst arr b win el d v by (auto simp: less_not_refl3)
  have fj: "fresh_copy h \<tau> (window h b off n ! j) h' (us ! j)" if "j < n" for j
    using fresh_before [OF f [OF that] g e] sep v that b(2) by auto
  have la: "h' ! ?a = GArr us" "?a < length h'"
    using grows_load [OF g'] arr by (auto dest: load_SomeD)
  then have us: "window h' ?a 0 n = us" using n by (simp add: window_def)
  have "make_each z c src dst h = (Inr (), h')"
    by (simp add: make_each_def run_andThen new_def len w run)
  moreover have "grows h dst (GSlice ?a 0 n) h'" by (rule grows_frame [OF g g']) simp
  moreover have "fresh_copy h (TSlice \<tau>) v h' (GSlice ?a 0 n)"
  proof -
    have "typed h' \<tau> w \<and> foot h' \<tau> w \<subseteq> {length h..<length h'}" if "w \<in> set us" for w
      using that fj n by (metis fresh_copy_def in_set_conv_nth)
    moreover have "map (content h' \<tau>) us = map (content h \<tau>) (window h b off n)"
      using fj n b(2) by (intro nth_equalityI) (auto simp: fresh_copy_def)
    ultimately show ?thesis using us n la(2) v by (auto simp: fresh_copy_def)
  qed
  ultimately show "\<exists>h' w. make_each z c src dst h = (Inr (), h') \<and> grows h dst w h'
      \<and> fresh_copy h (TSlice \<tau>) v h' w" by blast
qed simp

text \<open>Filling a new map with the entries of another, in any order.\<close>

definition put_all :: "(string \<times> string) list \<Rightarrow> (string \<times> string) list \<Rightarrow> (string \<times> string) list" where
  "put_all kvs d = fold (\<lambda>kv. AList.update (fst kv) (snd kv)) kvs d"

lemma put_all_simps [simp]:
  "put_all [] d = d"
  "put_all (kv # kvs) d = put_all kvs (AList.update (fst kv) (snd kv) d)"
  by (simp_all add: put_all_def)

lemma map_of_put_all: "map_of (put_all kvs d) = map_of d ++ map_of (rev kvs)"
  by (induction kvs arbitrary: d) (simp_all add: update_conv')

lemma distinct_put_all: "distinct (map fst d) \<Longrightarrow> distinct (map fst (put_all kvs d))"
  by (induction kvs arbitrary: d) (simp_all add: distinct_update)

lemma put_all_permuted:
  assumes "mset kvs = mset d" "distinct (map fst d)"
  shows "map_of (put_all kvs []) = map_of d"
proof -
  have "mset (map fst (rev kvs)) = mset (map fst d)" using assms(1) by simp
  then have "distinct (map fst (rev kvs))" using assms(2) mset_eq_imp_distinct_iff by blast
  moreover have "set (rev kvs) = set d" using mset_eq_setD [OF assms(1)] by simp
  ultimately have "map_of (rev kvs) = map_of d" using map_of_inject_set assms(2) by blast
  then show ?thesis by (simp add: map_of_put_all)
qed

lemma run_put:
  assumes "load g dst = Some (GMap a)" "load g (a, []) = Some (GDict d)"
  shows "put dst k x g = (Inr (), store (a, []) (GDict (AList.update k x d)) g)"
  using assms by (simp add: put_def run_andThen run_read)

lemma fill_map:
  assumes "load g dst = Some (GMap a)" "load g (a, []) = Some (GDict d)" "fst dst \<noteq> a"
  shows "for_each (\<lambda>kv. put dst (fst kv) (snd kv)) kvs g = (Inr (), store (a, []) (GDict (put_all kvs d)) g)"
  using assms
proof (induction kvs arbitrary: g d)
  case Nil
  then have "a < length g" "g ! a = GDict d" by (auto dest: load_SomeD)
  then have "g[a := GDict d] = g" by (metis list_update_id)
  then show ?case by (simp add: run_ret store_def)
next
  case (Cons kv kvs)
  let ?d = "AList.update (fst kv) (snd kv) d"
  let ?g = "store (a, []) (GDict ?d) g"
  have g: "grows g (a, []) (GDict ?d) ?g" by (rule grows_store)
  have "load ?g dst = Some (GMap a)" "load ?g (a, []) = Some (GDict ?d)"
    using grows_load_other [OF g Cons.prems(1)] grows_load [OF g] Cons.prems by auto
  from Cons.IH [OF this] Cons.prems show ?case
    by (simp add: run_andThen run_put [OF Cons.prems(1,2)] store_def)
qed

lemma completes_map:
  assumes rng: "\<And>d. mset (rng d) = mset d"
  shows "completes (non_nil (make_map rng)) TStrMap"
proof (rule completes_non_nil)
  fix h src dst v
  assume v: "v \<noteq> GNil" and src: "load h src = Some v" and t: "typed h TStrMap v"
    and dst: "load h dst = Some v" and sep: "fst src \<noteq> fst dst" "fst dst \<notin> foot h TStrMap v"
  from v t obtain b where v: "v = GMap b" and b: "b < length h" "h ! b = GDict (dict h b)"
    "distinct (map fst (dict h b))" by (cases v) auto
  let ?a = "length h" and ?d = "dict h b"
  let ?h = "store dst (GMap ?a) (h @ [GDict []])"
  let ?e = "put_all (rng ?d) []"
  let ?g = "store (?a, []) (GDict ?e) ?h"
  have d: "fst dst < length h" using dst by (auto dest: load_SomeD)
  have g: "grows h dst (GMap ?a) ?h" by (rule grows_alloc [OF d])
  have "load (h @ [GDict []]) dst \<noteq> None" using dst d by (simp add: load_def nth_append)
  then have w: "write_at dst (GMap ?a) (h @ [GDict []]) = (Inr (), ?h)" by (rule run_write)
  have "load h (b, []) = Some (GDict ?d)" using b by (simp add: load_def)
  then have lb: "load ?h (b, []) = Some (GDict ?d)"
    by (rule grows_load_other [OF g]) (use sep v in simp)
  have en: "entries src ?h = (Inr ?d, ?h)"
    using grows_load_other [OF g src sep(1)] lb v by (simp add: entries_def run_andThen run_read)
  have la: "load ?h (?a, []) = Some (GDict [])" using d by (simp add: load_def nth_append)
  have "make_map rng src dst h = (Inr (), ?g)"
    using fill_map [OF grows_load [OF g] la] dst d by (simp add: make_map_def run_andThen new_def w en)
  moreover have "grows h dst (GMap ?a) ?g" by (rule grows_frame [OF g grows_store]) simp
  moreover have "fresh_copy h TStrMap v ?g (GMap ?a)"
  proof -
    have l: "?g ! ?a = GDict ?e" "?a < length ?g" by (simp_all add: store_def)
    then have "dict ?g ?a = ?e" by (simp add: dict_def)
    with l v put_all_permuted [OF rng b(3)] show ?thesis
      by (auto simp: fresh_copy_def distinct_put_all)
  qed
  ultimately show "\<exists>h' w. make_map rng src dst h = (Inr (), h') \<and> grows h dst w h'
      \<and> fresh_copy h TStrMap v h' w" by blast
qed simp

text \<open>The fields of a struct, one after the other.\<close>

lemma load_field:
  assumes "load h l = Some (GStruct vs)" "F \<in> set (map fst vs)"
  shows "load h (field_of l F) = Some (sel_field F vs)"
proof -
  from assms(2) obtain w where "map_of vs F = Some w" by (metis map_of_eq_None_iff not_None_eq set_map)
  with assms(1) show ?thesis
    by (simp add: load_def field_of_def get_path_append sel_field_def split: if_splits)
qed

lemma sel_field_update: "sel_field G (AList.update F w us) = (if G = F then w else sel_field G us)"
  by (simp add: sel_field_def update_conv')

lemma copy_field_steps:
  assumes src: "load h src = Some (GStruct vs)" "typed h (TStruct fs) (GStruct vs)"
    and dst: "load h dst \<noteq> None" and sep: "fst src \<noteq> fst dst" "fst dst \<notin> foot h (TStruct fs) (GStruct vs)"
  shows "\<lbrakk>grows h dst (GStruct us) h1; map fst us = map fst fs;
      \<And>x. x \<in> set fs \<Longrightarrow> if fst x \<in> D then fresh_copy h (snd x) (sel_field (fst x) vs) h1 (sel_field (fst x) us)
        else sel_field (fst x) us = sel_field (fst x) vs;
      \<And>s. s \<in> set ss \<Longrightarrow> fst s \<notin> D \<and> (\<exists>\<tau>. (fst s, \<tau>) \<in> set fs \<and> completes (snd s) \<tau>);
      distinct (map fst ss); distinct (map fst fs)\<rbrakk> \<Longrightarrow>
    \<exists>h2 us2. for_each (\<lambda>s. snd s (field_of src (fst s)) (field_of dst (fst s))) ss h1 = (Inr (), h2)
      \<and> grows h dst (GStruct us2) h2 \<and> map fst us2 = map fst fs
      \<and> (\<forall>x \<in> set fs. if fst x \<in> D \<union> fst ` set ss
           then fresh_copy h (snd x) (sel_field (fst x) vs) h2 (sel_field (fst x) us2)
           else sel_field (fst x) us2 = sel_field (fst x) vs)"
proof (induction ss arbitrary: h1 us D)
  case Nil
  then have "\<forall>x \<in> set fs. if fst x \<in> D
      then fresh_copy h (snd x) (sel_field (fst x) vs) h1 (sel_field (fst x) us)
      else sel_field (fst x) us = sel_field (fst x) vs" by blast
  with Nil.prems(1,2) show ?case by (intro exI [of _ h1] exI [of _ us]) (simp add: run_ret)
next
  case (Cons s ss)
  obtain F c where s: "s = (F, c)" by (cases s)
  with Cons.prems obtain \<tau> where \<tau>: "(F, \<tau>) \<in> set fs" "completes c \<tau>" and F: "F \<notin> D"
    by (metis fst_conv list.set_intros(1) snd_conv)
  note g = Cons.prems(1)
  let ?v = "sel_field F vs"
  have names: "map fst vs = map fst fs" using src(2) by simp
  have Fin: "F \<in> set (map fst vs)" "F \<in> set (map fst us)"
    using \<tau>(1) names Cons.prems(2) by (metis fst_conv image_eqI set_map)+
  have v: "typed h \<tau> ?v" "fst dst \<notin> foot h \<tau> ?v" using src(2) sep(2) \<tau>(1) by auto
  have "sel_field F us = ?v" using Cons.prems(3) [OF \<tau>(1)] F by simp
  then have ld: "load h1 (field_of dst F) = Some ?v"
    using load_field [OF grows_load [OF g dst] Fin(2)] by simp
  have ls: "load h1 (field_of src F) = Some ?v"
    using load_field [OF grows_load_other [OF g src(1) sep(1)] Fin(1)] .
  obtain h' w where r: "c (field_of src F) (field_of dst F) h1 = (Inr (), h')"
    and g': "grows h1 (field_of dst F) w h'" and f: "fresh_copy h1 \<tau> ?v h' w"
    using completesE [OF \<tau>(2) ls _ ld] typed_after [OF g v] v sep(1) by (auto simp: field_of_def)
  let ?us = "AList.update F w us"
  obtain u where u: "map_of us F = Some u" using Fin(2) by (metis map_of_eq_None_iff not_None_eq set_map)
  have grown: "grows h dst (GStruct ?us) h'"
    using grows_trans [OF g dst, of "[Fld F]" w h'] g' u by (simp add: field_of_def)
  have keys: "map fst ?us = map fst fs"
    using Fin(2) Cons.prems(2) by (simp add: update_keys)
  have d: "fst dst < length h" using dst by (auto dest: load_SomeD)
  have fields: "if fst x \<in> insert F D then fresh_copy h (snd x) (sel_field (fst x) vs) h' (sel_field (fst x) ?us)
      else sel_field (fst x) ?us = sel_field (fst x) vs" if x: "x \<in> set fs" for x
  proof (cases "fst x = F")
    case True
    with x \<tau>(1) Cons.prems(6) have "snd x = \<tau>" by (metis eq_key_imp_eq_value prod.collapse)
    with True show ?thesis using fresh_before [OF f g v] by (simp add: sel_field_update)
  next
    case False
    have "fst (field_of dst F) < length h" using d by (simp add: field_of_def)
    with Cons.prems(3) [OF x] False show ?thesis
      using fresh_after [OF _ g'] by (auto simp: sel_field_update)
  qed
  have rest: "\<And>t. t \<in> set ss \<Longrightarrow> fst t \<notin> insert F D \<and> (\<exists>\<tau>. (fst t, \<tau>) \<in> set fs \<and> completes (snd t) \<tau>)"
    using Cons.prems(4,5) s by force
  have "distinct (map fst ss)" using Cons.prems(5) by simp
  from Cons.IH [OF grown keys fields rest this Cons.prems(6)] r s show ?case
    by (simp add: run_andThen)
qed

lemma copies_fields:
  assumes "distinct (map fst fs)" "distinct (map fst ss)"
    and "\<And>s. s \<in> set ss \<Longrightarrow> \<exists>\<tau>. (fst s, \<tau>) \<in> set fs \<and> completes (snd s) \<tau>"
    and "\<And>x. x \<in> set fs \<Longrightarrow> fst x \<in> fst ` set ss \<or> flat (snd x)"
  shows "copies (copy_fields ss) (TStruct fs)"
  unfolding copies_def
proof (intro allI impI)
  fix h src dst v
  assume src: "load h src = Some v" and t: "typed h (TStruct fs) v" and dst: "load h dst \<noteq> None"
    and sep: "fst src \<noteq> fst dst" "fst dst \<notin> foot h (TStruct fs) v"
  from t obtain vs where v: "v = GStruct vs" and names: "map fst vs = map fst fs"
    by (cases v) auto
  let ?h = "store dst v h"
  have g: "grows h dst (GStruct vs) ?h" using v grows_store by simp
  have a: "assign src dst h = (Inr (), ?h)" by (rule run_assign [OF src dst])
  obtain h2 us2 where r: "for_each (\<lambda>s. snd s (field_of src (fst s)) (field_of dst (fst s))) ss ?h = (Inr (), h2)"
    and g2: "grows h dst (GStruct us2) h2" and n: "map fst us2 = map fst fs"
    and f: "\<forall>x \<in> set fs. if fst x \<in> fst ` set ss
        then fresh_copy h (snd x) (sel_field (fst x) vs) h2 (sel_field (fst x) us2)
        else sel_field (fst x) us2 = sel_field (fst x) vs"
    using copy_field_steps [OF _ _ dst sep(1) _ g names, where D = "{}" and ss = ss] src t sep(2) v assms
    by auto
  have each: "fresh_copy h (snd x) (sel_field (fst x) vs) h2 (sel_field (fst x) us2)" if x: "x \<in> set fs" for x
  proof (cases "fst x \<in> fst ` set ss")
    case True
    with f x show ?thesis by simp
  next
    case False
    then have fl: "flat (snd x)" using assms(4) [OF x] by simp
    have "typed h (snd x) (sel_field (fst x) vs)" using t v x by simp
    from typed_after [OF g2 this] fl False f x show ?thesis
      by (simp add: fresh_copy_def foot_flat)
  qed
  have "copy_fields ss src dst h = (Inr (), h2)" by (simp add: copy_fields_def run_andThen a r)
  moreover have "fresh_copy h (TStruct fs) v h2 (GStruct us2)"
    using each n v by (auto simp: fresh_copy_def)
  ultimately show "\<exists>h' w. copy_fields ss src dst h = (Inr (), h') \<and> grows h dst w h'
      \<and> fresh_copy h (TStruct fs) v h' w" using g2 by blast
qed

section \<open>Deep copies by type\<close>

text \<open>
  The copier every type has if it is copied field by field, element by element and pointer by
  pointer: what the generator writes out for the types of the API, and what the library's own
  types come with.
\<close>

fun copy_by_type :: "range_order \<Rightarrow> gty \<Rightarrow> copier" where
  "copy_by_type rng (TPtr \<tau>) src dst = andThen (assign src dst) (\<lambda>_.
     non_nil (new_into (zero_of \<tau>) (copy_by_type rng \<tau>)) src dst)"
| "copy_by_type rng (TSlice \<tau>) src dst = andThen (assign src dst) (\<lambda>_.
     non_nil (make_each (zero_of \<tau>) (copy_by_type rng \<tau>)) src dst)"
| "copy_by_type rng TStrMap src dst = andThen (assign src dst) (\<lambda>_.
     non_nil (make_map rng) src dst)"
| "copy_by_type rng (TStruct fs) src dst =
     copy_fields (map (\<lambda>x. (fst x, copy_by_type rng (snd x))) fs) src dst"
| "copy_by_type rng \<tau> src dst = assign src dst"

lemma copy_by_type_eqs:
  "copy_by_type rng TInt = assign" "copy_by_type rng TBool = assign" "copy_by_type rng TStr = assign"
  "copy_by_type rng TStrMap = (\<lambda>src dst. andThen (assign src dst) (\<lambda>_. non_nil (make_map rng) src dst))"
  "copy_by_type rng (TPtr \<tau>) = (\<lambda>src dst. andThen (assign src dst) (\<lambda>_.
     non_nil (new_into (zero_of \<tau>) (copy_by_type rng \<tau>)) src dst))"
  "copy_by_type rng (TSlice \<tau>) = (\<lambda>src dst. andThen (assign src dst) (\<lambda>_.
     non_nil (make_each (zero_of \<tau>) (copy_by_type rng \<tau>)) src dst))"
  "copy_by_type rng (TStruct fs) = copy_fields (map (\<lambda>x. (fst x, copy_by_type rng (snd x))) fs)"
  by (simp_all add: fun_eq_iff)

lemma copies_assign_then:
  assumes "completes c \<tau>"
  shows "copies (\<lambda>src dst. andThen (assign src dst) (\<lambda>_. c src dst)) \<tau>"
  unfolding copies_def
proof (intro allI impI)
  fix h src dst v
  assume src: "load h src = Some v" and t: "typed h \<tau> v" and dst: "load h dst \<noteq> None"
    and sep: "fst src \<noteq> fst dst" "fst dst \<notin> foot h \<tau> v"
  let ?h = "store dst v h"
  have g: "grows h dst v ?h" by (rule grows_store)
  note t' = typed_after [OF g t sep(2)]
  obtain h' w where r: "c src dst ?h = (Inr (), h')" and g': "grows ?h dst w h'" and f: "fresh_copy ?h \<tau> v h' w"
    using completesE [OF assms grows_load_other [OF g src sep(1)] t'(1) grows_load [OF g dst] sep(1)]
      sep(2) t'(2) by auto
  have "grows h dst w h'"
    using grows_trans [OF g dst, of "[]" w h'] g' by simp
  with r fresh_before [OF f g t sep(2)] run_assign [OF src dst]
  show "\<exists>h' w. andThen (assign src dst) (\<lambda>_. c src dst) h = (Inr (), h') \<and> grows h dst w h' \<and> fresh_copy h \<tau> v h' w"
    by (auto simp: run_andThen)
qed

text \<open>Struct types declare every field once.\<close>

fun well_formed :: "gty \<Rightarrow> bool" where
  "well_formed (TPtr \<tau>) = well_formed \<tau>"
| "well_formed (TSlice \<tau>) = well_formed \<tau>"
| "well_formed (TStruct fs) = (distinct (map fst fs) \<and> (\<forall>x \<in> set fs. well_formed (snd x)))"
| "well_formed _ = True"

lemma copy_by_type_copies:
  assumes rng: "\<And>d. mset (rng d) = mset d"
  shows "well_formed \<tau> \<Longrightarrow> copies (copy_by_type rng \<tau>) \<tau>"
proof (induction \<tau> rule: well_formed.induct)
  case (1 \<tau>)
  then have "completes (non_nil (new_into (zero_of \<tau>) (copy_by_type rng \<tau>))) (TPtr \<tau>)"
    by (intro completes_ptr) simp
  then show ?case by (simp add: copies_assign_then copy_by_type_eqs)
next
  case (2 \<tau>)
  then have "completes (non_nil (make_each (zero_of \<tau>) (copy_by_type rng \<tau>))) (TSlice \<tau>)"
    by (intro completes_slice) simp
  then show ?case by (simp add: copies_assign_then copy_by_type_eqs)
next
  case (3 fs)
  have "copies (copy_fields (map (\<lambda>x. (fst x, copy_by_type rng (snd x))) fs)) (TStruct fs)"
  proof (rule copies_fields)
    fix s assume "s \<in> set (map (\<lambda>x. (fst x, copy_by_type rng (snd x))) fs)"
    then obtain x where x: "x \<in> set fs" "s = (fst x, copy_by_type rng (snd x))" by auto
    have "copies (copy_by_type rng (snd x)) (snd x)" using "3.IH" [OF x(1)] "3.prems" x(1) by simp
    with x show "\<exists>\<tau>. (fst s, \<tau>) \<in> set fs \<and> completes (snd s) \<tau>"
      by (intro exI [of _ "snd x"]) (simp add: copies_completes)
  next
    fix x assume "x \<in> set fs"
    then show "fst x \<in> fst ` set (map (\<lambda>x. (fst x, copy_by_type rng (snd x))) fs) \<or> flat (snd x)"
      by force
  qed (use "3.prems" in \<open>simp_all add: comp_def\<close>)
  then show ?case by (simp add: copy_by_type_eqs)
qed (use copies_assign_then [OF completes_map [OF rng]] in \<open>simp_all add: copies_assign copy_by_type_eqs\<close>)

text \<open>
  The rule of a \<open>DeepCopyInto\<close> body in a form that simplification decides field by field:
  every statement completes the type of its field, and the fields without one are flat.
\<close>

lemma copies_struct:
  assumes "distinct (map fst fs)" "distinct (map fst ss)"
    and "list_all (\<lambda>s. case map_of fs (fst s) of Some \<tau> \<Rightarrow> completes (snd s) \<tau> | None \<Rightarrow> False) ss"
    and "list_all (\<lambda>x. fst x \<in> set (map fst ss) \<or> flat (snd x)) fs"
  shows "copies (copy_fields ss) (TStruct fs)"
proof (rule copies_fields [OF assms(1,2)])
  fix s assume "s \<in> set ss"
  with assms(3) obtain \<tau> where "map_of fs (fst s) = Some \<tau>" "completes (snd s) \<tau>"
    by (auto simp: list_all_iff split: option.splits)
  then show "\<exists>\<tau>. (fst s, \<tau>) \<in> set fs \<and> completes (snd s) \<tau>" by (blast dest: map_of_SomeD)
next
  fix x assume "x \<in> set fs"
  with assms(4) show "fst x \<in> fst ` set ss \<or> flat (snd x)" by (simp add: list_all_iff)
qed

section \<open>Allocating copies\<close>

text \<open>
  The generated \<open>DeepCopy\<close>: \<open>if in == nil { return nil }; out := new(T); in.DeepCopyInto(out); return out\<close>
\<close>

definition deep_copy :: "gval \<Rightarrow> copier \<Rightarrow> gval \<Rightarrow> (heap, gval) op" where
  "deep_copy zero c p = (case p of
     GPtr src \<Rightarrow> andThen (new zero) (\<lambda>a. andThen (c src (a, [])) (\<lambda>_. ret (GPtr (a, []))))
   | _ \<Rightarrow> ret GNil)"

text \<open>
  An independent copy \<open>c\<close> of \<open>p\<close>: the memory of before is as it was, \<open>c\<close> has the content of \<open>p\<close>
  (nil for nil), and whatever is written later to memory that belongs to one of the two leaves the
  content of the other alone.
\<close>

definition independent_copy :: "heap \<Rightarrow> gty \<Rightarrow> gval \<Rightarrow> heap \<Rightarrow> gval \<Rightarrow> bool" where
  "independent_copy h \<tau> p h' c \<longleftrightarrow>
     take (length h) h' = h \<and> typed h' \<tau> c \<and> content h' \<tau> c = content h \<tau> p
     \<and> (c = GNil \<longleftrightarrow> p = GNil) \<and> foot h' \<tau> c \<inter> foot h' \<tau> p = {}
     \<and> (\<forall>g. same_on ({..<length h'} - foot h' \<tau> c) h' g \<longrightarrow> content g \<tau> p = content h \<tau> p)
     \<and> (\<forall>g. same_on ({..<length h'} - foot h' \<tau> p) h' g \<longrightarrow> content g \<tau> c = content h \<tau> p)"

lemma fresh_independent:
  assumes "take (length h) h' = h" "typed h \<tau> p" "fresh_copy h \<tau> p h' c" "c = GNil \<longleftrightarrow> p = GNil"
  shows "independent_copy h \<tau> p h' c"
proof -
  have len: "length h \<le> length h'" using assms(1) by (metis nat_le_linear take_all)
  have "h' ! a = h ! a" if "a < length h" for a using that assms(1) by (metis nth_take)
  then have "same_on (foot h \<tau> p) h h'"
    using foot_bound [OF assms(2)] len by (auto simp: same_on_def)
  note p = frame [OF assms(2) this]
  have c: "typed h' \<tau> c" "content h' \<tau> c = content h \<tau> p" "foot h' \<tau> c \<subseteq> {length h..<length h'}"
    using assms(3) by (simp_all add: fresh_copy_def)
  have apart: "foot h' \<tau> c \<inter> foot h' \<tau> p = {}"
    using c(3) p foot_bound [OF assms(2)] by fastforce
  have "content g \<tau> p = content h \<tau> p" if "same_on ({..<length h'} - foot h' \<tau> c) h' g" for g
  proof -
    have "same_on (foot h' \<tau> p) h' g"
      using that apart foot_bound [of h' \<tau> p] p by (auto elim!: same_on_mono)
    with p show ?thesis using frame [of h' \<tau> p g] by simp
  qed
  moreover have "content g \<tau> c = content h \<tau> p" if "same_on ({..<length h'} - foot h' \<tau> p) h' g" for g
  proof -
    have "same_on (foot h' \<tau> c) h' g"
      using that apart foot_bound [OF c(1)] by (auto elim!: same_on_mono)
    with c show ?thesis using frame [of h' \<tau> c g] by simp
  qed
  ultimately show ?thesis using assms apart c by (simp add: independent_copy_def)
qed

lemma deep_copy_independent:
  assumes "copies c \<tau>" "typed h (TPtr \<tau>) p"
  shows "\<exists>h' q. deep_copy z c p h = (Inr q, h') \<and> independent_copy h (TPtr \<tau>) p h' q"
proof (cases "p = GNil")
  case True
  then have "independent_copy h (TPtr \<tau>) p h GNil"
    by (intro fresh_independent) (simp_all add: fresh_copy_def)
  with True show ?thesis by (auto simp: deep_copy_def run_ret)
next
  case False
  with assms(2) obtain l v where p: "p = GPtr l" and l: "load h l = Some v" and v: "typed h \<tau> v"
    by (cases p) (auto split: option.splits)
  let ?a = "length h" and ?h = "h @ [z]"
  have same: "same_on A h ?h" if "A \<subseteq> {..<length h}" for A
    using that by (auto simp: same_on_def nth_append)
  have l': "load ?h l = Some v" using load_same [OF same l] l by (auto dest: load_SomeD)
  have v': "typed ?h \<tau> v" "foot ?h \<tau> v = foot h \<tau> v" "content ?h \<tau> v = content h \<tau> v"
    using frame [OF v same [OF foot_bound [OF v]]] by simp_all
  have dst: "load ?h (?a, []) \<noteq> None" by (simp add: load_def)
  have "fst l < length h" using l by (auto dest: load_SomeD)
  moreover have "?a \<notin> foot h \<tau> v" using foot_bound [OF v] by auto
  ultimately obtain h' w where r: "c l (?a, []) ?h = (Inr (), h')" and g: "grows ?h (?a, []) w h'"
    and f: "fresh_copy ?h \<tau> v h' w"
    using copiesE [OF assms(1) l' v'(1) dst] v'(2) by auto
  have "take (length h) h' = take (length h) (take (length ?h) h')" by simp
  also have "\<dots> = h" using g by (simp add: grows_def store_def)
  finally have "take (length h) h' = h" .
  moreover have "fresh_copy h (TPtr \<tau>) p h' (GPtr (?a, []))"
    using f grows_load [OF g dst] grows_length [OF g] p l v'(3) by (auto simp: fresh_copy_def)
  ultimately have "independent_copy h (TPtr \<tau>) p h' (GPtr (?a, []))"
    using assms(2) p by (intro fresh_independent) simp_all
  with r p show ?thesis by (auto simp: deep_copy_def run_andThen new_def run_ret)
qed

end
