(* ===== verification/Deepcopy.thy ===== *)
theory Deepcopy
  imports Copiers
begin

text \<open>
  The generated deep copies of the API types (\<open>api/v1/zz_generated.deepcopy.go\<close>): every
  \<open>DeepCopyInto\<close>, \<open>DeepCopy\<close> and \<open>DeepCopyObject\<close>, on the memory of \<open>Memory\<close>, statement by
  statement in the order of the source. The types of the Kubernetes libraries and their own
  copiers are a parameter; what the code relies on is the locale \<open>deepcopy_library\<close>.
\<close>

section \<open>The library's types and copiers\<close>

record deepcopy_lib =
  lib_type :: "string \<Rightarrow> gty" \<comment> \<open>the layout of a library type, by its qualified name\<close>
  lib_copy :: "string \<Rightarrow> copier" \<comment> \<open>its \<open>DeepCopyInto\<close>\<close>
  lib_range :: range_order \<comment> \<open>the order in which a map is ranged over\<close>

text \<open>
  What is relied on: a library type's \<open>DeepCopyInto\<close> makes a deep copy; the three types the
  generator copies by assignment hold no reference; a map is ranged over entry by entry, in
  whatever order.
\<close>

locale deepcopy_library =
  fixes D :: deepcopy_lib
  assumes lib_copies: "copies (lib_copy D n) (lib_type D n)"
    and lib_flat: "flat (lib_type D ''metav1.TypeMeta'')" "flat (lib_type D ''intstr.IntOrString'')"
      "flat (lib_type D ''corev1.LocalObjectReference'')"
    and lib_range_order: "mset (lib_range D d) = mset d"

text \<open>A \<open>runtime.Object\<close>: the nil interface, or a type name with a pointer.\<close>

datatype runtime_object = NilObject | Object string gval

text \<open>\<open>if c := in.DeepCopy(); c != nil { return c }; return nil\<close>\<close>

definition as_object :: "string \<Rightarrow> (heap, gval) op \<Rightarrow> (heap, runtime_object) op" where
  "as_object n m = andThen m (\<lambda>c. if c \<noteq> GNil then ret (Object n c) else ret NilObject)"

section \<open>The types and their copies\<close>

definition UpgradeOptions_type :: "gty" where
  "UpgradeOptions_type = TStruct
    [(''VersionServiceEndpoint'', TStr),
     (''Apply'', TStr)]"

definition UpgradeOptions_DeepCopyInto :: "copier" where
  "UpgradeOptions_DeepCopyInto = copy_fields
    []"

definition UpgradeOptions_DeepCopy :: "gval \<Rightarrow> (heap, gval) op" where
  "UpgradeOptions_DeepCopy = deep_copy (zero_of UpgradeOptions_type) UpgradeOptions_DeepCopyInto"

definition PodAffinity_type :: "gty" where
  "PodAffinity_type = TStruct
    [(''TopologyKey'', TPtr TStr)]"

definition PodAffinity_DeepCopyInto :: "copier" where
  "PodAffinity_DeepCopyInto = copy_fields
    [(''TopologyKey'', non_nil (new_into (zero_of TStr) assign))]"

definition PodAffinity_DeepCopy :: "gval \<Rightarrow> (heap, gval) op" where
  "PodAffinity_DeepCopy = deep_copy (zero_of PodAffinity_type) PodAffinity_DeepCopyInto"

definition ContainerSpec_type :: "deepcopy_lib \<Rightarrow> gty" where
  "ContainerSpec_type D = TStruct
    [(''Image'', TStr),
     (''ImagePullPolicy'', TStr),
     (''ImagePullSecrets'', TSlice (lib_type D ''corev1.LocalObjectReference'')),
     (''Resources'', lib_type D ''corev1.ResourceRequirements''),
     (''StartupProbe'', lib_type D ''corev1.Probe''),
     (''ReadinessProbe'', lib_type D ''corev1.Probe''),
     (''LivenessProbe'', lib_type D ''corev1.Probe''),
     (''SecurityContext'', TPtr (lib_type D ''corev1.SecurityContext'')),
     (''Envs'', TSlice (lib_type D ''corev1.EnvVar''))]"

definition ContainerSpec_DeepCopyInto :: "deepcopy_lib \<Rightarrow> copier" where
  "ContainerSpec_DeepCopyInto D = copy_fields
    [(''ImagePullSecrets'', non_nil (make_each (zero_of (lib_type D ''corev1.LocalObjectReference'')) assign)),
     (''Resources'', lib_copy D ''corev1.ResourceRequirements''),
     (''StartupProbe'', lib_copy D ''corev1.Probe''),
     (''ReadinessProbe'', lib_copy D ''corev1.Probe''),
     (''LivenessProbe'', lib_copy D ''corev1.Probe''),
     (''SecurityContext'', non_nil (new_into (zero_of (lib_type D ''corev1.SecurityContext'')) (lib_copy D ''corev1.SecurityContext''))),
     (''Envs'', non_nil (make_each (zero_of (lib_type D ''corev1.EnvVar'')) (lib_copy D ''corev1.EnvVar'')))]"

definition ContainerSpec_DeepCopy :: "deepcopy_lib \<Rightarrow> gval \<Rightarrow> (heap, gval) op" where
  "ContainerSpec_DeepCopy D = deep_copy (zero_of (ContainerSpec_type D)) (ContainerSpec_DeepCopyInto D)"

definition PodSpec_type :: "deepcopy_lib \<Rightarrow> gty" where
  "PodSpec_type D = TStruct
    [(''Affinity'', TPtr PodAffinity_type),
     (''Annotation'', TStrMap),
     (''Labels'', TStrMap),
     (''NodeSelector'', TStrMap),
     (''Tolerations'', TSlice (lib_type D ''corev1.Toleration'')),
     (''TerminationGracePeriodSeconds'', TPtr TInt),
     (''SchedulerName'', TStr),
     (''PodSecurityContext'', TPtr (lib_type D ''corev1.PodSecurityContext'')),
     (''ServiceAccountName'', TStr),
     (''ServiceName'', TStr),
     (''Version'', TStr),
     (''Containers'', TSlice (ContainerSpec_type D)),
     (''PersistentVolumeClaimTemplate'', TPtr (lib_type D ''corev1.PersistentVolumeClaimSpec''))]"

definition PodSpec_DeepCopyInto :: "deepcopy_lib \<Rightarrow> copier" where
  "PodSpec_DeepCopyInto D = copy_fields
    [(''Affinity'', non_nil (new_into (zero_of PodAffinity_type) PodAffinity_DeepCopyInto)),
     (''Annotation'', non_nil (make_map (lib_range D))),
     (''Labels'', non_nil (make_map (lib_range D))),
     (''NodeSelector'', non_nil (make_map (lib_range D))),
     (''Tolerations'', non_nil (make_each (zero_of (lib_type D ''corev1.Toleration'')) (lib_copy D ''corev1.Toleration''))),
     (''TerminationGracePeriodSeconds'', non_nil (new_into (zero_of TInt) assign)),
     (''PodSecurityContext'', non_nil (new_into (zero_of (lib_type D ''corev1.PodSecurityContext'')) (lib_copy D ''corev1.PodSecurityContext''))),
     (''Containers'', non_nil (make_each (zero_of (ContainerSpec_type D)) (ContainerSpec_DeepCopyInto D))),
     (''PersistentVolumeClaimTemplate'', non_nil (new_into (zero_of (lib_type D ''corev1.PersistentVolumeClaimSpec'')) (lib_copy D ''corev1.PersistentVolumeClaimSpec'')))]"

definition PodSpec_DeepCopy :: "deepcopy_lib \<Rightarrow> gval \<Rightarrow> (heap, gval) op" where
  "PodSpec_DeepCopy D = deep_copy (zero_of (PodSpec_type D)) (PodSpec_DeepCopyInto D)"

definition ServiceExpose_type :: "gty" where
  "ServiceExpose_type = TStruct
    [(''Enabled'', TBool),
     (''Type'', TStr),
     (''LoadBalancerSourceRanges'', TSlice TStr),
     (''LoadBalancerIP'', TStr),
     (''Annotations'', TStrMap),
     (''Labels'', TStrMap),
     (''ExternalTrafficPolicy'', TStr),
     (''InternalTrafficPolicy'', TStr),
     (''TrafficPolicy'', TStr)]"

definition ServiceExpose_DeepCopyInto :: "deepcopy_lib \<Rightarrow> copier" where
  "ServiceExpose_DeepCopyInto D = copy_fields
    [(''LoadBalancerSourceRanges'', non_nil (make_each (zero_of TStr) assign)),
     (''Annotations'', non_nil (make_map (lib_range D))),
     (''Labels'', non_nil (make_map (lib_range D)))]"

definition ServiceExpose_DeepCopy :: "deepcopy_lib \<Rightarrow> gval \<Rightarrow> (heap, gval) op" where
  "ServiceExpose_DeepCopy D = deep_copy (zero_of ServiceExpose_type) (ServiceExpose_DeepCopyInto D)"

definition Proxy_type :: "deepcopy_lib \<Rightarrow> gty" where
  "Proxy_type D = TStruct
    [(''Enabled'', TBool),
     (''PodSpec'', PodSpec_type D),
     (''Expose'', ServiceExpose_type)]"

definition Proxy_DeepCopyInto :: "deepcopy_lib \<Rightarrow> copier" where
  "Proxy_DeepCopyInto D = copy_fields
    [(''PodSpec'', PodSpec_DeepCopyInto D),
     (''Expose'', ServiceExpose_DeepCopyInto D)]"

definition Proxy_DeepCopy :: "deepcopy_lib \<Rightarrow> gval \<Rightarrow> (heap, gval) op" where
  "Proxy_DeepCopy D = deep_copy (zero_of (Proxy_type D)) (Proxy_DeepCopyInto D)"

definition SchedulerBuckup_type :: "gty" where
  "SchedulerBuckup_type = TStruct
    [(''Enable'', TPtr TBool)]"

definition SchedulerBuckup_DeepCopyInto :: "copier" where
  "SchedulerBuckup_DeepCopyInto = copy_fields
    [(''Enable'', non_nil (new_into (zero_of TBool) assign))]"

definition SchedulerBuckup_DeepCopy :: "gval \<Rightarrow> (heap, gval) op" where
  "SchedulerBuckup_DeepCopy = deep_copy (zero_of SchedulerBuckup_type) SchedulerBuckup_DeepCopyInto"

definition MetricsCollection_type :: "gty" where
  "MetricsCollection_type = TStruct
    [(''Enable'', TPtr TBool)]"

definition MetricsCollection_DeepCopyInto :: "copier" where
  "MetricsCollection_DeepCopyInto = copy_fields
    [(''Enable'', non_nil (new_into (zero_of TBool) assign))]"

definition MetricsCollection_DeepCopy :: "gval \<Rightarrow> (heap, gval) op" where
  "MetricsCollection_DeepCopy = deep_copy (zero_of MetricsCollection_type) MetricsCollection_DeepCopyInto"

definition RolelingUpdate_type :: "deepcopy_lib \<Rightarrow> gty" where
  "RolelingUpdate_type D = TStruct
    [(''Partition'', TPtr TInt),
     (''MaxUnavailable'', TPtr (lib_type D ''intstr.IntOrString''))]"

definition RolelingUpdate_DeepCopyInto :: "deepcopy_lib \<Rightarrow> copier" where
  "RolelingUpdate_DeepCopyInto D = copy_fields
    [(''Partition'', non_nil (new_into (zero_of TInt) assign)),
     (''MaxUnavailable'', non_nil (new_into (zero_of (lib_type D ''intstr.IntOrString'')) assign))]"

definition RolelingUpdate_DeepCopy :: "deepcopy_lib \<Rightarrow> gval \<Rightarrow> (heap, gval) op" where
  "RolelingUpdate_DeepCopy D = deep_copy (zero_of (RolelingUpdate_type D)) (RolelingUpdate_DeepCopyInto D)"

definition StatefulSetUpdateStrategyType_type :: "deepcopy_lib \<Rightarrow> gty" where
  "StatefulSetUpdateStrategyType_type D = TStruct
    [(''Type'', TStr),
     (''RolelingUpdate'', TPtr (RolelingUpdate_type D))]"

definition StatefulSetUpdateStrategyType_DeepCopyInto :: "deepcopy_lib \<Rightarrow> copier" where
  "StatefulSetUpdateStrategyType_DeepCopyInto D = copy_fields
    [(''RolelingUpdate'', non_nil (new_into (zero_of (RolelingUpdate_type D)) (RolelingUpdate_DeepCopyInto D)))]"

definition StatefulSetUpdateStrategyType_DeepCopy :: "deepcopy_lib \<Rightarrow> gval \<Rightarrow> (heap, gval) op" where
  "StatefulSetUpdateStrategyType_DeepCopy D = deep_copy (zero_of (StatefulSetUpdateStrategyType_type D)) (StatefulSetUpdateStrategyType_DeepCopyInto D)"

definition MySQLGroupReplicationCluster_type :: "deepcopy_lib \<Rightarrow> gty" where
  "MySQLGroupReplicationCluster_type D = TStruct
    [(''PodSpec'', TPtr (PodSpec_type D)),
     (''Ports'', TSlice (lib_type D ''corev1.ServicePort'')),
     (''Type'', TStr),
     (''DnsPolicy'', TStr),
     (''UpgradeOptions'', UpgradeOptions_type),
     (''UpdateStrategy'', TPtr (StatefulSetUpdateStrategyType_type D))]"

definition MySQLGroupReplicationCluster_DeepCopyInto :: "deepcopy_lib \<Rightarrow> copier" where
  "MySQLGroupReplicationCluster_DeepCopyInto D = copy_fields
    [(''PodSpec'', non_nil (new_into (zero_of (PodSpec_type D)) (PodSpec_DeepCopyInto D))),
     (''Ports'', non_nil (make_each (zero_of (lib_type D ''corev1.ServicePort'')) (lib_copy D ''corev1.ServicePort''))),
     (''UpgradeOptions'', assign),
     (''UpdateStrategy'', non_nil (new_into (zero_of (StatefulSetUpdateStrategyType_type D)) (StatefulSetUpdateStrategyType_DeepCopyInto D)))]"

definition MySQLGroupReplicationCluster_DeepCopy :: "deepcopy_lib \<Rightarrow> gval \<Rightarrow> (heap, gval) op" where
  "MySQLGroupReplicationCluster_DeepCopy D = deep_copy (zero_of (MySQLGroupReplicationCluster_type D)) (MySQLGroupReplicationCluster_DeepCopyInto D)"

definition Storage_type :: "deepcopy_lib \<Rightarrow> gty" where
  "Storage_type D = TStruct
    [(''Type'', TStr),
     (''PersistentVolumeSource'', TPtr (lib_type D ''corev1.PersistentVolumeSource'')),
     (''PersistentVolumeClaimTemplate'', TPtr (lib_type D ''corev1.PersistentVolumeClaimSpec''))]"

definition Storage_DeepCopyInto :: "deepcopy_lib \<Rightarrow> copier" where
  "Storage_DeepCopyInto D = copy_fields
    [(''PersistentVolumeSource'', non_nil (new_into (zero_of (lib_type D ''corev1.PersistentVolumeSource'')) (lib_copy D ''corev1.PersistentVolumeSource''))),
     (''PersistentVolumeClaimTemplate'', non_nil (new_into (zero_of (lib_type D ''corev1.PersistentVolumeClaimSpec'')) (lib_copy D ''corev1.PersistentVolumeClaimSpec'')))]"

definition Storage_DeepCopy :: "deepcopy_lib \<Rightarrow> gval \<Rightarrow> (heap, gval) op" where
  "Storage_DeepCopy D = deep_copy (zero_of (Storage_type D)) (Storage_DeepCopyInto D)"

definition Member_type :: "gty" where
  "Member_type = TStruct
    [(''Role'', TStr),
     (''Size'', TPtr TInt)]"

definition Member_DeepCopyInto :: "copier" where
  "Member_DeepCopyInto = copy_fields
    [(''Size'', non_nil (new_into (zero_of TInt) assign))]"

definition Member_DeepCopy :: "gval \<Rightarrow> (heap, gval) op" where
  "Member_DeepCopy = deep_copy (zero_of Member_type) Member_DeepCopyInto"

definition GroupReplicationClusterSpec_type :: "deepcopy_lib \<Rightarrow> gty" where
  "GroupReplicationClusterSpec_type D = TStruct
    [(''Member'', TSlice Member_type),
     (''ClusterSpec'', TPtr (MySQLGroupReplicationCluster_type D)),
     (''ProxySpec'', TPtr (Proxy_type D)),
     (''SchedulerBuckup'', TPtr SchedulerBuckup_type),
     (''MetricsCollection'', TPtr MetricsCollection_type)]"

definition GroupReplicationClusterSpec_DeepCopyInto :: "deepcopy_lib \<Rightarrow> copier" where
  "GroupReplicationClusterSpec_DeepCopyInto D = copy_fields
    [(''Member'', non_nil (make_each (zero_of Member_type) Member_DeepCopyInto)),
     (''ClusterSpec'', non_nil (new_into (zero_of (MySQLGroupReplicationCluster_type D)) (MySQLGroupReplicationCluster_DeepCopyInto D))),
     (''ProxySpec'', non_nil (new_into (zero_of (Proxy_type D)) (Proxy_DeepCopyInto D))),
     (''SchedulerBuckup'', non_nil (new_into (zero_of SchedulerBuckup_type) SchedulerBuckup_DeepCopyInto)),
     (''MetricsCollection'', non_nil (new_into (zero_of MetricsCollection_type) MetricsCollection_DeepCopyInto))]"

definition GroupReplicationClusterSpec_DeepCopy :: "deepcopy_lib \<Rightarrow> gval \<Rightarrow> (heap, gval) op" where
  "GroupReplicationClusterSpec_DeepCopy D = deep_copy (zero_of (GroupReplicationClusterSpec_type D)) (GroupReplicationClusterSpec_DeepCopyInto D)"

definition GroupReplicationClusterStatus_type :: "deepcopy_lib \<Rightarrow> gty" where
  "GroupReplicationClusterStatus_type D = TStruct
    [(''AccessPoint'', TStr),
     (''Size'', TInt),
     (''Ready'', TInt),
     (''Age'', TStr),
     (''StatefulSetStatus'', lib_type D ''appsv1.StatefulSetStatus'')]"

definition GroupReplicationClusterStatus_DeepCopyInto :: "deepcopy_lib \<Rightarrow> copier" where
  "GroupReplicationClusterStatus_DeepCopyInto D = copy_fields
    [(''StatefulSetStatus'', lib_copy D ''appsv1.StatefulSetStatus'')]"

definition GroupReplicationClusterStatus_DeepCopy :: "deepcopy_lib \<Rightarrow> gval \<Rightarrow> (heap, gval) op" where
  "GroupReplicationClusterStatus_DeepCopy D = deep_copy (zero_of (GroupReplicationClusterStatus_type D)) (GroupReplicationClusterStatus_DeepCopyInto D)"

definition GroupReplicationCluster_type :: "deepcopy_lib \<Rightarrow> gty" where
  "GroupReplicationCluster_type D = TStruct
    [(''TypeMeta'', lib_type D ''metav1.TypeMeta''),
     (''ObjectMeta'', lib_type D ''metav1.ObjectMeta''),
     (''Spec'', GroupReplicationClusterSpec_type D),
     (''Status'', GroupReplicationClusterStatus_type D)]"

definition GroupReplicationCluster_DeepCopyInto :: "deepcopy_lib \<Rightarrow> copier" where
  "GroupReplicationCluster_DeepCopyInto D = copy_fields
    [(''TypeMeta'', assign),
     (''ObjectMeta'', lib_copy D ''metav1.ObjectMeta''),
     (''Spec'', GroupReplicationClusterSpec_DeepCopyInto D),
     (''Status'', GroupReplicationClusterStatus_DeepCopyInto D)]"

definition GroupReplicationCluster_DeepCopy :: "deepcopy_lib \<Rightarrow> gval \<Rightarrow> (heap, gval) op" where
  "GroupReplicationCluster_DeepCopy D = deep_copy (zero_of (GroupReplicationCluster_type D)) (GroupReplicationCluster_DeepCopyInto D)"

definition GroupReplicationCluster_DeepCopyObject :: "deepcopy_lib \<Rightarrow> gval \<Rightarrow> (heap, runtime_object) op" where
  "GroupReplicationCluster_DeepCopyObject D p = as_object ''GroupReplicationCluster'' (GroupReplicationCluster_DeepCopy D p)"

definition GroupReplicationClusterList_type :: "deepcopy_lib \<Rightarrow> gty" where
  "GroupReplicationClusterList_type D = TStruct
    [(''TypeMeta'', lib_type D ''metav1.TypeMeta''),
     (''ListMeta'', lib_type D ''metav1.ListMeta''),
     (''Items'', TSlice (GroupReplicationCluster_type D))]"

definition GroupReplicationClusterList_DeepCopyInto :: "deepcopy_lib \<Rightarrow> copier" where
  "GroupReplicationClusterList_DeepCopyInto D = copy_fields
    [(''TypeMeta'', assign),
     (''ListMeta'', lib_copy D ''metav1.ListMeta''),
     (''Items'', non_nil (make_each (zero_of (GroupReplicationCluster_type D)) (GroupReplicationCluster_DeepCopyInto D)))]"

definition GroupReplicationClusterList_DeepCopy :: "deepcopy_lib \<Rightarrow> gval \<Rightarrow> (heap, gval) op" where
  "GroupReplicationClusterList_DeepCopy D = deep_copy (zero_of (GroupReplicationClusterList_type D)) (GroupReplicationClusterList_DeepCopyInto D)"

definition GroupReplicationClusterList_DeepCopyObject :: "deepcopy_lib \<Rightarrow> gval \<Rightarrow> (heap, runtime_object) op" where
  "GroupReplicationClusterList_DeepCopyObject D p = as_object ''GroupReplicationClusterList'' (GroupReplicationClusterList_DeepCopy D p)"

definition SingleInstanceSpec_type :: "deepcopy_lib \<Rightarrow> gty" where
  "SingleInstanceSpec_type D = TStruct
    [(''Size'', TPtr TInt),
     (''PodSpec'', PodSpec_type D),
     (''Ports'', TSlice (lib_type D ''corev1.ServicePort'')),
     (''Type'', TStr),
     (''DnsPolicy'', TStr),
     (''UpgradeOptions'', UpgradeOptions_type),
     (''UpdateStrategy'', TStr)]"

definition SingleInstanceSpec_DeepCopyInto :: "deepcopy_lib \<Rightarrow> copier" where
  "SingleInstanceSpec_DeepCopyInto D = copy_fields
    [(''Size'', non_nil (new_into (zero_of TInt) assign)),
     (''PodSpec'', PodSpec_DeepCopyInto D),
     (''Ports'', non_nil (make_each (zero_of (lib_type D ''corev1.ServicePort'')) (lib_copy D ''corev1.ServicePort''))),
     (''UpgradeOptions'', assign)]"

definition SingleInstanceSpec_DeepCopy :: "deepcopy_lib \<Rightarrow> gval \<Rightarrow> (heap, gval) op" where
  "SingleInstanceSpec_DeepCopy D = deep_copy (zero_of (SingleInstanceSpec_type D)) (SingleInstanceSpec_DeepCopyInto D)"

definition SingleInstanceStatus_type :: "deepcopy_lib \<Rightarrow> gty" where
  "SingleInstanceStatus_type D = TStruct
    [(''AccessPoint'', TStr),
     (''Size'', TInt),
     (''Ready'', TInt),
     (''Age'', TStr),
     (''DeploymentStatus'', lib_type D ''appsv1.DeploymentStatus'')]"

definition SingleInstanceStatus_DeepCopyInto :: "deepcopy_lib \<Rightarrow> copier" where
  "SingleInstanceStatus_DeepCopyInto D = copy_fields
    [(''DeploymentStatus'', lib_copy D ''appsv1.DeploymentStatus'')]"

definition SingleInstanceStatus_DeepCopy :: "deepcopy_lib \<Rightarrow> gval \<Rightarrow> (heap, gval) op" where
  "SingleInstanceStatus_DeepCopy D = deep_copy (zero_of (SingleInstanceStatus_type D)) (SingleInstanceStatus_DeepCopyInto D)"

definition SingleInstance_type :: "deepcopy_lib \<Rightarrow> gty" where
  "SingleInstance_type D = TStruct
    [(''TypeMeta'', lib_type D ''metav1.TypeMeta''),
     (''ObjectMeta'', lib_type D ''metav1.ObjectMeta''),
     (''Spec'', SingleInstanceSpec_type D),
     (''Status'', SingleInstanceStatus_type D)]"

definition SingleInstance_DeepCopyInto :: "deepcopy_lib \<Rightarrow> copier" where
  "SingleInstance_DeepCopyInto D = copy_fields
    [(''TypeMeta'', assign),
     (''ObjectMeta'', lib_copy D ''metav1.ObjectMeta''),
     (''Spec'', SingleInstanceSpec_DeepCopyInto D),
     (''Status'', SingleInstanceStatus_DeepCopyInto D)]"

definition SingleInstance_DeepCopy :: "deepcopy_lib \<Rightarrow> gval \<Rightarrow> (heap, gval) op" where
  "SingleInstance_DeepCopy D = deep_copy (zero_of (SingleInstance_type D)) (SingleInstance_DeepCopyInto D)"

definition SingleInstance_DeepCopyObject :: "deepcopy_lib \<Rightarrow> gval \<Rightarrow> (heap, runtime_object) op" where
  "SingleInstance_DeepCopyObject D p = as_object ''SingleInstance'' (SingleInstance_DeepCopy D p)"

definition SingleInstanceList_type :: "deepcopy_lib \<Rightarrow> gty" where
  "SingleInstanceList_type D = TStruct
    [(''TypeMeta'', lib_type D ''metav1.TypeMeta''),
     (''ListMeta'', lib_type D ''metav1.ListMeta''),
     (''Items'', TSlice (SingleInstance_type D))]"

definition SingleInstanceList_DeepCopyInto :: "deepcopy_lib \<Rightarrow> copier" where
  "SingleInstanceList_DeepCopyInto D = copy_fields
    [(''TypeMeta'', assign),
     (''ListMeta'', lib_copy D ''metav1.ListMeta''),
     (''Items'', non_nil (make_each (zero_of (SingleInstance_type D)) (SingleInstance_DeepCopyInto D)))]"

definition SingleInstanceList_DeepCopy :: "deepcopy_lib \<Rightarrow> gval \<Rightarrow> (heap, gval) op" where
  "SingleInstanceList_DeepCopy D = deep_copy (zero_of (SingleInstanceList_type D)) (SingleInstanceList_DeepCopyInto D)"

definition SingleInstanceList_DeepCopyObject :: "deepcopy_lib \<Rightarrow> gval \<Rightarrow> (heap, runtime_object) op" where
  "SingleInstanceList_DeepCopyObject D p = as_object ''SingleInstanceList'' (SingleInstanceList_DeepCopy D p)"

section \<open>Every copy is deep\<close>

context deepcopy_library
begin

lemmas statement_rules =
  completes_ptr completes_slice completes_map [OF lib_range_order] copies_completes
  copies_assign lib_copies lib_flat

lemma UpgradeOptions_copies: "copies (UpgradeOptions_DeepCopyInto) (UpgradeOptions_type)"
  unfolding UpgradeOptions_DeepCopyInto_def UpgradeOptions_type_def
  by (rule copies_struct) (simp_all add: statement_rules)

lemma PodAffinity_copies: "copies (PodAffinity_DeepCopyInto) (PodAffinity_type)"
  unfolding PodAffinity_DeepCopyInto_def PodAffinity_type_def
  by (rule copies_struct) (simp_all add: statement_rules)

lemma ContainerSpec_copies: "copies (ContainerSpec_DeepCopyInto D) (ContainerSpec_type D)"
  unfolding ContainerSpec_DeepCopyInto_def ContainerSpec_type_def
  by (rule copies_struct) (simp_all add: statement_rules)

lemma PodSpec_copies: "copies (PodSpec_DeepCopyInto D) (PodSpec_type D)"
  unfolding PodSpec_DeepCopyInto_def PodSpec_type_def
  by (rule copies_struct) (simp_all add: statement_rules ContainerSpec_copies PodAffinity_copies)

lemma ServiceExpose_copies: "copies (ServiceExpose_DeepCopyInto D) (ServiceExpose_type)"
  unfolding ServiceExpose_DeepCopyInto_def ServiceExpose_type_def
  by (rule copies_struct) (simp_all add: statement_rules)

lemma Proxy_copies: "copies (Proxy_DeepCopyInto D) (Proxy_type D)"
  unfolding Proxy_DeepCopyInto_def Proxy_type_def
  by (rule copies_struct) (simp_all add: statement_rules PodSpec_copies ServiceExpose_copies)

lemma SchedulerBuckup_copies: "copies (SchedulerBuckup_DeepCopyInto) (SchedulerBuckup_type)"
  unfolding SchedulerBuckup_DeepCopyInto_def SchedulerBuckup_type_def
  by (rule copies_struct) (simp_all add: statement_rules)

lemma MetricsCollection_copies: "copies (MetricsCollection_DeepCopyInto) (MetricsCollection_type)"
  unfolding MetricsCollection_DeepCopyInto_def MetricsCollection_type_def
  by (rule copies_struct) (simp_all add: statement_rules)

lemma RolelingUpdate_copies: "copies (RolelingUpdate_DeepCopyInto D) (RolelingUpdate_type D)"
  unfolding RolelingUpdate_DeepCopyInto_def RolelingUpdate_type_def
  by (rule copies_struct) (simp_all add: statement_rules)

lemma StatefulSetUpdateStrategyType_copies: "copies (StatefulSetUpdateStrategyType_DeepCopyInto D) (StatefulSetUpdateStrategyType_type D)"
  unfolding StatefulSetUpdateStrategyType_DeepCopyInto_def StatefulSetUpdateStrategyType_type_def
  by (rule copies_struct) (simp_all add: statement_rules RolelingUpdate_copies)

lemma MySQLGroupReplicationCluster_copies: "copies (MySQLGroupReplicationCluster_DeepCopyInto D) (MySQLGroupReplicationCluster_type D)"
  unfolding MySQLGroupReplicationCluster_DeepCopyInto_def MySQLGroupReplicationCluster_type_def
  by (rule copies_struct) (simp_all add: statement_rules PodSpec_copies StatefulSetUpdateStrategyType_copies UpgradeOptions_type_def)

lemma Storage_copies: "copies (Storage_DeepCopyInto D) (Storage_type D)"
  unfolding Storage_DeepCopyInto_def Storage_type_def
  by (rule copies_struct) (simp_all add: statement_rules)

lemma Member_copies: "copies (Member_DeepCopyInto) (Member_type)"
  unfolding Member_DeepCopyInto_def Member_type_def
  by (rule copies_struct) (simp_all add: statement_rules)

lemma GroupReplicationClusterSpec_copies: "copies (GroupReplicationClusterSpec_DeepCopyInto D) (GroupReplicationClusterSpec_type D)"
  unfolding GroupReplicationClusterSpec_DeepCopyInto_def GroupReplicationClusterSpec_type_def
  by (rule copies_struct) (simp_all add: statement_rules Member_copies MetricsCollection_copies MySQLGroupReplicationCluster_copies Proxy_copies SchedulerBuckup_copies)

lemma GroupReplicationClusterStatus_copies: "copies (GroupReplicationClusterStatus_DeepCopyInto D) (GroupReplicationClusterStatus_type D)"
  unfolding GroupReplicationClusterStatus_DeepCopyInto_def GroupReplicationClusterStatus_type_def
  by (rule copies_struct) (simp_all add: statement_rules)

lemma GroupReplicationCluster_copies: "copies (GroupReplicationCluster_DeepCopyInto D) (GroupReplicationCluster_type D)"
  unfolding GroupReplicationCluster_DeepCopyInto_def GroupReplicationCluster_type_def
  by (rule copies_struct) (simp_all add: statement_rules GroupReplicationClusterSpec_copies GroupReplicationClusterStatus_copies)

lemma GroupReplicationClusterList_copies: "copies (GroupReplicationClusterList_DeepCopyInto D) (GroupReplicationClusterList_type D)"
  unfolding GroupReplicationClusterList_DeepCopyInto_def GroupReplicationClusterList_type_def
  by (rule copies_struct) (simp_all add: statement_rules GroupReplicationCluster_copies)

lemma SingleInstanceSpec_copies: "copies (SingleInstanceSpec_DeepCopyInto D) (SingleInstanceSpec_type D)"
  unfolding SingleInstanceSpec_DeepCopyInto_def SingleInstanceSpec_type_def
  by (rule copies_struct) (simp_all add: statement_rules PodSpec_copies UpgradeOptions_type_def)

lemma SingleInstanceStatus_copies: "copies (SingleInstanceStatus_DeepCopyInto D) (SingleInstanceStatus_type D)"
  unfolding SingleInstanceStatus_DeepCopyInto_def SingleInstanceStatus_type_def
  by (rule copies_struct) (simp_all add: statement_rules)

lemma SingleInstance_copies: "copies (SingleInstance_DeepCopyInto D) (SingleInstance_type D)"
  unfolding SingleInstance_DeepCopyInto_def SingleInstance_type_def
  by (rule copies_struct) (simp_all add: statement_rules SingleInstanceSpec_copies SingleInstanceStatus_copies)

lemma SingleInstanceList_copies: "copies (SingleInstanceList_DeepCopyInto D) (SingleInstanceList_type D)"
  unfolding SingleInstanceList_DeepCopyInto_def SingleInstanceList_type_def
  by (rule copies_struct) (simp_all add: statement_rules SingleInstance_copies)

end

text \<open>All types of the API with their \<open>DeepCopy\<close>, and the root types with their \<open>DeepCopyObject\<close>.\<close>

definition api_types :: "deepcopy_lib \<Rightarrow> (gty \<times> (gval \<Rightarrow> (heap, gval) op)) list" where
  "api_types D =
    [(UpgradeOptions_type, UpgradeOptions_DeepCopy),
     (PodAffinity_type, PodAffinity_DeepCopy),
     (ContainerSpec_type D, ContainerSpec_DeepCopy D),
     (PodSpec_type D, PodSpec_DeepCopy D),
     (ServiceExpose_type, ServiceExpose_DeepCopy D),
     (Proxy_type D, Proxy_DeepCopy D),
     (SchedulerBuckup_type, SchedulerBuckup_DeepCopy),
     (MetricsCollection_type, MetricsCollection_DeepCopy),
     (RolelingUpdate_type D, RolelingUpdate_DeepCopy D),
     (StatefulSetUpdateStrategyType_type D, StatefulSetUpdateStrategyType_DeepCopy D),
     (MySQLGroupReplicationCluster_type D, MySQLGroupReplicationCluster_DeepCopy D),
     (Storage_type D, Storage_DeepCopy D),
     (Member_type, Member_DeepCopy),
     (GroupReplicationClusterSpec_type D, GroupReplicationClusterSpec_DeepCopy D),
     (GroupReplicationClusterStatus_type D, GroupReplicationClusterStatus_DeepCopy D),
     (GroupReplicationCluster_type D, GroupReplicationCluster_DeepCopy D),
     (GroupReplicationClusterList_type D, GroupReplicationClusterList_DeepCopy D),
     (SingleInstanceSpec_type D, SingleInstanceSpec_DeepCopy D),
     (SingleInstanceStatus_type D, SingleInstanceStatus_DeepCopy D),
     (SingleInstance_type D, SingleInstance_DeepCopy D),
     (SingleInstanceList_type D, SingleInstanceList_DeepCopy D)]"

definition api_objects ::
  "deepcopy_lib \<Rightarrow> (string \<times> gty \<times> (gval \<Rightarrow> (heap, runtime_object) op)) list" where
  "api_objects D =
    [(''GroupReplicationCluster'', GroupReplicationCluster_type D, GroupReplicationCluster_DeepCopyObject D),
     (''GroupReplicationClusterList'', GroupReplicationClusterList_type D, GroupReplicationClusterList_DeepCopyObject D),
     (''SingleInstance'', SingleInstance_type D, SingleInstance_DeepCopyObject D),
     (''SingleInstanceList'', SingleInstanceList_type D, SingleInstanceList_DeepCopyObject D)]"

definition makes_copies :: "(gval \<Rightarrow> (heap, gval) op) \<Rightarrow> gty \<Rightarrow> bool" where
  "makes_copies f \<tau> \<longleftrightarrow> (\<forall>h p. typed h (TPtr \<tau>) p \<longrightarrow>
     (\<exists>h' c. f p h = (Inr c, h') \<and> independent_copy h (TPtr \<tau>) p h' c))"

definition makes_objects :: "string \<Rightarrow> (gval \<Rightarrow> (heap, runtime_object) op) \<Rightarrow> gty \<Rightarrow> bool" where
  "makes_objects n f \<tau> \<longleftrightarrow> (\<forall>h p. typed h (TPtr \<tau>) p \<longrightarrow>
     (\<exists>h' c. f p h = (Inr (if p = GNil then NilObject else Object n c), h')
       \<and> independent_copy h (TPtr \<tau>) p h' c))"

context deepcopy_library
begin

lemma deep_copy_makes: "copies c \<tau> \<Longrightarrow> makes_copies (deep_copy z c) \<tau>"
  by (simp add: makes_copies_def deep_copy_independent)

lemma api_types_make_copies: "list_all (\<lambda>x. makes_copies (snd x) (fst x)) (api_types D)"
  by (simp add: api_types_def deep_copy_makes UpgradeOptions_DeepCopy_def UpgradeOptions_copies
      PodAffinity_DeepCopy_def PodAffinity_copies
      ContainerSpec_DeepCopy_def ContainerSpec_copies
      PodSpec_DeepCopy_def PodSpec_copies
      ServiceExpose_DeepCopy_def ServiceExpose_copies
      Proxy_DeepCopy_def Proxy_copies
      SchedulerBuckup_DeepCopy_def SchedulerBuckup_copies
      MetricsCollection_DeepCopy_def MetricsCollection_copies
      RolelingUpdate_DeepCopy_def RolelingUpdate_copies
      StatefulSetUpdateStrategyType_DeepCopy_def StatefulSetUpdateStrategyType_copies
      MySQLGroupReplicationCluster_DeepCopy_def MySQLGroupReplicationCluster_copies
      Storage_DeepCopy_def Storage_copies
      Member_DeepCopy_def Member_copies
      GroupReplicationClusterSpec_DeepCopy_def GroupReplicationClusterSpec_copies
      GroupReplicationClusterStatus_DeepCopy_def GroupReplicationClusterStatus_copies
      GroupReplicationCluster_DeepCopy_def GroupReplicationCluster_copies
      GroupReplicationClusterList_DeepCopy_def GroupReplicationClusterList_copies
      SingleInstanceSpec_DeepCopy_def SingleInstanceSpec_copies
      SingleInstanceStatus_DeepCopy_def SingleInstanceStatus_copies
      SingleInstance_DeepCopy_def SingleInstance_copies
      SingleInstanceList_DeepCopy_def SingleInstanceList_copies)

lemma as_object_makes: "makes_copies g \<tau> \<Longrightarrow> makes_objects n (\<lambda>p. as_object n (g p)) \<tau>"
  by (fastforce simp: makes_copies_def makes_objects_def as_object_def run_andThen run_ret independent_copy_def)

lemma api_objects_make_objects:
  "list_all (\<lambda>x. makes_objects (fst x) (snd (snd x)) (fst (snd x))) (api_objects D)"
  using api_types_make_copies
  by (simp add: api_objects_def api_types_def as_object_makes GroupReplicationCluster_DeepCopyObject_def [abs_def]
      GroupReplicationClusterList_DeepCopyObject_def [abs_def]
      SingleInstance_DeepCopyObject_def [abs_def]
      SingleInstanceList_DeepCopyObject_def [abs_def])

end

section \<open>A concrete library\<close>

text \<open>
  A library with the documented layouts of the types below (abridged; the others are taken to be
  empty), whose copiers go by the type and which ranges over a map backwards.
\<close>

definition documented_layouts :: "(string \<times> gty) list" where
  "documented_layouts =
    [(''metav1.TypeMeta'', TStruct [(''Kind'', TStr), (''APIVersion'', TStr)]),
     (''metav1.ObjectMeta'', TStruct [(''Name'', TStr), (''Namespace'', TStr), (''ResourceVersion'', TStr),
        (''Generation'', TInt), (''DeletionGracePeriodSeconds'', TPtr TInt), (''Labels'', TStrMap),
        (''Annotations'', TStrMap), (''Finalizers'', TSlice TStr)]),
     (''metav1.ListMeta'', TStruct [(''ResourceVersion'', TStr), (''Continue'', TStr),
        (''RemainingItemCount'', TPtr TInt)]),
     (''intstr.IntOrString'', TStruct [(''Type'', TInt), (''IntVal'', TInt), (''StrVal'', TStr)]),
     (''corev1.LocalObjectReference'', TStruct [(''Name'', TStr)]),
     (''corev1.ResourceRequirements'', TStruct [(''Limits'', TStrMap), (''Requests'', TStrMap)]),
     (''corev1.Toleration'', TStruct [(''Key'', TStr), (''Operator'', TStr), (''Value'', TStr),
        (''Effect'', TStr), (''TolerationSeconds'', TPtr TInt)])]"

definition documented_layout :: "string \<Rightarrow> gty" where
  "documented_layout n = (case map_of documented_layouts n of Some \<tau> \<Rightarrow> \<tau> | None \<Rightarrow> TStruct [])"

definition documented_lib :: deepcopy_lib where
  "documented_lib = \<lparr>lib_type = documented_layout, lib_copy = (\<lambda>n. copy_by_type rev (documented_layout n)),
     lib_range = rev\<rparr>"

lemma documented_well_formed: "well_formed (documented_layout n)"
proof -
  have "well_formed \<tau>" if "\<tau> \<in> set (map snd documented_layouts)" for \<tau>
    using that by (auto simp: documented_layouts_def)
  then show ?thesis
    by (force simp: documented_layout_def split: option.splits dest!: map_of_SomeD)
qed

interpretation documented: deepcopy_library documented_lib
proof
  show "copies (lib_copy documented_lib n) (lib_type documented_lib n)" for n
    using copy_by_type_copies [of rev, OF _ documented_well_formed] by (simp add: documented_lib_def)
qed (simp_all add: documented_lib_def documented_layout_def documented_layouts_def)

section \<open>The properties\<close>

text \<open>
  C17. \<open>DeepCopy\<close> of every type of the API makes an independent copy, whatever the value: it never
  panics, leaves all memory of before as it was, and returns nil for nil and otherwise a pointer
  to new memory with the same content, such that nothing written later to memory of the copy
  changes the original and nothing written to memory of the original changes the copy.
\<close>

theorem DeepCopy_independent:
  assumes "deepcopy_library D" and "(\<tau>, f) \<in> set (api_types D)" and "typed h (TPtr \<tau>) p"
  shows "\<exists>h' c. f p h = (Inr c, h') \<and> independent_copy h (TPtr \<tau>) p h' c"
proof -
  have "makes_copies f \<tau>"
    using deepcopy_library.api_types_make_copies [OF assms(1)] assms(2) by (force simp: list_all_iff)
  with assms(3) show ?thesis by (simp add: makes_copies_def)
qed

text \<open>A pod spec with labels and an affinity in memory.\<close>

definition sample_pod_heap :: heap where
  "sample_pod_heap =
    [GStruct [(''Affinity'', GPtr (1, [])), (''Annotation'', GNil), (''Labels'', GMap 2), (''NodeSelector'', GNil),
       (''Tolerations'', GNil), (''TerminationGracePeriodSeconds'', GNil), (''SchedulerName'', GStr []),
       (''PodSecurityContext'', GNil), (''ServiceAccountName'', GStr []), (''ServiceName'', GStr []),
       (''Version'', GStr ''8.0''), (''Containers'', GNil), (''PersistentVolumeClaimTemplate'', GNil)],
     GStruct [(''TopologyKey'', GPtr (3, []))],
     GDict [(''app'', ''greatsql''), (''tier'', ''db'')],
     GStr ''kubernetes.io/hostname'']"

theorem DeepCopy_independent_witness:
  "\<exists>h' c. PodSpec_DeepCopy documented_lib (GPtr (0, [])) sample_pod_heap = (Inr c, h')
     \<and> independent_copy sample_pod_heap (TPtr (PodSpec_type documented_lib)) (GPtr (0, [])) h' c"
proof -
  have "typed sample_pod_heap (TPtr (PodSpec_type documented_lib)) (GPtr (0, []))"
    by (simp add: sample_pod_heap_def PodSpec_type_def PodAffinity_type_def load_def sel_field_def dict_def)
  moreover have "(PodSpec_type documented_lib, PodSpec_DeepCopy documented_lib) \<in> set (api_types documented_lib)"
    by (simp only: api_types_def list.set insert_iff) blast
  ultimately show ?thesis using DeepCopy_independent [OF documented.deepcopy_library_axioms] by blast
qed

text \<open>
  C34. \<open>DeepCopyObject\<close> of a root type returns the nil interface for a nil pointer, never an
  interface that holds a nil pointer, and otherwise an independent copy under the type's name.
\<close>

theorem DeepCopyObject_kinds:
  assumes "deepcopy_library D" and "(n, \<tau>, f) \<in> set (api_objects D)" and "typed h (TPtr \<tau>) p"
  shows "\<exists>h' c. f p h = (Inr (if p = GNil then NilObject else Object n c), h')
    \<and> independent_copy h (TPtr \<tau>) p h' c"
proof -
  have "makes_objects n f \<tau>"
    using deepcopy_library.api_objects_make_objects [OF assms(1)] assms(2) by (force simp: list_all_iff)
  with assms(3) show ?thesis by (simp add: makes_objects_def)
qed

theorem DeepCopyObject_kinds_witness:
  "\<exists>h' c. SingleInstance_DeepCopyObject documented_lib GNil [GInt 7] = (Inr NilObject, h')
     \<and> independent_copy [GInt 7] (TPtr (SingleInstance_type documented_lib)) GNil h' c"
proof -
  have "(''SingleInstance'', SingleInstance_type documented_lib, SingleInstance_DeepCopyObject documented_lib)
      \<in> set (api_objects documented_lib)"
    by (simp only: api_objects_def list.set insert_iff) blast
  from DeepCopyObject_kinds [OF documented.deepcopy_library_axioms this, of "[GInt 7]" GNil]
  show ?thesis by simp
qed

end
