(* ===== verification/Informer.thy ===== *)
theory Informer
  imports K8s GoStd
begin

text \<open>
  The informers of \<open>internal/pkg/kube/Informer.go\<close>: the update handlers, which react to the old
  and the new version of an object, and their registration with an informer of a shared
  factory. The factory (client-go) is a parameter, and so are its key function and the callback
  of the Secret informer.
\<close>

section \<open>Objects of unknown type, and what a handler can do\<close>

text \<open>What \<open>interface{}\<close> can hold here; any other object is \<open>WOther\<close>.\<close>

datatype watched = WPod pod | WDeployment deployment | WStatefulSet statefulset | WSecret secret | WPVC pvc | WOther

text \<open>The state of a handler: the standard output, and the world the callback acts on.\<close>

record 'w watch_state =
  stdout :: "string list"
  watch_world :: 'w

definition Printf :: "string \<Rightarrow> ('w watch_state, unit) op" where
  "Printf line = modify (\<lambda>s. s\<lparr>stdout := stdout s @ [line]\<rparr>)"

text \<open>The type assertions \<open>obj.(*corev1.Pod)\<close> and so on, which panic on any other type.\<close>

definition wrong_type :: failure where
  "wrong_type = Panicked (ExplicitPanic ''interface conversion'')"

definition the_pod :: "watched \<Rightarrow> pod res" where
  "the_pod x = (case x of WPod p \<Rightarrow> Inr p | _ \<Rightarrow> Inl wrong_type)"

definition the_deployment :: "watched \<Rightarrow> deployment res" where
  "the_deployment x = (case x of WDeployment d \<Rightarrow> Inr d | _ \<Rightarrow> Inl wrong_type)"

definition the_statefulset :: "watched \<Rightarrow> statefulset res" where
  "the_statefulset x = (case x of WStatefulSet d \<Rightarrow> Inr d | _ \<Rightarrow> Inl wrong_type)"

definition the_secret :: "watched \<Rightarrow> secret res" where
  "the_secret x = (case x of WSecret d \<Rightarrow> Inr d | _ \<Rightarrow> Inl wrong_type)"

definition the_pvc :: "watched \<Rightarrow> pvc res" where
  "the_pvc x = (case x of WPVC d \<Rightarrow> Inr d | _ \<Rightarrow> Inl wrong_type)"

section \<open>The update handlers\<close>

type_synonym 'w update_func = "watched \<Rightarrow> watched \<Rightarrow> ('w watch_state, unit) op"

definition Pod_update :: "'w update_func" where
  "Pod_update oldObj newObj =
     andThen (pure (the_pod oldObj)) (\<lambda>oldPod.
     andThen (pure (the_pod newObj)) (\<lambda>newPod.
     andThen (pure (index0 (po_RestartCounts oldPod))) (\<lambda>old.
     andThen (pure (index0 (po_RestartCounts newPod))) (\<lambda>new.
       if old \<noteq> new
       then Printf (''Pod '' @ Name (po_Meta newPod) @ '' has been restarted. Restart count: '' @ Itoa new)
       else ret ()))))"

definition Deployment_update :: "'w update_func" where
  "Deployment_update oldObj newObj =
     andThen (pure (the_deployment oldObj)) (\<lambda>oldDeploy.
     andThen (pure (the_deployment newObj)) (\<lambda>newDeploy.
       if dep_StatusReplicas oldDeploy \<noteq> dep_StatusReplicas newDeploy
       then Printf (''Deployment '' @ Name (dep_Meta newDeploy) @ '' has been updated. Replicas: ''
         @ Itoa (dep_StatusReplicas newDeploy))
       else ret ()))"

definition StatefulSet_update :: "'w update_func" where
  "StatefulSet_update oldObj newObj =
     andThen (pure (the_statefulset oldObj)) (\<lambda>oldSts.
     andThen (pure (the_statefulset newObj)) (\<lambda>newSts.
       if sts_StatusReplicas oldSts \<noteq> sts_StatusReplicas newSts
       then Printf (''StatefulSet '' @ Name (sts_Meta newSts) @ '' has been updated. Replicas: ''
         @ Itoa (sts_StatusReplicas newSts))
       else ret ()))"

definition PersistentVolumeClaim_update :: "'w update_func" where
  "PersistentVolumeClaim_update oldObj newObj =
     andThen (pure (the_pvc oldObj)) (\<lambda>oldPVC.
     andThen (pure (the_pvc newObj)) (\<lambda>newPVC.
       if pvc_Phase oldPVC \<noteq> pvc_Phase newPVC
       then Printf (''PVC '' @ Name (pvc_Meta newPVC) @ '' has been updated. Phase: '' @ pvc_Phase newPVC)
       else ret ()))"

text \<open>
  The Secret handler, with \<open>key_of\<close> for \<open>cache.MetaNamespaceKeyFunc\<close> and \<open>onUpdate\<close> for the callback.
\<close>

definition Secret_update ::
  "(object_meta \<Rightarrow> go_error + string) \<Rightarrow> (secret \<Rightarrow> secret \<Rightarrow> 'w \<Rightarrow> 'w) \<Rightarrow> 'w update_func" where
  "Secret_update key_of onUpdate oldObj newObj =
     andThen (pure (the_secret oldObj)) (\<lambda>oldSecret.
     andThen (pure (the_secret newObj)) (\<lambda>newSecret.
     (case key_of (sec_Meta oldSecret) of
        Inl err \<Rightarrow> Printf (''Error getting key for old secret: '' @ err_string err)
      | Inr oldKey \<Rightarrow>
     (case key_of (sec_Meta newSecret) of
        Inl err \<Rightarrow> Printf (''Error getting key for new secret: '' @ err_string err)
      | Inr newKey \<Rightarrow>
     andThen (if oldKey \<noteq> newKey
       then Printf (''Secret key has been changed from '' @ oldKey @ '' to '' @ newKey) else ret ()) (\<lambda>_.
     if ResourceVersion (sec_Meta oldSecret) \<noteq> ResourceVersion (sec_Meta newSecret)
     then andThen (modify (\<lambda>s. s\<lparr>watch_world := onUpdate oldSecret newSecret (watch_world s)\<rparr>)) (\<lambda>_.
       Printf (''Secret '' @ Name (sec_Meta newSecret) @ '' has been updated. ResourceVersion: ''
         @ ResourceVersion (sec_Meta newSecret)))
     else ret ())))))"

section \<open>Registration with a shared factory\<close>

datatype resource = Pods | Deployments | StatefulSets | Secrets | PersistentVolumeClaims

text \<open>
  The factory hands out an informer (a number here) per resource; \<open>AddEventHandler\<close> can fail.
\<close>

record ('f, 'w) factory =
  fac_Informer :: "resource \<Rightarrow> 'f \<Rightarrow> nat \<times> 'f"
  fac_AddEventHandler :: "nat \<Rightarrow> 'w update_func \<Rightarrow> 'f \<Rightarrow> go_error option \<times> 'f"

definition factory_informer :: "('f, 'w) factory \<Rightarrow> resource \<Rightarrow> ('f, nat) op" where
  "factory_informer fac r = (\<lambda>f. case fac_Informer fac r f of (i, f') \<Rightarrow> (Inr i, f'))"

definition AddEventHandler :: "('f, 'w) factory \<Rightarrow> nat \<Rightarrow> 'w update_func \<Rightarrow> ('f, go_error option) op" where
  "AddEventHandler fac i u = (\<lambda>f. case fac_AddEventHandler fac i u f of (e, f') \<Rightarrow> (Inr e, f'))"

definition informerUpdate ::
  "('f, 'w) factory \<Rightarrow> ('f, nat) op \<Rightarrow> 'w update_func \<Rightarrow> ('f, nat) op" where
  "informerUpdate fac informerFunc updateFunc =
     andThen informerFunc (\<lambda>i.
     andThen (AddEventHandler fac i updateFunc) (\<lambda>err. case err of
       Some e \<Rightarrow> throw (Panicked (ExplicitPanic (err_string e)))
     | None \<Rightarrow> ret i))"

definition PodInformer :: "('f, 'w) factory \<Rightarrow> ('f, nat) op" where
  "PodInformer fac = informerUpdate fac (factory_informer fac Pods) Pod_update"

definition DeploymentInformer :: "('f, 'w) factory \<Rightarrow> ('f, nat) op" where
  "DeploymentInformer fac = informerUpdate fac (factory_informer fac Deployments) Deployment_update"

definition StatefulSetInformer :: "('f, 'w) factory \<Rightarrow> ('f, nat) op" where
  "StatefulSetInformer fac = informerUpdate fac (factory_informer fac StatefulSets) StatefulSet_update"

definition SecretInformer ::
  "('f, 'w) factory \<Rightarrow> (object_meta \<Rightarrow> go_error + string) \<Rightarrow> (secret \<Rightarrow> secret \<Rightarrow> 'w \<Rightarrow> 'w) \<Rightarrow> ('f, nat) op" where
  "SecretInformer fac key_of onUpdate =
     informerUpdate fac (factory_informer fac Secrets) (Secret_update key_of onUpdate)"

definition PersistentVolumeClaimInformer :: "('f, 'w) factory \<Rightarrow> ('f, nat) op" where
  "PersistentVolumeClaimInformer fac =
     informerUpdate fac (factory_informer fac PersistentVolumeClaims) PersistentVolumeClaim_update"

section \<open>What the shared factory promises\<close>

text \<open>
  An informer is shared: asking for the informer of a resource again gives the same one and
  drops no handler; a handler that is accepted comes after those already registered, and one
  that is refused changes nothing.
\<close>

locale shared_factory =
  fixes fac :: "('f, 'w) factory"
    and handlers :: "'f \<Rightarrow> nat \<Rightarrow> 'w update_func list"
    and informer_of :: "resource \<Rightarrow> nat"
  assumes Informer_shared: "fst (fac_Informer fac r f) = informer_of r"
    and Informer_keeps: "handlers (snd (fac_Informer fac r f)) = handlers f"
    and distinct_informers: "informer_of r = informer_of r' \<Longrightarrow> r = r'"
    and Add_accepted: "fac_AddEventHandler fac i u f = (None, f') \<Longrightarrow>
      handlers f' = (handlers f)(i := handlers f i @ [u])"
    and Add_refused: "fac_AddEventHandler fac i u f = (Some e, f') \<Longrightarrow> handlers f' = handlers f"
begin

lemma informerUpdate_registers:
  "case informerUpdate fac (factory_informer fac r) u f of
     (Inr i, f') \<Rightarrow> i = informer_of r \<and> handlers f' = (handlers f)(i := handlers f i @ [u])
   | (Inl e, f') \<Rightarrow> (\<exists>msg. e = Panicked (ExplicitPanic msg)) \<and> handlers f' = handlers f"
proof -
  obtain i f1 where i: "fac_Informer fac r f = (i, f1)" by (cases "fac_Informer fac r f")
  then have i': "i = informer_of r" "handlers f1 = handlers f"
    using Informer_shared [of r f] Informer_keeps [of r f] by simp_all
  obtain err f2 where a: "fac_AddEventHandler fac i u f1 = (err, f2)"
    by (cases "fac_AddEventHandler fac i u f1")
  show ?thesis
    using i i' a Add_accepted [of i u f1 f2] Add_refused [of i u f1 _ f2]
    by (cases err) (simp_all add: informerUpdate_def factory_informer_def AddEventHandler_def runs)
qed

end

text \<open>
  A registry that keeps the handlers of each resource's informer and refuses handlers once an
  informer has been stopped.
\<close>

record 'w registry =
  registered :: "nat \<Rightarrow> 'w update_func list"
  stopped :: bool

definition resource_number :: "resource \<Rightarrow> nat" where
  "resource_number r = (case r of Pods \<Rightarrow> 0 | Deployments \<Rightarrow> 1 | StatefulSets \<Rightarrow> 2 | Secrets \<Rightarrow> 3
     | PersistentVolumeClaims \<Rightarrow> 4)"

definition registry_factory :: "('w registry, 'w) factory" where
  "registry_factory = \<lparr>
     fac_Informer = (\<lambda>r f. (resource_number r, f)),
     fac_AddEventHandler = (\<lambda>i u f. if stopped f then (Some (PlainError ''informer has stopped''), f)
       else (None, f\<lparr>registered := (registered f)(i := registered f i @ [u])\<rparr>))\<rparr>"

interpretation registry: shared_factory registry_factory registered resource_number
  by unfold_locales
    (auto simp: registry_factory_def resource_number_def split: if_splits resource.splits)

section \<open>Streams of updates\<close>

text \<open>An informer tells its handler about the successive versions of an object, in pairs.\<close>

fun deliver :: "'w update_func \<Rightarrow> watched list \<Rightarrow> ('w watch_state, unit) op" where
  "deliver u (x # y # zs) = andThen (u x y) (\<lambda>_. deliver u (y # zs))"
| "deliver u _ = ret ()"

lemma run_Printf [runs]: "Printf line s = (Inr (), s\<lparr>stdout := stdout s @ [line]\<rparr>)"
  by (simp add: Printf_def runs)

definition secret_changed :: "(object_meta \<Rightarrow> go_error + string) \<Rightarrow> secret \<times> secret \<Rightarrow> bool" where
  "secret_changed key_of on \<longleftrightarrow> \<not> isl (key_of (sec_Meta (fst on))) \<and> \<not> isl (key_of (sec_Meta (snd on)))
     \<and> ResourceVersion (sec_Meta (fst on)) \<noteq> ResourceVersion (sec_Meta (snd on))"

lemma Secret_update_once:
  "fst (Secret_update key_of onUpdate (WSecret x) (WSecret y) s) = Inr ()
   \<and> watch_world (snd (Secret_update key_of onUpdate (WSecret x) (WSecret y) s)) =
     (if secret_changed key_of (x, y) then onUpdate x y (watch_world s) else watch_world s)"
  by (cases "key_of (sec_Meta x)"; cases "key_of (sec_Meta y)")
     (simp_all add: Secret_update_def the_secret_def secret_changed_def runs)

lemma deliver_secrets:
  "fst (deliver (Secret_update key_of onUpdate) (map WSecret vs) s) = Inr ()
   \<and> watch_world (snd (deliver (Secret_update key_of onUpdate) (map WSecret vs) s)) =
     fold (\<lambda>on. onUpdate (fst on) (snd on)) (filter (secret_changed key_of) (zip vs (tl vs))) (watch_world s)"
proof (induction vs arbitrary: s rule: induct_list012)
  case (3 x y zs)
  obtain s' where "Secret_update key_of onUpdate (WSecret x) (WSecret y) s = (Inr (), s')"
    and "watch_world s' = (if secret_changed key_of (x, y) then onUpdate x y (watch_world s) else watch_world s)"
    using Secret_update_once [of key_of onUpdate x y s] by (metis prod.collapse)
  with "3.IH"(2) show ?case by (simp add: runs)
qed (simp_all add: runs)

lemma Pod_update_run:
  "Pod_update (WPod x) (WPod y) s =
     (case (po_RestartCounts x, po_RestartCounts y) of
        (m # _, n # _) \<Rightarrow> (Inr (), if m = n then s else s\<lparr>stdout := stdout s @
          [''Pod '' @ Name (po_Meta y) @ '' has been restarted. Restart count: '' @ Itoa n]\<rparr>)
      | _ \<Rightarrow> (Inl (Panicked IndexOutOfRange), s))"
  by (auto simp: Pod_update_def the_pod_def runs split: list.splits)

lemma deliver_pods:
  "fst (deliver Pod_update (map WPod ps) s) =
     (if 2 \<le> length ps \<and> [] \<in> set (map po_RestartCounts ps) then Inl (Panicked IndexOutOfRange) else Inr ())"
proof (induction ps arbitrary: s rule: induct_list012)
  case (3 p q ps)
  show ?case
  proof (cases "po_RestartCounts p = [] \<or> po_RestartCounts q = []")
    case True
    then show ?thesis by (auto simp: runs Pod_update_run split: list.splits)
  next
    case False
    then obtain m ms n ns where mn: "po_RestartCounts p = m # ms" "po_RestartCounts q = n # ns"
      by (meson neq_Nil_conv)
    show ?thesis using "3.IH"(2) mn by (cases ps) (simp_all add: runs Pod_update_run)
  qed
qed (simp_all add: runs)

section \<open>The properties\<close>

text \<open>
  C39. Whatever versions of a Secret an informer reports, the Secret handler never panics and calls
  \<open>onUpdate\<close> exactly for the consecutive versions whose resource version differs (and whose keys can
  be computed), in their order and with the old version first: a resync calls it not at all.
\<close>

theorem Secret_updates_delivered:
  "fst (deliver (Secret_update key_of onUpdate) (map WSecret vs) s) = Inr ()
   \<and> watch_world (snd (deliver (Secret_update key_of onUpdate) (map WSecret vs) s)) =
     fold (\<lambda>on. onUpdate (fst on) (snd on)) (filter (secret_changed key_of) (zip vs (tl vs))) (watch_world s)"
  by (rule deliver_secrets)

text \<open>
  C40. The Pod handler indexes the first container status without a check: fed with the versions of
  a pod, it panics exactly when there is an update and some version has no container status, as
  every pod has before its containers are started.
\<close>

theorem Pod_updates_panic:
  "fst (deliver Pod_update (map WPod ps) s) =
     (if 2 \<le> length ps \<and> [] \<in> set (map po_RestartCounts ps) then Inl (Panicked IndexOutOfRange) else Inr ())"
  by (rule deliver_pods)

text \<open>
  Each of the five constructors registers its handler, and nothing else, behind those that its
  resource's informer already has, and returns that informer; if the informer refuses the
  handler the constructor panics and no handler is added anywhere.
\<close>

theorem informers_register:
  assumes "shared_factory fac handlers informer_of"
    and "(m, r, u) \<in> {(PodInformer fac, Pods, Pod_update), (DeploymentInformer fac, Deployments, Deployment_update),
      (StatefulSetInformer fac, StatefulSets, StatefulSet_update),
      (SecretInformer fac key_of onUpdate, Secrets, Secret_update key_of onUpdate),
      (PersistentVolumeClaimInformer fac, PersistentVolumeClaims, PersistentVolumeClaim_update)}"
  shows "case m f of
     (Inr i, f') \<Rightarrow> i = informer_of r \<and> handlers f' = (handlers f)(i := handlers f i @ [u])
   | (Inl e, f') \<Rightarrow> (\<exists>msg. e = Panicked (ExplicitPanic msg)) \<and> handlers f' = handlers f"
proof -
  have "m = informerUpdate fac (factory_informer fac r) u"
    using assms(2) by (auto simp: PodInformer_def DeploymentInformer_def StatefulSetInformer_def
        SecretInformer_def PersistentVolumeClaimInformer_def)
  then show ?thesis using shared_factory.informerUpdate_registers [OF assms(1), where r = r and u = u and f = f] by simp
qed

theorem informers_register_witness:
  "registered (snd (PodInformer registry_factory (\<lparr>registered = (\<lambda>_. []), stopped = False\<rparr> :: nat registry))) 0
     = [Pod_update]
   \<and> registered (snd (PodInformer registry_factory (\<lparr>registered = (\<lambda>_. []), stopped = False\<rparr> :: nat registry))) 1 = []"
proof -
  let ?f = "\<lparr>registered = (\<lambda>_. []), stopped = False\<rparr> :: nat registry"
  have "fst (PodInformer registry_factory ?f) = Inr 0"
    by (simp add: PodInformer_def informerUpdate_def factory_informer_def AddEventHandler_def
        registry_factory_def resource_number_def runs)
  with informers_register [OF registry.shared_factory_axioms, of "PodInformer registry_factory" Pods Pod_update
      "\<lambda>_. Inr []" "\<lambda>_ _ w. w" ?f]
  show ?thesis by (auto split: prod.splits)
qed

end
