(* ===== verification/Version.thy ===== *)
theory Version
  imports GoStd
begin

text \<open>
  The version command of \<open>internal/pkg/version/version.go\<close>: the build information, and the JSON
  document it is printed as, with the encoding of strings by \<open>encoding/json\<close> (Go 1.21).
\<close>

section \<open>JSON text\<close>

text \<open>
  A character of a JSON string as \<open>encoding/json\<close> writes it, for ASCII text: quote and backslash
  are escaped, control characters and the three HTML characters become \<open>\u00XX\<close> (newline, carriage
  return and tab have short forms). Build information is ASCII; other bytes are kept.
\<close>

definition quote :: char where "quote = CHR 0x22"
definition backslash :: char where "backslash = CHR 0x5C"

definition hex_digit :: "nat \<Rightarrow> char" where
  "hex_digit d = ''0123456789abcdef'' ! d"

definition hex_val :: "char \<Rightarrow> nat" where
  "hex_val c = (let n = of_char c in if n \<le> 57 then n - 48 else n - 87)"

definition json_char :: "char \<Rightarrow> string" where
  "json_char c =
     (if c = quote \<or> c = backslash then [backslash, c]
      else if c = CHR 0x0A then [backslash, CHR ''n'']
      else if c = CHR 0x0D then [backslash, CHR ''r'']
      else if c = CHR 0x09 then [backslash, CHR ''t'']
      else if (of_char c :: nat) < 32 \<or> c = CHR ''<'' \<or> c = CHR ''>'' \<or> c = CHR ''&''
      then backslash # ''u00'' @ [hex_digit (of_char c div 16), hex_digit (of_char c mod 16)]
      else [c])"

definition json_string :: "string \<Rightarrow> string" where
  "json_string s = quote # concat (map json_char s) @ [quote]"

text \<open>\<open>json.MarshalIndent(v, "", "  ")\<close> of a struct of strings\<close>

fun json_members :: "(string \<times> string) list \<Rightarrow> string" where
  "json_members [] = []"
| "json_members [(k, x)] = ''  '' @ json_string k @ '': '' @ json_string x"
| "json_members ((k, x) # ms) = ''  '' @ json_string k @ '': '' @ json_string x @ '','' @ [CHR 0x0A] @ json_members ms"

definition MarshalIndent :: "(string \<times> string) list \<Rightarrow> go_error + string" where
  "MarshalIndent ms = Inr ([CHR 0x7B, CHR 0x0A] @ json_members ms @ [CHR 0x0A, CHR 0x7D])"

section \<open>The command\<close>

text \<open>The variables the linker can set, and what the Go runtime knows.\<close>

record version_vars =
  var_Version :: string
  var_GitBranch :: string
  var_GitCommit :: string
  var_BuildTime :: string
  var_GoVersion :: string
  var_Compiler :: string
  var_Platform :: string

record go_runtime =
  runtime_Version :: string
  runtime_Compiler :: string
  runtime_GOOS :: string
  runtime_GOARCH :: string

record version_info =
  vi_Version :: string
  vi_GitBranch :: string
  vi_GitCommit :: string
  vi_BuildTime :: string
  vi_GoVersion :: string
  vi_Compiler :: string
  vi_Platform :: string

definition version_members :: "version_info \<Rightarrow> (string \<times> string) list" where
  "version_members v =
     [(''Version'', vi_Version v), (''GitBranch'', vi_GitBranch v), (''GitCommit'', vi_GitCommit v),
      (''BuildTime'', vi_BuildTime v), (''GoVersion'', vi_GoVersion v), (''Compiler'', vi_Compiler v),
      (''Platform'', vi_Platform v)]"

definition version_String :: "version_info \<Rightarrow> string" where
  "version_String v = vi_GitCommit v"

definition getVersion :: "version_vars \<Rightarrow> go_runtime \<Rightarrow> version_info" where
  "getVersion g rt = \<lparr>vi_Version = var_Version g, vi_GitBranch = var_GitBranch g,
     vi_GitCommit = var_GitCommit g, vi_BuildTime = var_BuildTime g,
     vi_GoVersion = runtime_Version rt, vi_Compiler = runtime_Compiler rt,
     vi_Platform = runtime_GOOS rt @ ''/'' @ runtime_GOARCH rt\<rparr>"

text \<open>\<open>json\<close> prints the error, if there is one, and returns nil; the state is the lines printed.\<close>

definition Println :: "string \<Rightarrow> (string list, unit) op" where
  "Println line = modify (\<lambda>out. out @ [line])"

definition version_json :: "version_info \<Rightarrow> (string list, string) op" where
  "version_json v = (case MarshalIndent (version_members v) of
     Inl err \<Rightarrow> andThen (Println (''Error marshalling JSON: '' @ err_string err)) (\<lambda>_. ret [])
   | Inr jsonData \<Rightarrow> ret jsonData)"

definition VersionCmd_Run :: "version_vars \<Rightarrow> go_runtime \<Rightarrow> (string list, unit) op" where
  "VersionCmd_Run g rt = andThen (version_json (getVersion g rt)) Println"

section \<open>Reading the document back\<close>

text \<open>A JSON string after its opening quote, and what follows its closing quote.\<close>

fun json_text :: "string \<Rightarrow> (string \<times> string) option" where
  "json_text [] = None"
| "json_text (c # s) =
     (if c = quote then Some ([], s)
      else if c = backslash then (case s of
          [] \<Rightarrow> None
        | e # t \<Rightarrow>
            if e = CHR ''u'' then (case t of
                a # b # x # y # u \<Rightarrow> map_option (apfst (Cons (char_of (16 * hex_val x + hex_val y)))) (json_text u)
              | _ \<Rightarrow> None)
            else map_option (apfst (Cons (if e = CHR ''n'' then CHR 0x0A else if e = CHR ''r'' then CHR 0x0D
              else if e = CHR ''t'' then CHR 0x09 else e))) (json_text t))
      else map_option (apfst (Cons c)) (json_text s))"

text \<open>A member \<open>  "key": "value"\<close> and the rest, and a document of \<open>n\<close> members.\<close>

definition json_member :: "string \<Rightarrow> ((string \<times> string) \<times> string) option" where
  "json_member s =
     Option.bind (strip_prefix (''  '' @ [quote]) s) (\<lambda>s1.
     Option.bind (json_text s1) (\<lambda>(k, s2).
     Option.bind (strip_prefix ('': '' @ [quote]) s2) (\<lambda>s3.
     Option.bind (json_text s3) (\<lambda>(x, s4). Some ((k, x), s4)))))"

fun read_members :: "nat \<Rightarrow> string \<Rightarrow> ((string \<times> string) list \<times> string) option" where
  "read_members 0 s = Some ([], s)"
| "read_members (Suc n) s =
     Option.bind (json_member s) (\<lambda>(m, s1).
     if n = 0 then Some ([m], s1)
     else Option.bind (strip_prefix ('','' @ [CHR 0x0A]) s1) (\<lambda>s2.
       map_option (apfst (Cons m)) (read_members n s2)))"

definition read_document :: "nat \<Rightarrow> string \<Rightarrow> (string \<times> string) list option" where
  "read_document n s =
     Option.bind (strip_prefix [CHR 0x7B, CHR 0x0A] s) (\<lambda>s1.
     Option.bind (read_members n s1) (\<lambda>(ms, s2). if s2 = [CHR 0x0A, CHR 0x7D] then Some ms else None))"

lemma hex_val_digit: "d < 16 \<Longrightarrow> hex_val (hex_digit d) = d"
proof -
  assume "d < 16"
  then have "d = 0 \<or> d = 1 \<or> d = 2 \<or> d = 3 \<or> d = 4 \<or> d = 5 \<or> d = 6 \<or> d = 7 \<or> d = 8 \<or> d = 9
      \<or> d = 10 \<or> d = 11 \<or> d = 12 \<or> d = 13 \<or> d = 14 \<or> d = 15" by presburger
  then show ?thesis by (elim disjE) (simp_all add: hex_val_def hex_digit_def)
qed

lemma json_text_char: "json_text (json_char c @ s) = map_option (apfst (Cons c)) (json_text s)"
proof -
  have n: "(of_char c :: nat) < 256" by (rule nat_of_char_less_256)
  have h: "hex_val (hex_digit (of_char c div 16)) = of_char c div 16"
    "hex_val (hex_digit (of_char c mod 16)) = of_char c mod 16"
    using n by (auto intro!: hex_val_digit simp: less_mult_imp_div_less)
  have "16 * (of_char c div 16) + of_char c mod 16 = (of_char c :: nat)" by simp
  then have same: "char_of (16 * (of_char c div 16) + of_char c mod 16 :: nat) = c"
    by (simp only: char_of_char)
  show ?thesis
    by (auto simp: json_char_def quote_def backslash_def h same)
qed

lemma json_text_string: "json_text (concat (map json_char s) @ quote # t) = Some (s, t)"
  by (induction s) (simp_all add: json_text_char)

lemma json_member_back: "json_member (''  '' @ json_string k @ '': '' @ json_string x @ t) = Some ((k, x), t)"
proof -
  have "strip_prefix (''  '' @ [quote]) (''  '' @ json_string k @ '': '' @ json_string x @ t)
      = Some (concat (map json_char k) @ quote # '': '' @ json_string x @ t)"
    by (simp add: json_string_def)
  moreover have "strip_prefix ('': '' @ [quote]) ('': '' @ json_string x @ t)
      = Some (concat (map json_char x) @ quote # t)"
    by (simp add: json_string_def)
  ultimately show ?thesis by (simp add: json_member_def json_text_string)
qed

lemma read_members_back: "ms \<noteq> [] \<Longrightarrow> read_members (length ms) (json_members ms @ t) = Some (ms, t)"
proof (induction ms rule: json_members.induct)
  case (2 k x)
  then show ?case using json_member_back [of k x t] by simp
next
  case (3 k x m ms)
  then show ?case
    using json_member_back [of k x "'','' @ [CHR 0x0A] @ json_members (m # ms) @ t"] by simp
qed simp

lemma read_document_back: "ms \<noteq> [] \<Longrightarrow> MarshalIndent ms = Inr doc \<Longrightarrow> read_document (length ms) doc = Some ms"
  by (auto simp: MarshalIndent_def read_document_def read_members_back)

section \<open>The properties\<close>


end
