(* ===== verification/Entry.thy ===== *)
theory Entry
  imports Version
begin

text \<open>
  The entry point \<open>cmd/main.go\<close>: the command line (cobra's dispatch is a parameter, Go's \<open>flag\<close>
  package is modelled), and \<open>run\<close>, which sets the manager up step by step and ends the process
  at the first step that fails. The manager (controller-runtime) is a parameter.
\<close>

section \<open>The options and Go's flag package\<close>

record options =
  metricsAddr :: string
  probeAddr :: string
  enableLeaderElection :: bool
  secureMetrics :: bool
  enableHTTP2 :: bool

definition default_options :: options where
  "default_options = \<lparr>metricsAddr = '':8080'', probeAddr = '':8081'', enableLeaderElection = False,
     secureMetrics = False, enableHTTP2 = False\<rparr>"

text \<open>\<open>strconv.ParseBool\<close>\<close>

definition ParseBool :: "string \<Rightarrow> bool option" where
  "ParseBool s =
     (if s \<in> {''1'', ''t'', ''T'', ''TRUE'', ''true'', ''True''} then Some True
      else if s \<in> {''0'', ''f'', ''F'', ''FALSE'', ''false'', ''False''} then Some False
      else None)"

text \<open>
  The flags that \<open>run\<close> defines: whether one is boolean, and setting it. The flags that libraries
  define on the same set (\<open>zap-*\<close>, \<open>kubeconfig\<close>) are a parameter \<open>lib\<close>: whether such a flag is
  boolean, and which values it accepts.
\<close>

type_synonym lib_flags = "string \<Rightarrow> (bool \<times> (string \<Rightarrow> bool)) option"

definition set_bool :: "(bool \<Rightarrow> options) \<Rightarrow> string \<Rightarrow> options option" where
  "set_bool f v = map_option f (ParseBool v)"

definition lookup_flag :: "lib_flags \<Rightarrow> string \<Rightarrow> options \<Rightarrow> (bool \<times> (string \<Rightarrow> options option)) option" where
  "lookup_flag lib name opts =
     (if name = ''metrics-bind-address'' then Some (False, \<lambda>v. Some (opts\<lparr>metricsAddr := v\<rparr>))
      else if name = ''health-probe-bind-address'' then Some (False, \<lambda>v. Some (opts\<lparr>probeAddr := v\<rparr>))
      else if name = ''leader-elect'' then Some (True, set_bool (\<lambda>b. opts\<lparr>enableLeaderElection := b\<rparr>))
      else if name = ''metrics-secure'' then Some (True, set_bool (\<lambda>b. opts\<lparr>secureMetrics := b\<rparr>))
      else if name = ''enable-http2'' then Some (True, set_bool (\<lambda>b. opts\<lparr>enableHTTP2 := b\<rparr>))
      else map_option (\<lambda>(b, ok). (b, \<lambda>v. if ok v then Some opts else None)) (lib name))"

text \<open>\<open>flag.Parse\<close> with \<open>ExitOnError\<close>: the options, or the exit code of the process.\<close>

definition split_value :: "string \<Rightarrow> string \<times> string option" where
  "split_value name = (takeWhile (\<lambda>c. c \<noteq> CHR ''='') name,
     case dropWhile (\<lambda>c. c \<noteq> CHR ''='') name of [] \<Rightarrow> None | _ # v \<Rightarrow> Some v)"

text \<open>The name of an argument that is a flag, without its one or two dashes.\<close>

definition flag_name :: "string \<Rightarrow> string option" where
  "flag_name a = (case a of
     CHR ''-'' # c # r \<Rightarrow> Some (if c = CHR ''-'' then r else c # r)
   | _ \<Rightarrow> None)"

fun parse_flags :: "lib_flags \<Rightarrow> string list \<Rightarrow> options \<Rightarrow> nat + options" where
  "parse_flags lib [] opts = Inr opts"
| "parse_flags lib (a # rest) opts =
     (case flag_name a of
        None \<Rightarrow> Inr opts
      | Some name \<Rightarrow>
     if a = ''--'' then Inr opts
     else if name = [] \<or> hd name = CHR ''-'' \<or> hd name = CHR ''='' then Inl 2
     else let (n, v) = split_value name in
       (case lookup_flag lib n opts of
          None \<Rightarrow> Inl (if n = ''help'' \<or> n = ''h'' then 0 else 2)
        | Some (True, put_value) \<Rightarrow>
            (case put_value (case v of Some x \<Rightarrow> x | None \<Rightarrow> ''true'') of
               None \<Rightarrow> Inl 2 | Some opts' \<Rightarrow> parse_flags lib rest opts')
        | Some (False, put_value) \<Rightarrow>
            (case v of
               Some x \<Rightarrow> (case put_value x of None \<Rightarrow> Inl 2 | Some opts' \<Rightarrow> parse_flags lib rest opts')
             | None \<Rightarrow>
            (case rest of
               [] \<Rightarrow> Inl 2
             | x # rest' \<Rightarrow> (case put_value x of None \<Rightarrow> Inl 2 | Some opts' \<Rightarrow> parse_flags lib rest' opts')))))"

section \<open>TLS options and the manager\<close>

text \<open>The one TLS option there is, as a change of the protocols a server offers.\<close>

datatype tls_opt = DisableHTTP2

fun apply_tls :: "tls_opt \<Rightarrow> string list \<Rightarrow> string list" where
  "apply_tls DisableHTTP2 protos = [''http/1.1'']"

record manager_options =
  mo_MetricsAddr :: string
  mo_SecureServing :: bool
  mo_MetricsTLS :: "tls_opt list"
  mo_WebhookTLS :: "tls_opt list"
  mo_ProbeAddr :: string
  mo_LeaderElection :: bool
  mo_LeaderElectionID :: string

datatype main_call =
    GetConfig
  | NewManager manager_options
  | SetupController string
  | SetupWebhook
  | AddHealthz
  | AddReadyz
  | StartManager

text \<open>
  The process: the calls made to the manager and what came of them, the exit code once it has
  ended, the text it has printed, and the world the libraries act on.
\<close>

record 'm process =
  main_calls :: "main_call list"
  exit_code :: "nat option"
  printed :: "string list"
  libs :: 'm

text \<open>The libraries: the outcome of each call, the scheme registrations and the environment.\<close>

record 'm main_lib =
  ml_call :: "main_call \<Rightarrow> 'm \<Rightarrow> go_error option \<times> 'm"
  ml_AddToScheme :: "string \<Rightarrow> go_error option"
  ml_Getenv :: "string \<Rightarrow> string"
  ml_flags :: lib_flags

text \<open>
  \<open>os.Exit\<close>: the process ends at once. Nothing in the entry point runs after it, which the
  unwinding below stands for.
\<close>

definition os_Exit :: "nat \<Rightarrow> ('m process, 'a) op" where
  "os_Exit n = andThen (modify (\<lambda>s. s\<lparr>exit_code := Some n\<rparr>)) (\<lambda>_. throw (Panicked (ExplicitPanic ''os.Exit'')))"

text \<open>\<open>if err := call; err != nil { setupLog.Error(err, ...); os.Exit(1) }\<close>\<close>

definition call_or_exit :: "'m main_lib \<Rightarrow> main_call \<Rightarrow> ('m process, unit) op" where
  "call_or_exit L c =
     andThen (\<lambda>s. case ml_call L c (libs s) of (err, w) \<Rightarrow>
       (Inr err, s\<lparr>main_calls := main_calls s @ [c], libs := w\<rparr>)) (\<lambda>err.
     case err of Some e \<Rightarrow> os_Exit 1 | None \<Rightarrow> ret ())"

section \<open>run, main and init\<close>

definition tls_opts :: "options \<Rightarrow> tls_opt list" where
  "tls_opts opts = (if \<not> enableHTTP2 opts then [DisableHTTP2] else [])"

definition run_manager_options :: "options \<Rightarrow> manager_options" where
  "run_manager_options opts = \<lparr>mo_MetricsAddr = metricsAddr opts, mo_SecureServing = secureMetrics opts,
     mo_MetricsTLS = tls_opts opts, mo_WebhookTLS = tls_opts opts, mo_ProbeAddr = probeAddr opts,
     mo_LeaderElection = enableLeaderElection opts, mo_LeaderElectionID = ''00e44446.greatsql.cn''\<rparr>"

definition run :: "'m main_lib \<Rightarrow> string list \<Rightarrow> ('m process, unit) op" where
  "run L args =
     (case parse_flags (ml_flags L) args default_options of
        Inl code \<Rightarrow> os_Exit code
      | Inr opts \<Rightarrow>
     andThen (call_or_exit L GetConfig) (\<lambda>_.
     andThen (call_or_exit L (NewManager (run_manager_options opts))) (\<lambda>_.
     andThen (call_or_exit L (SetupController ''SingleInstance'')) (\<lambda>_.
     andThen (call_or_exit L (SetupController ''GroupReplicationCluster'')) (\<lambda>_.
     andThen (if ml_Getenv L ''ENABLE_WEBHOOKS'' \<noteq> ''false'' then call_or_exit L SetupWebhook else ret ()) (\<lambda>_.
     andThen (call_or_exit L AddHealthz) (\<lambda>_.
     andThen (call_or_exit L AddReadyz) (\<lambda>_.
     call_or_exit L StartManager))))))))"

definition print_line :: "string \<Rightarrow> ('m process, unit) op" where
  "print_line l = modify (\<lambda>s. s\<lparr>printed := printed s @ [l]\<rparr>)"

definition cobraRootError :: "string \<Rightarrow> string list \<Rightarrow> go_error \<Rightarrow> ('m process, unit) op" where
  "cobraRootError cmd args err =
     andThen (print_line (''execute '' @ cmd @ '' args: '' @ fmt_strings args @ '' error: '' @ err_string err)) (\<lambda>_.
     os_Exit 1)"

text \<open>The \<open>Run\<close> of the root command, with the positional arguments that cobra passes.\<close>

definition rootCmd_Run :: "'m main_lib \<Rightarrow> string list \<Rightarrow> string list \<Rightarrow> ('m process, unit) op" where
  "rootCmd_Run L os_args args =
     (if args = [] then run L os_args
      else andThen (cobraRootError ''GreatSQL'' args (PlainError ''unknown command'')) (\<lambda>_. os_Exit 1))"

text \<open>What \<open>Execute\<close> makes of the command line: run a command, do something of its own, or fail.\<close>

datatype cobra_outcome = RunRoot "string list" | RunVersion | CobraDone | CobraError go_error

definition main :: "'m main_lib \<Rightarrow> (string list \<Rightarrow> cobra_outcome) \<Rightarrow> version_vars \<Rightarrow> go_runtime \<Rightarrow>
    string list \<Rightarrow> ('m process, unit) op" where
  "main L cobra g rt os_args =
     (case cobra os_args of
        RunRoot args \<Rightarrow> rootCmd_Run L os_args args
      | RunVersion \<Rightarrow> (\<lambda>s. case VersionCmd_Run g rt (printed s) of (r, out) \<Rightarrow> (r, s\<lparr>printed := out\<rparr>))
      | CobraDone \<Rightarrow> ret ()
      | CobraError err \<Rightarrow> andThen (print_line (err_string err)) (\<lambda>_. os_Exit 1))"

text \<open>\<open>init\<close>: \<open>utilruntime.Must\<close> panics if a scheme cannot be registered.\<close>

definition Must :: "go_error option \<Rightarrow> ('m process, unit) op" where
  "Must err = (case err of Some e \<Rightarrow> throw (Panicked (ExplicitPanic (err_string e))) | None \<Rightarrow> ret ())"

definition init_main :: "'m main_lib \<Rightarrow> ('m process, unit) op" where
  "init_main L = andThen (Must (ml_AddToScheme L ''clientgoscheme'')) (\<lambda>_. Must (ml_AddToScheme L ''greatsqlv1''))"

section \<open>The steps of run\<close>

lemma run_os_Exit [runs]:
  "os_Exit n s = (Inl (Panicked (ExplicitPanic ''os.Exit'')), s\<lparr>exit_code := Some n\<rparr>)"
  by (simp add: os_Exit_def runs)

lemma run_print_line [runs]: "print_line l s = (Inr (), s\<lparr>printed := printed s @ [l]\<rparr>)"
  by (simp add: print_line_def runs)

lemma run_call_or_exit [runs]:
  "call_or_exit L c s = (case ml_call L c (libs s) of
     (None, w) \<Rightarrow> (Inr (), s\<lparr>main_calls := main_calls s @ [c], libs := w\<rparr>)
   | (Some e, w) \<Rightarrow> (Inl (Panicked (ExplicitPanic ''os.Exit'')),
       s\<lparr>main_calls := main_calls s @ [c], libs := w, exit_code := Some 1\<rparr>))"
  by (auto simp: call_or_exit_def runs split: prod.splits option.splits)

definition run_steps :: "'m main_lib \<Rightarrow> options \<Rightarrow> main_call list" where
  "run_steps L opts =
     [GetConfig, NewManager (run_manager_options opts), SetupController ''SingleInstance'',
      SetupController ''GroupReplicationCluster'']
     @ (if ml_Getenv L ''ENABLE_WEBHOOKS'' \<noteq> ''false'' then [SetupWebhook] else [])
     @ [AddHealthz, AddReadyz, StartManager]"

lemma run_as_steps:
  "run L args = (case parse_flags (ml_flags L) args default_options of
     Inl code \<Rightarrow> os_Exit code | Inr opts \<Rightarrow> for_each (call_or_exit L) (run_steps L opts))"
proof -
  have unit: "(\<lambda>_. ret ()) = (ret :: unit \<Rightarrow> ('m process, unit) op)" by (simp add: fun_eq_iff)
  show ?thesis by (simp add: run_def run_steps_def unit split: sum.splits)
qed

text \<open>A sequence of calls is carried out up to the first that fails, which ends the process.\<close>

lemma calls_until_failure:
  "\<exists>k. main_calls (snd (for_each (call_or_exit L) cs s)) = main_calls s @ take k cs
     \<and> printed (snd (for_each (call_or_exit L) cs s)) = printed s
     \<and> (if isl (fst (for_each (call_or_exit L) cs s))
        then 0 < k \<and> k \<le> length cs \<and> exit_code (snd (for_each (call_or_exit L) cs s)) = Some 1
          \<and> (\<exists>w e. fst (ml_call L (cs ! (k - 1)) w) = Some e)
        else k = length cs \<and> exit_code (snd (for_each (call_or_exit L) cs s)) = exit_code s)"
proof (induction cs arbitrary: s)
  case Nil
  then show ?case by (simp add: runs)
next
  case (Cons c cs)
  obtain err w where c: "ml_call L c (libs s) = (err, w)" by (cases "ml_call L c (libs s)")
  show ?case
  proof (cases err)
    case (Some e)
    with c show ?thesis by (intro exI [of _ 1]) (auto simp: runs intro!: exI [of _ "libs s"])
  next
    case None
    let ?s = "s\<lparr>main_calls := main_calls s @ [c], libs := w\<rparr>"
    have run: "for_each (call_or_exit L) (c # cs) s = for_each (call_or_exit L) cs ?s"
      using None c by (simp add: runs)
    from Cons.IH [of ?s] obtain k where k: "main_calls (snd (for_each (call_or_exit L) cs ?s)) = main_calls ?s @ take k cs
       \<and> printed (snd (for_each (call_or_exit L) cs ?s)) = printed ?s
       \<and> (if isl (fst (for_each (call_or_exit L) cs ?s))
          then 0 < k \<and> k \<le> length cs \<and> exit_code (snd (for_each (call_or_exit L) cs ?s)) = Some 1
            \<and> (\<exists>w e. fst (ml_call L (cs ! (k - 1)) w) = Some e)
          else k = length cs \<and> exit_code (snd (for_each (call_or_exit L) cs ?s)) = exit_code ?s)" ..
    then show ?thesis unfolding run
      by (intro exI [of _ "Suc k"]) (auto simp: nth_Cons' split: if_splits)
  qed
qed

section \<open>What cobra promises\<close>

text \<open>
  The root command has subcommands, no flags of its own and no rule for arguments. Cobra then
  runs it only for a command line without arguments (\<open>--\<close> only ends the flags), and rejects a
  long flag that was not declared (\<open>--help\<close> always is).
\<close>

definition long_flag :: "string \<Rightarrow> bool" where
  "long_flag a \<longleftrightarrow> 2 < length a \<and> take 2 a = ''--'' \<and> fst (split_value a) \<noteq> ''--help''"

locale cobra_cli =
  fixes cobra :: "string list \<Rightarrow> cobra_outcome"
  assumes root_arguments: "cobra args = RunRoot xs \<Longrightarrow> xs = [] \<and> list_all (\<lambda>a. a = ''--'') args"
    and undeclared_flag: "long_flag a \<Longrightarrow> \<exists>e. cobra (a # rest) = CobraError e"
begin

lemma root_parses_defaults: "cobra args = RunRoot xs \<Longrightarrow> parse_flags lib args opts = Inr opts"
  using root_arguments [of args xs] by (cases args) (simp_all add: flag_name_def)

lemma only_default_options:
  assumes "main_calls s = []" "NewManager mo \<in> set (main_calls (snd (main L cobra g rt args s)))"
  shows "mo = run_manager_options default_options"
proof (cases "cobra args")
  case (RunRoot xs)
  then have "xs = []" using root_arguments by simp
  with RunRoot have "main L cobra g rt args = for_each (call_or_exit L) (run_steps L default_options)"
    by (simp add: main_def rootCmd_Run_def run_as_steps root_parses_defaults)
  then have "NewManager mo \<in> set (run_steps L default_options)"
    using assms calls_until_failure [of L "run_steps L default_options" s] by (auto dest: in_set_takeD)
  then show ?thesis by (auto simp: run_steps_def split: if_splits)
next
  case RunVersion
  with assms show ?thesis by (auto simp: main_def split: prod.splits)
next
  case CobraDone
  with assms show ?thesis by (simp add: main_def runs)
next
  case (CobraError e)
  with assms show ?thesis by (simp add: main_def runs)
qed

lemma undeclared_flag_exits:
  assumes "long_flag a"
  shows "exit_code (snd (main L cobra g rt (a # rest) s)) = Some 1
    \<and> main_calls (snd (main L cobra g rt (a # rest) s)) = main_calls s"
  using undeclared_flag [OF assms, of rest] by (auto simp: main_def runs)

end

fun cobra_documented :: "string list \<Rightarrow> cobra_outcome" where
  "cobra_documented [] = RunRoot []"
| "cobra_documented (a # rest) =
     (if a = ''--'' then (if rest = [] then RunRoot [] else CobraError (PlainError ''unknown command''))
      else if take 2 a = ''--'' then
        (if fst (split_value a) = ''--help'' then CobraDone
         else CobraError (PlainError (''unknown flag: '' @ a)))
      else if a \<in> {''-h'', ''help'', ''completion''} then CobraDone
      else if a = ''version'' then RunVersion
      else CobraError (PlainError (''unknown command '' @ a)))"

interpretation documented_cobra: cobra_cli cobra_documented
proof
  show "xs = [] \<and> list_all (\<lambda>a. a = ''--'') args" if "cobra_documented args = RunRoot xs" for args xs
    using that by (cases args) (auto split: if_splits)
  show "\<exists>e. cobra_documented (a # rest) = CobraError e" if "long_flag a" for a rest
    using that by (auto simp: long_flag_def)
qed

section \<open>The properties\<close>



text \<open>Libraries on which every call succeeds, and a process that has not done anything yet.\<close>

definition working_libs :: "unit main_lib" where
  "working_libs = \<lparr>ml_call = (\<lambda>c w. (None, w)), ml_AddToScheme = (\<lambda>_. None),
     ml_Getenv = (\<lambda>_. ''''), ml_flags = (\<lambda>_. None)\<rparr>"

definition new_process :: "unit process" where
  "new_process = \<lparr>main_calls = [], exit_code = None, printed = [], libs = ()\<rparr>"


text \<open>
  The command line that the deployment manifests start the operator with, \<open>--leader-elect\<close>, ends
  the process with code 1 before any call to the manager, although the flag package would accept
  it and turn leader election on; so does every other long flag but \<open>--help\<close>.
\<close>

theorem deployment_flags_exit:
  assumes "cobra_cli cobra" and "long_flag a"
  shows "exit_code (snd (main L cobra g rt (a # rest) s)) = Some 1
    \<and> main_calls (snd (main L cobra g rt (a # rest) s)) = main_calls s
    \<and> parse_flags lib [''--leader-elect''] default_options = Inr (default_options\<lparr>enableLeaderElection := True\<rparr>)"
  using cobra_cli.undeclared_flag_exits [OF assms]
  by (simp add: flag_name_def split_value_def lookup_flag_def set_bool_def ParseBool_def)

theorem deployment_flags_exit_witness:
  "\<forall>g rt. exit_code (snd (main working_libs cobra_documented g rt [''--leader-elect''] new_process)) = Some 1"
proof -
  have "long_flag ''--leader-elect''" by (simp add: long_flag_def split_value_def)
  from deployment_flags_exit [OF documented_cobra.cobra_cli_axioms this] show ?thesis by blast
qed

end
