(* ===== verification/Wiring.thy ===== *)
theory Wiring
  imports System Entry
begin

text \<open>
  How the parts are wired together: the types that \<open>api/v1\<close> registers with the scheme, what
  \<open>SetupWithManager\<close> and \<open>SetupWebhookWithManager\<close> ask of controller-runtime, and which reconcile
  an event about an object starts. The scheme builder and the event sources of controller-runtime
  are parameters with the documented behaviour.
\<close>

section \<open>The scheme\<close>

text \<open>The functions \<open>init\<close> of the files of \<open>api/v1\<close>; \<open>register\<close> is \<open>SchemeBuilder.Register\<close>.\<close>

definition GroupReplicationCluster_init :: "(string list \<Rightarrow> 'b \<Rightarrow> 'b) \<Rightarrow> 'b \<Rightarrow> 'b" where
  "GroupReplicationCluster_init register = register [''GroupReplicationCluster'', ''GroupReplicationClusterList'']"

definition SingleInstance_init :: "(string list \<Rightarrow> 'b \<Rightarrow> 'b) \<Rightarrow> 'b \<Rightarrow> 'b" where
  "SingleInstance_init register = register [''SingleInstance'', ''SingleInstanceList'']"

text \<open>\<open>SchemeBuilder\<close>, once the package is initialised; \<open>builder\<close> is \<open>&scheme.Builder{GroupVersion: ...}\<close>.\<close>

definition SchemeBuilder :: "(string \<Rightarrow> string \<Rightarrow> 'b) \<Rightarrow> (string list \<Rightarrow> 'b \<Rightarrow> 'b) \<Rightarrow> 'b" where
  "SchemeBuilder builder register =
     SingleInstance_init register (GroupReplicationCluster_init register (builder GroupVersion_Group GroupVersion_Version))"

text \<open>A scheme: the group, version and kind of the Go types it knows.\<close>

type_synonym scheme = "string \<Rightarrow> group_version_kind option"

locale scheme_builder =
  fixes builder :: "string \<Rightarrow> string \<Rightarrow> 'b" and register :: "string list \<Rightarrow> 'b \<Rightarrow> 'b"
    and AddToScheme :: "'b \<Rightarrow> scheme" and group_version :: "'b \<Rightarrow> string \<times> string"
  assumes new_builder: "AddToScheme (builder g v) t = None" "group_version (builder g v) = (g, v)"
    and registered: "AddToScheme (register ts b) t = (if t \<in> set ts
      then Some \<lparr>gvk_Group = fst (group_version b), gvk_Version = snd (group_version b), gvk_Kind = t\<rparr>
      else AddToScheme b t)"
    and group_version_register: "group_version (register ts b) = group_version b"
begin

lemma operator_scheme:
  "AddToScheme (SchemeBuilder builder register) t =
     (if t \<in> {''SingleInstance'', ''SingleInstanceList'', ''GroupReplicationCluster'', ''GroupReplicationClusterList''}
      then Some \<lparr>gvk_Group = ''greatsql.greatsql.cn'', gvk_Version = ''v1'', gvk_Kind = t\<rparr> else None)"
  by (simp add: SchemeBuilder_def SingleInstance_init_def GroupReplicationCluster_init_def registered new_builder
      group_version_register GroupVersion_Group_def GroupVersion_Version_def)

end

section \<open>Controllers\<close>

text \<open>
  What a controller asks of the manager: the type it is for, the types whose objects it owns, and
  the reconcile it starts for a name (with the UUIDs that it will draw).
\<close>

record controller =
  For :: kind
  Owns :: "kind list"
  Reconcile :: "namespaced_name \<Rightarrow> string list \<Rightarrow> job"

text \<open>The manager: completing a controller and completing a webhook.\<close>

record 'm manager =
  Complete :: "controller \<Rightarrow> 'm \<Rightarrow> go_error option \<times> 'm"
  Complete_webhook :: "kind \<Rightarrow> 'm \<Rightarrow> go_error option \<times> 'm"

definition single_controller :: controller where
  "single_controller = \<lparr>For = KSingle, Owns = [KDeployment], Reconcile = (\<lambda>req us. SingleJob req)\<rparr>"

definition cluster_controller :: controller where
  "cluster_controller = \<lparr>For = KCluster, Owns = [KStatefulSet], Reconcile = ClusterJob\<rparr>"

lemma reconcile_simps [simp]:
  "Reconcile single_controller nn us = SingleJob nn" "Reconcile cluster_controller nn us = ClusterJob nn us"
  by (simp_all add: single_controller_def cluster_controller_def)

definition Single_SetupWithManager :: "'m manager \<Rightarrow> 'm \<Rightarrow> go_error option \<times> 'm" where
  "Single_SetupWithManager mgr = Complete mgr single_controller"

definition Cluster_SetupWithManager :: "'m manager \<Rightarrow> 'm \<Rightarrow> go_error option \<times> 'm" where
  "Cluster_SetupWithManager mgr = Complete mgr cluster_controller"

definition SetupWebhookWithManager :: "'m manager \<Rightarrow> 'm \<Rightarrow> go_error option \<times> 'm" where
  "SetupWebhookWithManager mgr = Complete_webhook mgr KCluster"

text \<open>
  A process whose calls are those of the repository: the library calls of \<open>main.go\<close> that set a
  controller up are the functions above. No other call registers a controller.
\<close>

locale wired_process =
  fixes L :: "'m main_lib" and mgr :: "'m manager" and controllers :: "'m \<Rightarrow> controller list"
  assumes setup_single: "ml_call L (SetupController ''SingleInstance'') = Single_SetupWithManager mgr"
    and setup_cluster: "ml_call L (SetupController ''GroupReplicationCluster'') = Cluster_SetupWithManager mgr"
    and setup_webhook: "ml_call L SetupWebhook = SetupWebhookWithManager mgr"
    and completed: "Complete mgr c m = (None, m') \<Longrightarrow> controllers m' = controllers m @ [c]"
    and other_calls: "ml_call L q m = (e, m') \<Longrightarrow> \<forall>n. q \<noteq> SetupController n \<Longrightarrow> controllers m' = controllers m"
begin

lemma call_controllers:
  assumes "call_or_exit L c s = (Inr (), t)" and "\<forall>n. c \<noteq> SetupController n"
  shows "controllers (libs t) = controllers (libs s)"
  using assms other_calls by (auto simp: run_call_or_exit split: prod.splits option.splits)

lemma setup_controllers:
  "call_or_exit L (SetupController ''SingleInstance'') s = (Inr (), t) \<Longrightarrow>
     controllers (libs t) = controllers (libs s) @ [single_controller]"
  "call_or_exit L (SetupController ''GroupReplicationCluster'') s = (Inr (), t) \<Longrightarrow>
     controllers (libs t) = controllers (libs s) @ [cluster_controller]"
  using completed
  by (auto simp: run_call_or_exit setup_single setup_cluster Single_SetupWithManager_def Cluster_SetupWithManager_def
      split: prod.splits option.splits)

text \<open>A manager that has been started has exactly the two controllers.\<close>

lemma run_registers:
  assumes "run L args s = (Inr (), t)"
  shows "controllers (libs t) = controllers (libs s) @ [single_controller, cluster_controller]"
  using assms
  by (auto simp: run_def run_andThen run_ret run_os_Exit split: sum.splits prod.splits if_splits
      dest!: setup_controllers call_controllers)

end

section \<open>Events\<close>

text \<open>The API group of an owner reference: \<open>schema.ParseGroupVersion\<close>.\<close>

definition api_group :: "string \<Rightarrow> string" where
  "api_group v = (if CHR ''/'' \<in> set v then takeWhile (\<lambda>c. c \<noteq> CHR ''/'') v else [])"

fun type_name :: "kind \<Rightarrow> string" where
  "type_name KSingle = ''SingleInstance''"
| "type_name KCluster = ''GroupReplicationCluster''"
| "type_name KDeployment = ''Deployment''"
| "type_name KStatefulSet = ''StatefulSet''"
| "type_name KService = ''Service''"
| "type_name KConfigMap = ''ConfigMap''"
| "type_name KPVC = ''PersistentVolumeClaim''"
| "type_name KSecret = ''Secret''"

text \<open>
  The names that an event about an object puts into a controller's queue: that of the object if
  the controller is for its kind; that of its controller reference, when it names the controller's
  type, if the controller owns its kind.
\<close>

locale event_source =
  fixes enqueued :: "scheme \<Rightarrow> controller \<Rightarrow> k8s_object \<Rightarrow> namespaced_name set"
  assumes for_event: "kind_of x = For c \<Longrightarrow> For c \<notin> set (Owns c) \<Longrightarrow> enqueued S c x = {obj_name x}"
    and owned_event: "kind_of x \<in> set (Owns c) \<Longrightarrow> kind_of x \<noteq> For c \<Longrightarrow> S (type_name (For c)) = Some gvk \<Longrightarrow>
      enqueued S c x = {\<lparr>nn_Namespace = Namespace (obj_meta x), nn_Name = or_Name r\<rparr> | r.
        r \<in> set (OwnerReferences (obj_meta x)) \<and> or_Controller r = Some True
        \<and> or_Kind r = gvk_Kind gvk \<and> api_group (or_APIVersion r) = gvk_Group gvk}"
    and other_event: "kind_of x \<noteq> For c \<Longrightarrow> kind_of x \<notin> set (Owns c) \<Longrightarrow> enqueued S c x = {}"

text \<open>The reconciles that an event starts.\<close>

definition woken :: "(scheme \<Rightarrow> controller \<Rightarrow> k8s_object \<Rightarrow> namespaced_name set) \<Rightarrow> scheme \<Rightarrow> controller list \<Rightarrow>
    k8s_object \<Rightarrow> job set" where
  "woken enqueued S cs x = (\<Union>c \<in> set cs. {Reconcile c nn us | nn us. nn \<in> enqueued S c x})"

fun job_target :: "job \<Rightarrow> object_key" where
  "job_target (SingleJob req) = (KSingle, req)"
| "job_target (ClusterJob req us) = (KCluster, req)"

lemma job_target_eq:
  "(job_target j = (KSingle, req)) = (j = SingleJob req)"
  "(job_target j = (KCluster, req)) = (\<exists>us. j = ClusterJob req us)"
  by (cases j; auto)+

lemma api_group_own [simp]: "api_group ''greatsql.greatsql.cn/v1'' = ''greatsql.greatsql.cn''"
  by (simp add: api_group_def)

definition doc_enqueued :: "scheme \<Rightarrow> controller \<Rightarrow> k8s_object \<Rightarrow> namespaced_name set" where
  "doc_enqueued S c x =
     (if kind_of x = For c then {obj_name x} else {}) \<union>
     (if kind_of x \<in> set (Owns c) then
        (case S (type_name (For c)) of None \<Rightarrow> {} | Some gvk \<Rightarrow>
          {\<lparr>nn_Namespace = Namespace (obj_meta x), nn_Name = or_Name r\<rparr> | r.
             r \<in> set (OwnerReferences (obj_meta x)) \<and> or_Controller r = Some True
             \<and> or_Kind r = gvk_Kind gvk \<and> api_group (or_APIVersion r) = gvk_Group gvk})
      else {})"

interpretation doc_events: event_source doc_enqueued
  by unfold_locales (auto simp: doc_enqueued_def)

text \<open>A scheme builder: its group and version, and the types registered with it.\<close>

definition doc_register :: "string list \<Rightarrow> (string \<times> string) \<times> string list \<Rightarrow> (string \<times> string) \<times> string list" where
  "doc_register ts b = (fst b, snd b @ ts)"

definition doc_AddToScheme :: "(string \<times> string) \<times> string list \<Rightarrow> scheme" where
  "doc_AddToScheme b t = (if t \<in> set (snd b)
     then Some \<lparr>gvk_Group = fst (fst b), gvk_Version = snd (fst b), gvk_Kind = t\<rparr> else None)"

interpretation doc_scheme: scheme_builder "\<lambda>g v. ((g, v), [])" doc_register doc_AddToScheme fst
  by unfold_locales (auto simp: doc_register_def doc_AddToScheme_def)

text \<open>A manager that only keeps the controllers it is given, and a process that uses it.\<close>

definition keeping_manager :: "controller list manager" where
  "keeping_manager = \<lparr>Complete = (\<lambda>c m. (None, m @ [c])), Complete_webhook = (\<lambda>k m. (None, m))\<rparr>"

definition keeping_lib :: "controller list main_lib" where
  "keeping_lib = \<lparr>ml_call = (\<lambda>q. case q of
       SetupController n \<Rightarrow>
         if n = ''SingleInstance'' then Single_SetupWithManager keeping_manager
         else if n = ''GroupReplicationCluster'' then Cluster_SetupWithManager keeping_manager
         else (\<lambda>m. (Some (PlainError ''unknown controller''), m))
     | SetupWebhook \<Rightarrow> SetupWebhookWithManager keeping_manager
     | _ \<Rightarrow> (\<lambda>m. (None, m))),
     ml_AddToScheme = (\<lambda>_. None), ml_Getenv = (\<lambda>_. []), ml_flags = (\<lambda>_. None)\<rparr>"

interpretation keeping: wired_process keeping_lib keeping_manager "\<lambda>m. m"
  by unfold_locales
    (auto simp: keeping_lib_def keeping_manager_def SetupWebhookWithManager_def split: main_call.splits)

section \<open>Which events start a reconcile\<close>

context event_source
begin

lemma enqueued_simps:
  assumes "S ''SingleInstance'' = Some \<lparr>gvk_Group = ''greatsql.greatsql.cn'', gvk_Version = ''v1'', gvk_Kind = ''SingleInstance''\<rparr>"
    and "S ''GroupReplicationCluster'' = Some \<lparr>gvk_Group = ''greatsql.greatsql.cn'', gvk_Version = ''v1'',
      gvk_Kind = ''GroupReplicationCluster''\<rparr>"
  shows "enqueued S single_controller x = (case x of
      OSingle c \<Rightarrow> {obj_name x}
    | ODeployment d \<Rightarrow> {\<lparr>nn_Namespace = Namespace (dep_Meta d), nn_Name = or_Name r\<rparr> | r.
        r \<in> set (OwnerReferences (dep_Meta d)) \<and> or_Controller r = Some True
        \<and> or_Kind r = ''SingleInstance'' \<and> api_group (or_APIVersion r) = ''greatsql.greatsql.cn''}
    | _ \<Rightarrow> {})"
    and "enqueued S cluster_controller x = (case x of
      OCluster c \<Rightarrow> {obj_name x}
    | OStatefulSet d \<Rightarrow> {\<lparr>nn_Namespace = Namespace (sts_Meta d), nn_Name = or_Name r\<rparr> | r.
        r \<in> set (OwnerReferences (sts_Meta d)) \<and> or_Controller r = Some True
        \<and> or_Kind r = ''GroupReplicationCluster'' \<and> api_group (or_APIVersion r) = ''greatsql.greatsql.cn''}
    | _ \<Rightarrow> {})"
  using for_event [of x single_controller S] owned_event [of x single_controller S] other_event [of x single_controller S]
    for_event [of x cluster_controller S] owned_event [of x cluster_controller S] other_event [of x cluster_controller S] assms
  by (auto simp: single_controller_def cluster_controller_def split: k8s_object.splits)

end

text \<open>The controller references that the operator sets.\<close>

lemma deployment_owner:
  assumes "k8s_library L" and "deployment_of L req c = Inr d"
  shows "OwnerReferences (dep_Meta d) = [\<lparr>or_APIVersion = ''greatsql.greatsql.cn/v1'', or_Kind = ''SingleInstance'',
      or_Name = Name (dep_Meta d), or_UID = UID (si_Meta c), or_Controller = Some True, or_BlockOwnerDeletion = Some True\<rparr>]"
  using assms
  by (auto simp: deployment_of_def res_bind_Inr_iff k8s_library.new_controller_ref k8s_library.group_version_string
      GroupVersion_Group_def GroupVersion_Version_def SingleInstance_kind_def elim!: NewDeployment_Inr)

lemma statefulset_owner:
  assumes "k8s_library L" and "cluster_statefulset L req mgr n = Inr sts"
  shows "OwnerReferences (sts_Meta sts) = [\<lparr>or_APIVersion = ''greatsql.greatsql.cn/v1'', or_Kind = ''GroupReplicationCluster'',
      or_Name = Name (sts_Meta sts), or_UID = UID (grc_Meta mgr), or_Controller = Some True, or_BlockOwnerDeletion = Some True\<rparr>]"
  using assms
  by (auto simp: k8s_library.new_controller_ref k8s_library.group_version_string
      GroupVersion_Group_def GroupVersion_Version_def GroupReplicationCluster_kind_def
      elim!: cluster_statefulset_Inr NewStatefulSet_Inr)

text \<open>
  C8. Once the process has started its manager, an event about a custom resource starts a
  reconcile of it and of nothing else, and of the objects the operator creates an event about one
  starts a reconcile exactly when it is a workload: a Deployment or a StatefulSet wakes the
  reconciles of the custom resource that created it, and no other; a change or a deletion of a
  Service, a ConfigMap, a claim or a Secret is not noticed.
\<close>

theorem events_wake_their_owner:
  assumes "wired_process L mgr controllers" and "run L args p = (Inr (), t)" and "controllers (libs p) = []"
    and "scheme_builder builder register AddToScheme group_version" and "event_source enqueued"
    and "k8s_library K"
  shows "(asks K j (ReqCreate x) \<longrightarrow>
      woken enqueued (AddToScheme (SchemeBuilder builder register)) (controllers (libs t)) x
        = (if workload x then {j'. job_target j' = job_target j} else {}))
    \<and> (kind_of y \<in> {KSingle, KCluster} \<longrightarrow>
      woken enqueued (AddToScheme (SchemeBuilder builder register)) (controllers (libs t)) y
        = {j'. job_target j' = obj_key y})"
proof -
  let ?S = "AddToScheme (SchemeBuilder builder register)"
  have cs: "controllers (libs t) = [single_controller, cluster_controller]"
    using wired_process.run_registers [OF assms(1,2)] assms(3) by simp
  have S: "?S ''SingleInstance'' = Some \<lparr>gvk_Group = ''greatsql.greatsql.cn'', gvk_Version = ''v1'', gvk_Kind = ''SingleInstance''\<rparr>"
    "?S ''GroupReplicationCluster'' = Some \<lparr>gvk_Group = ''greatsql.greatsql.cn'', gvk_Version = ''v1'',
      gvk_Kind = ''GroupReplicationCluster''\<rparr>"
    by (simp_all add: scheme_builder.operator_scheme [OF assms(4)])
  have wake: "woken enqueued ?S (controllers (libs t)) z =
      {SingleJob nn | nn. nn \<in> enqueued ?S single_controller z} \<union> {ClusterJob nn us | nn us. nn \<in> enqueued ?S cluster_controller z}" for z
    by (simp add: woken_def cs)
  note enq = event_source.enqueued_simps [OF assms(5) S]
  have "woken enqueued ?S (controllers (libs t)) x = (if workload x then {j'. job_target j' = job_target j} else {})"
    if "asks K j (ReqCreate x)"
  proof (cases j)
    case (SingleJob req)
    with that have "obj_key x \<in> children req" "\<And>d. x = ODeployment d \<Longrightarrow> \<exists>c. deployment_of K req c = Inr d"
      by (auto simp: single_asks_def)
    with SingleJob show ?thesis
      by (cases x) (auto simp: wake enq workload_def job_target_eq obj_key_def obj_name_def children_def
          dest!: deployment_owner [OF assms(6)])
  next
    case (ClusterJob req us)
    with that have "kind_of x \<noteq> KDeployment" "obj_key x \<in> cluster_touched req"
      "\<And>sts. x = OStatefulSet sts \<Longrightarrow> \<exists>mgr n. cluster_statefulset K req mgr n = Inr sts"
      by (auto simp: cluster_asks_def)
    with ClusterJob show ?thesis
      by (cases x) (auto simp: wake enq workload_def job_target_eq obj_key_def obj_name_def cluster_touched_def
          dest!: statefulset_owner [OF assms(6)])
  qed
  moreover have "woken enqueued ?S (controllers (libs t)) y = {j'. job_target j' = obj_key y}"
    if "kind_of y \<in> {KSingle, KCluster}"
    using that by (cases y) (auto simp: wake enq job_target_eq obj_key_def)
  ultimately show ?thesis by blast
qed

definition idle_process :: "'m \<Rightarrow> 'm process" where
  "idle_process m = \<lparr>main_calls = [], exit_code = None, printed = [], libs = m\<rparr>"

theorem events_wake_their_owner_witness:
  "\<exists>t d. run keeping_lib [] (idle_process []) = (Inr (), t)
    \<and> deployment_of doc_lib sample_name sample_single = Inr d
    \<and> woken doc_enqueued (doc_AddToScheme (SchemeBuilder (\<lambda>g v. ((g, v), [])) doc_register)) (libs t) (ODeployment d)
      = {SingleJob sample_name}"
proof -
  obtain t where t: "run keeping_lib [] (idle_process []) = (Inr (), t)"
    by (auto simp: run_def run_andThen run_ret run_call_or_exit keeping_lib_def keeping_manager_def idle_process_def
        Single_SetupWithManager_def Cluster_SetupWithManager_def SetupWebhookWithManager_def)
  obtain d where d: "deployment_of doc_lib sample_name sample_single = Inr d"
    using sample_deployment [of "nn_Name sample_name @ Config_const" 1]
    by (auto simp: deployment_of_def)
  have "obj_key (ODeployment d) = (KDeployment, sample_name)"
    using built_keys(1) [OF _ d] by (simp add: sample_name_def obj_name_def)
  with d have "asks doc_lib (SingleJob sample_name) (ReqCreate (ODeployment d))"
    by (auto simp: single_asks_def)
  with events_wake_their_owner [OF keeping.wired_process_axioms t _ doc_scheme.scheme_builder_axioms
      doc_events.event_source_axioms doc.k8s_library_axioms, of "SingleJob sample_name" "ODeployment d"]
  have "woken doc_enqueued (doc_AddToScheme (SchemeBuilder (\<lambda>g v. ((g, v), [])) doc_register)) (libs t) (ODeployment d)
      = {j'. job_target j' = (KSingle, sample_name)}"
    by (simp add: idle_process_def workload_def)
  with t d show ?thesis by (auto simp: job_target_eq)
qed

end
