(* ===== verification/Half_Created.thy ===== *)
theory Half_Created
  imports System
begin

text \<open>
  Creations that failed half-way, in every run: a process that is refused an object it asks for
  goes no further, whatever else happens and whatever the cache answers.
\<close>

section \<open>Operations that always fail\<close>

text \<open>\<open>fails J name req m\<close>: as \<open>owns\<close>, but \<open>m\<close> never succeeds.\<close>

definition fails ::
  "('w \<Rightarrow> api_call list \<Rightarrow> bool) \<Rightarrow> ('c \<Rightarrow> 'n) \<Rightarrow> 'n \<Rightarrow> (('w, 'c) rstate, 'a) op \<Rightarrow> bool" where
  "fails J name req m \<longleftrightarrow>
     triple (\<lambda>s. name (cr s) = req \<and> J (world s) (trace s)) m (\<lambda>_ _. False) (\<lambda>_ s. J (world s) (trace s))"

lemma fails_owns: "fails J name req m \<Longrightarrow> owns J name req m"
  unfolding fails_def owns_def by (erule triple_weaken) auto

lemma fails_first: "fails J name req m \<Longrightarrow> fails J name req (andThen m f)"
  unfolding fails_def by (erule triple_andThen) (simp add: triple_def)

lemma fails_gets: "(\<And>c. name c = req \<Longrightarrow> fails J name req (f c)) \<Longrightarrow> fails J name req (andThen (gets cr) f)"
  by (auto simp: fails_def triple_def op_defs)

lemma fails_pure: "(\<And>x. r = Inr x \<Longrightarrow> fails J name req (f x)) \<Longrightarrow> fails J name req (andThen (pure r) f)"
  by (cases r) (auto simp: fails_def triple_def op_defs)

lemma fails_call:
  assumes "\<And>w tr r w'. J w tr \<Longrightarrow> f w = (r, w') \<Longrightarrow> J w' (tr @ [(q, err r)]) \<and> P r"
    and "\<And>r. P r \<Longrightarrow> fails J name req (g r)"
  shows "fails J name req (andThen (api_call f q err) g)"
  unfolding fails_def
  by (rule triple_andThen [OF owned_call [where P = P]])
    (use assms in \<open>fastforce simp: fails_def triple_def split: prod.splits sum.splits\<close>)+

lemma fails_refused: "fst r \<noteq> None \<Longrightarrow> fails J name req (check_err r)"
  by (cases r; cases "fst r") (auto simp: fails_def check_err_def triple_def op_defs)

section \<open>Processes that are refused\<close>

text \<open>No answer carries an object of \<open>K\<close>.\<close>

definition barred :: "object_key set \<Rightarrow> answer list \<Rightarrow> bool" where
  "barred K as \<longleftrightarrow> (\<forall>y. Done y \<in> set as \<longrightarrow> obj_key y \<notin> K)"

lemma barred_simps [simp]:
  "barred K []" "barred K (as @ [a]) \<longleftrightarrow> barred K as \<and> (\<forall>y. a = Done y \<longrightarrow> obj_key y \<notin> K)"
  by (auto simp: barred_def)

lemma barred_tl: "barred K as \<Longrightarrow> barred K (tl as)"
  by (cases as) (auto simp: barred_def)

lemma barred_given: "barred K as \<Longrightarrow> k \<in> K \<Longrightarrow> fst (given as k x) \<noteq> None"
  by (cases "(as, k, x)" rule: given.cases) (auto simp: barred_def)

definition barred_asking :: "object_key set \<Rightarrow> (api_request \<Rightarrow> bool) \<Rightarrow> replay \<Rightarrow> api_call list \<Rightarrow> bool" where
  "barred_asking K P w tr \<longleftrightarrow> barred K (answers w) \<and> all_asked P w tr"

interpretation barred: request_frame replay_client "barred_asking K P" P for K
  by unfold_locales
    (auto simp: replay_client_def replay_call_def barred_asking_def all_asked_def barred_tl dest: given_key split: if_splits)

lemma barred_call:
  assumes "barred_asking K P w tr" and "P q" and "k \<in> K" and "replay_call k x w = (r, w')"
  shows "barred_asking K P w' (tr @ [(q, e)]) \<and> fst r \<noteq> None"
  using assms barred_given [of K "answers w" k x] by (auto simp: barred_asking_def all_asked_def replay_call_def barred_tl)

lemma fails_Create:
  assumes "P (ReqCreate x)" and "obj_key x \<in> K"
  shows "fails (barred_asking K P) name req (client_Create replay_client x)"
  unfolding client_Create_def
  by (rule fails_call [where P = "\<lambda>r. fst r \<noteq> None"])
    (use barred_call [of K P] assms in \<open>auto simp: replay_client_def intro: fails_refused\<close>)

lemma fails_Get:
  assumes "P (ReqGet (kind_of x) nn)" and "(kind_of x, nn) \<in> K" and "\<And>e y. fails (barred_asking K P) name req (f (Some e, y))"
  shows "fails (barred_asking K P) name req (andThen (client_Get replay_client nn x) f)"
  unfolding client_Get_def
  by (rule fails_call [where P = "\<lambda>r. fst r \<noteq> None"])
    (use barred_call [of K P] assms in \<open>auto simp: replay_client_def\<close>)


lemma barred_start: "barred_asking K P (world (replay_start as us c)) (trace (replay_start as us c)) \<longleftrightarrow> barred K as"
  by (simp add: barred_asking_def replay_start_def all_asked_def)

lemmas barred_frame = barred.request_frame_axioms

section \<open>An instance without its Deployment\<close>

abbreviation config_key :: "namespaced_name \<Rightarrow> object_key" where
  "config_key req \<equiv> (KConfigMap, with_suffix req ''-config'')"

text \<open>
  Refused its ConfigMap, and told that there is no Deployment, a process of an instance never asks
  for a Deployment to be created, and all it does about the ConfigMap is to create it.
\<close>

definition no_deployment_asks :: "k8s_lib \<Rightarrow> namespaced_name \<Rightarrow> api_request \<Rightarrow> bool" where
  "no_deployment_asks L req q \<longleftrightarrow> single_asks L req q
     \<and> (request_key q = (KDeployment, req) \<longrightarrow> (\<forall>x. q \<noteq> ReqCreate x))
     \<and> (request_key q = config_key req \<longrightarrow> (\<exists>x. q = ReqCreate x))"

lemma refused_createResources:
  "fails (barred_asking {(KDeployment, req), config_key req} (no_deployment_asks L req)) name r
     (Single_createResources L replay_client req)"
proof -
  have "fails (barred_asking {(KDeployment, req), config_key req} (no_deployment_asks L req)) name r
      (Single_createConfigMap replay_client req)"
    unfolding Single_createConfigMap_def
    by (intro fails_pure fails_first fails_Create)
      (auto simp: no_deployment_asks_def single_asks_def touched_def children_def obj_key_def obj_name_def with_suffix_def
        NewConfigMap_def zero_meta_def)
  then show ?thesis
    unfolding Single_createResources_def
    by (intro fails_Get; simp add: no_deployment_asks_def single_asks_def touched_def children_def fails_first)
qed

lemma barred_single_requests:
  assumes "k8s_library L" and "barred {(KDeployment, req), config_key req} as"
    and "q \<in> set (requests_of L (SingleJob req) as)"
  shows "no_deployment_asks L req q"
proof -
  let ?J = "barred_asking {(KDeployment, req), config_key req} (no_deployment_asks L req)"
  let ?s = "replay_start as [] zero_single_instance"
  have "?J (world (snd (Single_Reconcile L replay_client req ?s))) (trace (snd (Single_Reconcile L replay_client req ?s)))"
  proof (rule request_frame.keeps_read_Reconcile [OF barred_frame assms(1)])
    show "owns ?J single_name req (andThen (Single_handleFinalizer L replay_client) (\<lambda>_.
        andThen (Single_validateAndAddFinalizer L replay_client) (\<lambda>_.
        andThen (Single_createResources L replay_client req) (\<lambda>_. Single_watchResource L replay_client req))))"
    proof (rule request_frame.owns_maintenance [OF barred_frame assms(1)])
      show "no_deployment_asks L req q" if "single_asks L req q" "upkeep req q" for q
        using that by (cases q) (auto simp: no_deployment_asks_def upkeep_def single_asks_def finalized_def with_suffix_def)
    qed (intro fails_owns fails_first refused_createResources)
  qed (simp_all add: barred_start assms(2) no_deployment_asks_def single_asks_def touched_def)
  with assms(3) show ?thesis by (auto simp: barred_asking_def all_asked_def)
qed

section \<open>A cluster without its StatefulSet\<close>

text \<open>Refused its Secret, a process of a cluster only reads and asks for the Secret.\<close>

definition secret_key :: "namespaced_name \<Rightarrow> object_key" where
  "secret_key req = (KSecret, with_suffix req ''-secret'')"

definition only_secret_asks :: "namespaced_name \<Rightarrow> api_request \<Rightarrow> bool" where
  "only_secret_asks req q \<longleftrightarrow> q = ReqGet KCluster req \<or> q = ReqGet KStatefulSet req
     \<or> (\<exists>x. q = ReqCreate x \<and> obj_key x = secret_key req)"

lemma cluster_secret_key: "cluster_secret L req c = Inr sec \<Longrightarrow> obj_key (OSecret sec) = secret_key req"
  by (auto simp: cluster_secret_def res_bind_Inr_iff NewSecretEnv_def obj_key_def obj_name_def with_suffix_def
      secret_key_def)

lemma barred_cluster_requests:
  assumes "barred {secret_key req} as" and "q \<in> set (requests_of L (ClusterJob req us) as)"
  shows "only_secret_asks req q"
proof -
  let ?J = "barred_asking {secret_key req} (only_secret_asks req)"
  let ?s = "replay_start as us zero_group_replication_cluster"
  have "?J (world (snd (Cluster_Reconcile L replay_uuid replay_client req ?s)))
      (trace (snd (Cluster_Reconcile L replay_uuid replay_client req ?s)))"
  proof (rule request_frame.keeps_read_Cluster_Reconcile [OF barred_frame])
    show "owns ?J cluster_name req (Cluster_createResources L replay_uuid replay_client req)"
      unfolding Cluster_createResources_def Cluster_createSecret_def create_def
      by (intro fails_owns fails_first fails_gets fails_pure fails_Create)
        (auto simp: only_secret_asks_def dest: cluster_secret_key)
  qed (simp_all add: barred_start assms(1) only_secret_asks_def)
  with assms(2) show ?thesis by (auto simp: barred_asking_def all_asked_def)
qed

section \<open>Refused in every run\<close>

text \<open>A request that a server with these objects refuses.\<close>

fun refuses :: "(object_key \<Rightarrow> k8s_object option) \<Rightarrow> api_request \<Rightarrow> bool" where
  "refuses O' (ReqCreate x) \<longleftrightarrow> O' (obj_key x) \<noteq> None"
| "refuses O' (ReqGet k nn) \<longleftrightarrow> O' (k, nn) = None"
| "refuses O' (ReqUpdate x) \<longleftrightarrow> O' (obj_key x) = None"
| "refuses O' (ReqStatusUpdate x) \<longleftrightarrow> O' (obj_key x) = None"
| "refuses O' (ReqDelete k nn) \<longleftrightarrow> O' (k, nn) = None"

text \<open>No process of a job in \<open>mine\<close> has received an object of \<open>K\<close>.\<close>

definition refused_so_far :: "(job \<Rightarrow> bool) \<Rightarrow> object_key set \<Rightarrow> 'w system \<Rightarrow> bool" where
  "refused_so_far mine K s \<longleftrightarrow> (\<forall>(j, as) \<in> set (procs s). mine j \<longrightarrow> barred K as)"

lemma refused_answer:
  assumes "refused_so_far mine K s" and "i < length (procs s)" and "procs s ! i = (j, as)"
    and "\<And>y. mine j \<Longrightarrow> barred K as \<Longrightarrow> a = Done y \<Longrightarrow> obj_key y \<notin> K"
  shows "refused_so_far mine K (s\<lparr>server := w, procs := (procs s)[i := (j, as @ [a])]\<rparr>)"
    "refused_so_far mine K (s\<lparr>procs := (procs s)[i := (j, as @ [a])]\<rparr>)"
  using assms(1,4) nth_mem [OF assms(2)] assms(3)
  by (fastforce simp: refused_so_far_def dest!: set_update_subset_insert [THEN subsetD])+

text \<open>
  The processes in \<open>mine\<close>, as long as they are refused \<open>K\<close>, ask only what preserves \<open>I\<close>, and about
  \<open>K\<close> only what is refused where \<open>I\<close> holds; of \<open>K\<close> they read at most \<open>K'\<close>.
\<close>

definition stays_refused ::
  "(k8s_object \<Rightarrow> go_error option) \<Rightarrow> k8s_lib \<Rightarrow> (job \<Rightarrow> bool) \<Rightarrow> object_key set \<Rightarrow> object_key set \<Rightarrow> ((object_key \<Rightarrow> k8s_object option) \<Rightarrow> bool) \<Rightarrow> bool" where
  "stays_refused adm L mine K K' I \<longleftrightarrow> (\<forall>j as q. mine j \<longrightarrow> barred K as \<longrightarrow> next_request L j as = Some q \<longrightarrow>
     permits adm I q \<and> (request_key q \<in> K \<longrightarrow>
       (\<forall>O'. I O' \<longrightarrow> refuses O' q) \<and> ((\<exists>k nn. q = ReqGet k nn) \<longrightarrow> request_key q \<in> K')))"

context api_server
begin

lemma perform_key:
  assumes "perform cl q w = (Done y, w')"
  shows "obj_key y = request_key q"
proof (cases q)
  case (ReqGet k nn)
  with assms show ?thesis
    using get_answer [of nn "blank k" w None y w'] by (auto simp: apfst_def map_prod_def split: prod.splits elim: answer_of.elims)
qed (use assms answer_key in \<open>auto simp: apfst_def map_prod_def split: prod.splits elim!: answer_of.elims\<close>)

lemma perform_refused:
  assumes "refuses (objs w) q" and "perform cl q w = (a, w')"
  shows "\<exists>e. a = Failed e"
proof (cases q)
  case (ReqGet k nn)
  with assms show ?thesis using get_missing [of w "blank k" nn] by auto
next
  case (ReqCreate x)
  with assms show ?thesis using create_exists [of w x] by auto
next
  case (ReqUpdate x)
  with assms show ?thesis using update_missing [of w x] by auto
next
  case (ReqStatusUpdate x)
  with assms show ?thesis using status_missing [of w x] by auto
next
  case (ReqDelete k nn)
  with assms show ?thesis using delete_missing [of w "named_blank k nn"] by auto
qed

lemma step_refused:
  assumes "step L cl s x t" and lib: "k8s_library L" and own: "stays_refused adm L mine K K' I"
    and inv: "I (objs (server s)) \<and> refused_so_far mine K s"
    and other: "\<And>j q. j \<in> jobs s [x] \<Longrightarrow> \<not> mine j \<Longrightarrow> asks L j q \<Longrightarrow> permits adm I q"
    and user: "\<And>q. x = User q \<Longrightarrow> permits adm I q"
    and cache: "\<And>i y. x = Cached i (Done y) \<Longrightarrow> obj_key y \<notin> K'"
  shows "I (objs (server t)) \<and> refused_so_far mine K t"
  using assms(1)
proof cases
  case (spawn j)
  with inv show ?thesis by (auto simp: refused_so_far_def)
next
  case (act i j as q a w')
  have j: "j \<in> jobs s [x]" using nth_mem [OF act(3)] act(4) by (auto simp: jobs_def intro: rev_image_eqI)
  have barred: "mine j \<Longrightarrow> barred K as" using inv nth_mem [OF act(3)] act(4) by (auto simp: refused_so_far_def)
  then have "permits adm I q"
    using own other [OF j] next_asked [OF lib act(5)] act(5) by (auto simp: stays_refused_def)
  with inv act(6) have "I (objs w')" using perform_keeps by blast
  moreover have "obj_key y \<notin> K" if "mine j" "a = Done y" for y
  proof
    assume "obj_key y \<in> K"
    then have "request_key q \<in> K" using perform_key act(6) that(2) by metis
    with own that(1) barred act(5) inv have "refuses (objs (server s)) q" by (auto simp: stays_refused_def)
    with perform_refused act(6) that(2) show False by blast
  qed
  ultimately show ?thesis using refused_answer(1) [of mine K s i j as a w'] inv act(2-4) by auto
next
  case (cached i j as q a)
  have "obj_key y \<notin> K" if got: "mine j" "barred K as" "a = Done y" for y
  proof
    assume "obj_key y \<in> K"
    moreover have "(\<exists>k nn. q = ReqGet k nn) \<and> obj_key y = request_key q"
      using cached(6) got(3) by (cases "(q, a)" rule: fits.cases) auto
    ultimately have "obj_key y \<in> K'" using own got(1,2) cached(5) by (auto simp: stays_refused_def)
    with cache cached(1) got(3) show False by blast
  qed
  with refused_answer(2) [of mine K s i j as a] inv cached(2-4) show ?thesis by auto
next
  case (user q a w')
  with assms(6) [of q] perform_keeps [of I q "server s" a w'] inv show ?thesis by (auto simp: refused_so_far_def)
qed

lemma run_refused:
  assumes "run_of L cl s xs t" and "k8s_library L" and "stays_refused adm L mine K K' I"
    and "I (objs (server s))" and "refused_so_far mine K s"
    and "\<And>j q. j \<in> jobs s xs \<Longrightarrow> \<not> mine j \<Longrightarrow> asks L j q \<Longrightarrow> permits adm I q"
    and "\<And>q. User q \<in> set xs \<Longrightarrow> permits adm I q"
    and "\<And>i y. Cached i (Done y) \<in> set xs \<Longrightarrow> obj_key y \<notin> K'"
  shows "I (objs (server t)) \<and> refused_so_far mine K t"
  using assms(1,4-)
proof induction
  case (move s x t xs u)
  have "jobs s [x] \<subseteq> jobs s (x # xs)" by (auto simp: jobs_def)
  then have "I (objs (server t)) \<and> refused_so_far mine K t"
  proof (intro step_refused [OF move(1) assms(2,3)])
    show "obj_key y \<notin> K'" if "x = Cached i (Done y)" for i y using move(8) [of i y] that by simp
  qed (use move(4-7) in auto)
  moreover have "jobs t xs \<subseteq> jobs s (x # xs)" using move(1) by (rule jobs_step)
  ultimately show ?case
  proof (intro move(3))
    show "obj_key y \<notin> K'" if "Cached i (Done y) \<in> set xs" for i y using move(8) [of i y] that by simp
  qed (use move(6,7) in auto)
qed simp

end

section \<open>One reconcile of a half-created cluster\<close>

text \<open>
  A cluster whose Secret exists while its StatefulSet does not is never completed: every
  reconcile fails, at the latest when the Secret is created again, and leaves the server exactly
  as it was.
\<close>

lemma cluster_retry_is_stuck:
  assumes "api_server cl adm objs" and "objs (world s) (KCluster, req) \<noteq> None"
    and "objs (world s) (KStatefulSet, req) = None"
    and "objs (world s) (KSecret, with_suffix req ''-secret'') \<noteq> None"
  shows "\<exists>f t. Cluster_Reconcile L uuid_New cl req s = (Inl f, t) \<and> world t = world s"
proof -
  let ?s = "s\<lparr>cr := zero_group_replication_cluster\<rparr>"
  obtain y where y: "objs (world s) (KCluster, req) = Some y" using assms(2) by auto
  obtain c where c: "y = OCluster c"
    using api_server.objs_kind [OF assms(1) y] by (cases y) (auto simp: obj_key_def)
  have "api_Get cl req (OCluster (cr ?s)) (world s) = ((None, OCluster c), world s)"
    using api_server.get_found [OF assms(1), of "world s" "OCluster (cr ?s)" req] y c by simp
  then obtain t where t: "get_cluster cl req ?s = (Inr None, t)" "world t = world s" "cr t = c"
    by (simp add: get_cluster_def client_Get_def api_call_def set_cr_def op_defs)
  obtain m where "api_Get cl req (OStatefulSet zero_statefulset) (world t)
      = ((Some (ApiError NotFound m), OStatefulSet zero_statefulset), world t)"
    using api_server.get_missing [OF assms(1), of "world t" "OStatefulSet zero_statefulset" req] assms(3) t(2) by auto
  then obtain u x where u: "client_Get cl req (OStatefulSet zero_statefulset) t = (Inr (Some (ApiError NotFound m), x), u)"
      "world u = world s" "cr u = c"
    using t(2,3) by (auto simp: client_Get_def api_call_def)
  have "\<exists>f v. Cluster_createSecret L cl req u = (Inl f, v) \<and> world v = world s"
  proof (cases "cluster_secret L req c")
    case (Inr secret)
    then have "obj_key (OSecret secret) = (KSecret, with_suffix req ''-secret'')"
      by (auto simp: cluster_secret_def res_bind_Inr_iff NewSecretEnv_def obj_key_def obj_name_def with_suffix_def)
    then obtain m' where "api_Create cl (OSecret secret) (world u)
        = ((Some (ApiError AlreadyExists m'), OSecret secret), world u)"
      using api_server.create_exists [OF assms(1), of "world u" "OSecret secret"] assms(4) u(2) by auto
    with Inr u(2,3) show ?thesis
      by (simp add: Cluster_createSecret_def create_def client_Create_def api_call_def check_err_def op_defs)
  qed (use u(2,3) in \<open>simp add: Cluster_createSecret_def op_defs\<close>)
  then show ?thesis
    using t(1) u(1) by (auto simp: Cluster_Reconcile_def Cluster_createResources_def set_cr_def run_andThen op_defs)
qed

definition half_created_cluster :: mem where
  "half_created_cluster = mem_write (OSecret (NewSecret ''greatsql-mgr-secret'' ''greatsql'' ''x''))
     (mem_write (OCluster sample_cluster) empty_server)"

lemma half_created_cluster_objs:
  "mem_objs half_created_cluster (KCluster, cluster_name sample_cluster) \<noteq> None"
  "mem_objs half_created_cluster (KStatefulSet, cluster_name sample_cluster) = None"
  "mem_objs half_created_cluster (KSecret, with_suffix (cluster_name sample_cluster) ''-secret'') \<noteq> None"
  by (auto simp: half_created_cluster_def empty_server_def mem_objs_def obj_key_def obj_name_def with_suffix_def
      NewSecret_def zero_meta_def split: option.splits)

section \<open>Properties\<close>

text \<open>Half created: \<open>a\<close> is missing although \<open>b\<close> exists.\<close>

definition half_created :: "object_key \<Rightarrow> object_key \<Rightarrow> (object_key \<Rightarrow> k8s_object option) \<Rightarrow> bool" where
  "half_created a b O' \<longleftrightarrow> O' a = None \<and> O' b \<noteq> None"

lemma half_created_permits:
  assumes "\<And>x. q = ReqCreate x \<Longrightarrow> obj_key x \<noteq> a"
    and "request_key q = b \<Longrightarrow> (\<exists>x. q = ReqCreate x) \<or> (\<exists>k nn. q = ReqGet k nn)"
  shows "permits adm (half_created a b) q"
  using assms by (cases q) (auto simp: permits_def half_created_def)

lemma next_requested: "next_request L j as = Some q \<Longrightarrow> q \<in> set (requests_of L j as)"
  by (auto simp: next_request_def Let_def simp del: requests_of_simps split: if_splits)

lemma single_stays_refused:
  assumes "k8s_library L"
  shows "stays_refused adm L (\<lambda>j. j = SingleJob req) {(KDeployment, req), config_key req} {(KDeployment, req)}
    (half_created (KDeployment, req) (config_key req))"
  unfolding stays_refused_def
proof (intro allI impI)
  let ?I = "half_created (KDeployment, req) (config_key req)"
  fix j as q
  assume "j = SingleJob req" "barred {(KDeployment, req), config_key req} as" "next_request L j as = Some q"
  then have "no_deployment_asks L req q"
    using barred_single_requests [OF assms] next_requested by blast
  then show "permits adm ?I q \<and> (request_key q \<in> {(KDeployment, req), config_key req} \<longrightarrow>
      (\<forall>O'. ?I O' \<longrightarrow> refuses O' q) \<and> ((\<exists>k nn. q = ReqGet k nn) \<longrightarrow> request_key q \<in> {(KDeployment, req)}))"
    by (intro conjI half_created_permits; cases q) (auto simp: no_deployment_asks_def half_created_def)
qed

lemma cluster_stays_refused:
  "stays_refused adm L (\<lambda>j. \<exists>us. j = ClusterJob req us) {secret_key req} {}
    (half_created (KStatefulSet, req) (secret_key req))"
  unfolding stays_refused_def
proof (intro allI impI)
  let ?I = "half_created (KStatefulSet, req) (secret_key req)"
  fix j as q
  assume "\<exists>us. j = ClusterJob req us" "barred {secret_key req} as" "next_request L j as = Some q"
  then have "only_secret_asks req q"
    using barred_cluster_requests next_requested by blast
  then show "permits adm ?I q \<and> (request_key q \<in> {secret_key req} \<longrightarrow>
      (\<forall>O'. ?I O' \<longrightarrow> refuses O' q) \<and> ((\<exists>k nn. q = ReqGet k nn) \<longrightarrow> request_key q \<in> {}))"
    by (intro conjI half_created_permits) (auto simp: only_secret_asks_def half_created_def secret_key_def)
qed

text \<open>
  C14. An instance whose creation failed half-way is never completed, in any run: once its ConfigMap
  exists and its Deployment does not, however the requests of any number of reconciles of this and
  other instances, of clusters and of users interleave, no Deployment ever appears and the
  ConfigMap stays, as long as the cache shows no Deployment that does not exist and no user creates
  the one or deletes the other; and every reconcile that is not interrupted fails.
\<close>

theorem half_created_instance_stays:
  assumes "run_of L cl s as t" and "api_server cl adm objs" and "k8s_library L" and "dns_name req"
    and "objs (server s) (KDeployment, req) = None" and "objs (server s) (KConfigMap, with_suffix req ''-config'') \<noteq> None"
    and "procs s = []" and "\<And>other. Spawn (SingleJob other) \<in> set as \<Longrightarrow> dns_name other"
    and "\<And>i y. Cached i (Done y) \<in> set as \<Longrightarrow> obj_key y \<noteq> (KDeployment, req)"
    and "\<And>x. User (ReqCreate x) \<in> set as \<Longrightarrow> obj_key x \<noteq> (KDeployment, req)"
    and "\<And>q. User q \<in> set as \<Longrightarrow> request_key q = (KConfigMap, with_suffix req ''-config'') \<Longrightarrow> \<exists>k nn. q = ReqGet k nn"
  shows "objs (server t) (KDeployment, req) = None \<and> objs (server t) (KConfigMap, with_suffix req ''-config'') \<noteq> None
    \<and> isl (fst (Single_Reconcile L cl req (start (server t))))"
proof -
  let ?I = "half_created (KDeployment, req) (config_key req)"
  have "?I (objs (server t)) \<and> refused_so_far (\<lambda>j. j = SingleJob req) {(KDeployment, req), config_key req} t"
  proof (rule api_server.run_refused [OF assms(2,1,3) single_stays_refused [OF assms(3)]])
    show "permits adm ?I q" if "j \<in> jobs s as" "j \<noteq> SingleJob req" "asks L j q" for j q
    proof (cases j)
      case (SingleJob other)
      have "request_key q \<notin> {(KDeployment, req), config_key req}"
        using that SingleJob assms(4,7,8) touched_disjoint [of req other]
        by (fastforce simp: jobs_def single_asks_def touched_def children_def)
      then show ?thesis by (intro half_created_permits) auto
    next
      case (ClusterJob other us)
      with that show ?thesis by (intro half_created_permits) (auto simp: cluster_asks_def obj_key_def)
    qed
    show "permits adm ?I q" if "User q \<in> set as" for q
      using that assms(10,11) by (intro half_created_permits) blast+
  qed (use assms(5-7,9) in \<open>auto simp: refused_so_far_def half_created_def\<close>)
  then show ?thesis
    using partial_creation_is_stuck [OF assms(2,3), of "start (server t)" req 0]
    by (simp add: start_def half_created_def)
qed

theorem half_created_instance_stays_witness:
  "\<exists>n t. run_of doc_lib (mem_client (\<lambda>_. None)) (fresh_system half_created_server)
      (Spawn (SingleJob sample_name) # replicate n (Act 0)) t
    \<and> mem_objs (server t) (KDeployment, sample_name) = None
    \<and> isl (fst (Single_Reconcile doc_lib (mem_client (\<lambda>_. None)) sample_name (start (server t))))"
proof -
  obtain n t where r: "run_of doc_lib (mem_client (\<lambda>_. None)) (fresh_system half_created_server)
      (Spawn (SingleJob sample_name) # replicate n (Act 0)) t"
    using first_run by blast
  show ?thesis
    using half_created_instance_stays [OF r mem.api_server_axioms doc.k8s_library_axioms, of sample_name] r
    by (auto simp: fresh_system_def half_created_server_def obj_key_def obj_name_def NewConfigMap_def
        sample_name_def with_suffix_def zero_meta_def dns_name_def)
qed

text \<open>
  C15. A cluster whose creation failed half-way is never completed, in any run: once its Secret
  exists and its StatefulSet does not, however the requests of any number of reconciles of clusters
  and instances and of users interleave, and whatever the cache answers, no StatefulSet ever
  appears and the Secret stays, as long as no user creates the one or deletes the other; and a
  reconcile of the cluster that is not interrupted fails and leaves the server exactly as it was.
\<close>

theorem half_created_cluster_stays:
  assumes "run_of L cl s as t" and "api_server cl adm objs" and "k8s_library L"
    and "objs (server s) (KStatefulSet, req) = None" and "objs (server s) (KSecret, with_suffix req ''-secret'') \<noteq> None"
    and "procs s = []" and "\<And>x. User (ReqCreate x) \<in> set as \<Longrightarrow> obj_key x \<noteq> (KStatefulSet, req)"
    and "\<And>q. User q \<in> set as \<Longrightarrow> request_key q = (KSecret, with_suffix req ''-secret'') \<Longrightarrow> \<exists>k nn. q = ReqGet k nn"
    and "objs (server t) (KCluster, req) \<noteq> None"
  shows "objs (server t) (KStatefulSet, req) = None \<and> objs (server t) (KSecret, with_suffix req ''-secret'') \<noteq> None
    \<and> (\<exists>f u. Cluster_Reconcile L uuid_New cl req (cluster_start (server t)) = (Inl f, u) \<and> world u = server t)"
proof -
  let ?I = "half_created (KStatefulSet, req) (secret_key req)"
  have "?I (objs (server t)) \<and> refused_so_far (\<lambda>j. \<exists>us. j = ClusterJob req us) {secret_key req} t"
  proof (rule api_server.run_refused [OF assms(2,1,3) cluster_stays_refused])
    show "permits adm ?I q" if "\<not> (\<exists>us. j = ClusterJob req us)" "asks L j q" for j q
      using that
      by (intro half_created_permits; cases j) (auto simp: single_asks_def cluster_asks_def touched_def children_def finalized_def
          cluster_touched_def secret_key_def)
    show "permits adm ?I q" if "User q \<in> set as" for q
      using that assms(7,8) unfolding secret_key_def by (intro half_created_permits) blast+
  qed (use assms(4-6) in \<open>auto simp: refused_so_far_def secret_key_def half_created_def\<close>)
  then show ?thesis
    using cluster_retry_is_stuck [OF assms(2), of "cluster_start (server t)" req L uuid_New] assms(9)
    by (simp add: cluster_start_def secret_key_def half_created_def)
qed

theorem half_created_cluster_stays_witness:
  "\<exists>n t. run_of doc_lib (mem_client (\<lambda>_. None)) (fresh_system half_created_cluster)
      (Spawn (ClusterJob (cluster_name sample_cluster) [''u'']) # replicate n (Act 0)) t
    \<and> mem_objs (server t) (KCluster, cluster_name sample_cluster) \<noteq> None
    \<and> mem_objs (server t) (KStatefulSet, cluster_name sample_cluster) = None"
proof -
  obtain n t where r: "run_of doc_lib (mem_client (\<lambda>_. None)) (fresh_system half_created_cluster)
      (Spawn (ClusterJob (cluster_name sample_cluster) [''u'']) # replicate n (Act 0)) t"
    using first_run by blast
  have "mem_objs (server t) (KCluster, cluster_name sample_cluster) \<noteq> None"
    by (rule api_server.run_keeps [OF mem.api_server_axioms r doc.k8s_library_axioms])
      (auto simp: jobs_def fresh_system_def half_created_cluster_objs cluster_asks_def permits_def cluster_touched_def)
  with half_created_cluster_stays [OF r mem.api_server_axioms doc.k8s_library_axioms, of "cluster_name sample_cluster"] r
  show ?thesis by (auto simp: fresh_system_def half_created_cluster_objs)
qed

end
