(* ===== verification/Test_Utils.thy ===== *)
theory Test_Utils
  imports GoStd
begin

text \<open>
  The helpers of the end-to-end tests, \<open>test/utils/utils.go\<close>: commands run from the root of the
  project, the objects the tests install with them, and the lines of an output. The process the
  tests run in (its directory, its environment, the commands it starts and what it prints) is a
  parameter; the locale \<open>test_host\<close> says that only starting a command adds to the commands started.
\<close>

section \<open>Texts\<close>

text \<open>\<open>strings.Split\<close> at a separator of one byte\<close>

fun strings_Split :: "string \<Rightarrow> char \<Rightarrow> string list" where
  "strings_Split [] sep = [[]]"
| "strings_Split (c # s) sep =
     (if c = sep then [] # strings_Split s sep
      else (case strings_Split s sep of [] \<Rightarrow> [[c]] | x # xs \<Rightarrow> (c # x) # xs))"

lemma strings_Split_nonempty [simp]: "strings_Split s sep \<noteq> []"
  by (induction s) (auto split: list.splits)

lemma strings_Split_no_sep: "x \<in> set (strings_Split s sep) \<Longrightarrow> sep \<notin> set x"
  by (induction s arbitrary: x) (auto split: if_splits list.splits)

lemma strings_Join_Cons: "xs \<noteq> [] \<Longrightarrow> strings_Join (x # xs) sep = x @ sep @ strings_Join xs sep"
  by (cases xs) simp_all

lemma strings_Join_Cons_Cons: "strings_Join ((c # x) # xs) sep = c # strings_Join (x # xs) sep"
  by (cases xs) simp_all

lemma Join_Split: "strings_Join (strings_Split s sep) [sep] = s"
proof (induction s)
  case (Cons c s)
  then show ?case
    by (cases "strings_Split s sep")
      (auto simp: strings_Join_Cons strings_Join_Cons_Cons split: list.splits)
qed simp

lemma Split_line: "sep \<notin> set x \<Longrightarrow> strings_Split x sep = [x]"
  by (induction x) auto

lemma Split_line_append: "sep \<notin> set x \<Longrightarrow> strings_Split (x @ sep # s) sep = x # strings_Split s sep"
  by (induction x) auto

lemma Split_Join:
  "xs \<noteq> [] \<Longrightarrow> \<forall>x \<in> set xs. sep \<notin> set x \<Longrightarrow> strings_Split (strings_Join xs [sep]) sep = xs"
  by (induction xs "[sep]" rule: strings_Join.induct) (simp_all add: Split_line Split_line_append)

interpretation lines: codec "\<lambda>xs. strings_Join xs [sep]" "\<lambda>s. Inr (strings_Split s sep)"
    "\<lambda>xs. xs \<noteq> [] \<and> (\<forall>x \<in> set xs. sep \<notin> set x)" for sep
  by unfold_locales (simp add: Split_Join)

text \<open>\<open>strings.Replace(s, old, new, -1)\<close> with an \<open>old\<close> that is not empty\<close>

lemma strip_prefix_length: "strip_prefix p s = Some r \<Longrightarrow> length r \<le> length s"
  by (simp add: strip_prefix_Some)

function replace_all :: "char \<Rightarrow> string \<Rightarrow> string \<Rightarrow> string \<Rightarrow> string" where
  "replace_all c p new [] = []"
| "replace_all c p new (d # s) =
     (case (if d = c then strip_prefix p s else None) of
        Some r \<Rightarrow> new @ replace_all c p new r
      | None \<Rightarrow> d # replace_all c p new s)"
  by pat_completeness auto
termination
  by (relation "measure (\<lambda>(c, p, new, s). length s)")
    (auto simp: less_Suc_eq_le strip_prefix_length split: if_splits)

lemma replace_all_absent: "c \<notin> set s \<Longrightarrow> replace_all c p new s = s"
  by (induction s) auto

lemma strip_overlap:
  assumes "strip_prefix ''test/e2e'' (s @ ''/test/e2e'') = Some r"
  shows "\<exists>b. s = ''test/e2e'' @ b"
  using assms by (auto simp: strip_prefix_Some append_eq_Cons_conv Cons_eq_append_conv)

lemma replace_all_suffix:
  assumes "\<nexists>a b. s = a @ ''/test/e2e'' @ b"
  shows "replace_all CHR ''/'' ''test/e2e'' [] (s @ ''/test/e2e'') = s"
  using assms
proof (induction s)
  case Nil
  then show ?case using strip_prefix_append [of "''test/e2e''" "[]"] by simp
next
  case (Cons d s)
  have "\<nexists>a b. s = a @ ''/test/e2e'' @ b" using Cons.prems by (metis append_Cons)
  moreover have "strip_prefix ''test/e2e'' (s @ ''/test/e2e'') = None" if "d = CHR ''/''"
  proof (rule ccontr)
    assume "strip_prefix ''test/e2e'' (s @ ''/test/e2e'') \<noteq> None"
    then obtain b where "s = ''test/e2e'' @ b" using strip_overlap by blast
    with that have "d # s = [] @ ''/test/e2e'' @ b" by simp
    with Cons.prems show False by blast
  qed
  ultimately show ?case using Cons.IH by (simp del: strip_prefix.simps)
qed

section \<open>The host of the tests\<close>

record cmd =
  cmd_Args :: "string list"
  cmd_Dir :: string
  cmd_Env :: "string list"

definition exec_Command :: "string \<Rightarrow> string list \<Rightarrow> cmd" where
  "exec_Command name args = \<lparr>cmd_Args = name # args, cmd_Dir = [], cmd_Env = []\<rparr>"

record 'w host =
  host_Getwd :: "'w \<Rightarrow> string \<times> go_error option"
  host_Chdir :: "string \<Rightarrow> 'w \<Rightarrow> go_error option \<times> 'w"
  host_Environ :: "'w \<Rightarrow> string list"
  host_LookupEnv :: "string \<Rightarrow> 'w \<Rightarrow> string option"
  host_CombinedOutput :: "cmd \<Rightarrow> 'w \<Rightarrow> (string \<times> go_error option) \<times> 'w"
  host_Print :: "string \<Rightarrow> 'w \<Rightarrow> 'w"
  GinkgoWriter :: string

text \<open>\<open>GinkgoWriter\<close> is what the verb \<open>%s\<close> makes of ginkgo's writer, an argument of the format.\<close>

section \<open>The helpers\<close>

definition prometheusOperatorVersion :: string where
  "prometheusOperatorVersion = ''v0.68.0''"

definition prometheusOperatorURL :: "string \<Rightarrow> string" where
  "prometheusOperatorURL v =
     ''https://github.com/prometheus-operator/prometheus-operator/'' @ ''releases/download/'' @ v @ ''/bundle.yaml''"

definition certmanagerVersion :: string where
  "certmanagerVersion = ''v1.5.3''"

definition certmanagerURLTmpl :: "string \<Rightarrow> string" where
  "certmanagerURLTmpl v =
     ''https://github.com/jetstack/cert-manager/releases/download/'' @ v @ ''/cert-manager.yaml''"

definition warnError :: "'w host \<Rightarrow> go_error \<Rightarrow> 'w \<Rightarrow> 'w" where
  "warnError H e = host_Print H (GinkgoWriter H @ '' warning: '' @ err_string e @ [CHR 0x0A])"

definition GetProjectDir :: "'w host \<Rightarrow> 'w \<Rightarrow> string \<times> go_error option" where
  "GetProjectDir H w =
     (case host_Getwd H w of
        (wd, Some e) \<Rightarrow> (wd, Some e)
      | (wd, None) \<Rightarrow> (replace_all CHR ''/'' ''test/e2e'' [] wd, None))"

definition Run :: "'w host \<Rightarrow> cmd \<Rightarrow> 'w \<Rightarrow> (string \<times> go_error option) \<times> 'w" where
  "Run H c w =
     (let dir = fst (GetProjectDir H w);
          c1 = c\<lparr>cmd_Dir := dir\<rparr>;
          (e, w1) = host_Chdir H dir w;
          w2 = (case e of
                  None \<Rightarrow> w1
                | Some e' \<Rightarrow> host_Print H (GinkgoWriter H @ '' chdir dir: '' @ err_string e' @ [CHR 0x0A]) w1);
          c2 = c1\<lparr>cmd_Env := host_Environ H w2 @ [''GO111MODULE=on'']\<rparr>;
          command = strings_Join (cmd_Args c2) '' '';
          w3 = host_Print H (GinkgoWriter H @ '' running: '' @ command @ [CHR 0x0A]) w2;
          ((output, err), w4) = host_CombinedOutput H c2 w3
      in case err of
           Some e' \<Rightarrow>
             ((output, Some (PlainError
                (command @ '' failed with error: ('' @ err_string e' @ '') '' @ output))), w4)
         | None \<Rightarrow> ((output, None), w4))"

definition InstallPrometheusOperator :: "'w host \<Rightarrow> 'w \<Rightarrow> go_error option \<times> 'w" where
  "InstallPrometheusOperator H w =
     (let url = prometheusOperatorURL prometheusOperatorVersion;
          ((_, err), w') = Run H (exec_Command ''kubectl'' [''create'', ''-f'', url]) w
      in (err, w'))"

definition UninstallPrometheusOperator :: "'w host \<Rightarrow> 'w \<Rightarrow> 'w" where
  "UninstallPrometheusOperator H w =
     (let url = prometheusOperatorURL prometheusOperatorVersion;
          ((_, err), w') = Run H (exec_Command ''kubectl'' [''delete'', ''-f'', url]) w
      in case err of Some e \<Rightarrow> warnError H e w' | None \<Rightarrow> w')"

definition UninstallCertManager :: "'w host \<Rightarrow> 'w \<Rightarrow> 'w" where
  "UninstallCertManager H w =
     (let url = certmanagerURLTmpl certmanagerVersion;
          ((_, err), w') = Run H (exec_Command ''kubectl'' [''delete'', ''-f'', url]) w
      in case err of Some e \<Rightarrow> warnError H e w' | None \<Rightarrow> w')"

definition apply_cert_manager :: cmd where
  "apply_cert_manager =
     exec_Command ''kubectl'' [''apply'', ''-f'', certmanagerURLTmpl certmanagerVersion]"

definition wait_cert_manager :: cmd where
  "wait_cert_manager =
     exec_Command ''kubectl'' [''wait'', ''deployment.apps/cert-manager-webhook'',
       ''--for'', ''condition=Available'', ''--namespace'', ''cert-manager'', ''--timeout'', ''5m'']"

definition InstallCertManager :: "'w host \<Rightarrow> 'w \<Rightarrow> go_error option \<times> 'w" where
  "InstallCertManager H w =
     (let ((_, err), w1) = Run H apply_cert_manager w
      in case err of
           Some e \<Rightarrow> (Some e, w1)
         | None \<Rightarrow> (let ((_, err'), w2) = Run H wait_cert_manager w1 in (err', w2)))"

definition LoadImageToKindClusterWithName :: "'w host \<Rightarrow> string \<Rightarrow> 'w \<Rightarrow> go_error option \<times> 'w" where
  "LoadImageToKindClusterWithName H name w =
     (let cluster = (case host_LookupEnv H ''KIND_CLUSTER'' w of Some v \<Rightarrow> v | None \<Rightarrow> ''kind'');
          ((_, err), w') = Run H (exec_Command ''kind'' [''load'', ''docker-image'', name, ''--name'', cluster]) w
      in (err, w'))"

fun nonempty_lines :: "string list \<Rightarrow> string list \<Rightarrow> string list" where
  "nonempty_lines [] res = res"
| "nonempty_lines (x # xs) res = nonempty_lines xs (if x \<noteq> [] then res @ [x] else res)"

definition GetNonEmptyLines :: "string \<Rightarrow> string list" where
  "GetNonEmptyLines output = nonempty_lines (strings_Split output CHR 0x0A) []"

section \<open>Lines\<close>

lemma nonempty_lines_filter: "nonempty_lines xs res = res @ filter (\<lambda>x. x \<noteq> []) xs"
  by (induction xs res rule: nonempty_lines.induct) auto

lemma GetNonEmptyLines_filter:
  "GetNonEmptyLines s = filter (\<lambda>x. x \<noteq> []) (strings_Split s CHR 0x0A)"
  by (simp add: GetNonEmptyLines_def nonempty_lines_filter)

lemma GetNonEmptyLines_lines:
  "x \<in> set (GetNonEmptyLines s) \<Longrightarrow> x \<noteq> [] \<and> CHR 0x0A \<notin> set x"
  by (auto simp: GetNonEmptyLines_filter dest: strings_Split_no_sep)

text \<open>The lines of an output are found again, whatever blank lines it has.\<close>

lemma GetNonEmptyLines_of_lines:
  assumes "\<forall>x \<in> set xs. CHR 0x0A \<notin> set x"
  shows "GetNonEmptyLines (strings_Join xs [CHR 0x0A]) = filter (\<lambda>x. x \<noteq> []) xs"
  using assms by (cases "xs = []") (simp_all add: GetNonEmptyLines_filter Split_Join)

text \<open>The go-template of the test prints a line break after each name.\<close>

lemma GetNonEmptyLines_terminated:
  assumes "\<forall>x \<in> set xs. x \<noteq> [] \<and> CHR 0x0A \<notin> set x"
  shows "GetNonEmptyLines (concat (map (\<lambda>x. x @ [CHR 0x0A]) xs)) = xs"
  using assms by (induction xs) (simp_all add: GetNonEmptyLines_filter Split_line_append)

section \<open>Which commands are started\<close>

lemma GetProjectDir_e2e:
  assumes "host_Getwd H w = (root @ ''/test/e2e'', None)" and "\<nexists>a b. root = a @ ''/test/e2e'' @ b"
  shows "GetProjectDir H w = (root, None)"
  using assms(1) replace_all_suffix [OF assms(2)] by (simp add: GetProjectDir_def)

locale test_host =
  fixes H :: "'w host" and started :: "'w \<Rightarrow> string list list"
  assumes CombinedOutput_starts:
      "host_CombinedOutput H c w = (r, w') \<Longrightarrow> started w' = started w @ [cmd_Args c]"
    and Chdir_starts: "host_Chdir H d w = (e, w') \<Longrightarrow> started w' = started w"
    and Print_starts: "started (host_Print H s w) = started w"
begin

lemma Run_starts: "Run H c w = (r, w') \<Longrightarrow> started w' = started w @ [cmd_Args c]"
  by (auto simp: Run_def Let_def Print_starts dest!: CombinedOutput_starts Chdir_starts
      split: prod.splits option.splits)

text \<open>The wait for cert-manager starts only after it was applied, and its failure is returned.\<close>

lemma InstallCertManager_stops:
  "Run H apply_cert_manager w = ((out, Some e), w') \<Longrightarrow> InstallCertManager H w = (Some e, w')"
  by (simp add: InstallCertManager_def)

lemma InstallCertManager_starts:
  assumes "InstallCertManager H w = (err, w')"
  shows "started w' = started w @ [cmd_Args apply_cert_manager] \<and> err \<noteq> None
    \<or> started w' = started w @ [cmd_Args apply_cert_manager, cmd_Args wait_cert_manager]"
  using assms by (auto simp: InstallCertManager_def Let_def dest!: Run_starts split: prod.splits option.splits)

lemma uninstall_starts:
  "started (UninstallPrometheusOperator H w) = started w @
     [[''kubectl'', ''delete'', ''-f'', prometheusOperatorURL prometheusOperatorVersion]]"
  "started (UninstallCertManager H w) = started w @
     [[''kubectl'', ''delete'', ''-f'', certmanagerURLTmpl certmanagerVersion]]"
  by (auto simp: UninstallPrometheusOperator_def UninstallCertManager_def Let_def warnError_def Print_starts
      exec_Command_def dest!: Run_starts split: prod.splits option.splits)

lemma LoadImage_starts:
  "LoadImageToKindClusterWithName H name w = (err, w') \<Longrightarrow>
   \<exists>c. started w' = started w @ [[''kind'', ''load'', ''docker-image'', name, ''--name'', c]]"
  by (auto simp: LoadImageToKindClusterWithName_def Let_def exec_Command_def dest!: Run_starts split: prod.splits)

end

lemma Run_failure:
  assumes "Run H c w = ((out, Some e), w')"
  shows "\<exists>m. e = PlainError (strings_Join (cmd_Args c) '' '' @ '' failed with error: ('' @ m @ '') '' @ out)"
  using assms by (auto simp: Run_def Let_def split: prod.splits option.splits)

text \<open>A host that runs in a fixed directory, and on which the given commands fail.\<close>

definition recording_host :: "string \<Rightarrow> (string list \<Rightarrow> bool) \<Rightarrow> string list list host" where
  "recording_host wd fails =
     \<lparr>host_Getwd = (\<lambda>w. (wd, None)), host_Chdir = (\<lambda>d w. (None, w)), host_Environ = (\<lambda>w. []),
      host_LookupEnv = (\<lambda>k w. None),
      host_CombinedOutput = (\<lambda>c w.
        (([], if fails (cmd_Args c) then Some (PlainError ''exit status 1'') else None), w @ [cmd_Args c])),
      host_Print = (\<lambda>s w. w), GinkgoWriter = []\<rparr>"

interpretation recording: test_host "recording_host wd fails" "\<lambda>w. w" for wd fails
  by unfold_locales (auto simp: recording_host_def)

lemma InstallCertManager_waits:
  "InstallCertManager (recording_host wd (\<lambda>_. False)) [] =
     (None, [cmd_Args apply_cert_manager, cmd_Args wait_cert_manager])"
  by (simp add: InstallCertManager_def Run_def recording_host_def Let_def exec_Command_def
      apply_cert_manager_def wait_cert_manager_def)

end
