(* ===== verification/Spec2Isabelle.thy ===== *)
theory Spec2Isabelle
  imports Gtid Webhook Utils Mysql_Cnf Mysql Requests Deepcopy Informer Wiring Half_Created Test_Utils
begin

text \<open>
  A model of the GreatSQL operator, a Kubernetes operator written in Go, and the theorems that
  say what it does.

  \<^bold>\<open>The program.\<close> The process (\<open>cmd/main.go\<close>) parses its command line, builds a controller
  manager and registers two controllers and a webhook with it. A user declares a
  \<open>SingleInstance\<close> or a \<open>GroupReplicationCluster\<close> (types in \<open>api/v1\<close>). The manager calls the
  \<open>Reconcile\<close> of the controller (\<open>internal/controller\<close>), which reads the declared object from
  the API server, cleans up if it is deleted (\<open>internal/utils/finalizer.go\<close>), validates it,
  builds the Kubernetes objects that realise it (\<open>internal/pkg/kube\<close>, with the MySQL
  configuration of \<open>internal/pkg/mysql/config.go\<close>), creates them and keeps them up to date. For a
  cluster it can also run SQL statements on the members (\<open>internal/pkg/mysql/mysql.go\<close>) and
  compare their GTIDs (\<open>gtid.go\<close>). Objects read from caches are copied with the generated code of
  \<open>api/v1/zz_generated.deepcopy.go\<close>.

  \<^bold>\<open>How Go is modelled.\<close> \<open>Prelude\<close>: a Go error is a value of \<open>go_error\<close>, a panic one of \<open>panic\<close>,
  and code that can fail on data returns \<open>'a res = failure + 'a\<close>; \<open>res_bind\<close> is the sequence of
  statements with its early returns. Code that talks to the outside is an operation
  \<open>('s, 'a) op = 's \<Rightarrow> 'a res \<times> 's\<close>: the state survives a failure, as effects on an API server or a
  database do. \<open>andThen\<close> is sequence, \<open>for_each\<close> a loop over a list, \<open>attempt\<close> a caught error;
  \<open>triple\<close> is a Hoare triple with a postcondition for the normal and one for the failing exit. A
  struct is a record, a pointer an option, a map a partial map (nil is \<open>None\<close>), \<open>int32\<close> and
  \<open>int64\<close> are words, a string is a list of characters. A dereference of nil and an index out of
  range are panics, never unspecified values. All definitions are total functions: the loops run
  over lists fixed in advance, so no fuel is needed.

  \<^bold>\<open>Theories.\<close>
  \<^item> \<open>GoStd\<close>: decimal printing and parsing, \<open>strings.Join\<close>, base64 and regular expressions of Go's
    standard library; a locale \<open>codec\<close> for encodings with a left inverse, interpreted for decimals,
    for base64 and, in \<open>Gtid\<close>, for printed GTIDs.
  \<^item> \<open>Consts\<close> (\<open>internal/consts\<close>), \<open>K8s\<close> (the Kubernetes objects, restricted to the fields the
    code touches), \<open>Types\<close> (\<open>api/v1/*_types.go\<close>: custom resources, sizes, affinity), \<open>Samples\<close>
    (concrete resources for witnesses).
  \<^item> \<open>Library\<close>: functions of the Kubernetes libraries called on data. They are parameters, a
    record \<open>k8s_lib\<close>; the locale \<open>k8s_library\<close> states what is documented about them, and
    \<open>doc_lib\<close> is a library that meets it.
  \<^item> \<open>Kube\<close>: every builder of \<open>internal/pkg/kube\<close>, with the branches on which it panics.
  \<^item> \<open>Client\<close> and \<open>Server\<close>: the API client as a parameter \<open>'w client\<close> over an arbitrary world; the
    state \<open>rstate\<close> of a reconcile (world, in-memory custom resource, recorded events, and a trace
    of requests and answers that no code reads). Properties of the trace (\<open>emits\<close>, \<open>fail_fast\<close>,
    \<open>script\<close>) hold for every client. The locale \<open>api_server\<close> states the documented behaviour of
    the API server (unique names, conflicts on stale resource versions, admission, deletion with
    finalizers); \<open>mem_client adm\<close>, a server in memory with an arbitrary admission, interprets it.
    \<open>keeps\<close> says that an operation preserves a property of the server's objects.
  \<^item> \<open>Finalizer\<close>, \<open>Single_Controller\<close>: \<open>finalizer.go\<close> and \<open>singleinstance_controller.go\<close>, one
    definition per Go function. \<open>Single_Proofs\<close> has what holds for every client (order, failure),
    \<open>Single_Server\<close> what never changes over any number of reconciles, \<open>Single_Lifecycle\<close> whole
    reconciles (missing, invalid, deleted, created, updated), \<open>Single_Liveness\<close> convergence.
  \<^item> \<open>Cluster_Controller\<close>, \<open>Cluster_Proofs\<close>, \<open>Cluster_Server\<close>: the same for
    \<open>groupreplicationcluster_controller.go\<close>, with the bootstrap of the database.
  \<^item> \<open>Frames\<close>: which requests a reconcile can issue and for which keys (\<open>single_asks\<close>, \<open>cluster_asks\<close>,
    \<open>touched\<close>, \<open>cluster_touched\<close>), by lifting a property of single calls (locale \<open>request_frame\<close>) to
    both reconciles. \<open>Replay\<close>: a reconcile as a process that issues one request at a time, obtained
    by running it on a client that replays the answers received so far; \<open>mirror\<close> relates the two.
    \<open>Runs\<close>: any number of such processes and the users on one server, as an inductive step relation
    over single requests, in which a read may also be answered by an outdated cache; invariants of
    all runs by rule induction. \<open>Versions\<close>: resource versions (locale \<open>versioned_server\<close>), and that
    a process writes only versions it has read. \<open>System\<close>: the properties of runs.
    \<open>Half_Created\<close>: creations that failed half-way, by the requests of a process that is refused
    what it asks for (\<open>barred\<close>, \<open>fails\<close>). \<open>Steady\<close>: later answers do not change what a process has
    asked before. \<open>Requests\<close>: how many requests a process can issue (\<open>at_most\<close>).
  \<^item> \<open>Wiring\<close>: scheme registration and \<open>SetupWithManager\<close>; which events start which reconcile once
    \<open>run\<close> has started the manager (locales \<open>scheme_builder\<close>, \<open>wired_process\<close>, \<open>event_source\<close>).
  \<^item> \<open>Utils\<close>, \<open>Webhook\<close>, \<open>Gtid\<close>, \<open>Mysql\<close> (sessions over an arbitrary database driver, with deferred
    closes), \<open>Mysql_Cnf\<close> (the template \<open>my.cnf.tmpl\<close>, the fragment of \<open>text/template\<close> it uses, and
    a reader of the rendered file).
  \<^item> \<open>Memory\<close>, \<open>Copiers\<close>, \<open>Deepcopy\<close>: a memory of cells with pointers, slices and maps, the contract
    of a deep copier, and every generated function statement by statement; copiers of library types
    are a parameter with the contract in the locale \<open>deepcopy_library\<close>.
  \<^item> \<open>Informer\<close>: the event handlers and their registration; locale \<open>shared_factory\<close>.
  \<^item> \<open>Entry\<close> and \<open>Version\<close>: \<open>cmd/main.go\<close> and the version command; the manager is a parameter, cobra
    one with the locale \<open>cobra_cli\<close>.
  \<^item> \<open>Test_Utils\<close>: the helpers of the end-to-end tests, \<open>test/utils/utils.go\<close>, over an arbitrary host
    (locale \<open>test_host\<close>): which commands they start, and the lines they find in an output.

  \<^bold>\<open>What the theorems show.\<close> For the controllers: the objects that are created and in which order;
  that a rejected write ends the reconcile; that an invalid spec writes nothing; that cleanup
  precedes the removal of the finalizer; convergence of a valid instance on an accepting server;
  that an uninterrupted process is the reconcile it comes from; for all interleavings of single
  requests, isolation of instances from each other and from clusters, that a live instance keeps
  its objects, and that no user's change of a spec is overwritten; that every process
  is one execution of its reconcile and returns after a bounded number of requests; that the
  events of an owned workload wake its owner.
  And where the code does not do what it means to: on a server that checks pods as Kubernetes does
  no Deployment or StatefulSet is ever created; a creation that failed half-way, of an instance or
  of a cluster, stays so in every run; a deletion leaves objects behind, ends in an error, and
  takes the claims of a cluster of the same name; an update conflicts with itself; a missing object
  is an error; a cluster has one member. For the rest: round trips (GTIDs, \<open>my.cnf\<close>, version
  document), the regular-expression matcher against a scan, the maximum of GTIDs, bounds of sizes,
  connections that are closed on every path, independence of deep copies, the exit codes and
  options of the process, delivery of events.

  \<^bold>\<open>Not modelled.\<close> Log lines (except that the error a log call describes is returned as the code
  does). The test suites (ginkgo specifications that run the operator from the outside or against a
  test API server) and the YAML manifests, which are not code of the operator. Third-party code
  (Kubernetes libraries, API server, manager, cobra, informer factories, database driver, file
  system) appears only as parameters with the documented behaviour the theorems name. The runs
  bound neither the number of processes nor how often one is started, so they include those of
  the manager's work queue, whose limits and retries are not modelled.
\<close>

end
